(* ===== verification/Js_Prelude.thy ===== *)
theory Js_Prelude
  imports Main "HOL-Library.Word"
begin

text \<open>
  Shared prelude of the development: the fragment of JavaScript strings, bytes, errors and
  browser storage that the TypeScript sources under \<^verbatim>\<open>src/packages\<close> and \<^verbatim>\<open>src/apps\<close> use.

  A JavaScript string is a HOL \<open>string\<close>: a list of code units.  HOL characters are the code
  units U+0000 to U+00FF, so the model covers texts in that range (every literal the modelled
  functions compare against lies in it).  Bytes are 8-bit words, \<^verbatim>\<open>Uint8Array\<close> is a list of them.
  A thrown exception is the left injection of a sum type.

  The collections: \<open>js_defs\<close> holds the definitions of the string operations,
  \<open>err_simps\<close> the rules that compute with fallible calls.
\<close>

named_theorems js_defs "definitions of the modelled JavaScript string operations"
named_theorems err_simps "rules for fallible calls"

section \<open>Errors as values\<close>

datatype js_error = Error string | SyntaxError string | TypeError string | RangeError string

fun message :: "js_error \<Rightarrow> string" where
  "message (Error m) = m"
| "message (SyntaxError m) = m"
| "message (TypeError m) = m"
| "message (RangeError m) = m"

type_synonym 'a res = "js_error + 'a"

definition ebind :: "'a res \<Rightarrow> ('a \<Rightarrow> 'b res) \<Rightarrow> 'b res" where
  "ebind m f = (case m of Inl e \<Rightarrow> Inl e | Inr x \<Rightarrow> f x)"

definition try_catch :: "'a res \<Rightarrow> (js_error \<Rightarrow> 'a res) \<Rightarrow> 'a res" where
  "try_catch m h = (case m of Inl e \<Rightarrow> h e | Inr x \<Rightarrow> Inr x)"

definition is_ok :: "'a res \<Rightarrow> bool" where
  "is_ok m = (case m of Inl _ \<Rightarrow> False | Inr _ \<Rightarrow> True)"

lemma ebind_simps [simp, err_simps]:
  "ebind (Inl e) f = Inl e"
  "ebind (Inr x) f = f x"
  by (simp_all add: ebind_def)

lemma try_catch_simps [simp, err_simps]:
  "try_catch (Inl e) h = h e"
  "try_catch (Inr x) h = Inr x"
  by (simp_all add: try_catch_def)

lemma is_ok_simps [simp, err_simps]:
  "is_ok (Inl e) = False"
  "is_ok (Inr x) = True"
  by (simp_all add: is_ok_def)

lemma ebind_Inr_iff [err_simps]: "ebind m f = Inr y \<longleftrightarrow> (\<exists>x. m = Inr x \<and> f x = Inr y)"
  by (cases m) auto

lemma ebind_Inl_iff [err_simps]:
  "ebind m f = Inl e \<longleftrightarrow> m = Inl e \<or> (\<exists>x. m = Inr x \<and> f x = Inl e)"
  by (cases m) auto

lemma is_ok_iff: "is_ok m \<longleftrightarrow> (\<exists>x. m = Inr x)"
  by (cases m) auto

section \<open>Strings\<close>

abbreviation code_unit :: "char \<Rightarrow> nat" where
  "code_unit \<equiv> of_char"

text \<open>White space of \<^verbatim>\<open>String.prototype.trim\<close> and of the class \<^verbatim>\<open>\s\<close>.\<close>

definition js_ws :: "char \<Rightarrow> bool" where
  "js_ws c \<longleftrightarrow> code_unit c \<in> {9, 10, 11, 12, 13, 32, 160}"

definition line_end :: "char \<Rightarrow> bool" where
  "line_end c \<longleftrightarrow> code_unit c \<in> {10, 13}"

definition trim :: "string \<Rightarrow> string" where
  "trim s = rev (dropWhile js_ws (rev (dropWhile js_ws s)))"

definition lower_char :: "char \<Rightarrow> char" where
  "lower_char c =
     (let n = code_unit c in
      if (65 \<le> n \<and> n \<le> 90) \<or> (192 \<le> n \<and> n \<le> 222 \<and> n \<noteq> 215) then char_of (n + 32) else c)"

definition toLowerCase :: "string \<Rightarrow> string" where
  "toLowerCase s = map lower_char s"

text \<open>
  Upper case: \<^verbatim>\<open>U+00DF\<close> becomes two letters; \<^verbatim>\<open>U+00B5\<close> and \<^verbatim>\<open>U+00FF\<close>, whose upper case lies
  outside the range of \<open>char\<close>, are kept.
\<close>

definition upper_char :: "char \<Rightarrow> string" where
  "upper_char c =
     (let n = code_unit c in
      if (97 \<le> n \<and> n \<le> 122) \<or> (224 \<le> n \<and> n \<le> 254 \<and> n \<noteq> 247) then [char_of (n - 32)]
      else if n = 223 then ''SS'' else [c])"

definition toUpperCase :: "string \<Rightarrow> string" where
  "toUpperCase s = concat (map upper_char s)"

definition startsWith :: "string \<Rightarrow> string \<Rightarrow> bool" where
  "startsWith s p \<longleftrightarrow> take (length p) s = p"

fun js_includes :: "string \<Rightarrow> string \<Rightarrow> bool" where
  "js_includes [] p \<longleftrightarrow> p = []"
| "js_includes (c # s) p \<longleftrightarrow> startsWith (c # s) p \<or> js_includes s p"

text \<open>\<^verbatim>\<open>s.split(c)\<close> for a one-character separator: never the empty list.\<close>

fun split_on :: "char \<Rightarrow> string \<Rightarrow> string list" where
  "split_on c [] = [[]]"
| "split_on c (x # s) =
     (if x = c then [] # split_on c s
      else (case split_on c s of w # ws \<Rightarrow> (x # w) # ws | [] \<Rightarrow> [[x]]))"

text \<open>\<^verbatim>\<open>s.split(/\s+/)\<close>: every maximal run of white space separates two parts.\<close>

fun split_ws :: "string \<Rightarrow> string list" where
  "split_ws [] = [[]]"
| "split_ws (x # s) =
     (if js_ws x then
        (case s of
           y # _ \<Rightarrow> (if js_ws y then split_ws s else [] # split_ws s)
         | [] \<Rightarrow> [[], []])
      else (case split_ws s of w # ws \<Rightarrow> (x # w) # ws | [] \<Rightarrow> [[x]]))"

definition padStart :: "nat \<Rightarrow> char \<Rightarrow> string \<Rightarrow> string" where
  "padStart n c s = replicate (n - length s) c @ s"

definition padEnd :: "nat \<Rightarrow> char \<Rightarrow> string \<Rightarrow> string" where
  "padEnd n c s = s @ replicate (n - length s) c"

text \<open>
  \<^verbatim>\<open>slice(b, e)\<close> and \<^verbatim>\<open>slice(b)\<close> of strings and arrays: a negative index counts from the end
  (so \<^verbatim>\<open>slice(-0)\<close> is the whole value), and indices are clamped to the length.
\<close>

definition rel_index :: "int \<Rightarrow> 'a list \<Rightarrow> nat" where
  "rel_index i s =
     (if i < 0 then nat (max 0 (int (length s) + i)) else nat (min i (int (length s))))"

definition slice :: "'a list \<Rightarrow> int \<Rightarrow> int \<Rightarrow> 'a list" where
  "slice s b e = drop (rel_index b s) (take (rel_index e s) s)"

definition slice_from :: "'a list \<Rightarrow> int \<Rightarrow> 'a list" where
  "slice_from s b = drop (rel_index b s) s"

fun join :: "string \<Rightarrow> string list \<Rightarrow> string" where
  "join sep [] = []"
| "join sep [x] = x"
| "join sep (x # xs) = x @ sep @ join sep xs"

definition all_chars :: "(char \<Rightarrow> bool) \<Rightarrow> string \<Rightarrow> bool" where
  "all_chars P s \<longleftrightarrow> list_all P s"

text \<open>\<^verbatim>\<open>/^\d+$/\<close> and \<^verbatim>\<open>/^[0-9a-fA-F]{n}$/\<close>.\<close>

definition is_dec :: "char \<Rightarrow> bool" where
  "is_dec c \<longleftrightarrow> 48 \<le> code_unit c \<and> code_unit c \<le> 57"

definition is_hex :: "char \<Rightarrow> bool" where
  "is_hex c \<longleftrightarrow> is_dec c \<or> (65 \<le> code_unit c \<and> code_unit c \<le> 70)
                    \<or> (97 \<le> code_unit c \<and> code_unit c \<le> 102)"

definition digits_only :: "string \<Rightarrow> bool" where
  "digits_only s \<longleftrightarrow> s \<noteq> [] \<and> list_all is_dec s"

definition hex_only :: "nat \<Rightarrow> string \<Rightarrow> bool" where
  "hex_only n s \<longleftrightarrow> length s = n \<and> list_all is_hex s"

lemmas [js_defs] = trim_def toLowerCase_def toUpperCase_def startsWith_def padStart_def
  padEnd_def slice_def slice_from_def rel_index_def digits_only_def hex_only_def

section \<open>Lemmas on strings\<close>

lemma trim_id:
  assumes "s = [] \<or> (\<not> js_ws (hd s) \<and> \<not> js_ws (last s))"
  shows "trim s = s"
proof (cases "s = []")
  case False
  with assms have "dropWhile js_ws s = s"
    by (cases s) auto
  moreover from False assms have "dropWhile js_ws (rev s) = rev s"
    by (cases "rev s") (auto simp: last_rev dest: arg_cong [where f = rev])
  ultimately show ?thesis by (simp add: trim_def)
qed (simp add: trim_def)

lemma trim_no_ws: "\<forall>c \<in> set s. \<not> js_ws c \<Longrightarrow> trim s = s"
  by (rule trim_id) auto

lemma trim_Nil [simp]: "trim [] = []"
  by (simp add: trim_def)

lemma set_trim_subset: "set (trim s) \<subseteq> set s"
  by (auto simp: trim_def dest!: set_dropWhileD)

lemma trim_ends:
  "trim s \<noteq> [] \<Longrightarrow> \<not> js_ws (hd (trim s)) \<and> \<not> js_ws (last (trim s))"
proof -
  let ?d = "dropWhile js_ws s"
  assume ne: "trim s \<noteq> []"
  have "?d \<noteq> []"
  proof
    assume "?d = []"
    with ne show False by (simp add: trim_def)
  qed
  from ne have ne': "dropWhile js_ws (rev ?d) \<noteq> []"
    unfolding trim_def by (simp only: rev_is_Nil_conv not_False_eq_True simp_thms)
  have "last (trim s) = hd (dropWhile js_ws (rev ?d))"
    using ne' by (simp add: trim_def last_rev)
  moreover have "\<not> js_ws (hd (dropWhile js_ws (rev ?d)))"
    using ne' by (rule hd_dropWhile)
  moreover have "hd (trim s) = hd ?d"
  proof -
    have "rev ?d = takeWhile js_ws (rev ?d) @ dropWhile js_ws (rev ?d)"
      by simp
    then have "?d = rev (dropWhile js_ws (rev ?d)) @ rev (takeWhile js_ws (rev ?d))"
      by (metis rev_append rev_rev_ident)
    then have "?d = trim s @ rev (takeWhile js_ws (rev ?d))"
      by (simp add: trim_def)
    with ne show ?thesis by (metis hd_append2)
  qed
  moreover have "\<not> js_ws (hd ?d)"
    using \<open>?d \<noteq> []\<close> by (rule hd_dropWhile)
  ultimately show ?thesis by simp
qed

lemma trim_trim [simp]: "trim (trim s) = trim s"
  using trim_ends [of s] by (intro trim_id) auto

lemma startsWith_append [simp]: "startsWith (p @ s) p"
  by (simp add: startsWith_def)

lemma startsWith_Cons [simp]:
  "startsWith s []"
  "startsWith (c # s) (d # p) \<longleftrightarrow> c = d \<and> startsWith s p"
  "\<not> startsWith [] (d # p)"
  by (auto simp: startsWith_def)

lemma startsWith_iff: "startsWith s p \<longleftrightarrow> (\<exists>r. s = p @ r)"
  by (metis append_take_drop_id startsWith_append startsWith_def)

lemma js_includes_iff: "js_includes s p \<longleftrightarrow> (\<exists>a b. s = a @ p @ b)"
proof (induction s)
  case Nil
  then show ?case by simp
next
  case (Cons c s)
  show ?case
  proof
    assume "js_includes (c # s) p"
    then show "\<exists>a b. c # s = a @ p @ b"
    proof (simp, elim disjE)
      assume "startsWith (c # s) p"
      then obtain r where "c # s = [] @ p @ r"
        by (auto simp: startsWith_iff)
      then show ?thesis by blast
    next
      assume "js_includes s p"
      then obtain a b where "s = a @ p @ b"
        using Cons.IH by blast
      then have "c # s = (c # a) @ p @ b" by simp
      then show ?thesis by blast
    qed
  next
    assume "\<exists>a b. c # s = a @ p @ b"
    then obtain a b where ab: "c # s = a @ p @ b" by blast
    show "js_includes (c # s) p"
    proof (cases a)
      case Nil
      with ab have "startsWith (c # s) p" by (auto simp: startsWith_iff)
      then show ?thesis by simp
    next
      case (Cons x a')
      with ab Cons.IH show ?thesis by auto
    qed
  qed
qed

lemma split_on_ne [simp]: "split_on c s \<noteq> []"
  by (induction s) (auto split: list.splits)

lemma split_on_none: "c \<notin> set s \<Longrightarrow> split_on c s = [s]"
  by (induction s) auto

lemma split_on_one: "c \<notin> set a \<Longrightarrow> split_on c (a @ c # b) = a # split_on c b"
  by (induction a) auto

lemma split_on_join_char: "join [c] (split_on c s) = s"
proof (induction s)
  case (Cons x s)
  obtain w ws where "split_on c s = w # ws"
    using split_on_ne [of c s] by (cases "split_on c s") auto
  with Cons show ?case by (cases ws) auto
qed simp

lemma length_padStart [simp]: "length (padStart n c s) = max n (length s)"
  by (simp add: padStart_def)

lemma length_padEnd [simp]: "length (padEnd n c s) = max n (length s)"
  by (simp add: padEnd_def)

lemma slice_from_0 [simp]: "slice_from s 0 = s"
  by (simp add: js_defs)

lemma slice_nat: "slice s (int b) (int e) = drop b (take e s)"
  by (auto simp: js_defs min_def not_le)

lemma slice_from_nat: "slice_from s (int b) = drop b s"
  by (simp add: js_defs min_def)

lemma toLowerCase_simps [simp]:
  "toLowerCase [] = []"
  "toLowerCase (c # s) = lower_char c # toLowerCase s"
  by (simp_all add: toLowerCase_def)

lemma length_toLowerCase [simp]: "length (toLowerCase s) = length s"
  by (simp add: toLowerCase_def)

lemma lower_char_idem [simp]: "lower_char (lower_char c) = lower_char c"
proof (cases "(65 \<le> code_unit c \<and> code_unit c \<le> 90) \<or>
    (192 \<le> code_unit c \<and> code_unit c \<le> 222 \<and> code_unit c \<noteq> 215)")
  case True
  then have "code_unit (char_of (code_unit c + 32 :: nat) :: char) = code_unit c + 32"
    by auto
  with True show ?thesis by (auto simp: lower_char_def Let_def)
next
  case False
  then have "lower_char c = c"
    unfolding lower_char_def Let_def by (simp only: if_False)
  then show ?thesis by simp
qed

lemma toLowerCase_idem [simp]: "toLowerCase (toLowerCase s) = toLowerCase s"
  by (induction s) simp_all

end
