(* ===== verification/Js_Number.thy ===== *)
theory Js_Number
  imports Js_Prelude
begin

text \<open>
  Integers and bytes as the sources print and read them: \<^verbatim>\<open>toString(radix)\<close>,
  \<^verbatim>\<open>BigInt(text)\<close> with its error, truncating BigInt division, \<^verbatim>\<open>parseInt(text, 16)\<close>, the
  two-digit hexadecimal encoding of bytes, the chunking regular expression
  \<^verbatim>\<open>/.{1,2}/g\<close> and the UTF-8 coders \<^verbatim>\<open>TextEncoder\<close> and \<^verbatim>\<open>TextDecoder\<close>.
\<close>

type_synonym byte = "8 word"
type_synonym bytes = "byte list"

section \<open>Digits in a radix\<close>

definition digit_of :: "nat \<Rightarrow> char" where
  "digit_of d = (if d < 10 then char_of (48 + d) else char_of (87 + d))"

definition digit_val :: "char \<Rightarrow> nat option" where
  "digit_val c =
     (let n = code_unit c in
      if 48 \<le> n \<and> n \<le> 57 then Some (n - 48)
      else if 97 \<le> n \<and> n \<le> 122 then Some (n - 87)
      else if 65 \<le> n \<and> n \<le> 90 then Some (n - 55)
      else None)"

fun radix_str :: "nat \<Rightarrow> nat \<Rightarrow> string" where
  "radix_str r n =
     (if r < 2 \<or> n < r then [digit_of n] else radix_str r (n div r) @ [digit_of (n mod r)])"

declare radix_str.simps [simp del]

fun radix_acc :: "nat \<Rightarrow> nat \<Rightarrow> string \<Rightarrow> nat option" where
  "radix_acc r a [] = Some a"
| "radix_acc r a (c # s) =
     (case digit_val c of
        Some d \<Rightarrow> (if d < r then radix_acc r (a * r + d) s else None)
      | None \<Rightarrow> None)"

definition radix_val :: "nat \<Rightarrow> string \<Rightarrow> nat option" where
  "radix_val r s = (if s = [] then None else radix_acc r 0 s)"

abbreviation nat_str :: "nat \<Rightarrow> string" where
  "nat_str \<equiv> radix_str 10"

definition int_str :: "int \<Rightarrow> string" where
  "int_str i = (if i < 0 then CHR ''-'' # nat_str (nat (- i)) else nat_str (nat i))"

lemma digit_code: "d < 36 \<Longrightarrow> code_unit (digit_of d) = (if d < 10 then 48 + d else 87 + d)"
  by (simp add: digit_of_def)

lemma digit_of_0 [simp]: "digit_of 0 = CHR ''0''"
  by (simp add: digit_of_def char_of_eq_iff)

lemma digit_val_digit_of [simp]: "d < 36 \<Longrightarrow> digit_val (digit_of d) = Some d"
  by (simp add: digit_val_def digit_code Let_def)

lemma digit_of_not_ws [simp]: "d < 36 \<Longrightarrow> \<not> js_ws (digit_of d)"
  by (auto simp: js_ws_def digit_code)

lemma digit_of_neq:
  assumes "d < 36" and "code_unit c < 48 \<or> (57 < code_unit c \<and> code_unit c < 97)"
  shows "digit_of d \<noteq> c"
  using assms by (auto simp: digit_code split: if_splits)

lemma is_dec_digit_of: "d < 10 \<Longrightarrow> is_dec (digit_of d)"
  by (simp add: is_dec_def digit_code)

lemma is_hex_digit_of: "d < 16 \<Longrightarrow> is_hex (digit_of d)"
  by (simp add: is_hex_def is_dec_def digit_code)

lemma digit_of_inj: "a < 36 \<Longrightarrow> b < 36 \<Longrightarrow> digit_of a = digit_of b \<Longrightarrow> a = b"
  by (metis digit_val_digit_of option.inject)

lemma radix_str_ne [simp]: "radix_str r n \<noteq> []"
  by (subst radix_str.simps) simp

lemma set_radix_str:
  assumes "2 \<le> r"
  shows "set (radix_str r n) \<subseteq> digit_of ` {..<r}"
  using assms
proof (induction r n rule: radix_str.induct)
  case (1 r n)
  show ?case
  proof (cases "n < r")
    case True
    with "1.prems" show ?thesis by (subst radix_str.simps) auto
  next
    case False
    with 1 have "set (radix_str r (n div r)) \<subseteq> digit_of ` {..<r}" by auto
    moreover have "n mod r < r" using "1.prems" by simp
    ultimately show ?thesis using False "1.prems" by (subst radix_str.simps) auto
  qed
qed

lemma radix_acc_append:
  "radix_acc r a (s @ t) = (case radix_acc r a s of Some b \<Rightarrow> radix_acc r b t | None \<Rightarrow> None)"
  by (induction s arbitrary: a) (auto split: option.splits)

lemma radix_acc_str:
  assumes "2 \<le> r" "r \<le> 36"
  shows "radix_acc r a (radix_str r n) = Some (a * r ^ length (radix_str r n) + n)"
  using assms
proof (induction r n arbitrary: a rule: radix_str.induct)
  case (1 r n)
  show ?case
  proof (cases "n < r")
    case True
    with "1.prems" show ?thesis by (simp add: radix_str.simps [of r n])
  next
    case False
    let ?k = "length (radix_str r (n div r))"
    from False "1.prems" have s: "radix_str r n = radix_str r (n div r) @ [digit_of (n mod r)]"
      by (subst radix_str.simps) simp
    from 1 False have "radix_acc r a (radix_str r (n div r)) = Some (a * r ^ ?k + n div r)"
      by simp
    moreover have "n mod r < r" using "1.prems" by simp
    moreover from this have "n mod r < 36" using "1.prems" by linarith
    moreover have "(a * r ^ ?k + n div r) * r + n mod r = a * r ^ Suc ?k + n"
      by (simp add: algebra_simps)
    ultimately show ?thesis by (simp add: s radix_acc_append)
  qed
qed

lemma radix_val_str [simp]: "2 \<le> r \<Longrightarrow> r \<le> 36 \<Longrightarrow> radix_val r (radix_str r n) = Some n"
  by (simp add: radix_val_def radix_acc_str)

lemma radix_str_inj: "2 \<le> r \<Longrightarrow> r \<le> 36 \<Longrightarrow> radix_str r m = radix_str r n \<Longrightarrow> m = n"
  by (metis option.inject radix_val_str)

lemma nat_str_dec: "list_all is_dec (nat_str n)"
  using set_radix_str [of 10 n] by (auto simp: list_all_iff is_dec_digit_of)

lemma nat_str_not_ws: "c \<in> set (nat_str n) \<Longrightarrow> \<not> js_ws c"
  using set_radix_str [of 10 n] by auto

lemma nat_str_neq: "c \<in> set (nat_str n) \<Longrightarrow> is_dec c"
  using nat_str_dec by (auto simp: list_all_iff)

text \<open>Reading decimal digits left to right, with leading zeros and concatenation.\<close>

lemma radix_acc_zeros [simp]: "0 < r \<Longrightarrow> radix_acc r a (replicate k (CHR ''0'')) = Some (a * r ^ k)"
  by (induction k arbitrary: a) (simp_all add: digit_val_def algebra_simps)

section \<open>BigInt\<close>

definition strip_prefix :: "string \<Rightarrow> string \<Rightarrow> string option" where
  "strip_prefix p s = (if startsWith s p then Some (drop (length p) s) else None)"

definition non_decimal :: "string \<Rightarrow> (nat \<times> string) option" where
  "non_decimal t =
     (if startsWith t ''0x'' \<or> startsWith t ''0X'' then Some (16, drop 2 t)
      else if startsWith t ''0o'' \<or> startsWith t ''0O'' then Some (8, drop 2 t)
      else if startsWith t ''0b'' \<or> startsWith t ''0B'' then Some (2, drop 2 t)
      else None)"

definition StringToBigInt :: "string \<Rightarrow> int option" where
  "StringToBigInt s =
     (let t = trim s in
      if t = [] then Some 0
      else (case non_decimal t of
              Some (r, ds) \<Rightarrow> map_option int (radix_val r ds)
            | None \<Rightarrow>
                (case t of
                   c # ds \<Rightarrow>
                     (if c = CHR ''-'' then map_option (\<lambda>n. - int n) (radix_val 10 ds)
                      else if c = CHR ''+'' then map_option int (radix_val 10 ds)
                      else map_option int (radix_val 10 t))
                 | [] \<Rightarrow> Some 0)))"

definition BigInt :: "string \<Rightarrow> int res" where
  "BigInt s =
     (case StringToBigInt s of
        Some i \<Rightarrow> Inr i
      | None \<Rightarrow> Inl (SyntaxError (''Cannot convert '' @ s @ '' to a BigInt'')))"

text \<open>BigInt division and remainder truncate towards zero.\<close>

definition big_div :: "int \<Rightarrow> int \<Rightarrow> int" where
  "big_div a b = sgn a * sgn b * (\<bar>a\<bar> div \<bar>b\<bar>)"

definition big_rem :: "int \<Rightarrow> int \<Rightarrow> int" where
  "big_rem a b = a - b * big_div a b"

lemma big_div_nonneg: "0 \<le> a \<Longrightarrow> 0 < b \<Longrightarrow> big_div a b = a div b"
  by (cases "a = 0") (simp_all add: big_div_def)

lemma big_rem_nonneg: "0 \<le> a \<Longrightarrow> 0 < b \<Longrightarrow> big_rem a b = a mod b"
  by (simp add: big_rem_def big_div_nonneg minus_mult_div_eq_mod)

lemma dec_not_sign: "is_dec c \<Longrightarrow> c \<noteq> CHR ''-'' \<and> c \<noteq> CHR ''+'' \<and> \<not> js_ws c"
  by (auto simp: is_dec_def js_ws_def)

lemma dec_not_letter:
  "is_dec c \<Longrightarrow> c \<noteq> CHR ''x'' \<and> c \<noteq> CHR ''X'' \<and> c \<noteq> CHR ''o'' \<and> c \<noteq> CHR ''O''
     \<and> c \<noteq> CHR ''b'' \<and> c \<noteq> CHR ''B''"
  by (auto simp: is_dec_def)

lemma non_decimal_digits: "list_all is_dec s \<Longrightarrow> non_decimal s = None"
  by (cases s; cases "tl s") (auto simp: non_decimal_def dec_not_letter dest: dec_not_letter)

lemma StringToBigInt_digits:
  assumes "digits_only s"
  shows "StringToBigInt s = map_option int (radix_val 10 s)"
proof -
  from assms have ne: "s \<noteq> []" and d: "list_all is_dec s"
    by (auto simp: digits_only_def)
  from d have t: "trim s = s"
    by (intro trim_no_ws) (auto simp: list_all_iff dest: dec_not_sign)
  obtain c r where "s = c # r" using ne by (cases s) auto
  moreover with d have "c \<noteq> CHR ''-''" "c \<noteq> CHR ''+''" by (auto dest: dec_not_sign)
  ultimately show ?thesis using d t by (simp add: StringToBigInt_def non_decimal_digits Let_def)
qed

lemma digits_only_nat_str [simp]: "digits_only (nat_str n)"
  by (simp add: digits_only_def nat_str_dec)

lemma BigInt_nat_str [simp]: "BigInt (nat_str n) = Inr (int n)"
  by (simp add: BigInt_def StringToBigInt_digits)

lemma radix_acc_dec: "list_all is_dec s \<Longrightarrow> \<exists>n. radix_acc 10 a s = Some n"
proof (induction s arbitrary: a)
  case (Cons c s)
  then have "digit_val c = Some (code_unit c - 48)" "code_unit c - 48 < 10"
    by (auto simp: digit_val_def is_dec_def Let_def)
  with Cons show ?case by simp
qed simp

lemma BigInt_digits: "digits_only s \<Longrightarrow> \<exists>n. radix_val 10 s = Some n \<and> BigInt s = Inr (int n)"
  using radix_acc_dec [of s 0]
  by (auto simp: BigInt_def StringToBigInt_digits digits_only_def radix_val_def)

lemma BigInt_int_str [simp]: "BigInt (int_str i) = Inr i"
proof (cases "i < 0")
  case True
  let ?d = "nat_str (nat (- i))"
  have t: "trim (CHR ''-'' # ?d) = CHR ''-'' # ?d"
    by (intro trim_no_ws) (auto simp: js_ws_def dest: nat_str_not_ws)
  have "non_decimal (CHR ''-'' # ?d) = None" by (simp add: non_decimal_def)
  with t True show ?thesis by (simp add: BigInt_def StringToBigInt_def int_str_def)
next
  case False
  then show ?thesis by (simp add: int_str_def)
qed

lemma int_str_inj [simp]: "int_str a = int_str b \<longleftrightarrow> a = b"
  by (metis BigInt_int_str sum.inject(2))

section \<open>Bytes and hexadecimal text\<close>

text \<open>\<^verbatim>\<open>b.toString(16).padStart(2, "0")\<close>, mapped over an array and joined.\<close>

definition byte_hex :: "byte \<Rightarrow> string" where
  "byte_hex b = padStart 2 (CHR ''0'') (radix_str 16 (unat b))"

definition bytes_hex :: "bytes \<Rightarrow> string" where
  "bytes_hex bs = join [] (map byte_hex bs)"

text \<open>\<^verbatim>\<open>s.match(/.{1,2}/g)\<close>: the dot does not match a line end; no match at all is null, here [].\<close>

fun chunks2 :: "string \<Rightarrow> string list" where
  "chunks2 [] = []"
| "chunks2 [c] = (if line_end c then [] else [[c]])"
| "chunks2 (c # d # s) =
     (if line_end c then chunks2 (d # s)
      else if line_end d then [c] # chunks2 s
      else [c, d] # chunks2 s)"

fun digit_prefix :: "nat \<Rightarrow> string \<Rightarrow> string" where
  "digit_prefix r [] = []"
| "digit_prefix r (c # s) =
     (case digit_val c of
        Some d \<Rightarrow> (if d < r then c # digit_prefix r s else [])
      | None \<Rightarrow> [])"

text \<open>\<^verbatim>\<open>parseInt(s, 16)\<close>: leading white space, a sign, an optional 0x, the longest digit prefix.\<close>

definition parseInt16 :: "string \<Rightarrow> int option" where
  "parseInt16 s =
     (let t = dropWhile js_ws s;
          neg = startsWith t ''-'';
          u = (if neg \<or> startsWith t ''+'' then tl t else t);
          v = (if startsWith u ''0x'' \<or> startsWith u ''0X'' then drop 2 u else u)
      in map_option (\<lambda>n. if neg then - int n else int n) (radix_val 16 (digit_prefix 16 v)))"

text \<open>Storing a number in a \<^verbatim>\<open>Uint8Array\<close>: modulo 256, NaN becomes 0.\<close>

definition to_uint8 :: "int option \<Rightarrow> byte" where
  "to_uint8 v = (case v of Some i \<Rightarrow> word_of_int i | None \<Rightarrow> 0)"

definition hex_bytes :: "string \<Rightarrow> bytes" where
  "hex_bytes s = map (\<lambda>c. to_uint8 (parseInt16 c)) (chunks2 s)"

lemma byte_hex_two:
  "byte_hex b = [digit_of (unat b div 16), digit_of (unat b mod 16)]"
proof -
  have lt: "unat b < 256" using unsigned_less [of b, where 'a = nat] by simp
  show ?thesis
  proof (cases "unat b < 16")
    case True
    then show ?thesis
      by (simp add: byte_hex_def padStart_def radix_str.simps [of 16 "unat b"])
  next
    case False
    have "unat b div 16 < 16" using lt by simp
    with False show ?thesis
      by (simp add: byte_hex_def padStart_def radix_str.simps [of 16 "unat b"]
          radix_str.simps [of 16 "unat b div 16"])
  qed
qed

lemma length_byte_hex [simp]: "length (byte_hex b) = 2"
  by (simp add: byte_hex_two)

lemma join_Nil_concat: "join [] xs = concat xs"
  by (induction xs rule: induct_list012) simp_all

lemma bytes_hex_simps [simp]:
  "bytes_hex [] = []"
  "bytes_hex (b # bs) = byte_hex b @ bytes_hex bs"
  by (simp_all add: bytes_hex_def join_Nil_concat)

lemma length_bytes_hex [simp]: "length (bytes_hex bs) = 2 * length bs"
  by (induction bs) simp_all

lemma byte_hex_nibbles: "unat (b :: byte) div 16 < 16" "unat b mod 16 < 16"
  using unsigned_less [of b, where 'a = nat] by simp_all

lemma bytes_hex_is_hex: "list_all is_hex (bytes_hex bs)"
  by (induction bs) (auto simp: byte_hex_two intro!: is_hex_digit_of byte_hex_nibbles)

lemma hex_not_line_end: "is_hex c \<Longrightarrow> \<not> line_end c"
  by (auto simp: is_hex_def is_dec_def line_end_def)

lemma hex_not_ws: "is_hex c \<Longrightarrow> \<not> js_ws c"
  by (auto simp: is_hex_def is_dec_def js_ws_def)

lemma hex_not_special: "is_hex c \<Longrightarrow> c \<noteq> CHR ''-'' \<and> c \<noteq> CHR ''+'' \<and> c \<noteq> CHR ''x'' \<and> c \<noteq> CHR ''X''"
  by (auto simp: is_hex_def is_dec_def)

lemma parseInt16_two:
  assumes "d < 16" "e < 16"
  shows "parseInt16 [digit_of d, digit_of e] = Some (int (d * 16 + e))"
proof -
  have h: "is_hex (digit_of d)" "is_hex (digit_of e)"
    using assms by (auto intro: is_hex_digit_of)
  then have "\<not> js_ws (digit_of d)" "digit_of d \<noteq> CHR ''-''" "digit_of d \<noteq> CHR ''+''"
    "digit_of e \<noteq> CHR ''x''" "digit_of e \<noteq> CHR ''X''"
    by (auto dest: hex_not_ws hex_not_special)
  moreover have "digit_val (digit_of d) = Some d" "digit_val (digit_of e) = Some e"
    using assms by simp_all
  ultimately show ?thesis
    using assms by (simp add: parseInt16_def Let_def radix_val_def)
qed

lemma parseInt16_byte_hex: "parseInt16 (byte_hex b) = Some (int (unat b))"
  using parseInt16_two [OF byte_hex_nibbles, of b b]
  by (simp add: byte_hex_two)

lemma hex_bytes_hex [simp]: "hex_bytes (bytes_hex bs) = bs"
proof (induction bs)
  case (Cons b bs)
  have "is_hex (digit_of (unat b div 16))" "is_hex (digit_of (unat b mod 16))"
    by (intro is_hex_digit_of byte_hex_nibbles)+
  then have "chunks2 (byte_hex b @ bytes_hex bs) = byte_hex b # chunks2 (bytes_hex bs)"
    by (simp add: byte_hex_two hex_not_line_end)
  with Cons show ?case
    by (simp add: hex_bytes_def parseInt16_byte_hex to_uint8_def)
qed (simp add: hex_bytes_def)

lemma bytes_hex_inj: "bytes_hex as = bytes_hex bs \<Longrightarrow> as = bs"
  by (metis hex_bytes_hex)

section \<open>UTF-8\<close>

definition utf8_char :: "char \<Rightarrow> bytes" where
  "utf8_char c =
     (let n = code_unit c in
      if n < 128 then [of_nat n] else [of_nat (192 + n div 64), of_nat (128 + n mod 64)])"

definition TextEncoder_encode :: "string \<Rightarrow> bytes" where
  "TextEncoder_encode s = concat (map utf8_char s)"

text \<open>\<open>None\<close>: the decoded text has a code unit above U+00FF (a replacement character included).\<close>

fun TextDecoder_decode :: "bytes \<Rightarrow> string option" where
  "TextDecoder_decode [] = Some []"
| "TextDecoder_decode (b # bs) =
     (if unat b < 128 then map_option ((#) (char_of (unat b))) (TextDecoder_decode bs)
      else (case bs of
              d # ds \<Rightarrow>
                (if (unat b = 194 \<or> unat b = 195) \<and> 128 \<le> unat d \<and> unat d < 192
                 then map_option ((#) (char_of ((unat b - 192) * 64 + (unat d - 128))))
                        (TextDecoder_decode ds)
                 else None)
            | [] \<Rightarrow> None))"

lemma char_code_lt [simp]: "code_unit c < 256"
  by simp

lemma unat_of_nat_byte: "n < 256 \<Longrightarrow> unat (of_nat n :: byte) = n"
  by (simp add: unat_of_nat)

lemma TextDecoder_char: "TextDecoder_decode (utf8_char c @ bs) = map_option ((#) c) (TextDecoder_decode bs)"
proof (cases "code_unit c < 128")
  case True
  then show ?thesis by (simp add: utf8_char_def unat_of_nat_byte)
next
  case False
  have lt: "code_unit c < 256" by simp
  with False have "2 \<le> code_unit c div 64" "code_unit c div 64 < 4" by linarith+
  then have d: "code_unit c div 64 \<in> {2, 3}" by auto
  have u: "unat (of_nat (192 + code_unit c div 64) :: byte) = 192 + code_unit c div 64"
    by (rule unat_of_nat_byte) (use d in auto)
  have v: "unat (of_nat (128 + code_unit c mod 64) :: byte) = 128 + code_unit c mod 64"
    by (rule unat_of_nat_byte) linarith
  have "char_of (code_unit c div 64 * 64 + code_unit c mod 64) = c"
    by (simp only: div_mult_mod_eq char_of_char)
  with False d show ?thesis
    by (auto simp: utf8_char_def Let_def u v simp del: of_nat_add)
qed

lemma TextDecoder_encode [simp]: "TextDecoder_decode (TextEncoder_encode s) = Some s"
  by (induction s) (simp_all add: TextEncoder_encode_def TextDecoder_char)

lemma TextEncoder_inj: "TextEncoder_encode s = TextEncoder_encode t \<Longrightarrow> s = t"
  by (metis TextDecoder_encode option.inject)

end
