(* ===== verification/Js_Float.thy ===== *)
theory Js_Float
  imports Complex_Main Js_Number
begin

text \<open>
  The \<^verbatim>\<open>number\<close> type: NaN, the two infinities and the finite doubles as exact rationals (the sign
  of zero is not kept).  Every arithmetic result is rounded to 53 significant bits, ties to even,
  by \<open>to_double\<close>.  The conversions the sources use follow ECMA-262 (\<open>num_str\<close>,
  \<open>StringToNumber\<close>, \<open>parseFloat\<close>, \<open>toFixed\<close>) and ECMA-402 (\<open>toLocaleString\<close> in the locale
  en-US).  A code unit above U+00FF that a text of the sources contains is written as its name in
  angle brackets.
\<close>

datatype js_number = NaN | Infinity (negative: bool) | Fin rat

abbreviation NInt :: "int \<Rightarrow> js_number" where
  "NInt i \<equiv> Fin (of_int i)"

section \<open>Rounding\<close>

definition pow_int :: "rat \<Rightarrow> int \<Rightarrow> rat" where
  "pow_int b e = (if 0 \<le> e then b ^ nat e else 1 / b ^ nat (- e))"

fun bit_len :: "nat \<Rightarrow> nat" where
  "bit_len n = (if n = 0 then 0 else Suc (bit_len (n div 2)))"

declare bit_len.simps [simp del]

definition log2_floor :: "rat \<Rightarrow> int" where
  "log2_floor r =
     (let (n, d) = quotient_of r;
          e = int (bit_len (nat n)) - int (bit_len (nat d))
      in if pow_int 2 e \<le> r then e else e - 1)"

definition round_even :: "rat \<Rightarrow> int" where
  "round_even r =
     (let f = \<lfloor>r\<rfloor>; d = r - of_int f
      in if d < 1 / 2 then f else if 1 / 2 < d then f + 1 else if even f then f else f + 1)"

definition to_double :: "rat \<Rightarrow> js_number" where
  "to_double r =
     (if r = 0 then Fin 0
      else (let q = max (log2_floor \<bar>r\<bar> - 52) (- 1074);
                v = of_int (round_even (\<bar>r\<bar> / pow_int 2 q)) * pow_int 2 q
            in if pow_int 2 1024 \<le> v then Infinity (r < 0) else Fin (sgn r * v)))"

section \<open>Arithmetic and comparison\<close>

fun n_neg :: "js_number \<Rightarrow> js_number" where
  "n_neg NaN = NaN"
| "n_neg (Infinity s) = Infinity (\<not> s)"
| "n_neg (Fin r) = Fin (- r)"

fun n_add :: "js_number \<Rightarrow> js_number \<Rightarrow> js_number" where
  "n_add (Fin a) (Fin b) = to_double (a + b)"
| "n_add NaN _ = NaN"
| "n_add _ NaN = NaN"
| "n_add (Infinity s) (Infinity t) = (if s = t then Infinity s else NaN)"
| "n_add (Infinity s) (Fin _) = Infinity s"
| "n_add (Fin _) (Infinity t) = Infinity t"

definition n_sub :: "js_number \<Rightarrow> js_number \<Rightarrow> js_number" where
  "n_sub a b = n_add a (n_neg b)"

fun n_mul :: "js_number \<Rightarrow> js_number \<Rightarrow> js_number" where
  "n_mul (Fin a) (Fin b) = to_double (a * b)"
| "n_mul NaN _ = NaN"
| "n_mul _ NaN = NaN"
| "n_mul (Infinity s) (Infinity t) = Infinity (s \<noteq> t)"
| "n_mul (Infinity s) (Fin b) = (if b = 0 then NaN else Infinity (s \<noteq> (b < 0)))"
| "n_mul (Fin a) (Infinity t) = (if a = 0 then NaN else Infinity (t \<noteq> (a < 0)))"

fun n_div :: "js_number \<Rightarrow> js_number \<Rightarrow> js_number" where
  "n_div (Fin a) (Fin b) =
     (if b \<noteq> 0 then to_double (a / b) else if a = 0 then NaN else Infinity (a < 0))"
| "n_div NaN _ = NaN"
| "n_div _ NaN = NaN"
| "n_div (Infinity s) (Infinity t) = NaN"
| "n_div (Infinity s) (Fin b) = Infinity (s \<noteq> (b < 0))"
| "n_div (Fin a) (Infinity t) = Fin 0"

fun n_less :: "js_number \<Rightarrow> js_number \<Rightarrow> bool" where
  "n_less (Fin a) (Fin b) = (a < b)"
| "n_less NaN _ = False"
| "n_less _ NaN = False"
| "n_less (Infinity s) (Infinity t) = (s \<and> \<not> t)"
| "n_less (Infinity s) (Fin _) = s"
| "n_less (Fin _) (Infinity t) = (\<not> t)"

definition n_eq :: "js_number \<Rightarrow> js_number \<Rightarrow> bool" where
  "n_eq a b = (a \<noteq> NaN \<and> a = b)"

definition n_le :: "js_number \<Rightarrow> js_number \<Rightarrow> bool" where
  "n_le a b = (n_less a b \<or> n_eq a b)"

definition n_truthy :: "js_number \<Rightarrow> bool" where
  "n_truthy n = (n \<noteq> NaN \<and> n \<noteq> Fin 0)"

fun Math_floor :: "js_number \<Rightarrow> js_number" where
  "Math_floor (Fin r) = Fin (of_int \<lfloor>r\<rfloor>)"
| "Math_floor n = n"

fun Math_ceil :: "js_number \<Rightarrow> js_number" where
  "Math_ceil (Fin r) = Fin (of_int \<lceil>r\<rceil>)"
| "Math_ceil n = n"

definition Math_max :: "js_number \<Rightarrow> js_number \<Rightarrow> js_number" where
  "Math_max a b = (if a = NaN \<or> b = NaN then NaN else if n_less a b then b else a)"

definition Math_min :: "js_number \<Rightarrow> js_number \<Rightarrow> js_number" where
  "Math_min a b = (if a = NaN \<or> b = NaN then NaN else if n_less b a then b else a)"

section \<open>Text of a number\<close>

text \<open>\<open>dec_exp x\<close> for positive x: the n with \<open>10 ^ (n - 1) \<le> x < 10 ^ n\<close>.\<close>

definition dec_exp :: "rat \<Rightarrow> int" where
  "dec_exp x =
     (if 1 \<le> x then int (length (nat_str (nat \<lfloor>x\<rfloor>)))
      else 1 - int (length (nat_str (nat (\<lceil>1 / x\<rceil> - 1)))))"

text \<open>The digits and the exponent of the candidate with k digits that rounds to x, if one does.\<close>

definition digits_k :: "rat \<Rightarrow> nat \<Rightarrow> (int \<times> int) option" where
  "digits_k x k =
     (let n = dec_exp x;
          y = x / pow_int 10 (n - int k);
          f = \<lfloor>y\<rfloor>;
          near = (if y - of_int f < 1 / 2 \<or> (y - of_int f = 1 / 2 \<and> even f) then [f, f + 1] else [f + 1, f]);
          norm = (\<lambda>s. if s = 10 ^ k then (10 ^ (k - 1), n + 1) else (s, n))
      in map_option norm
           (List.find (\<lambda>s. 10 ^ (k - 1) \<le> s \<and> to_double (of_int s * pow_int 10 (n - int k)) = Fin x) near))"

fun shortest :: "rat \<Rightarrow> nat list \<Rightarrow> int \<times> int" where
  "shortest x [] = (0, 0)"
| "shortest x (k # ks) = (case digits_k x k of Some r \<Rightarrow> r | None \<Rightarrow> shortest x ks)"

definition exp_text :: "int \<Rightarrow> string" where
  "exp_text e = (if e < 0 then ''e-'' @ nat_str (nat (- e)) else ''e+'' @ nat_str (nat e))"

definition pos_num_str :: "rat \<Rightarrow> string" where
  "pos_num_str x =
     (let (s, n) = shortest x [1 ..< 18];
          ds = nat_str (nat s);
          k = int (length ds)
      in if k \<le> n \<and> n \<le> 21 then ds @ replicate (nat (n - k)) (CHR ''0'')
         else if 0 < n \<and> n \<le> 21 then take (nat n) ds @ ''.'' @ drop (nat n) ds
         else if - 6 < n \<and> n \<le> 0 then ''0.'' @ replicate (nat (- n)) (CHR ''0'') @ ds
         else if k = 1 then ds @ exp_text (n - 1)
         else take 1 ds @ ''.'' @ drop 1 ds @ exp_text (n - 1))"

text \<open>
  An integer up to \<open>2 ^ 53\<close> in magnitude has no shorter decimal text that rounds to it than its own
  digits, so its text is the integer's.
\<close>

fun num_str :: "js_number \<Rightarrow> string" where
  "num_str NaN = ''NaN''"
| "num_str (Infinity s) = (if s then ''-Infinity'' else ''Infinity'')"
| "num_str (Fin r) =
     (if r = of_int \<lfloor>r\<rfloor> \<and> \<bar>r\<bar> \<le> 2 ^ 53 then int_str \<lfloor>r\<rfloor>
      else if r < 0 then ''-'' @ pos_num_str (- r) else pos_num_str r)"

lemma num_str_int: "\<bar>i\<bar> \<le> 2 ^ 53 \<Longrightarrow> num_str (NInt i) = int_str i"
  by (simp flip: of_int_abs add: of_int_le_iff [where 'a = rat, of _ "2 ^ 53", simplified])

section \<open>Text to number\<close>

definition dec_nat :: "string \<Rightarrow> nat" where
  "dec_nat s = (case radix_acc 10 0 s of Some n \<Rightarrow> n | None \<Rightarrow> 0)"

definition exponent_part :: "string \<Rightarrow> int \<times> string" where
  "exponent_part s =
     (case s of
        [] \<Rightarrow> (0, s)
      | c # t \<Rightarrow>
          (if c = CHR ''e'' \<or> c = CHR ''E''
           then (let neg = startsWith t ''-'';
                     u = (if neg \<or> startsWith t ''+'' then tl t else t);
                     ds = takeWhile is_dec u
                 in if ds = [] then (0, s)
                    else (if neg then - int (dec_nat ds) else int (dec_nat ds), drop (length ds) u))
           else (0, s)))"

text \<open>The longest prefix that is a decimal literal: its value and the rest.\<close>

definition decimal_prefix :: "string \<Rightarrow> (js_number \<times> string) option" where
  "decimal_prefix t =
     (let neg = startsWith t ''-'';
          u = (if neg \<or> startsWith t ''+'' then tl t else t)
      in if startsWith u ''Infinity'' then Some (Infinity neg, drop 8 u)
         else (let w = takeWhile is_dec u;
                   v = drop (length w) u;
                   f = (if startsWith v ''.'' then takeWhile is_dec (tl v) else []);
                   rest = (if startsWith v ''.'' then drop (length f) (tl v) else v)
               in if w = [] \<and> f = [] then None
                  else (let (e, rest2) = exponent_part rest;
                            m = of_nat (dec_nat (w @ f)) * pow_int 10 (e - int (length f))
                        in Some (to_double (if neg then - m else m), rest2))))"

definition parseFloat :: "string \<Rightarrow> js_number" where
  "parseFloat s = (case decimal_prefix (dropWhile js_ws s) of Some (n, _) \<Rightarrow> n | None \<Rightarrow> NaN)"

definition StringToNumber :: "string \<Rightarrow> js_number" where
  "StringToNumber s =
     (let t = trim s in
      if t = [] then Fin 0
      else (case non_decimal t of
              Some (r, ds) \<Rightarrow> (case radix_val r ds of Some n \<Rightarrow> to_double (of_nat n) | None \<Rightarrow> NaN)
            | None \<Rightarrow> (case decimal_prefix t of Some (n, []) \<Rightarrow> n | _ \<Rightarrow> NaN)))"

section \<open>Formatting\<close>

text \<open>The text of \<open>n / 10 ^ d\<close> with exactly d digits after the point.\<close>

definition point_text :: "nat \<Rightarrow> nat \<Rightarrow> string" where
  "point_text d n =
     (let m = padStart (d + 1) (CHR ''0'') (nat_str n);
          k = length m - d
      in if d = 0 then m else take k m @ ''.'' @ drop k m)"

definition round_half_up :: "rat \<Rightarrow> nat \<Rightarrow> nat" where
  "round_half_up x d = nat \<lfloor>x * 10 ^ d + 1 / 2\<rfloor>"

fun toFixed :: "js_number \<Rightarrow> nat \<Rightarrow> string" where
  "toFixed (Fin x) d =
     (if 10 ^ 21 \<le> \<bar>x\<bar> then num_str (Fin x)
      else (if x < 0 then ''-'' else []) @ point_text d (round_half_up \<bar>x\<bar> d))"
| "toFixed n d = num_str n"

text \<open>Thousands separators.\<close>

fun group_rev :: "string \<Rightarrow> string" where
  "group_rev (a # b # c # d # s) = a # b # c # CHR '','' # group_rev (d # s)"
| "group_rev s = s"

definition group3 :: "string \<Rightarrow> string" where
  "group3 s = rev (group_rev (rev s))"

definition fraction_text :: "nat \<Rightarrow> string \<Rightarrow> string" where
  "fraction_text minFD f =
     (let t = rev (dropWhile (\<lambda>c. c = CHR ''0'') (rev f));
          u = padEnd minFD (CHR ''0'') t
      in if u = [] then [] else ''.'' @ u)"

fun toLocaleString :: "js_number \<Rightarrow> nat \<Rightarrow> nat \<Rightarrow> string" where
  "toLocaleString NaN minFD maxFD = ''NaN''"
| "toLocaleString (Infinity s) minFD maxFD = (if s then ''-<U+221E>'' else ''<U+221E>'')"
| "toLocaleString (Fin x) minFD maxFD =
     (let n = round_half_up \<bar>x\<bar> maxFD;
          w = n div 10 ^ maxFD;
          f = (if maxFD = 0 then [] else padStart maxFD (CHR ''0'') (nat_str (n mod 10 ^ maxFD)))
      in (if x < 0 then ''-'' else []) @ group3 (nat_str w) @ fraction_text minFD f)"

section \<open>Integers are exact\<close>

lemma bit_len_bounds: "0 < n \<Longrightarrow> 2 ^ (bit_len n - 1) \<le> n \<and> n < 2 ^ bit_len n"
proof (induction n rule: bit_len.induct)
  case (1 n)
  show ?case
  proof (cases "n div 2 = 0")
    case True
    with 1 have "n = 1" by simp
    then show ?thesis by (simp add: bit_len.simps)
  next
    case False
    with 1 have ih: "2 ^ (bit_len (n div 2) - 1) \<le> n div 2" "n div 2 < 2 ^ bit_len (n div 2)" by auto
    have "0 < bit_len (n div 2)" using False by (simp add: bit_len.simps [of "n div 2"])
    then obtain k where k: "bit_len (n div 2) = Suc k" by (cases "bit_len (n div 2)") auto
    from 1(2) have "bit_len n = Suc (Suc k)" by (simp add: bit_len.simps [of n] k)
    moreover have "2 * (n div 2) \<le> n" "n < 2 * (n div 2) + 2" by simp_all
    ultimately show ?thesis using ih k by (simp only: diff_Suc_1 power_Suc) linarith
  qed
qed

lemma log2_floor_nat:
  assumes "0 < n"
  shows "log2_floor (of_nat n) = int (bit_len n) - 1"
proof -
  have q: "quotient_of (of_nat n) = (int n, 1)"
    using quotient_of_int [of "int n"] by simp
  have "bit_len 1 = 1" by (simp add: bit_len.simps)
  moreover have "0 < bit_len n" using assms by (simp add: bit_len.simps [of n])
  moreover have "(2 :: rat) ^ (bit_len n - 1) \<le> of_nat n"
    using bit_len_bounds [OF assms] of_nat_le_iff [of "2 ^ (bit_len n - 1)" n, where 'a = rat] by simp
  ultimately show ?thesis
    by (simp add: log2_floor_def q pow_int_def nat_diff_distrib)
qed

lemma round_even_int: "round_even (of_int i) = i"
  by (simp add: round_even_def)

lemma to_double_int:
  assumes "\<bar>i\<bar> < 2 ^ 53"
  shows "to_double (of_int i) = NInt i"
proof (cases "i = 0")
  case False
  define n where "n = nat \<bar>i\<bar>"
  have n: "0 < n" "int n = \<bar>i\<bar>" using False by (simp_all add: n_def)
  then have r: "\<bar>of_int i :: rat\<bar> = of_nat n"
    by (metis of_int_abs of_int_of_nat_eq)
  have "n < 2 ^ 53" using assms by (simp add: n_def nat_less_iff)
  moreover have "2 ^ (bit_len n - 1) \<le> n" using bit_len_bounds [OF n(1)] by simp
  ultimately have "(2 :: nat) ^ (bit_len n - 1) < 2 ^ 53" by linarith
  then have len: "bit_len n - 1 < 53" by (rule power_less_imp_less_exp [rotated]) simp
  define q where "q = max (log2_floor \<bar>of_int i\<bar> - 52) (- 1074)"
  have q: "- 1074 \<le> q" "q \<le> 0"
    using len by (auto simp: q_def r log2_floor_nat n(1))
  define k where "k = nat (- q)"
  have pq: "pow_int 2 q = 1 / 2 ^ k"
    using q by (cases "q = 0") (simp_all add: pow_int_def k_def)
  have "\<bar>of_int i :: rat\<bar> / pow_int 2 q = of_int (int n * 2 ^ k)"
    by (simp add: pq r)
  then have v: "of_int (round_even (\<bar>of_int i\<bar> / pow_int 2 q)) * pow_int 2 q = (of_nat n :: rat)"
    by (simp only: round_even_int) (simp add: pq)
  have "(of_nat n :: rat) < 2 ^ 53"
    using \<open>n < 2 ^ 53\<close> of_nat_less_iff [of n "2 ^ 53", where 'a = rat] by simp
  also have "(2 :: rat) ^ 53 \<le> pow_int 2 1024"
    unfolding pow_int_def by (simp only: zero_le_numeral if_True nat_numeral) (rule power_increasing, simp_all)
  finally have "\<not> pow_int 2 1024 \<le> (of_nat n :: rat)" by simp
  moreover have "sgn (of_int i) * (of_nat n :: rat) = of_int i"
    using r by (metis mult_sgn_abs mult.commute)
  ultimately show ?thesis
    using False v by (simp only: to_double_def of_int_eq_0_iff if_False Let_def q_def [symmetric])
qed (simp add: to_double_def)

end
