(* ===== verification/Js_Value.thy ===== *)
theory Js_Value
  imports Js_Float
begin

text \<open>
  JavaScript values as the sources handle unvalidated data (responses, stored JSON): property
  access, truthiness and the conversions of ECMA-262, \<^verbatim>\<open>JSON.stringify\<close> and \<^verbatim>\<open>JSON.parse\<close>.
  An object is the list of its own enumerable properties in insertion order, keys distinct and not
  array indices.  The main result is that parsing a stringified value gives the value back.
\<close>

datatype jsval =
    JUndefined
  | JNull
  | JBool bool
  | JNum js_number
  | JStr string
  | JArr "jsval list"
  | JObj "(string \<times> jsval) list"

abbreviation JInt :: "int \<Rightarrow> jsval" where
  "JInt i \<equiv> JNum (NInt i)"

section \<open>Operators\<close>

fun truthy :: "jsval \<Rightarrow> bool" where
  "truthy JUndefined = False"
| "truthy JNull = False"
| "truthy (JBool b) = b"
| "truthy (JNum n) = n_truthy n"
| "truthy (JStr s) = (s \<noteq> [])"
| "truthy (JArr _) = True"
| "truthy (JObj _) = True"

definition nullish :: "jsval \<Rightarrow> bool" where
  "nullish v = (v = JUndefined \<or> v = JNull)"

text \<open>\<^verbatim>\<open>a || b\<close> and \<^verbatim>\<open>a ?? b\<close>, for a right operand without effects.\<close>

definition js_or :: "jsval \<Rightarrow> jsval \<Rightarrow> jsval" where
  "js_or a b = (if truthy a then a else b)"

definition js_coalesce :: "jsval \<Rightarrow> jsval \<Rightarrow> jsval" where
  "js_coalesce a b = (if nullish a then b else a)"

definition own :: "jsval \<Rightarrow> string \<Rightarrow> jsval" where
  "own v k =
     (case v of
        JObj kvs \<Rightarrow> (case map_of kvs k of Some w \<Rightarrow> w | None \<Rightarrow> JUndefined)
      | JStr s \<Rightarrow> (if k = ''length'' then JInt (int (length s)) else JUndefined)
      | JArr xs \<Rightarrow> (if k = ''length'' then JInt (int (length xs)) else JUndefined)
      | _ \<Rightarrow> JUndefined)"

text \<open>\<^verbatim>\<open>v.k\<close> throws on undefined and null; \<^verbatim>\<open>v?.k\<close> is undefined there.\<close>

definition get :: "jsval \<Rightarrow> string \<Rightarrow> jsval res" where
  "get v k =
     (if nullish v
      then Inl (TypeError (''Cannot read properties of '' @ (if v = JNull then ''null'' else ''undefined'')
             @ '' (reading '' @ [char_of (39 :: nat)] @ k @ [char_of (39 :: nat)] @ '')''))
      else Inr (own v k))"

definition opt_get :: "jsval \<Rightarrow> string \<Rightarrow> jsval" where
  "opt_get v k = (if nullish v then JUndefined else own v k)"

lemma get_simps [simp]:
  "get (JObj kvs) k = Inr (own (JObj kvs) k)"
  "get (JArr xs) k = Inr (own (JArr xs) k)"
  "get (JStr s) k = Inr (own (JStr s) k)"
  by (simp_all add: get_def nullish_def)

lemma truthy_get: "truthy v \<Longrightarrow> get v k = Inr (own v k)"
  by (auto simp: get_def nullish_def)

lemma truthy_js_or: "truthy (js_or a b) \<longleftrightarrow> truthy a \<or> truthy b"
  by (simp add: js_or_def)

text \<open>\<^verbatim>\<open>String(v)\<close> and \<^verbatim>\<open>Number(v)\<close>.\<close>

fun to_str :: "jsval \<Rightarrow> string"
  and elem_str :: "jsval \<Rightarrow> string" where
  "to_str JUndefined = ''undefined''"
| "to_str JNull = ''null''"
| "to_str (JBool b) = (if b then ''true'' else ''false'')"
| "to_str (JNum n) = num_str n"
| "to_str (JStr s) = s"
| "to_str (JArr xs) = join '','' (map elem_str xs)"
| "to_str (JObj _) = ''[object Object]''"
| "elem_str JUndefined = []"
| "elem_str JNull = []"
| "elem_str (JBool b) = (if b then ''true'' else ''false'')"
| "elem_str (JNum n) = num_str n"
| "elem_str (JStr s) = s"
| "elem_str (JArr xs) = join '','' (map elem_str xs)"
| "elem_str (JObj _) = ''[object Object]''"

fun to_num :: "jsval \<Rightarrow> js_number" where
  "to_num JUndefined = NaN"
| "to_num JNull = Fin 0"
| "to_num (JBool b) = (if b then Fin 1 else Fin 0)"
| "to_num (JNum n) = n"
| "to_num (JStr s) = StringToNumber s"
| "to_num v = StringToNumber (to_str v)"

text \<open>\<^verbatim>\<open>BigInt(v)\<close>.\<close>

fun to_bigint :: "jsval \<Rightarrow> int res" where
  "to_bigint JUndefined = Inl (TypeError ''Cannot convert undefined to a BigInt'')"
| "to_bigint JNull = Inl (TypeError ''Cannot convert null to a BigInt'')"
| "to_bigint (JBool b) = Inr (if b then 1 else 0)"
| "to_bigint (JNum n) =
     (case n of
        Fin r \<Rightarrow> (if r = of_int \<lfloor>r\<rfloor> then Inr \<lfloor>r\<rfloor>
                  else Inl (RangeError (''The number '' @ num_str n @
                    '' cannot be converted to a BigInt because it is not an integer'')))
      | _ \<Rightarrow> Inl (RangeError (''The number '' @ num_str n @
                    '' cannot be converted to a BigInt because it is not an integer'')))"
| "to_bigint (JStr s) = BigInt s"
| "to_bigint v = BigInt (to_str v)"

section \<open>JSON.stringify\<close>

definition u_escape :: "char \<Rightarrow> string" where
  "u_escape c = [char_of (92 :: nat)] @ ''u'' @ padStart 4 (CHR ''0'') (radix_str 16 (code_unit c))"

definition esc_char :: "char \<Rightarrow> string" where
  "esc_char c =
     (let n = code_unit c; bs = char_of (92 :: nat) in
      if n = 34 then [bs, c]
      else if n = 92 then [bs, bs]
      else if n = 8 then [bs, CHR ''b'']
      else if n = 9 then [bs, CHR ''t'']
      else if n = 10 then [bs, CHR ''n'']
      else if n = 12 then [bs, CHR ''f'']
      else if n = 13 then [bs, CHR ''r'']
      else if n < 32 then u_escape c
      else [c])"

definition quote :: "string \<Rightarrow> string" where
  "quote s = [char_of (34 :: nat)] @ concat (map esc_char s) @ [char_of (34 :: nat)]"

fun stringify :: "jsval \<Rightarrow> string option"
  and arr_texts :: "jsval list \<Rightarrow> string list"
  and obj_texts :: "(string \<times> jsval) list \<Rightarrow> string list" where
  "stringify JUndefined = None"
| "stringify JNull = Some ''null''"
| "stringify (JBool b) = Some (if b then ''true'' else ''false'')"
| "stringify (JNum n) = Some (case n of Fin r \<Rightarrow> num_str n | _ \<Rightarrow> ''null'')"
| "stringify (JStr s) = Some (quote s)"
| "stringify (JArr xs) = Some (''['' @ join '','' (arr_texts xs) @ '']'')"
| "stringify (JObj kvs) = Some (''{'' @ join '','' (obj_texts kvs) @ ''}'')"
| "arr_texts [] = []"
| "arr_texts (v # vs) = (case stringify v of Some t \<Rightarrow> t | None \<Rightarrow> ''null'') # arr_texts vs"
| "obj_texts [] = []"
| "obj_texts ((k, v) # kvs) =
     (case stringify v of Some t \<Rightarrow> [quote k @ '':'' @ t] | None \<Rightarrow> []) @ obj_texts kvs"

section \<open>JSON.parse\<close>

definition json_ws :: "char \<Rightarrow> bool" where
  "json_ws c = (code_unit c = 32 \<or> code_unit c = 9 \<or> code_unit c = 10 \<or> code_unit c = 13)"

definition skip_ws :: "string \<Rightarrow> string" where
  "skip_ws s = dropWhile json_ws s"

definition unescape :: "char \<Rightarrow> char option" where
  "unescape c =
     (let n = code_unit c in
      if n = 34 \<or> n = 92 \<or> n = 47 then Some c
      else if c = CHR ''b'' then Some (char_of (8 :: nat))
      else if c = CHR ''t'' then Some (char_of (9 :: nat))
      else if c = CHR ''n'' then Some (char_of (10 :: nat))
      else if c = CHR ''f'' then Some (char_of (12 :: nat))
      else if c = CHR ''r'' then Some (char_of (13 :: nat))
      else None)"

text \<open>The rest of a string after its opening quote.\<close>

fun parse_str :: "string \<Rightarrow> (string \<times> string) option" where
  "parse_str [] = None"
| "parse_str (c # t) =
     (if code_unit c = 34 then Some ([], t)
      else if code_unit c = 92
      then (case t of
              [] \<Rightarrow> None
            | d # u \<Rightarrow>
                (if d = CHR ''u''
                 then (case u of
                         a # b # e # f # w \<Rightarrow>
                           (case radix_val 16 [a, b, e, f] of
                              Some n \<Rightarrow>
                                (if n < 256 then map_option (\<lambda>(x, r). (char_of n # x, r)) (parse_str w)
                                 else None)
                            | None \<Rightarrow> None)
                       | _ \<Rightarrow> None)
                 else (case unescape d of
                         Some x \<Rightarrow> map_option (\<lambda>(y, r). (x # y, r)) (parse_str u)
                       | None \<Rightarrow> None)))
      else if code_unit c < 32 then None
      else map_option (\<lambda>(x, r). (c # x, r)) (parse_str t))"

text \<open>A JSON number: an integer without leading zeros, an optional fraction, an optional exponent.\<close>

definition parse_num :: "string \<Rightarrow> (jsval \<times> string) option" where
  "parse_num s =
     (let neg = startsWith s ''-'';
          u = (if neg then tl s else s);
          w = takeWhile is_dec u;
          v = drop (length w) u;
          f = (if startsWith v ''.'' then takeWhile is_dec (tl v) else []);
          rest = (if startsWith v ''.'' then drop (length f) (tl v) else v)
      in if w = [] \<or> (length w > 1 \<and> hd w = CHR ''0'') \<or> (startsWith v ''.'' \<and> f = []) then None
         else (let (e, rest2) = exponent_part rest;
                   m = of_nat (dec_nat (w @ f)) * pow_int 10 (e - int (length f))
               in Some (JNum (to_double (if neg then - m else m)), rest2)))"

text \<open>Object construction: a repeated key overwrites the earlier value in place.\<close>

fun obj_put :: "string \<Rightarrow> jsval \<Rightarrow> (string \<times> jsval) list \<Rightarrow> (string \<times> jsval) list" where
  "obj_put k v [] = [(k, v)]"
| "obj_put k v ((k', v') # kvs) = (if k = k' then (k, v) # kvs else (k', v') # obj_put k v kvs)"

definition obj_of :: "(string \<times> jsval) list \<Rightarrow> (string \<times> jsval) list" where
  "obj_of kvs = fold (\<lambda>(k, v). obj_put k v) kvs []"

fun parse_value :: "nat \<Rightarrow> string \<Rightarrow> (jsval \<times> string) option"
  and parse_elems :: "nat \<Rightarrow> string \<Rightarrow> (jsval list \<times> string) option"
  and parse_members :: "nat \<Rightarrow> string \<Rightarrow> ((string \<times> jsval) list \<times> string) option" where
  "parse_value 0 s = None"
| "parse_value (Suc n) s =
     (case skip_ws s of
        [] \<Rightarrow> None
      | c # t \<Rightarrow>
          (if code_unit c = 34 then map_option (\<lambda>(x, r). (JStr x, r)) (parse_str t)
           else if c = CHR ''['' then
             (case skip_ws t of
                [] \<Rightarrow> None
              | d # u \<Rightarrow>
                  (if d = CHR '']'' then Some (JArr [], u)
                   else map_option (\<lambda>(xs, r). (JArr xs, r)) (parse_elems n t)))
           else if c = CHR ''{'' then
             (case skip_ws t of
                [] \<Rightarrow> None
              | d # u \<Rightarrow>
                  (if d = CHR ''}'' then Some (JObj [], u)
                   else map_option (\<lambda>(kvs, r). (JObj (obj_of kvs), r)) (parse_members n t)))
           else if startsWith (c # t) ''null'' then Some (JNull, drop 4 (c # t))
           else if startsWith (c # t) ''true'' then Some (JBool True, drop 4 (c # t))
           else if startsWith (c # t) ''false'' then Some (JBool False, drop 5 (c # t))
           else parse_num (c # t)))"
| "parse_elems 0 s = None"
| "parse_elems (Suc n) s =
     (case parse_value n s of
        None \<Rightarrow> None
      | Some (v, r) \<Rightarrow>
          (case skip_ws r of
             [] \<Rightarrow> None
           | c # u \<Rightarrow>
               (if c = CHR '','' then map_option (\<lambda>(vs, r'). (v # vs, r')) (parse_elems n u)
                else if c = CHR '']'' then Some ([v], u)
                else None)))"
| "parse_members 0 s = None"
| "parse_members (Suc n) s =
     (case skip_ws s of
        [] \<Rightarrow> None
      | q # t \<Rightarrow>
          (if code_unit q \<noteq> 34 then None
           else (case parse_str t of
                   None \<Rightarrow> None
                 | Some (k, r) \<Rightarrow>
                     (case skip_ws r of
                        [] \<Rightarrow> None
                      | c # u \<Rightarrow>
                          (if c \<noteq> CHR '':'' then None
                           else (case parse_value n u of
                                   None \<Rightarrow> None
                                 | Some (v, r2) \<Rightarrow>
                                     (case skip_ws r2 of
                                        [] \<Rightarrow> None
                                      | d # w \<Rightarrow>
                                          (if d = CHR '','' then
                                             map_option (\<lambda>(kvs, r'). ((k, v) # kvs, r')) (parse_members n w)
                                           else if d = CHR ''}'' then Some ([(k, v)], w)
                                           else None))))))))"

text \<open>
  A call that does not consume a character calls another parser that does, so twice the length of
  the text bounds the depth of the recursion.
\<close>

definition JSON_parse :: "string \<Rightarrow> jsval res" where
  "JSON_parse s =
     (case parse_value (2 * length s + 2) s of
        Some (v, r) \<Rightarrow>
          (if skip_ws r = [] then Inr v else Inl (SyntaxError ''Unexpected non-whitespace character after JSON''))
      | None \<Rightarrow> Inl (SyntaxError ''Unexpected token in JSON''))"

section \<open>Parsing what was stringified\<close>

text \<open>The values JSON represents exactly: no undefined, integers below \<open>2 ^ 53\<close>, distinct keys.\<close>

fun plain :: "jsval \<Rightarrow> bool"
  and plain_arr :: "jsval list \<Rightarrow> bool"
  and plain_obj :: "(string \<times> jsval) list \<Rightarrow> bool" where
  "plain JUndefined = False"
| "plain JNull = True"
| "plain (JBool b) = True"
| "plain (JNum n) = (case n of Fin r \<Rightarrow> r = of_int \<lfloor>r\<rfloor> \<and> \<bar>\<lfloor>r\<rfloor>\<bar> < 2 ^ 53 | _ \<Rightarrow> False)"
| "plain (JStr s) = True"
| "plain (JArr xs) = plain_arr xs"
| "plain (JObj kvs) = (distinct (map fst kvs) \<and> plain_obj kvs)"
| "plain_arr [] = True"
| "plain_arr (v # vs) = (plain v \<and> plain_arr vs)"
| "plain_obj [] = True"
| "plain_obj ((k, v) # kvs) = (plain v \<and> plain_obj kvs)"

definition delim :: "string \<Rightarrow> bool" where
  "delim r = (r = [] \<or> hd r = CHR '','' \<or> hd r = CHR '']'' \<or> hd r = CHR ''}'' \<or> json_ws (hd r))"

lemma delim_simps [simp]:
  "delim []" "delim (CHR '','' # r)" "delim (CHR '']'' # r)" "delim (CHR ''}'' # r)"
  by (simp_all add: delim_def)

lemma hex4_value:
  assumes "n < 256"
  obtains a b where "padStart 4 (CHR ''0'') (radix_str 16 n) = [CHR ''0'', CHR ''0'', a, b]"
    and "radix_val 16 [CHR ''0'', CHR ''0'', a, b] = Some n"
proof (cases "n < 16")
  case True
  then have "padStart 4 (CHR ''0'') (radix_str 16 n) = [CHR ''0'', CHR ''0'', CHR ''0'', digit_of n]"
    by (simp add: radix_str.simps [of 16 n] padStart_def numeral_3_eq_3)
  moreover have "radix_val 16 [CHR ''0'', CHR ''0'', CHR ''0'', digit_of n] = Some n"
    using True by (simp add: radix_val_def flip: digit_of_0)
  ultimately show ?thesis by (rule that)
next
  case False
  let ?a = "digit_of (n div 16)" and ?b = "digit_of (n mod 16)"
  have "n div 16 < 16" using assms by simp
  then have "radix_str 16 n = [?a, ?b]"
    using False by (simp add: radix_str.simps [of 16 n] radix_str.simps [of 16 "n div 16"])
  then have "padStart 4 (CHR ''0'') (radix_str 16 n) = [CHR ''0'', CHR ''0'', ?a, ?b]"
    by (simp add: padStart_def numeral_2_eq_2)
  moreover have "radix_val 16 [CHR ''0'', CHR ''0'', ?a, ?b] = Some n"
    using \<open>n div 16 < 16\<close> by (simp add: radix_val_def flip: digit_of_0)
  ultimately show ?thesis by (rule that)
qed

lemma parse_esc_char: "parse_str (esc_char c @ r) = map_option (\<lambda>(x, t). (c # x, t)) (parse_str r)"
proof -
  let ?n = "code_unit c"
  consider "?n \<in> {34, 92, 8, 9, 10, 12, 13}" | "?n \<notin> {34, 92, 8, 9, 10, 12, 13}" "?n < 32"
    | "?n \<notin> {34, 92, 8, 9, 10, 12, 13}" "32 \<le> ?n" by linarith
  then show ?thesis
  proof cases
    case 1
    then have "c \<in> {char_of (34 :: nat), char_of (92 :: nat), char_of (8 :: nat), char_of (9 :: nat),
        char_of (10 :: nat), char_of (12 :: nat), char_of (13 :: nat)}"
      by (metis char_of_char insert_iff empty_iff)
    moreover have "char_of (92 :: nat) \<noteq> CHR ''u''" by (simp add: char_of_eq_iff)
    ultimately show ?thesis
      by (auto simp: esc_char_def unescape_def Let_def split: option.splits)
  next
    case 2
    obtain a b where "padStart 4 (CHR ''0'') (radix_str 16 ?n) = [CHR ''0'', CHR ''0'', a, b]"
      and "radix_val 16 [CHR ''0'', CHR ''0'', a, b] = Some ?n"
      using hex4_value [of ?n] by auto
    with 2 show ?thesis by (simp add: esc_char_def u_escape_def Let_def)
  next
    case 3
    then show ?thesis by (simp add: esc_char_def Let_def)
  qed
qed

lemma parse_str_quote: "parse_str (concat (map esc_char s) @ char_of (34 :: nat) # r) = Some (s, r)"
  by (induction s) (simp_all add: parse_esc_char)

lemma nat_str_hd: "0 < n \<Longrightarrow> hd (nat_str n) \<noteq> CHR ''0''"
proof (induction "10 :: nat" n rule: radix_str.induct)
  case (1 n)
  show ?case
  proof (cases "n < 10")
    case True
    have "digit_val (CHR ''0'') = Some 0" by (simp add: digit_val_def)
    moreover have "digit_val (digit_of n) = Some n" using True by simp
    ultimately have "digit_of n \<noteq> CHR ''0''" using 1 by (metis not_less_zero option.inject)
    with True show ?thesis by (simp add: radix_str.simps [of 10 n])
  next
    case False
    then show ?thesis using 1 by (simp add: radix_str.simps [of 10 n] radix_str_ne)
  qed
qed

lemma takeWhile_dec_delim:
  assumes "list_all is_dec w" "delim r"
  shows "takeWhile is_dec (w @ r) = w"
  using assms by (cases r) (auto simp: delim_def json_ws_def is_dec_def list_all_iff takeWhile_append2)

lemma exponent_part_delim: "delim r \<Longrightarrow> exponent_part r = (0, r)"
  by (cases r) (auto simp: delim_def json_ws_def exponent_part_def)

lemma delim_no_point: "delim r \<Longrightarrow> \<not> startsWith r ''.''"
  by (cases r) (auto simp: delim_def json_ws_def startsWith_def)

lemma parse_num_nat:
  assumes "delim r"
  shows "parse_num (nat_str n @ r) = Some (JNum (to_double (of_nat n)), r)"
    and "parse_num (CHR ''-'' # nat_str n @ r) = Some (JNum (to_double (- of_nat n)), r)"
proof -
  have w: "takeWhile is_dec (nat_str n @ r) = nat_str n"
    using assms by (rule takeWhile_dec_delim [OF nat_str_dec])
  have z: "\<not> (length (nat_str n) > 1 \<and> hd (nat_str n) = CHR ''0'')"
    using nat_str_hd [of n] by (cases "n = 0") (auto simp: radix_str.simps [of 10 0])
  have d: "dec_nat (nat_str n) = n" by (simp add: dec_nat_def radix_acc_str)
  have m: "\<not> startsWith (nat_str n @ r) ''-''"
  proof -
    obtain c t where ct: "nat_str n = c # t" using radix_str_ne by (metis list.exhaust)
    then have "is_dec c" using nat_str_dec [of n] by simp
    with ct show ?thesis by (auto simp: is_dec_def)
  qed
  note facts = w z d delim_no_point [OF assms] exponent_part_delim [OF assms] radix_str_ne pow_int_def
  show "parse_num (nat_str n @ r) = Some (JNum (to_double (of_nat n)), r)"
    by (simp only: parse_num_def Let_def m if_False w) (use z in \<open>auto simp: facts\<close>)
  show "parse_num (CHR ''-'' # nat_str n @ r) = Some (JNum (to_double (- of_nat n)), r)"
    using z by (auto simp: parse_num_def Let_def facts)
qed

lemma parse_num_int:
  assumes "delim r" "\<bar>i\<bar> < 2 ^ 53"
  shows "parse_num (int_str i @ r) = Some (JInt i, r)"
proof (cases "i < 0")
  case True
  have "(- of_nat (nat (- i)) :: rat) = of_int i" using True by simp
  then show ?thesis
    using True parse_num_nat(2) [OF assms(1), of "nat (- i)"] to_double_int [OF assms(2)]
    by (simp add: int_str_def)
next
  case False
  have "(of_nat (nat i) :: rat) = of_int i" using False by simp
  then show ?thesis
    using False parse_num_nat(1) [OF assms(1), of "nat i"] to_double_int [OF assms(2)]
    by (simp add: int_str_def)
qed

lemma int_str_start:
  obtains c u where "int_str i = c # u" "is_dec c \<or> c = CHR ''-''"
proof (cases "i < 0")
  case False
  obtain c u where "nat_str (nat i) = c # u" using radix_str_ne by (metis list.exhaust)
  with False nat_str_dec [of "nat i"] show ?thesis by (auto simp: int_str_def intro: that)
qed (auto simp: int_str_def intro: that)

text \<open>The first character of a text tells the kind of the value and is no white space.\<close>

lemma plain_text:
  assumes "plain v"
  obtains c u where "stringify v = Some (c # u)" "\<not> json_ws c" "c \<noteq> CHR '']''" "c \<noteq> CHR ''}''"
proof (cases v)
  case (JNum n)
  with assms obtain r where r: "n = Fin r" "r = of_int \<lfloor>r\<rfloor>" "\<bar>\<lfloor>r\<rfloor>\<bar> < 2 ^ 53"
    by (auto split: js_number.splits)
  obtain c u where cu: "int_str \<lfloor>r\<rfloor> = c # u" "is_dec c \<or> c = CHR ''-''" by (rule int_str_start)
  have "num_str (NInt \<lfloor>r\<rfloor>) = int_str \<lfloor>r\<rfloor>" using r(3) by (intro num_str_int) simp
  with JNum r cu show ?thesis
    by (intro that [of c u]) (auto simp: json_ws_def is_dec_def)
next
  case (JBool b)
  then show ?thesis using that by (cases b) (auto simp: json_ws_def)
next
  case (JStr x)
  have "char_of (34 :: nat) \<noteq> CHR '']''" "char_of (34 :: nat) \<noteq> CHR ''}''" "\<not> json_ws (char_of (34 :: nat))"
    by (simp_all add: char_of_eq_iff json_ws_def)
  with JStr show ?thesis
    by (intro that [of "char_of (34 :: nat)" "concat (map esc_char x) @ [char_of (34 :: nat)]"])
       (simp_all add: quote_def)
qed (use assms that in \<open>auto simp: json_ws_def\<close>)

lemma skip_ws_id: "\<not> json_ws c \<Longrightarrow> skip_ws (c # u) = c # u"
  by (simp add: skip_ws_def)

lemma skip_ws_punct [simp]:
  "skip_ws (CHR '','' # u) = CHR '','' # u" "skip_ws (CHR '']'' # u) = CHR '']'' # u"
  "skip_ws (CHR ''}'' # u) = CHR ''}'' # u" "skip_ws (CHR '':'' # u) = CHR '':'' # u"
  "skip_ws (CHR ''['' # u) = CHR ''['' # u" "skip_ws (CHR ''{'' # u) = CHR ''{'' # u"
  "skip_ws (char_of (34 :: nat) # u) = char_of (34 :: nat) # u" "skip_ws [] = []"
  by (simp_all add: skip_ws_def json_ws_def)

lemma obj_put_new: "k \<notin> fst ` set acc \<Longrightarrow> obj_put k v acc = acc @ [(k, v)]"
  by (induction acc) auto

lemma obj_of_distinct: "distinct (map fst kvs) \<Longrightarrow> obj_of kvs = kvs"
proof -
  have "distinct (map fst (acc @ kvs)) \<Longrightarrow> fold (\<lambda>(k, v). obj_put k v) kvs acc = acc @ kvs" for acc
    by (induction kvs arbitrary: acc) (auto simp: obj_put_new)
  from this [of "[]"] show "distinct (map fst kvs) \<Longrightarrow> obj_of kvs = kvs" by (simp add: obj_of_def)
qed

lemma parse_value_num:
  assumes "delim r" "\<bar>i\<bar> < 2 ^ 53"
  shows "parse_value (Suc n) (int_str i @ r) = Some (JInt i, r)"
proof -
  obtain c u where cu: "int_str i = c # u" "is_dec c \<or> c = CHR ''-''" by (rule int_str_start)
  then have "\<not> json_ws c" "code_unit c \<noteq> 34" "c \<noteq> CHR ''[''" "c \<noteq> CHR ''{''"
    "c \<noteq> CHR ''n''" "c \<noteq> CHR ''t''" "c \<noteq> CHR ''f''"
    by (auto simp: json_ws_def is_dec_def)
  with parse_num_int [OF assms] cu(1) show ?thesis by (simp add: skip_ws_id)
qed

lemma parse_literals:
  "parse_value (Suc n) (''null'' @ r) = Some (JNull, r)"
  "parse_value (Suc n) (''true'' @ r) = Some (JBool True, r)"
  "parse_value (Suc n) (''false'' @ r) = Some (JBool False, r)"
  by (simp_all add: skip_ws_id json_ws_def)

lemma parse_value_str: "parse_value (Suc n) (quote s @ r) = Some (JStr s, r)"
  by (simp add: quote_def parse_str_quote)

lemma join_arr_texts:
  "plain v \<Longrightarrow> stringify v = Some t \<Longrightarrow>
     join '','' (arr_texts (v # vs)) = (if vs = [] then t else t @ '','' @ join '','' (arr_texts vs))"
  by (cases vs) simp_all

lemma join_obj_texts:
  "plain_obj ((k, v) # kvs) \<Longrightarrow> stringify v = Some t \<Longrightarrow>
     join '','' (obj_texts ((k, v) # kvs)) =
       (if kvs = [] then quote k @ '':'' @ t else quote k @ '':'' @ t @ '','' @ join '','' (obj_texts kvs))"
  by (cases kvs) (auto elim!: plain_text)

lemma parse_stringified:
  "plain v \<Longrightarrow> stringify v = Some t \<Longrightarrow> delim r \<Longrightarrow> 2 * length t + 1 \<le> n \<Longrightarrow>
     parse_value n (t @ r) = Some (v, r)"
  "plain_arr xs \<Longrightarrow> xs \<noteq> [] \<Longrightarrow> 2 * length (join '','' (arr_texts xs)) + 2 \<le> n \<Longrightarrow>
     parse_elems n (join '','' (arr_texts xs) @ '']'' @ r) = Some (xs, r)"
  "plain_obj kvs \<Longrightarrow> kvs \<noteq> [] \<Longrightarrow> 2 * length (join '','' (obj_texts kvs)) + 2 \<le> n \<Longrightarrow>
     parse_members n (join '','' (obj_texts kvs) @ ''}'' @ r) = Some (kvs, r)"
proof (induction v and xs and kvs arbitrary: t n r and n r and n r rule: plain_plain_arr_plain_obj.induct)
  case (4 m)
  then obtain q where q: "m = Fin q" "q = of_int \<lfloor>q\<rfloor>" "\<bar>\<lfloor>q\<rfloor>\<bar> < 2 ^ 53"
    by (auto split: js_number.splits)
  then have "t = int_str \<lfloor>q\<rfloor>"
    using 4(2) num_str_int [of "\<lfloor>q\<rfloor>"] by simp
  with 4 q show ?case by (cases n) (simp_all add: parse_value_num [simplified])
next
  case (6 xs)
  then obtain k where n: "n = Suc k" by (cases n) auto
  show ?case
  proof (cases xs)
    case Nil
    with 6 have "t = ''[]''" by simp
    with Nil n show ?thesis by simp
  next
    case (Cons v vs)
    with 6 obtain c u where cu: "stringify v = Some (c # u)" "\<not> json_ws c" "c \<noteq> CHR '']''"
      by (auto elim!: plain_text)
    with Cons 6 have "parse_elems k (join '','' (arr_texts xs) @ '']'' @ r) = Some (xs, r)"
      by (intro 6(1)) (auto simp: n)
    moreover have "\<exists>w. join '','' (arr_texts xs) = c # w"
      using Cons cu by (cases vs) simp_all
    ultimately show ?thesis
      using 6 cu n by (auto simp: skip_ws_id)
  qed
next
  case (7 kvs)
  then obtain k where n: "n = Suc k" by (cases n) auto
  show ?case
  proof (cases kvs)
    case Nil
    with 7 have "t = ''{}''" by simp
    with Nil n show ?thesis by simp
  next
    case (Cons kv rest)
    obtain a v where kv: "kv = (a, v)" by force
    from Cons 7 have "parse_members k (join '','' (obj_texts kvs) @ ''}'' @ r) = Some (kvs, r)"
      by (intro 7(1)) (auto simp: n)
    moreover obtain t' where "stringify v = Some t'"
      using 7 Cons kv by (auto elim!: plain_text)
    then have "\<exists>w. join '','' (obj_texts kvs) = char_of (34 :: nat) # w"
      using Cons kv by (cases "obj_texts rest") (simp_all add: quote_def)
    ultimately show ?thesis
      using 7 n by (auto simp: obj_of_distinct char_of_eq_iff)
  qed
next
  case (9 v vs)
  then obtain k where n: "n = Suc k" by (cases n) auto
  from 9 obtain t where t: "stringify v = Some t" by (auto elim!: plain_text)
  have j: "join '','' (arr_texts (v # vs)) = (if vs = [] then t else t @ '','' @ join '','' (arr_texts vs))"
    using 9 t by (intro join_arr_texts) auto
  show ?case
  proof (cases "vs = []")
    case True
    then have "parse_value k (t @ CHR '']'' # r) = Some (v, CHR '']'' # r)"
      using 9 j n t by (intro 9(1)) auto
    with True j n show ?thesis by simp
  next
    case False
    let ?w = "join '','' (arr_texts vs) @ CHR '']'' # r"
    have "parse_value k (t @ CHR '','' # ?w) = Some (v, CHR '','' # ?w)"
      using 9 j n t False by (intro 9(1)) auto
    moreover have "parse_elems k ?w = Some (vs, r)"
      using 9(2) [of k r] 9 j n False by auto
    ultimately show ?thesis using False j n by simp
  qed
next
  case (11 a v kvs)
  then obtain k where n: "n = Suc k" by (cases n) auto
  from 11 obtain t where t: "stringify v = Some t" by (auto elim!: plain_text)
  have j: "join '','' (obj_texts ((a, v) # kvs)) =
      (if kvs = [] then quote a @ '':'' @ t else quote a @ '':'' @ t @ '','' @ join '','' (obj_texts kvs))"
    using 11 t by (intro join_obj_texts) auto
  show ?case
  proof (cases "kvs = []")
    case True
    then have "parse_value k (t @ CHR ''}'' # r) = Some (v, CHR ''}'' # r)"
      using 11 j n t by (intro 11(1)) auto
    with True j n show ?thesis by (simp add: quote_def parse_str_quote)
  next
    case False
    let ?w = "join '','' (obj_texts kvs) @ CHR ''}'' # r"
    have "parse_value k (t @ CHR '','' # ?w) = Some (v, CHR '','' # ?w)"
      using 11 j n t False by (intro 11(1)) auto
    moreover have "parse_members k ?w = Some (kvs, r)"
      using 11(2) [of k r] 11 j n False by auto
    ultimately show ?thesis using False j n by (simp add: quote_def parse_str_quote)
  qed
next
  case 2
  then obtain k where "n = Suc k" by (cases n) auto
  with 2 parse_literals(1) [of k r] show ?case by (auto simp del: parse_value.simps)
next
  case (3 b)
  then obtain k where "n = Suc k" by (cases n) auto
  with 3 parse_literals(2,3) [of k r] show ?case by (cases b) (auto simp del: parse_value.simps)
next
  case (5 x)
  then obtain k where "n = Suc k" by (cases n) auto
  with 5 parse_value_str [of k x r] show ?case by (auto simp del: parse_value.simps)
qed simp_all

lemma JSON_parse_stringify:
  assumes "plain v" and "stringify v = Some t"
  shows "JSON_parse t = Inr v"
  using parse_stringified(1) [OF assms, of "[]" "2 * length t + 2"]
  by (simp add: JSON_parse_def del: parse_value.simps)

lemma stringify_inj: "plain v \<Longrightarrow> plain w \<Longrightarrow> stringify v = stringify w \<Longrightarrow> v = w"
  by (metis JSON_parse_stringify plain_text sum.inject(2))

end
