(* ===== verification/Wallet_Types.thy ===== *)
theory Wallet_Types
  imports Js_Value
begin

text \<open>
  The data types of \<^verbatim>\<open>src/packages/sprax-wallet-core/src/types.ts\<close>.  Every interface is a record
  whose fields keep the source's names behind a short prefix; an optional field is an
  \<open>option\<close>; a \<^verbatim>\<open>number\<close> that counts (index, gas, height, port) is an \<open>int\<close>; a field that the sources
  fill from a response without validating it is a \<open>jsval\<close>.
\<close>

datatype KeyAlgorithm = Ed25519 | Secp256k1

fun KeyAlgorithm_value :: "KeyAlgorithm \<Rightarrow> string" where
  "KeyAlgorithm_value Ed25519 = ''Ed25519''"
| "KeyAlgorithm_value Secp256k1 = ''Secp256k1''"

record Account =
  acc_index :: int
  acc_name :: string
  acc_addressBech32 :: string
  acc_addressHex :: string
  acc_publicKeyHex :: string
  acc_algorithm :: KeyAlgorithm
  acc_path :: string

record FiatEstimates =
  fe_usd :: string
  fe_inr :: string
  fe_eur :: string
  fe_jpy :: string

record Balance =
  bal_atto :: jsval
  bal_sprx :: string
  bal_fiatEstimates :: FiatEstimates

record NetworkConfig =
  net_id :: string
  net_name :: string
  net_chainId :: string
  net_rpcUrl :: string
  net_p2pPort :: int
  net_explorerUrl :: "string option"
  net_isTestnet :: bool

record TxFee =
  fee_amountAtto :: string
  fee_gasLimit :: int

record SendTxRequest =
  req_fromAddress :: string
  req_toAddress :: string
  req_amountSprx :: string
  req_nonce :: jsval
  req_fee :: "TxFee option"
  req_memo :: "string option"
  req_timeoutHeight :: "int option"

record TxMessage =
  tm_type :: string
  tm_to :: string
  tm_amount :: string

record SignedFee =
  sf_amount :: string
  sf_gas_limit :: int

record SignedBody =
  sb_chainId :: string
  sb_sender :: string
  sb_nonce :: jsval
  sb_messages :: "TxMessage list"
  sb_fee :: SignedFee
  sb_memo :: string
  sb_timeout_height :: int

record SignedTransaction =
  st_body :: SignedBody
  st_keyType :: string
  st_publicKey :: string
  st_signature :: string

record TxReceipt =
  rc_txHash :: jsval
  rc_blockHeight :: jsval
  rc_success :: jsval
  rc_gasUsed :: jsval
  rc_logs :: jsval

datatype Direction = Inbound | Outbound

datatype HistoryStatus = Confirmed | Pending | Failed

record TxHistoryItem =
  hi_txHash :: string
  hi_direction :: Direction
  hi_counterparty :: string
  hi_amountSprx :: string
  hi_timestampUnixSecs :: int
  hi_status :: HistoryStatus
  hi_blockHeight :: "int option"
  hi_feePaidSprx :: string

record EncryptedVault =
  ev_version :: int
  ev_cipherTextHex :: string
  ev_saltHex :: string
  ev_ivHex :: string
  ev_kdfIterations :: int
  ev_accounts :: "Account list"

end
