(* ===== verification/Codec.thy ===== *)
theory Codec
  imports Js_Number
begin

text \<open>
  The interface shared by every textual encoding of the wallet SDK: an encoder that may refuse
  its argument, a decoder that may throw, and the domain on which the two are inverse.  The
  lemmas are proved once here; \<^verbatim>\<open>Address\<close>, \<^verbatim>\<open>Amount\<close> and \<^verbatim>\<open>Vault\<close> interpret the locale on the
  encodings of the sources.
\<close>

locale codec =
  fixes enc :: "'a \<Rightarrow> 'b res"
    and dec :: "'b \<Rightarrow> 'a res"
    and in_dom :: "'a \<Rightarrow> bool"
  assumes enc_total: "in_dom x \<Longrightarrow> \<exists>s. enc x = Inr s"
    and dec_enc: "in_dom x \<Longrightarrow> enc x = Inr s \<Longrightarrow> dec s = Inr x"
begin

lemma round_trip: "in_dom x \<Longrightarrow> ebind (enc x) dec = Inr x"
  using enc_total dec_enc by fastforce

lemma enc_inj: "in_dom x \<Longrightarrow> in_dom y \<Longrightarrow> enc x = enc y \<Longrightarrow> x = y"
  using enc_total dec_enc by (metis sum.inject(2))

lemma enc_accepted: "in_dom x \<Longrightarrow> enc x = Inr s \<Longrightarrow> is_ok (dec s)"
  by (simp add: dec_enc)

lemma enc_eq_iff: "in_dom x \<Longrightarrow> in_dom y \<Longrightarrow> enc x = enc y \<longleftrightarrow> x = y"
  using enc_inj by blast

end

end
