(* ===== verification/Address.thy ===== *)
theory Address
  imports Codec
begin

text \<open>
  \<^verbatim>\<open>src/packages/sprax-wallet-core/src/address.ts\<close>: the class \<^verbatim>\<open>AddressUtil\<close>.  The npm package
  \<^verbatim>\<open>bech32\<close> is not part of the repository: its four functions are the fields of a record that the
  definitions take as an argument, and \<open>bech32_ok\<close> states what BIP-173 documents of them.
\<close>

record bech32_lib =
  b32_toWords :: "bytes \<Rightarrow> nat list"
  b32_encode :: "string \<Rightarrow> nat list \<Rightarrow> string res"
  b32_decode :: "string \<Rightarrow> (string \<times> nat list) res"
  b32_fromWords :: "nat list \<Rightarrow> nat list res"

definition SPRAX_HRP :: string where
  "SPRAX_HRP = ''sprax''"

definition length_error :: "bytes \<Rightarrow> js_error" where
  "length_error rawBytes =
     Error (''Address must be exactly 20 bytes, got '' @ nat_str (length rawBytes))"

definition toBech32 :: "bech32_lib \<Rightarrow> bytes \<Rightarrow> string res" where
  "toBech32 lib rawBytes =
     (if length rawBytes \<noteq> 20 then Inl (length_error rawBytes)
      else b32_encode lib SPRAX_HRP (b32_toWords lib rawBytes))"

definition toHex :: "bytes \<Rightarrow> string res" where
  "toHex rawBytes =
     (if length rawBytes \<noteq> 20 then Inl (length_error rawBytes)
      else Inr (''0x'' @ bytes_hex rawBytes))"

definition decode_bech32 :: "bech32_lib \<Rightarrow> string \<Rightarrow> bytes res" where
  "decode_bech32 lib clean =
     ebind (b32_decode lib clean) (\<lambda>(pre, words).
       if pre \<noteq> SPRAX_HRP
       then Inl (Error (''Invalid Bech32 prefix: expected '' @ [char_of (39 :: nat)] @ SPRAX_HRP
              @ [char_of (39 :: nat)] @ '', got '' @ [char_of (39 :: nat)] @ pre @ [char_of (39 :: nat)]))
       else ebind (b32_fromWords lib words) (\<lambda>bs.
         if length bs \<noteq> 20
         then Inl (Error (''Invalid address payload length: expected 20 bytes, got ''
                @ nat_str (length bs)))
         else Inr (map of_nat bs)))"

definition parseToBytes :: "bech32_lib \<Rightarrow> string \<Rightarrow> bytes res" where
  "parseToBytes lib addressStr =
     (let clean = trim addressStr in
      if startsWith clean ''0x'' \<or> startsWith clean ''0X''
      then (let hex = drop 2 clean in
            if length hex \<noteq> 40 \<or> \<not> hex_only 40 hex
            then Inl (Error ''Invalid 0x hex address: must be 40 hexadecimal characters'')
            else Inr (hex_bytes hex))
      else try_catch (decode_bech32 lib clean)
             (\<lambda>e. Inl (Error (''Invalid address format: '' @ message e))))"

definition isValidAddress :: "bech32_lib \<Rightarrow> string \<Rightarrow> bool" where
  "isValidAddress lib addressStr = is_ok (parseToBytes lib addressStr)"

text \<open>
  What BIP-173 documents: encoding twenty bytes under a human-readable part succeeds, the text
  is the part, the separator 1 and characters that are no white space, and decoding recovers
  the part, the words and the bytes.
\<close>

definition bech32_ok :: "bech32_lib \<Rightarrow> bool" where
  "bech32_ok lib \<longleftrightarrow>
     (\<forall>bs. length bs = 20 \<longrightarrow>
        b32_fromWords lib (b32_toWords lib bs) = Inr (map unat bs) \<and>
        (\<exists>r. b32_encode lib SPRAX_HRP (b32_toWords lib bs) = Inr (SPRAX_HRP @ ''1'' @ r) \<and>
             list_all (\<lambda>c. \<not> js_ws c) r \<and>
             b32_decode lib (SPRAX_HRP @ ''1'' @ r) = Inr (SPRAX_HRP, b32_toWords lib bs)))"

section \<open>Hexadecimal addresses\<close>

lemma toHex_Inr_iff: "toHex bs = Inr s \<longleftrightarrow> length bs = 20 \<and> s = ''0x'' @ bytes_hex bs"
  by (auto simp: toHex_def)

lemma hex_text_no_ws:
  assumes "list_all is_hex h" and "c = CHR ''x'' \<or> c = CHR ''X''"
  shows "trim (CHR ''0'' # c # h) = CHR ''0'' # c # h"
proof (rule trim_no_ws)
  have "\<not> js_ws (CHR ''0'')" "\<not> js_ws c"
    using assms(2) by (auto simp: js_ws_def)
  with assms(1) show "\<forall>d \<in> set (CHR ''0'' # c # h). \<not> js_ws d"
    by (auto simp: list_all_iff dest: hex_not_ws)
qed

lemma parse_hex_text:
  assumes "hex_only 40 h"
  shows "parseToBytes lib (''0x'' @ h) = Inr (hex_bytes h)"
    and "parseToBytes lib (''0X'' @ h) = Inr (hex_bytes h)"
proof -
  from assms have "list_all is_hex h" "length h = 40"
    by (simp_all add: hex_only_def)
  with assms hex_text_no_ws [of h "CHR ''x''"] hex_text_no_ws [of h "CHR ''X''"]
  show "parseToBytes lib (''0x'' @ h) = Inr (hex_bytes h)"
    and "parseToBytes lib (''0X'' @ h) = Inr (hex_bytes h)"
    by (simp_all add: parseToBytes_def Let_def)
qed

lemma parse_toHex:
  assumes "length bs = 20" and "toHex bs = Inr s"
  shows "parseToBytes lib s = Inr bs"
proof -
  have "hex_only 40 (bytes_hex bs)"
    using assms(1) by (simp add: hex_only_def bytes_hex_is_hex)
  with assms show ?thesis
    using parse_hex_text(1) [of "bytes_hex bs" lib] by (simp add: toHex_Inr_iff)
qed

interpretation hexa: codec toHex "parseToBytes lib" "\<lambda>bs. length bs = 20" for lib
  by unfold_locales (auto simp: toHex_Inr_iff parse_toHex)

section \<open>Bech32 addresses\<close>

lemma bech32_codec:
  assumes "bech32_ok lib"
  shows "codec (toBech32 lib) (parseToBytes lib) (\<lambda>bs. length bs = 20)"
proof
  fix bs :: bytes
  assume len: "length bs = 20"
  with assms obtain r where
    enc: "b32_encode lib SPRAX_HRP (b32_toWords lib bs) = Inr (SPRAX_HRP @ ''1'' @ r)"
    and ws: "list_all (\<lambda>c. \<not> js_ws c) r"
    and dec: "b32_decode lib (SPRAX_HRP @ ''1'' @ r) = Inr (SPRAX_HRP, b32_toWords lib bs)"
    and fw: "b32_fromWords lib (b32_toWords lib bs) = Inr (map unat bs)"
    by (auto simp: bech32_ok_def)
  show "\<exists>s. toBech32 lib bs = Inr s"
    using len enc by (simp add: toBech32_def)
  fix s
  assume "toBech32 lib bs = Inr s"
  then have s: "s = SPRAX_HRP @ ''1'' @ r"
    using len enc by (simp add: toBech32_def)
  have "trim s = s"
    using ws by (intro trim_no_ws) (auto simp: s SPRAX_HRP_def list_all_iff js_ws_def)
  moreover have "map (of_nat \<circ> unat) bs = bs"
    by (rule map_idI) simp
  ultimately show "parseToBytes lib s = Inr bs"
    using len dec fw by (simp add: parseToBytes_def decode_bech32_def s SPRAX_HRP_def)
qed

section \<open>What a successful parse yields\<close>

lemma length_chunks2_hex: "list_all is_hex h \<Longrightarrow> length (chunks2 h) = (length h + 1) div 2"
  by (induction h rule: chunks2.induct) (auto dest: hex_not_line_end)

lemma parse_length:
  assumes "parseToBytes lib s = Inr bs"
  shows "length bs = 20"
proof -
  let ?c = "trim s"
  show ?thesis
  proof (cases "startsWith ?c ''0x'' \<or> startsWith ?c ''0X''")
    case True
    with assms have "hex_only 40 (drop 2 ?c)" and "bs = hex_bytes (drop 2 ?c)"
      by (auto simp: parseToBytes_def Let_def split: if_splits)
    then show ?thesis
      by (simp add: hex_bytes_def hex_only_def length_chunks2_hex del: length_drop)
  next
    case False
    with assms have "decode_bech32 lib ?c = Inr bs"
      by (cases "decode_bech32 lib ?c") (auto simp: parseToBytes_def Let_def)
    then show ?thesis
      by (auto simp: decode_bech32_def err_simps split: if_splits prod.splits)
  qed
qed

lemma valid_address_canonical:
  assumes "isValidAddress lib s"
  obtains bs h where "parseToBytes lib s = Inr bs" "toHex bs = Inr h" "length bs = 20"
  using assms parse_length by (auto simp: isValidAddress_def is_ok_iff toHex_Inr_iff)

lemma lower_digit: "is_hex c \<Longrightarrow> digit_val c = Some d \<Longrightarrow> digit_of d = lower_char c"
  by (auto simp: digit_val_def is_hex_def is_dec_def lower_char_def Let_def digit_of_def
      char_of_eq_iff take_bit_eq_mod split: if_splits)

lemma hex_digit_val: "is_hex c \<Longrightarrow> \<exists>d < 16. digit_val c = Some d"
  by (auto simp: digit_val_def is_hex_def is_dec_def Let_def)

lemma byte_hex_parse:
  assumes "is_hex a" "is_hex b"
  shows "byte_hex (to_uint8 (parseInt16 [a, b])) = [lower_char a, lower_char b]"
proof -
  obtain m n where mn: "digit_val a = Some m" "m < 16" "digit_val b = Some n" "n < 16"
    using assms hex_digit_val by blast
  moreover have "\<not> js_ws a" "a \<noteq> CHR ''-''" "a \<noteq> CHR ''+''" "b \<noteq> CHR ''x''" "b \<noteq> CHR ''X''"
    using assms by (auto dest: hex_not_ws hex_not_special)
  ultimately have "parseInt16 [a, b] = Some (int (m * 16 + n))"
    by (simp add: parseInt16_def Let_def radix_val_def)
  then have "to_uint8 (parseInt16 [a, b]) = of_nat (m * 16 + n)"
    by (simp add: to_uint8_def del: of_nat_add of_nat_mult)
  moreover have "unat (of_nat (m * 16 + n) :: byte) = m * 16 + n"
    by (rule unat_of_nat_byte) (use mn in linarith)
  ultimately show ?thesis
    using mn assms by (simp add: byte_hex_two lower_digit del: of_nat_add of_nat_mult)
qed

lemma bytes_hex_parse:
  "list_all is_hex h \<Longrightarrow> even (length h) \<Longrightarrow> bytes_hex (hex_bytes h) = toLowerCase h"
  by (induction h rule: chunks2.induct)
     (auto simp: hex_bytes_def byte_hex_parse dest: hex_not_line_end)

lemma hex_text_normalised:
  assumes "hex_only 40 h"
  shows "ebind (parseToBytes lib (''0x'' @ h)) toHex = Inr (''0x'' @ toLowerCase h)"
proof -
  from assms have "list_all is_hex h" "length h = 40" by (simp_all add: hex_only_def)
  moreover from this have "length (hex_bytes h) = 20"
    by (simp add: hex_bytes_def length_chunks2_hex)
  ultimately show ?thesis
    using parse_hex_text(1) [OF assms, of lib] by (simp add: toHex_def bytes_hex_parse)
qed

lemma valid_hex_text: "hex_only 40 h \<Longrightarrow> isValidAddress lib (''0x'' @ h)"
  using parse_hex_text(1) [of h lib] by (simp add: isValidAddress_def)

text \<open>
  A concrete library with the documented behaviour, for evaluating the definitions: the data part
  is the hexadecimal text of the words instead of the checksummed base 32 of BIP-173.
\<close>

definition hex_bech32 :: bech32_lib where
  "hex_bech32 =
     \<lparr> b32_toWords = map unat,
       b32_encode = (\<lambda>hrp ws. Inr (hrp @ ''1'' @ bytes_hex (map of_nat ws))),
       b32_decode = (\<lambda>s. if startsWith s ''sprax1''
                         then Inr (''sprax'', map unat (hex_bytes (drop 6 s)))
                         else Inl (Error (s @ '' has no matching prefix''))),
       b32_fromWords = Inr \<rparr>"

lemma map_of_nat_unat [simp]: "map (of_nat \<circ> unat) bs = (bs :: bytes)"
  by (rule map_idI) simp

lemma hex_bech32_ok: "bech32_ok hex_bech32"
  using bytes_hex_is_hex hex_not_ws
  by (auto simp: bech32_ok_def hex_bech32_def SPRAX_HRP_def list_all_iff)

section \<open>Properties\<close>

text \<open>C7: The hexadecimal and the Bech32 text of twenty address bytes both exist and both parse
  back to the same bytes, for every Bech32 library with the documented round trip.\<close>

theorem address_forms_round_trip:
  assumes "bech32_ok lib" and "length bs = 20"
  shows "ebind (toHex bs) (parseToBytes lib) = Inr bs \<and>
         ebind (toBech32 lib bs) (parseToBytes lib) = Inr bs"
  using hexa.round_trip [OF assms(2)] codec.round_trip [OF bech32_codec [OF assms(1)] assms(2)]
  by simp

theorem address_forms_round_trip_witness:
  "ebind (toHex (replicate 20 255)) (parseToBytes hex_bech32) = Inr (replicate 20 255) \<and>
   ebind (toBech32 hex_bech32 (replicate 20 255)) (parseToBytes hex_bech32) = Inr (replicate 20 255)"
  using address_forms_round_trip [OF hex_bech32_ok, of "replicate 20 255"] by simp

text \<open>A hexadecimal address is accepted with letters of either case and normalised to lower
  case; whatever text is accepted denotes exactly twenty bytes.\<close>

theorem address_normalised:
  assumes "hex_only 40 h"
  shows "ebind (parseToBytes lib (''0x'' @ h)) toHex = Inr (''0x'' @ toLowerCase h) \<and>
    (\<forall>s bs. parseToBytes lib s = Inr bs \<longrightarrow> length bs = 20)"
  using hex_text_normalised [OF assms] parse_length by blast

theorem address_normalised_witness:
  "ebind (parseToBytes hex_bech32 (''0x'' @ replicate 40 (CHR ''A''))) toHex =
     Inr (''0x'' @ toLowerCase (replicate 40 (CHR ''A'')))"
  using address_normalised [of "replicate 40 (CHR ''A'')" hex_bech32]
  by (simp add: hex_only_def is_hex_def list_all_iff)

end
