(* ===== verification/Amount.thy ===== *)
theory Amount
  imports Codec
begin

text \<open>
  The unit conversions of \<^verbatim>\<open>TransactionBuilder\<close> in
  \<^verbatim>\<open>src/packages/sprax-wallet-core/src/transaction.ts\<close>: decimal SPRX text to integer atto-SPRX
  (\<open>sprxToAtto\<close>) and back (\<open>attoToSprx\<close>), with the BigInt errors of the first.
\<close>

definition ATTO_PER_SPRX :: int where
  "ATTO_PER_SPRX = 10 ^ 18"

definition sprxToAtto :: "string \<Rightarrow> int res" where
  "sprxToAtto sprxStr =
     (let parts = split_on (CHR ''.'') (trim sprxStr) in
      if length parts > 2
      then Inl (Error (''Invalid SPRX decimal amount format: '' @ sprxStr))
      else ebind (BigInt (if parts ! 0 = [] then ''0'' else parts ! 0)) (\<lambda>w.
        let whole = w * ATTO_PER_SPRX in
        if length parts = 2
        then (let fracStr = slice (padEnd 18 (CHR ''0'') (parts ! 1)) 0 18 in
              ebind (BigInt fracStr) (\<lambda>fraction. Inr (whole + fraction)))
        else Inr (whole + 0)))"

text \<open>\<^verbatim>\<open>s.replace(/0+$/, "")\<close>.\<close>

definition strip_zeros :: "string \<Rightarrow> string" where
  "strip_zeros s = rev (dropWhile (\<lambda>c. c = CHR ''0'') (rev s))"

definition attoToSprx :: "int \<Rightarrow> string" where
  "attoToSprx atto =
     (let whole = big_div atto ATTO_PER_SPRX;
          rem = big_rem atto ATTO_PER_SPRX
      in if rem = 0 then int_str whole
         else (let remStr = strip_zeros (padStart 18 (CHR ''0'') (int_str rem))
               in int_str whole @ ''.'' @ remStr))"

section \<open>Decimal texts\<close>

lemma slice_0_18: "slice s 0 18 = take 18 s"
  using slice_nat [of s 0 18] by simp

lemma dec_neq_dot: "is_dec c \<Longrightarrow> c \<noteq> CHR ''.''"
  by (auto simp: is_dec_def)

lemma trim_decimal:
  assumes "list_all is_dec w" "list_all is_dec f"
  shows "trim w = w" and "trim (w @ ''.'' @ f) = w @ ''.'' @ f"
proof -
  have "\<not> js_ws (CHR ''.'')" by (simp add: js_ws_def)
  moreover have "\<not> js_ws c" if "is_dec c" for c
    using that by (auto simp: js_ws_def is_dec_def)
  ultimately show "trim w = w" and "trim (w @ ''.'' @ f) = w @ ''.'' @ f"
    using assms by (auto intro!: trim_no_ws simp: list_all_iff)
qed

lemma split_decimal:
  assumes "list_all is_dec w" "list_all is_dec f"
  shows "split_on (CHR ''.'') w = [w]"
    and "split_on (CHR ''.'') (w @ ''.'' @ f) = [w, f]"
proof -
  from assms have "CHR ''.'' \<notin> set w" "CHR ''.'' \<notin> set f"
    by (auto simp: list_all_iff dest: dec_neq_dot)
  then show "split_on (CHR ''.'') w = [w]"
    and "split_on (CHR ''.'') (w @ ''.'' @ f) = [w, f]"
    by (simp_all add: split_on_none split_on_one)
qed

definition dec_value :: "string \<Rightarrow> nat" where
  "dec_value s = (case radix_acc 10 0 s of Some n \<Rightarrow> n | None \<Rightarrow> 0)"

lemma radix_acc_dec_value:
  assumes "list_all is_dec s"
  shows "radix_acc 10 a s = Some (a * 10 ^ length s + dec_value s)"
proof -
  have "radix_acc 10 a s = Some (a * 10 ^ length s + m) \<and> radix_acc 10 0 s = Some m"
    if "radix_acc 10 0 s = Some m" for m
    using assms that
  proof (induction s arbitrary: a m rule: rev_induct)
    case (snoc c s)
    then have c: "digit_val c = Some (code_unit c - 48)" "code_unit c - 48 < 10"
      and s: "list_all is_dec s"
      by (auto simp: digit_val_def is_dec_def Let_def list_all_iff)
    from s obtain k where k: "radix_acc 10 0 s = Some k"
      using radix_acc_dec by blast
    with snoc.IH s have "radix_acc 10 a s = Some (a * 10 ^ length s + k)" by blast
    with snoc.prems k c show ?case by (auto simp: radix_acc_append algebra_simps)
  qed simp
  moreover obtain m where "radix_acc 10 0 s = Some m"
    using radix_acc_dec [OF assms] by blast
  ultimately show ?thesis by (auto simp: dec_value_def)
qed

lemma BigInt_dec_value: "list_all is_dec s \<Longrightarrow> s \<noteq> [] \<Longrightarrow> BigInt s = Inr (int (dec_value s))"
  using radix_acc_dec_value [of s 0]
  by (simp add: BigInt_def StringToBigInt_digits digits_only_def radix_val_def)

lemma dec_value_append:
  "list_all is_dec a \<Longrightarrow> list_all is_dec b \<Longrightarrow>
     dec_value (a @ b) = dec_value a * 10 ^ length b + dec_value b"
  using radix_acc_dec_value [of "a @ b" 0] radix_acc_dec_value [of a 0]
    radix_acc_dec_value [of b "dec_value a"]
  by (simp add: radix_acc_append)

lemma dec_value_zeros [simp]: "dec_value (replicate k (CHR ''0'')) = 0"
  by (simp add: dec_value_def)

lemma dec_value_nat_str [simp]: "dec_value (nat_str n) = n"
  by (simp add: dec_value_def radix_acc_str)

lemma dec_value_Nil [simp]: "dec_value [] = 0"
  by (simp add: dec_value_def)

lemma dec_value_lt: "list_all is_dec s \<Longrightarrow> dec_value s < 10 ^ length s"
proof (induction s rule: rev_induct)
  case (snoc c s)
  have "dec_value [c] < 10"
    using snoc.prems by (auto simp: dec_value_def digit_val_def is_dec_def Let_def)
  moreover have "dec_value s + 1 \<le> 10 ^ length s"
    using snoc by simp
  then have "(dec_value s + 1) * 10 \<le> 10 ^ length s * 10" by (rule mult_right_mono) simp
  ultimately show ?case using snoc.prems by (simp add: dec_value_append)
qed simp

lemma list_all_zeros [simp]: "list_all is_dec (replicate k (CHR ''0''))"
  by (simp add: list_all_iff is_dec_def)

lemma take_padEnd_value:
  assumes "list_all is_dec f"
  shows "dec_value (take n (padEnd n (CHR ''0'') f)) = dec_value f * 10 ^ n div 10 ^ length f"
proof (cases "length f \<le> n")
  case True
  then have "dec_value (take n (padEnd n (CHR ''0'') f)) = dec_value f * 10 ^ (n - length f)"
    using assms by (simp add: padEnd_def dec_value_append)
  also have "10 ^ n = 10 ^ (n - length f) * (10 ^ length f :: nat)"
    using True by (simp flip: power_add)
  then have "dec_value f * 10 ^ (n - length f) = dec_value f * 10 ^ n div 10 ^ length f"
    by simp
  finally show ?thesis .
next
  case False
  let ?a = "take n f" and ?b = "drop n f"
  have ab: "list_all is_dec ?a" "list_all is_dec ?b" "f = ?a @ ?b"
    using assms by (auto simp: list_all_iff dest: in_set_takeD in_set_dropD)
  have v: "dec_value f = dec_value ?a * 10 ^ length ?b + dec_value ?b"
    using dec_value_append [OF ab(1,2)] by simp
  have "10 ^ length f = 10 ^ n * (10 ^ length ?b :: nat)"
    using False by (simp flip: power_add)
  then have "dec_value f * 10 ^ n div 10 ^ length f = dec_value f div 10 ^ length ?b"
    by (simp add: div_mult_mult1 mult.commute)
  also have "\<dots> = dec_value ?a"
    using dec_value_lt [OF ab(2)] by (simp add: v div_add1_eq)
  finally show ?thesis using False by (simp add: padEnd_def)
qed

text \<open>The two shapes of a decimal amount: an integer, and an integer with a fraction.\<close>

lemma sprxToAtto_integer:
  assumes "list_all is_dec w"
  shows "sprxToAtto w = Inr (int (dec_value w) * ATTO_PER_SPRX)"
proof (cases "w = []")
  case True
  have "BigInt ''0'' = Inr 0"
    using BigInt_dec_value [of "''0''"] by (simp add: is_dec_def dec_value_def digit_val_def)
  with True show ?thesis by (simp add: sprxToAtto_def)
next
  case False
  with assms show ?thesis
    by (simp add: sprxToAtto_def trim_decimal(1) split_decimal(1) BigInt_dec_value)
qed

lemma sprxToAtto_fraction:
  assumes "list_all is_dec w" "list_all is_dec f"
  shows "sprxToAtto (w @ ''.'' @ f) =
    Inr (int (dec_value w) * ATTO_PER_SPRX + int (dec_value f * 10 ^ 18 div 10 ^ length f))"
proof -
  let ?fr = "take 18 (padEnd 18 (CHR ''0'') f)"
  have "BigInt ''0'' = Inr 0"
    using BigInt_dec_value [of "''0''"] by (simp add: is_dec_def dec_value_def digit_val_def)
  with assms(1) have w: "BigInt (if w = [] then ''0'' else w) = Inr (int (dec_value w))"
    by (simp add: BigInt_dec_value)
  have "list_all is_dec ?fr"
    using assms(2) by (auto simp: padEnd_def list_all_iff is_dec_def dest: in_set_takeD)
  moreover have "?fr \<noteq> []" by (simp add: padEnd_def)
  ultimately have "BigInt ?fr = Inr (int (dec_value f * 10 ^ 18 div 10 ^ length f))"
    using take_padEnd_value [OF assms(2), of 18] BigInt_dec_value [of ?fr] by metis
  with w show ?thesis
    by (simp only: sprxToAtto_def trim_decimal(2) [OF assms] split_decimal(2) [OF assms] slice_0_18
        Let_def nth_Cons_0) (simp split del: if_split)
qed

section \<open>Printing\<close>

lemma strip_zeros_pad: "length s = n \<Longrightarrow> padEnd n (CHR ''0'') (strip_zeros s) = s"
proof (induction s arbitrary: n rule: rev_induct)
  case (snoc c s)
  show ?case
  proof (cases "c = CHR ''0''")
    case True
    let ?t = "strip_zeros s"
    have "length ?t \<le> length s"
      using length_dropWhile_le [of "\<lambda>c. c = CHR ''0''" "rev s"] by (simp add: strip_zeros_def)
    moreover have "s = ?t @ replicate (length s - length ?t) (CHR ''0'')"
      using snoc.IH [OF refl] by (simp add: padEnd_def)
    moreover have "strip_zeros (s @ [c]) = ?t" using True by (simp add: strip_zeros_def)
    ultimately have "strip_zeros (s @ [c]) @ replicate (n - length ?t) (CHR ''0'') = s @ [c]"
      using snoc.prems True
      by (metis Suc_diff_le append_assoc length_append_singleton replicate_Suc replicate_append_same)
    then show ?thesis using True by (simp add: padEnd_def strip_zeros_def)
  next
    case False
    then show ?thesis using snoc.prems by (simp add: padEnd_def strip_zeros_def)
  qed
qed (simp add: strip_zeros_def padEnd_def)

lemma set_strip_zeros: "set (strip_zeros s) \<subseteq> set s"
  by (auto simp: strip_zeros_def dest: set_dropWhileD)

lemma nat_str_length_le:
  assumes "n < 10 ^ k" and "0 < k"
  shows "length (nat_str n) \<le> k"
  using assms
proof (induction k arbitrary: n)
  case (Suc k)
  show ?case
  proof (cases "n < 10")
    case True
    then show ?thesis by (simp add: radix_str.simps [of 10 n])
  next
    case False
    with Suc.prems have "n div 10 < 10 ^ k" "0 < k"
      by (auto simp: less_mult_imp_div_less mult.commute intro: gr0I)
    with Suc.IH have "length (nat_str (n div 10)) \<le> k" by blast
    with False show ?thesis by (simp add: radix_str.simps [of 10 n])
  qed
qed simp

lemma attoToSprx_nat:
  assumes "0 \<le> a"
  shows "attoToSprx a =
    (if a mod ATTO_PER_SPRX = 0 then nat_str (nat (a div ATTO_PER_SPRX))
     else nat_str (nat (a div ATTO_PER_SPRX)) @ ''.''
       @ strip_zeros (padStart 18 (CHR ''0'') (nat_str (nat (a mod ATTO_PER_SPRX)))))"
proof -
  have "0 < ATTO_PER_SPRX" by (simp add: ATTO_PER_SPRX_def)
  moreover from this have "0 \<le> a mod ATTO_PER_SPRX" "0 \<le> a div ATTO_PER_SPRX"
    using assms by (simp_all add: pos_imp_zdiv_nonneg_iff)
  ultimately show ?thesis
    using assms
    by (auto simp: attoToSprx_def big_div_nonneg big_rem_nonneg int_str_def Let_def not_less [symmetric])
qed

lemma sprxToAtto_attoToSprx:
  assumes "0 \<le> a"
  shows "sprxToAtto (attoToSprx a) = Inr a"
proof (cases "a mod ATTO_PER_SPRX = 0")
  case True
  have "0 < ATTO_PER_SPRX" by (simp add: ATTO_PER_SPRX_def)
  with assms have "0 \<le> a div ATTO_PER_SPRX" by (simp add: pos_imp_zdiv_nonneg_iff)
  then show ?thesis
    using True assms div_mult_mod_eq [of a ATTO_PER_SPRX]
    by (simp add: attoToSprx_nat sprxToAtto_integer nat_str_dec)
next
  case False
  let ?q = "nat (a div ATTO_PER_SPRX)" and ?r = "nat (a mod ATTO_PER_SPRX)"
  let ?p = "padStart 18 (CHR ''0'') (nat_str ?r)"
  have pos: "0 < ATTO_PER_SPRX" by (simp add: ATTO_PER_SPRX_def)
  then have q: "int ?q = a div ATTO_PER_SPRX" and r: "int ?r = a mod ATTO_PER_SPRX"
    using assms by (simp_all add: pos_imp_zdiv_nonneg_iff)
  have "int ?r < 10 ^ 18"
    using pos_mod_bound [OF pos, of a] by (simp add: ATTO_PER_SPRX_def r)
  then have "?r < 10 ^ 18" by (simp only: of_nat_less_numeral_power_cancel_iff)
  then have len: "length ?p = 18"
    using nat_str_length_le [of ?r 18] by simp
  have dec: "list_all is_dec ?p"
    by (simp add: padStart_def nat_str_dec)
  have val: "dec_value ?p = ?r"
    by (simp add: padStart_def dec_value_append nat_str_dec)
  let ?f = "strip_zeros ?p"
  have f: "list_all is_dec ?f"
    using dec set_strip_zeros [of ?p] by (auto simp: list_all_iff)
  have "dec_value ?f * 10 ^ 18 div 10 ^ length ?f = dec_value (take 18 (padEnd 18 (CHR ''0'') ?f))"
    using take_padEnd_value [OF f] by simp
  also have "\<dots> = ?r"
    using strip_zeros_pad [OF len] len val by simp
  finally have "sprxToAtto (nat_str ?q @ ''.'' @ ?f) = Inr (int ?q * ATTO_PER_SPRX + int ?r)"
    using sprxToAtto_fraction [OF nat_str_dec f, of ?q] by (simp only: dec_value_nat_str)
  with False assms q r show ?thesis
    by (simp add: attoToSprx_nat)
qed

interpretation amount: codec "\<lambda>a. Inr (attoToSprx a)" sprxToAtto "\<lambda>a. 0 \<le> a"
  by unfold_locales (simp, metis sprxToAtto_attoToSprx sum.inject(2))

section \<open>Properties\<close>

lemma strip_zeros_last: "strip_zeros s \<noteq> [] \<Longrightarrow> last (strip_zeros s) \<noteq> CHR ''0''"
  unfolding strip_zeros_def using hd_dropWhile [of "\<lambda>c. c = CHR ''0''" "rev s"] by (simp add: last_rev)

lemma length_strip_zeros: "length (strip_zeros s) \<le> length s"
  using length_dropWhile_le [of "\<lambda>c. c = CHR ''0''" "rev s"] by (simp add: strip_zeros_def)

text \<open>C4: Printing a non-negative amount of atto-SPRX and parsing the text again gives the amount.\<close>

theorem amount_round_trip:
  assumes "0 \<le> a"
  shows "sprxToAtto (attoToSprx a) = Inr a"
  using assms by (rule sprxToAtto_attoToSprx)

theorem amount_round_trip_witness: "sprxToAtto (attoToSprx 1500000000000000001) = Inr 1500000000000000001"
  using amount_round_trip [of 1500000000000000001] by simp

text \<open>C14: The value of a decimal text with digits \<open>w\<close> before and \<open>f\<close> after the point is exact for up
  to eighteen digits of \<open>f\<close> and truncated beyond.\<close>

theorem decimal_amount_value:
  assumes "list_all is_dec w" and "list_all is_dec f"
  shows "sprxToAtto (w @ ''.'' @ f) =
    Inr (int (dec_value w) * ATTO_PER_SPRX + int (dec_value f * 10 ^ 18 div 10 ^ length f))"
  using assms by (rule sprxToAtto_fraction)

theorem decimal_amount_value_witness: "sprxToAtto (''12'' @ ''.'' @ ''5'') = Inr 12500000000000000000"
  using decimal_amount_value [of "''12''" "''5''"]
  by (simp add: is_dec_def dec_value_def digit_val_def ATTO_PER_SPRX_def)

text \<open>The text of a non-negative amount is canonical: decimal digits, and only if the fraction is
  not zero a point and at most eighteen digits, the last of which is not zero.\<close>

theorem amount_text_canonical:
  assumes "0 \<le> a"
  shows "\<exists>w f. list_all is_dec w \<and> w \<noteq> [] \<and> list_all is_dec f \<and> length f \<le> 18 \<and>
    (f \<noteq> [] \<longrightarrow> last f \<noteq> CHR ''0'') \<and>
    attoToSprx a = w @ (if a mod ATTO_PER_SPRX = 0 then [] else ''.'' @ f)"
proof -
  let ?w = "nat_str (nat (a div ATTO_PER_SPRX))" and ?r = "nat (a mod ATTO_PER_SPRX)"
  let ?p = "padStart 18 (CHR ''0'') (nat_str ?r)"
  have "a mod ATTO_PER_SPRX < 10 ^ 18" by (simp add: ATTO_PER_SPRX_def)
  then have "?r < 10 ^ 18" by (simp add: nat_less_iff)
  then have "length (strip_zeros ?p) \<le> 18"
    using nat_str_length_le [of ?r 18] length_strip_zeros [of ?p] by simp
  moreover have "list_all is_dec (strip_zeros ?p)"
    using set_strip_zeros [of ?p] nat_str_dec [of ?r] by (auto simp: list_all_iff padStart_def is_dec_def)
  ultimately show ?thesis
    using assms strip_zeros_last [of ?p] nat_str_dec radix_str_ne
    by (intro exI [of _ ?w] exI [of _ "strip_zeros ?p"]) (simp add: attoToSprx_nat)
qed

theorem amount_text_canonical_witness:
  "\<exists>w f. list_all is_dec w \<and> w \<noteq> [] \<and> list_all is_dec f \<and> length f \<le> 18 \<and>
    (f \<noteq> [] \<longrightarrow> last f \<noteq> CHR ''0'') \<and>
    attoToSprx 1250000000000000000 = w @ (if 1250000000000000000 mod ATTO_PER_SPRX = 0 then [] else ''.'' @ f)"
  by (rule amount_text_canonical) simp

text \<open>A minus sign does not reach the fraction of an amount: minus one half is read as plus one
  half, and minus one and a half as minus one half.\<close>

theorem negative_amount_misread:
  "sprxToAtto ''-0.5'' = Inr 500000000000000000 \<and> sprxToAtto ''-1.5'' = Inr (- 500000000000000000)"
proof -
  have pad: "padEnd 18 (CHR ''0'') ''5'' = ''500000000000000000''"
    by (simp add: padEnd_def numeral_eq_Suc)
  have "BigInt ''500000000000000000'' = Inr 500000000000000000"
    by (subst BigInt_dec_value) (simp_all add: is_dec_def dec_value_def digit_val_def)
  moreover have "BigInt ''-0'' = Inr 0" "BigInt ''-1'' = Inr (- 1)"
    by (simp_all add: BigInt_def StringToBigInt_def trim_def js_ws_def non_decimal_def radix_val_def digit_val_def)
  moreover have "trim ''-0.5'' = ''-0.5''" "trim ''-1.5'' = ''-1.5''"
    by (simp_all add: trim_def js_ws_def)
  ultimately show ?thesis
    by (simp add: sprxToAtto_def slice_0_18 pad ATTO_PER_SPRX_def)
qed

end
