(* ===== verification/Crypto.thy ===== *)
theory Crypto
  imports Js_Number
begin

text \<open>
  The cryptographic packages the SDK calls (\<^verbatim>\<open>@noble/hashes\<close>, \<^verbatim>\<open>@noble/curves\<close>, \<^verbatim>\<open>bip39\<close> and the
  host's WebCrypto) as a record of functions.  None of them is in the repository: every definition
  that calls one takes the record as an argument, and \<open>crypto_ok\<close> states the documented behaviour
  the theorems rely on.  A function that may throw returns a result.
\<close>

record crypto_lib =
  sha256 :: "bytes \<Rightarrow> bytes"
  hmac_sha512 :: "bytes \<Rightarrow> bytes \<Rightarrow> bytes"
  pbkdf2_sha256 :: "bytes \<Rightarrow> bytes \<Rightarrow> int \<Rightarrow> nat \<Rightarrow> bytes res"
  ed25519_getPublicKey :: "bytes \<Rightarrow> bytes res"
  ed25519_sign :: "bytes \<Rightarrow> bytes \<Rightarrow> bytes res"
  secp256k1_getPublicKey :: "bytes \<Rightarrow> bytes res"
  secp256k1_sign :: "bytes \<Rightarrow> bytes \<Rightarrow> string res"
  bip39_generateMnemonic :: "nat \<Rightarrow> string"
  bip39_validateMnemonic :: "string \<Rightarrow> bool"
  bip39_mnemonicToSeedSync :: "string \<Rightarrow> string \<Rightarrow> bytes"
  subtle_available :: bool
  aes_gcm_encrypt :: "bytes \<Rightarrow> bytes \<Rightarrow> bytes \<Rightarrow> bytes res"
  aes_gcm_decrypt :: "bytes \<Rightarrow> bytes \<Rightarrow> bytes \<Rightarrow> bytes res"

text \<open>
  Documented behaviour: the output lengths of SHA-256, HMAC-SHA512, PBKDF2, Ed25519 keys, compressed
  secp256k1 keys and the BIP-39 seed; PBKDF2 accepts a positive iteration count; AES-GCM with a
  32-byte key and a 12-byte initialisation vector encrypts every message and decrypts what it
  encrypted; every 32 bytes are an Ed25519 secret key.
\<close>

definition crypto_ok :: "crypto_lib \<Rightarrow> bool" where
  "crypto_ok cl \<longleftrightarrow>
     (\<forall>m. length (sha256 cl m) = 32) \<and>
     (\<forall>k m. length (hmac_sha512 cl k m) = 64) \<and>
     (\<forall>p s c d. 0 < c \<longrightarrow> (\<exists>k. pbkdf2_sha256 cl p s c d = Inr k \<and> length k = d)) \<and>
     (\<forall>k. length k = 32 \<longrightarrow> (\<exists>p. ed25519_getPublicKey cl k = Inr p \<and> length p = 32)) \<and>
     (\<forall>m k. length k = 32 \<longrightarrow> (\<exists>s. ed25519_sign cl m k = Inr s \<and> length s = 64)) \<and>
     (\<forall>k p. secp256k1_getPublicKey cl k = Inr p \<longrightarrow> length p = 33) \<and>
     (\<forall>m p. length (bip39_mnemonicToSeedSync cl m p) = 64) \<and>
     (\<forall>k iv m. length k = 32 \<longrightarrow> length iv = 12 \<longrightarrow>
        (\<exists>c. aes_gcm_encrypt cl k iv m = Inr c \<and> aes_gcm_decrypt cl k iv c = Inr m))"

lemma crypto_okD:
  assumes "crypto_ok cl"
  shows "length (sha256 cl m) = 32"
    and "length (hmac_sha512 cl k m) = 64"
    and "length (bip39_mnemonicToSeedSync cl s p) = 64"
    and "secp256k1_getPublicKey cl k = Inr q \<Longrightarrow> length q = 33"
  using assms by (simp_all add: crypto_ok_def)

lemma crypto_ok_pbkdf2:
  assumes "crypto_ok cl" "0 < c"
  obtains k where "pbkdf2_sha256 cl p s c d = Inr k" "length k = d"
  using assms unfolding crypto_ok_def by blast

lemma crypto_ok_ed_key:
  assumes "crypto_ok cl" "length k = 32"
  obtains p where "ed25519_getPublicKey cl k = Inr p" "length p = 32"
  using assms unfolding crypto_ok_def by blast

lemma crypto_ok_ed_sign:
  assumes "crypto_ok cl" "length k = 32"
  obtains s where "ed25519_sign cl m k = Inr s" "length s = 64"
  using assms unfolding crypto_ok_def by blast

lemma crypto_ok_aes:
  assumes "crypto_ok cl" "length k = 32" "length iv = 12"
  obtains c where "aes_gcm_encrypt cl k iv m = Inr c" "aes_gcm_decrypt cl k iv c = Inr m"
  using assms unfolding crypto_ok_def by blast

text \<open>
  A concrete library with the documented lengths and inverses, for evaluating the definitions: hashes
  are truncated inputs, keys are their own public keys, encryption is the identity and every text
  of twelve words is a valid phrase.
\<close>

definition fit :: "nat \<Rightarrow> bytes \<Rightarrow> bytes" where
  "fit n bs = take n (bs @ replicate n 0)"

lemma length_fit [simp]: "length (fit n bs) = n"
  by (simp add: fit_def)

definition plain_crypto :: crypto_lib where
  "plain_crypto =
     \<lparr> sha256 = fit 32,
       hmac_sha512 = (\<lambda>k m. fit 64 m),
       pbkdf2_sha256 = (\<lambda>p s c d. if 0 < c then Inr (fit d p) else Inl (Error ''PBKDF2: iterations (c) should be >= 1'')),
       ed25519_getPublicKey = (\<lambda>k. if length k = 32 then Inr k else Inl (Error ''private key expected 32 bytes'')),
       ed25519_sign = (\<lambda>m k. if length k = 32 then Inr (fit 64 (k @ m)) else Inl (Error ''private key expected 32 bytes'')),
       secp256k1_getPublicKey = (\<lambda>k. Inr (2 # fit 32 k)),
       secp256k1_sign = (\<lambda>m k. Inr (bytes_hex (fit 64 (k @ m)))),
       bip39_generateMnemonic = (\<lambda>strength. if strength = 128 then ''a b c d e f g h i j k l''
                                 else ''a b c d e f g h i j k l a b c d e f g h i j k l''),
       bip39_validateMnemonic = (\<lambda>m. length (split_on (CHR '' '') m) = 12),
       bip39_mnemonicToSeedSync = (\<lambda>m p. fit 64 (TextEncoder_encode (m @ p))),
       subtle_available = True,
       aes_gcm_encrypt = (\<lambda>k iv m. Inr m),
       aes_gcm_decrypt = (\<lambda>k iv c. Inr c) \<rparr>"

lemma plain_crypto_ok: "crypto_ok plain_crypto"
  by (simp add: crypto_ok_def plain_crypto_def)

end
