(* ===== verification/Transaction.thy ===== *)
theory Transaction
  imports Wallet_Types Address Amount Js_Value Crypto
begin

text \<open>
  \<^verbatim>\<open>src/packages/sprax-wallet-core/src/transaction.ts\<close>: the default fee, the canonical sign bytes and
  the offline signature of \<^verbatim>\<open>TransactionBuilder\<close> (its unit conversions are in \<^verbatim>\<open>Amount\<close>).  The lemmas
  say when a transaction can be signed, that the bytes determine the transaction, and that the body
  of a signed transaction determines the bytes that were signed.
\<close>

definition defaultFee :: TxFee where
  "defaultFee = \<lparr> fee_amountAtto = ''500000000000000'', fee_gasLimit = 200000 \<rparr>"

definition fee_or_default :: "SendTxRequest \<Rightarrow> TxFee" where
  "fee_or_default req = (case req_fee req of Some f \<Rightarrow> f | None \<Rightarrow> defaultFee)"

definition memo_or_empty :: "SendTxRequest \<Rightarrow> string" where
  "memo_or_empty req = (case req_memo req of Some m \<Rightarrow> m | None \<Rightarrow> [])"

definition timeout_or_zero :: "SendTxRequest \<Rightarrow> int" where
  "timeout_or_zero req = (case req_timeoutHeight req of Some h \<Rightarrow> h | None \<Rightarrow> 0)"

definition canonical_json :: "SendTxRequest \<Rightarrow> string \<Rightarrow> int \<Rightarrow> string \<Rightarrow> string \<Rightarrow> jsval" where
  "canonical_json req chainId attoAmount to sender =
     JObj [(''chain_id'', JStr chainId),
           (''fee'', JObj [(''amount'', JStr (fee_amountAtto (fee_or_default req))),
                         (''gas_limit'', JInt (fee_gasLimit (fee_or_default req)))]),
           (''memo'', JStr (memo_or_empty req)),
           (''messages'', JArr [JObj [(''Transfer'', JObj [(''amount'', JStr (int_str attoAmount)),
                                                     (''to'', JStr to)])]]),
           (''nonce'', req_nonce req),
           (''sender'', JStr sender),
           (''timeout_height'', JInt (timeout_or_zero req))]"

definition canonicalObj :: "bech32_lib \<Rightarrow> SendTxRequest \<Rightarrow> string \<Rightarrow> int \<Rightarrow> jsval res" where
  "canonicalObj lib req chainId attoAmount =
     ebind (ebind (parseToBytes lib (req_toAddress req)) toHex) (\<lambda>to.
     ebind (ebind (parseToBytes lib (req_fromAddress req)) toHex) (\<lambda>sender.
       Inr (canonical_json req chainId attoAmount to sender)))"

text \<open>The UTF-8 bytes of the JSON text; an undefined text would be the empty array.\<close>

definition json_bytes :: "jsval \<Rightarrow> bytes" where
  "json_bytes v = (case stringify v of Some t \<Rightarrow> TextEncoder_encode t | None \<Rightarrow> [])"

definition getSignBytes :: "bech32_lib \<Rightarrow> SendTxRequest \<Rightarrow> string \<Rightarrow> bytes res" where
  "getSignBytes lib req chainId =
     (if \<not> isValidAddress lib (req_fromAddress req)
      then Inl (Error (''Invalid sender address: '' @ req_fromAddress req))
      else if \<not> isValidAddress lib (req_toAddress req)
      then Inl (Error (''Invalid recipient address: '' @ req_toAddress req))
      else ebind (sprxToAtto (req_amountSprx req)) (\<lambda>attoAmount.
        if attoAmount \<le> 0 then Inl (Error ''Transaction amount must be strictly greater than 0'')
        else ebind (canonicalObj lib req chainId attoAmount) (\<lambda>obj. Inr (json_bytes obj))))"

text \<open>The public key and the signature in hexadecimal, per algorithm.\<close>

definition sign_with :: "crypto_lib \<Rightarrow> KeyAlgorithm \<Rightarrow> bytes \<Rightarrow> bytes \<Rightarrow> (string \<times> string) res" where
  "sign_with cl algorithm signBytes privateKey =
     (case algorithm of
        Ed25519 \<Rightarrow>
          ebind (ed25519_getPublicKey cl privateKey) (\<lambda>pubKey.
          ebind (ed25519_sign cl signBytes privateKey) (\<lambda>sig.
            Inr (bytes_hex pubKey, bytes_hex sig)))
      | Secp256k1 \<Rightarrow>
          ebind (secp256k1_getPublicKey cl privateKey) (\<lambda>pubKey.
          ebind (secp256k1_sign cl (sha256 cl signBytes) privateKey) (\<lambda>sigHex.
            Inr (bytes_hex pubKey, sigHex))))"

definition sign :: "bech32_lib \<Rightarrow> crypto_lib \<Rightarrow> SendTxRequest \<Rightarrow> string \<Rightarrow> bytes \<Rightarrow> KeyAlgorithm
    \<Rightarrow> SignedTransaction res" where
  "sign lib cl req chainId privateKey algorithm =
     ebind (getSignBytes lib req chainId) (\<lambda>signBytes.
     ebind (sprxToAtto (req_amountSprx req)) (\<lambda>attoAmount.
     ebind (sign_with cl algorithm signBytes privateKey) (\<lambda>(publicKeyHex, signatureHex).
     ebind (ebind (parseToBytes lib (req_fromAddress req)) (toBech32 lib)) (\<lambda>sender.
     ebind (ebind (parseToBytes lib (req_toAddress req)) (toBech32 lib)) (\<lambda>to.
       Inr \<lparr> st_body =
               \<lparr> sb_chainId = chainId, sb_sender = sender, sb_nonce = req_nonce req,
                 sb_messages = [\<lparr> tm_type = ''Transfer'', tm_to = to, tm_amount = int_str attoAmount \<rparr>],
                 sb_fee = \<lparr> sf_amount = fee_amountAtto (fee_or_default req),
                            sf_gas_limit = fee_gasLimit (fee_or_default req) \<rparr>,
                 sb_memo = memo_or_empty req,
                 sb_timeout_height = timeout_or_zero req \<rparr>,
             st_keyType = KeyAlgorithm_value algorithm,
             st_publicKey = ''0x'' @ publicKeyHex,
             st_signature = ''0x'' @ signatureHex \<rparr>)))))"

section \<open>When a transaction has sign bytes\<close>

lemma valid_address_hex:
  "isValidAddress lib s \<Longrightarrow> \<exists>bs. parseToBytes lib s = Inr bs \<and> length bs = 20 \<and>
     toHex bs = Inr (''0x'' @ bytes_hex bs)"
  by (metis valid_address_canonical toHex_Inr_iff)

lemma getSignBytes_cases:
  assumes "isValidAddress lib (req_fromAddress req)" "isValidAddress lib (req_toAddress req)"
    and "sprxToAtto (req_amountSprx req) = Inr a" "0 < a"
  obtains fb tb where "parseToBytes lib (req_fromAddress req) = Inr fb" "length fb = 20"
    "parseToBytes lib (req_toAddress req) = Inr tb" "length tb = 20"
    "getSignBytes lib req chainId =
       Inr (json_bytes (canonical_json req chainId a (''0x'' @ bytes_hex tb) (''0x'' @ bytes_hex fb)))"
proof -
  obtain fb tb where fb: "parseToBytes lib (req_fromAddress req) = Inr fb" "length fb = 20"
      "toHex fb = Inr (''0x'' @ bytes_hex fb)"
    and tb: "parseToBytes lib (req_toAddress req) = Inr tb" "length tb = 20"
      "toHex tb = Inr (''0x'' @ bytes_hex tb)"
    using assms(1,2) valid_address_hex by blast
  with assms show ?thesis
    by (intro that [of fb tb]) (simp_all add: getSignBytes_def canonicalObj_def)
qed

lemma getSignBytes_Inr_iff:
  "is_ok (getSignBytes lib req chainId) \<longleftrightarrow>
     isValidAddress lib (req_fromAddress req) \<and> isValidAddress lib (req_toAddress req) \<and>
     (\<exists>a. sprxToAtto (req_amountSprx req) = Inr a \<and> 0 < a)"
proof
  assume ok: "is_ok (getSignBytes lib req chainId)"
  then have "isValidAddress lib (req_fromAddress req)" "isValidAddress lib (req_toAddress req)"
    by (auto simp: getSignBytes_def split: if_splits)
  moreover from ok this obtain a where "sprxToAtto (req_amountSprx req) = Inr a" "0 < a"
    by (auto simp: getSignBytes_def is_ok_iff ebind_Inr_iff split: if_splits)
  ultimately show "isValidAddress lib (req_fromAddress req) \<and> isValidAddress lib (req_toAddress req) \<and>
     (\<exists>a. sprxToAtto (req_amountSprx req) = Inr a \<and> 0 < a)" by blast
next
  assume "isValidAddress lib (req_fromAddress req) \<and> isValidAddress lib (req_toAddress req) \<and>
     (\<exists>a. sprxToAtto (req_amountSprx req) = Inr a \<and> 0 < a)"
  then show "is_ok (getSignBytes lib req chainId)"
    by (auto elim: getSignBytes_cases [where chainId = chainId])
qed

section \<open>The bytes determine the transaction\<close>

text \<open>The nonce is a JSON value and the integers of the request are exact doubles.\<close>

definition exact_request :: "SendTxRequest \<Rightarrow> bool" where
  "exact_request req \<longleftrightarrow> plain (req_nonce req) \<and> \<bar>timeout_or_zero req\<bar> < 2 ^ 53 \<and>
     \<bar>fee_gasLimit (fee_or_default req)\<bar> < 2 ^ 53"

lemma canonical_plain: "exact_request req \<Longrightarrow> plain (canonical_json req chainId a to sender)"
  by (simp add: canonical_json_def exact_request_def)

lemma json_bytes_inj: "plain v \<Longrightarrow> plain w \<Longrightarrow> json_bytes v = json_bytes w \<Longrightarrow> v = w"
  by (metis json_bytes_def plain_text option.simps(5) TextEncoder_inj stringify_inj)

lemma canonical_json_inj:
  assumes "canonical_json r c a t s = canonical_json r' c' a' t' s'"
  shows "c = c' \<and> a = a' \<and> t = t' \<and> s = s' \<and> req_nonce r = req_nonce r' \<and>
    fee_or_default r = fee_or_default r' \<and> memo_or_empty r = memo_or_empty r' \<and>
    timeout_or_zero r = timeout_or_zero r'"
  using assms by (auto simp: canonical_json_def intro: TxFee.equality)

lemma getSignBytes_inj:
  assumes "exact_request r" "exact_request r'"
    and "getSignBytes lib r c = Inr bs" "getSignBytes lib r' c' = Inr bs"
  shows "c = c' \<and>
    parseToBytes lib (req_fromAddress r) = parseToBytes lib (req_fromAddress r') \<and>
    parseToBytes lib (req_toAddress r) = parseToBytes lib (req_toAddress r') \<and>
    sprxToAtto (req_amountSprx r) = sprxToAtto (req_amountSprx r') \<and>
    req_nonce r = req_nonce r' \<and> fee_or_default r = fee_or_default r' \<and>
    memo_or_empty r = memo_or_empty r' \<and> timeout_or_zero r = timeout_or_zero r'"
proof -
  have "is_ok (getSignBytes lib r c)" "is_ok (getSignBytes lib r' c')"
    using assms(3,4) by simp_all
  then obtain a a' where a: "sprxToAtto (req_amountSprx r) = Inr a" "0 < a"
    and a': "sprxToAtto (req_amountSprx r') = Inr a'" "0 < a'"
    and valid: "isValidAddress lib (req_fromAddress r)" "isValidAddress lib (req_toAddress r)"
      "isValidAddress lib (req_fromAddress r')" "isValidAddress lib (req_toAddress r')"
    unfolding getSignBytes_Inr_iff by blast
  obtain fb tb where 1: "parseToBytes lib (req_fromAddress r) = Inr fb"
      "parseToBytes lib (req_toAddress r) = Inr tb"
      "getSignBytes lib r c = Inr (json_bytes (canonical_json r c a (''0x'' @ bytes_hex tb) (''0x'' @ bytes_hex fb)))"
    using getSignBytes_cases [OF valid(1,2) a, of c] by blast
  obtain fb' tb' where 2: "parseToBytes lib (req_fromAddress r') = Inr fb'"
      "parseToBytes lib (req_toAddress r') = Inr tb'"
      "getSignBytes lib r' c' = Inr (json_bytes (canonical_json r' c' a' (''0x'' @ bytes_hex tb') (''0x'' @ bytes_hex fb')))"
    using getSignBytes_cases [OF valid(3,4) a', of c'] by blast
  have "canonical_json r c a (''0x'' @ bytes_hex tb) (''0x'' @ bytes_hex fb) =
      canonical_json r' c' a' (''0x'' @ bytes_hex tb') (''0x'' @ bytes_hex fb')"
    using assms 1(3) 2(3) by (intro json_bytes_inj canonical_plain) simp_all
  from canonical_json_inj [OF this] show ?thesis
    using 1 2 a a' bytes_hex_inj by auto
qed

section \<open>The signed body\<close>

text \<open>The request a reader of the envelope reconstructs from its body.\<close>

definition request_of_body :: "SignedBody \<Rightarrow> SendTxRequest res" where
  "request_of_body b =
     (case sb_messages b of
        [m] \<Rightarrow> ebind (BigInt (tm_amount m)) (\<lambda>a.
          Inr \<lparr> req_fromAddress = sb_sender b, req_toAddress = tm_to m,
                req_amountSprx = attoToSprx a, req_nonce = sb_nonce b,
                req_fee = Some \<lparr> fee_amountAtto = sf_amount (sb_fee b), fee_gasLimit = sf_gas_limit (sb_fee b) \<rparr>,
                req_memo = Some (sb_memo b), req_timeoutHeight = Some (sb_timeout_height b) \<rparr>)
      | _ \<Rightarrow> Inl (Error ''unexpected number of messages''))"

lemma signed_body_sign_bytes:
  assumes lib: "bech32_ok lib" and "sign lib cl req chainId key alg = Inr tx"
  shows "ebind (request_of_body (st_body tx)) (\<lambda>r. getSignBytes lib r (sb_chainId (st_body tx))) =
           getSignBytes lib req chainId"
proof -
  let ?b = "st_body tx"
  from assms(2) have "is_ok (getSignBytes lib req chainId)"
    by (auto simp: sign_def ebind_Inr_iff)
  then obtain a where a: "sprxToAtto (req_amountSprx req) = Inr a" "0 < a"
    and v: "isValidAddress lib (req_fromAddress req)" "isValidAddress lib (req_toAddress req)"
    unfolding getSignBytes_Inr_iff by blast
  obtain fb tb where fb: "parseToBytes lib (req_fromAddress req) = Inr fb" "length fb = 20"
    and tb: "parseToBytes lib (req_toAddress req) = Inr tb" "length tb = 20"
    and g: "getSignBytes lib req chainId =
      Inr (json_bytes (canonical_json req chainId a (''0x'' @ bytes_hex tb) (''0x'' @ bytes_hex fb)))"
    by (rule getSignBytes_cases [OF v a])
  from assms(2) a fb tb obtain s t where s: "toBech32 lib fb = Inr s" and t: "toBech32 lib tb = Inr t"
    and b: "?b = \<lparr> sb_chainId = chainId, sb_sender = s, sb_nonce = req_nonce req,
       sb_messages = [\<lparr> tm_type = ''Transfer'', tm_to = t, tm_amount = int_str a \<rparr>],
       sb_fee = \<lparr> sf_amount = fee_amountAtto (fee_or_default req), sf_gas_limit = fee_gasLimit (fee_or_default req) \<rparr>,
       sb_memo = memo_or_empty req, sb_timeout_height = timeout_or_zero req \<rparr>"
    by (auto simp: sign_def ebind_Inr_iff)
  have ps: "parseToBytes lib s = Inr fb" and pt: "parseToBytes lib t = Inr tb"
    using codec.dec_enc [OF bech32_codec [OF lib]] fb(2) tb(2) s t by auto
  have "sprxToAtto (attoToSprx a) = Inr a" using a(2) by (intro sprxToAtto_attoToSprx) simp
  with a(2) ps pt fb(2) tb(2) show ?thesis
    unfolding g
    by (simp add: b request_of_body_def getSignBytes_def isValidAddress_def canonicalObj_def toHex_def
        canonical_json_def fee_or_default_def memo_or_empty_def timeout_or_zero_def)
qed

lemma sign_signature:
  assumes "sign lib cl req chainId key alg = Inr tx"
  obtains bs p s where "getSignBytes lib req chainId = Inr bs" "sign_with cl alg bs key = Inr (p, s)"
    "st_publicKey tx = ''0x'' @ p" "st_signature tx = ''0x'' @ s"
    "st_keyType tx = KeyAlgorithm_value alg"
  using assms by (auto simp: sign_def ebind_Inr_iff)

section \<open>Properties\<close>


text \<open>C1: The sign bytes commit to the whole transaction: two requests with the same sign bytes are
  for the same chain, sender, recipient, amount, nonce, fee, memo and timeout.\<close>

theorem sign_bytes_injective:
  assumes "exact_request r" "exact_request r'"
    and "is_ok (getSignBytes lib r c)" "getSignBytes lib r c = getSignBytes lib r' c'"
  shows "c = c' \<and>
    parseToBytes lib (req_fromAddress r) = parseToBytes lib (req_fromAddress r') \<and>
    parseToBytes lib (req_toAddress r) = parseToBytes lib (req_toAddress r') \<and>
    sprxToAtto (req_amountSprx r) = sprxToAtto (req_amountSprx r') \<and>
    req_nonce r = req_nonce r' \<and> fee_or_default r = fee_or_default r' \<and>
    memo_or_empty r = memo_or_empty r' \<and> timeout_or_zero r = timeout_or_zero r'"
proof -
  obtain bs where bs: "getSignBytes lib r c = Inr bs" using assms(3) by (auto simp: is_ok_iff)
  then have "getSignBytes lib r' c' = Inr bs" using assms(4) by simp
  with assms(1,2) bs show ?thesis by (rule getSignBytes_inj)
qed

definition sample_request :: SendTxRequest where
  "sample_request = \<lparr> req_fromAddress = ''0x'' @ replicate 40 (CHR ''a''), req_toAddress = ''0x'' @ replicate 40 (CHR ''b''),
     req_amountSprx = ''15'', req_nonce = JInt 7, req_fee = None, req_memo = None, req_timeoutHeight = None \<rparr>"

lemma sample_hex: "hex_only 40 (replicate 40 (CHR ''a''))" "hex_only 40 (replicate 40 (CHR ''b''))"
  by (simp_all add: hex_only_def is_hex_def list_all_iff)

lemma sample_request_ok:
  "is_ok (getSignBytes lib sample_request c)" "exact_request sample_request"
  "exact_request (sample_request \<lparr> req_memo := Some [] \<rparr>)"
proof -
  have "sprxToAtto ''15'' = Inr (int (dec_value ''15'') * ATTO_PER_SPRX)"
    by (rule sprxToAtto_integer) (simp add: is_dec_def)
  moreover have "0 < int (dec_value ''15'') * ATTO_PER_SPRX"
    by (simp add: dec_value_def digit_val_def ATTO_PER_SPRX_def)
  ultimately show "is_ok (getSignBytes lib sample_request c)"
    using valid_hex_text [OF sample_hex(1), of lib] valid_hex_text [OF sample_hex(2), of lib]
    unfolding getSignBytes_Inr_iff sample_request_def by auto
  show "exact_request sample_request" "exact_request (sample_request \<lparr> req_memo := Some [] \<rparr>)"
    by (simp_all add: exact_request_def sample_request_def timeout_or_zero_def fee_or_default_def defaultFee_def)
qed

theorem sign_bytes_injective_witness:
  "memo_or_empty sample_request = memo_or_empty (sample_request \<lparr> req_memo := Some [] \<rparr>)"
proof -
  have "canonicalObj hex_bech32 (sample_request \<lparr> req_memo := Some [] \<rparr>) ''c'' a = canonicalObj hex_bech32 sample_request ''c'' a" for a
    by (simp add: canonicalObj_def canonical_json_def memo_or_empty_def timeout_or_zero_def fee_or_default_def
        sample_request_def)
  then have "getSignBytes hex_bech32 sample_request ''c'' = getSignBytes hex_bech32 (sample_request \<lparr> req_memo := Some [] \<rparr>) ''c''"
    by (simp add: getSignBytes_def cong: if_cong)
  with sign_bytes_injective [OF sample_request_ok(2,3,1)] show ?thesis by blast
qed

text \<open>C5: The body of a signed transaction determines what was signed: rebuilding a request from the
  body (addresses re-parsed from Bech32, the amount re-printed) gives the sign bytes of the original.\<close>

theorem signed_body_determines_sign_bytes:
  assumes "bech32_ok lib" and "sign lib cl req chainId key alg = Inr tx"
  shows "ebind (request_of_body (st_body tx)) (\<lambda>r. getSignBytes lib r (sb_chainId (st_body tx))) =
           getSignBytes lib req chainId"
  using assms by (rule signed_body_sign_bytes)

lemma sign_ok:
  assumes "bech32_ok lib" "crypto_ok cl" "length key = 32"
    and "isValidAddress lib (req_fromAddress req)" "isValidAddress lib (req_toAddress req)"
    and "sprxToAtto (req_amountSprx req) = Inr a" "0 < a"
  shows "\<exists>tx. sign lib cl req chainId key Ed25519 = Inr tx"
proof -
  obtain fb tb where "parseToBytes lib (req_fromAddress req) = Inr fb" "length fb = 20"
    "parseToBytes lib (req_toAddress req) = Inr tb" "length tb = 20"
    and g: "is_ok (getSignBytes lib req chainId)"
    by (rule getSignBytes_cases [OF assms(4-7), of chainId]) simp
  moreover from this obtain f t where "toBech32 lib fb = Inr f" "toBech32 lib tb = Inr t"
    using codec.enc_total [OF bech32_codec [OF assms(1)]] by blast
  moreover obtain bs where bs: "getSignBytes lib req chainId = Inr bs" using g by (auto simp: is_ok_iff)
  moreover obtain pub where "ed25519_getPublicKey cl key = Inr pub" by (rule crypto_ok_ed_key [OF assms(2,3)])
  moreover obtain sig where "ed25519_sign cl bs key = Inr sig" by (rule crypto_ok_ed_sign [OF assms(2,3)])
  ultimately show ?thesis using assms(6) by (simp add: sign_def sign_with_def)
qed

lemma sample_signed:
  "\<exists>tx. sign hex_bech32 plain_crypto sample_request ''c'' (replicate 32 7) Ed25519 = Inr tx"
  using sample_request_ok(1) [of hex_bech32 "''c''"] unfolding getSignBytes_Inr_iff
  by (auto intro!: sign_ok hex_bech32_ok plain_crypto_ok)

theorem signed_body_determines_sign_bytes_witness:
  "\<exists>tx. sign hex_bech32 plain_crypto sample_request ''c'' (replicate 32 7) Ed25519 = Inr tx \<and>
     ebind (request_of_body (st_body tx)) (\<lambda>r. getSignBytes hex_bech32 r (sb_chainId (st_body tx))) =
       getSignBytes hex_bech32 sample_request ''c''"
  using sample_signed signed_body_determines_sign_bytes [OF hex_bech32_ok] by blast

end
