(* ===== verification/Http.thy ===== *)
theory Http
  imports Js_Value
begin

text \<open>
  \<^verbatim>\<open>fetch\<close> as the sources use it.  The network is a parameter of every operation that calls it: a
  function from requests to responses, or to the error with which the promise is rejected (an
  unreachable host, an abort after the timeout).
\<close>

record http_request =
  rq_method :: string
  rq_url :: string
  rq_headers :: "(string \<times> string) list"
  rq_body :: "string option"

record http_response =
  rs_status :: int
  rs_statusText :: string
  rs_body :: string

type_synonym fetch_fn = "http_request \<Rightarrow> http_response res"

definition rs_ok :: "http_response \<Rightarrow> bool" where
  "rs_ok r = (200 \<le> rs_status r \<and> rs_status r \<le> 299)"

definition rs_json :: "http_response \<Rightarrow> jsval res" where
  "rs_json r = JSON_parse (rs_body r)"

definition GET :: "string \<Rightarrow> http_request" where
  "GET url = \<lparr> rq_method = ''GET'', rq_url = url, rq_headers = [], rq_body = None \<rparr>"

definition json_header :: "string \<times> string" where
  "json_header = (''Content-Type'', ''application/json'')"

definition POST_json :: "string \<Rightarrow> string \<Rightarrow> http_request" where
  "POST_json url body =
     \<lparr> rq_method = ''POST'', rq_url = url, rq_headers = [json_header], rq_body = Some body \<rparr>"

text \<open>Two concrete networks: one that is down, and one that answers every request alike.\<close>

definition net_down :: fetch_fn where
  "net_down _ = Inl (TypeError ''Failed to fetch'')"

definition net_const :: "int \<Rightarrow> string \<Rightarrow> fetch_fn" where
  "net_const status body _ = Inr \<lparr> rs_status = status, rs_statusText = [], rs_body = body \<rparr>"

end
