(* ===== verification/Client.thy ===== *)
theory Client
  imports Transaction Http
begin

text \<open>
  \<^verbatim>\<open>src/packages/sprax-wallet-core/src/client.ts\<close>: the network table and \<^verbatim>\<open>SpraxClient\<close>.  A method that
  catches every exception has its plain result type; \<^verbatim>\<open>broadcastTransaction\<close>, which does not, returns
  a result.
\<close>

definition NETWORK_local :: NetworkConfig where
  "NETWORK_local = \<lparr> net_id = ''local'', net_name = ''Local Devnet'', net_chainId = ''sprax-devnet-1'',
     net_rpcUrl = ''http://127.0.0.1:26657'', net_p2pPort = 26656, net_explorerUrl = None, net_isTestnet = True \<rparr>"

definition NETWORK_testnet :: NetworkConfig where
  "NETWORK_testnet = \<lparr> net_id = ''testnet'', net_name = ''SPRX Public Testnet'', net_chainId = ''sprax-testnet-1'',
     net_rpcUrl = ''https://rpc.testnet.sprax.io'', net_p2pPort = 26656,
     net_explorerUrl = Some ''https://explorer.testnet.sprax.io'', net_isTestnet = True \<rparr>"

definition NETWORK_mainnet :: NetworkConfig where
  "NETWORK_mainnet = \<lparr> net_id = ''mainnet'', net_name = ''SPRX Mainnet'', net_chainId = ''sprax-1'',
     net_rpcUrl = ''https://rpc.sprax.io'', net_p2pPort = 26656,
     net_explorerUrl = Some ''https://explorer.sprax.io'', net_isTestnet = False \<rparr>"

definition NETWORKS :: "(string \<times> NetworkConfig) list" where
  "NETWORKS = [(''local'', NETWORK_local), (''testnet'', NETWORK_testnet), (''mainnet'', NETWORK_mainnet)]"

record SpraxClient =
  sc_network :: NetworkConfig

definition new_SpraxClient :: "NetworkConfig option \<Rightarrow> SpraxClient" where
  "new_SpraxClient network = \<lparr> sc_network = (case network of Some n \<Rightarrow> n | None \<Rightarrow> NETWORK_local) \<rparr>"

definition getNetwork :: "SpraxClient \<Rightarrow> NetworkConfig" where
  "getNetwork c = sc_network c"

definition setNetwork :: "NetworkConfig \<Rightarrow> SpraxClient \<Rightarrow> SpraxClient" where
  "setNetwork n c = c \<lparr> sc_network := n \<rparr>"

definition fiat_estimates :: "js_number \<Rightarrow> FiatEstimates" where
  "fiat_estimates sprxFloat =
     \<lparr> fe_usd = toFixed (n_mul sprxFloat (Fin (9 / 2))) 2,
       fe_inr = toFixed (n_mul sprxFloat (Fin 375)) 2,
       fe_eur = toFixed (n_mul sprxFloat (to_double (415 / 100))) 2,
       fe_jpy = toFixed (n_mul sprxFloat (Fin 650)) 0 \<rparr>"

definition offline_balance :: Balance where
  "offline_balance =
     \<lparr> bal_atto = JStr ''0'', bal_sprx = ''0'',
       bal_fiatEstimates = \<lparr> fe_usd = ''0.00'', fe_inr = ''0.00'', fe_eur = ''0.00'', fe_jpy = ''0'' \<rparr> \<rparr>"

definition getBalance_try :: "fetch_fn \<Rightarrow> SpraxClient \<Rightarrow> string \<Rightarrow> Balance res" where
  "getBalance_try fetch c address =
     ebind (fetch (GET (net_rpcUrl (sc_network c) @ ''/accounts/'' @ address @ ''/balance''))) (\<lambda>resp.
     if \<not> rs_ok resp
     then Inl (Error (''HTTP '' @ int_str (rs_status resp) @ '': '' @ rs_statusText resp))
     else ebind (rs_json resp) (\<lambda>data.
          ebind (get data ''balance_atto'') (\<lambda>b.
          let attoStr = js_or b (JStr ''0'') in
          ebind (to_bigint attoStr) (\<lambda>a.
          let sprxStr = attoToSprx a;
              sprxFloat = parseFloat sprxStr
          in Inr \<lparr> bal_atto = attoStr, bal_sprx = sprxStr, bal_fiatEstimates = fiat_estimates sprxFloat \<rparr>))))"

definition getBalance :: "fetch_fn \<Rightarrow> SpraxClient \<Rightarrow> string \<Rightarrow> Balance" where
  "getBalance fetch c address =
     (case getBalance_try fetch c address of Inr b \<Rightarrow> b | Inl _ \<Rightarrow> offline_balance)"

definition getAccountNonce :: "fetch_fn \<Rightarrow> SpraxClient \<Rightarrow> string \<Rightarrow> jsval" where
  "getAccountNonce fetch c address =
     (case ebind (fetch (GET (net_rpcUrl (sc_network c) @ ''/accounts/'' @ address @ ''/nonce''))) (\<lambda>resp.
             if \<not> rs_ok resp then Inr (JInt 0)
             else ebind (rs_json resp) (\<lambda>data.
                  ebind (get data ''nonce'') (\<lambda>n. Inr (js_or n (JInt 0))))) of
        Inr n \<Rightarrow> n
      | Inl _ \<Rightarrow> JInt 0)"

text \<open>The JSON value of a signed transaction, fields in the order the builder creates them.\<close>

definition message_json :: "TxMessage \<Rightarrow> jsval" where
  "message_json m = JObj [(''type'', JStr (tm_type m)), (''to'', JStr (tm_to m)), (''amount'', JStr (tm_amount m))]"

definition signed_json :: "SignedTransaction \<Rightarrow> jsval" where
  "signed_json tx =
     (let b = st_body tx in
      JObj [(''body'', JObj [(''chainId'', JStr (sb_chainId b)), (''sender'', JStr (sb_sender b)),
                          (''nonce'', sb_nonce b), (''messages'', JArr (map message_json (sb_messages b))),
                          (''fee'', JObj [(''amount'', JStr (sf_amount (sb_fee b))),
                                        (''gas_limit'', JInt (sf_gas_limit (sb_fee b)))]),
                          (''memo'', JStr (sb_memo b)),
                          (''timeout_height'', JInt (sb_timeout_height b))]),
            (''keyType'', JStr (st_keyType tx)),
            (''publicKey'', JStr (st_publicKey tx)),
            (''signature'', JStr (st_signature tx))])"

definition broadcast_request :: "SpraxClient \<Rightarrow> SignedTransaction \<Rightarrow> http_request" where
  "broadcast_request c signedTx =
     POST_json (net_rpcUrl (sc_network c) @ ''/txs/broadcast'')
       (case stringify (signed_json signedTx) of Some t \<Rightarrow> t | None \<Rightarrow> [])"

definition broadcastTransaction :: "fetch_fn \<Rightarrow> SpraxClient \<Rightarrow> SignedTransaction \<Rightarrow> jsval res" where
  "broadcastTransaction fetch c signedTx =
     ebind (fetch (broadcast_request c signedTx)) (\<lambda>resp.
     if \<not> rs_ok resp then Inl (Error (''Transaction broadcast failed: '' @ rs_body resp))
     else ebind (rs_json resp) (\<lambda>data. get data ''tx_hash''))"

definition receipt_of :: "jsval \<Rightarrow> TxReceipt res" where
  "receipt_of data =
     ebind (get data ''hash'') (\<lambda>h.
     ebind (get data ''height'') (\<lambda>height.
     ebind (get data ''receipt'') (\<lambda>receipt.
       Inr \<lparr> rc_txHash = h, rc_blockHeight = height,
             rc_success = js_coalesce (opt_get receipt ''success'') (JBool True),
             rc_gasUsed = js_coalesce (opt_get receipt ''gas_used'') (JInt 21000),
             rc_logs = js_coalesce (opt_get receipt ''logs'') (JArr []) \<rparr>)))"

definition getTransactionReceipt :: "fetch_fn \<Rightarrow> SpraxClient \<Rightarrow> string \<Rightarrow> TxReceipt option" where
  "getTransactionReceipt fetch c txHash =
     (case ebind (fetch (GET (net_rpcUrl (sc_network c) @ ''/txs/'' @ txHash))) (\<lambda>resp.
             if \<not> rs_ok resp then Inr None
             else ebind (rs_json resp) (\<lambda>data. ebind (receipt_of data) (\<lambda>r. Inr (Some r)))) of
        Inr r \<Rightarrow> r
      | Inl _ \<Rightarrow> None)"

section \<open>What reaches the node and what comes back\<close>

lemma plain_arr_map: "(\<And>x. x \<in> set xs \<Longrightarrow> plain (f x)) \<Longrightarrow> plain_arr (map f xs)"
  by (induction xs) simp_all

lemma signed_json_plain:
  assumes "plain (sb_nonce (st_body tx))" "\<bar>sf_gas_limit (sb_fee (st_body tx))\<bar> < 2 ^ 53"
    and "\<bar>sb_timeout_height (st_body tx)\<bar> < 2 ^ 53"
  shows "plain (signed_json tx)"
  using assms by (simp add: signed_json_def Let_def message_json_def plain_arr_map)

lemma broadcast_body:
  assumes "plain (signed_json tx)"
  obtains t where "rq_body (broadcast_request c tx) = Some t" "JSON_parse t = Inr (signed_json tx)"
proof -
  obtain a u where "stringify (signed_json tx) = Some (a # u)"
    using plain_text [OF assms] by blast
  with assms that show ?thesis
    by (simp add: broadcast_request_def POST_json_def JSON_parse_stringify)
qed

lemma getBalance_reported:
  assumes "fetch (GET (net_rpcUrl (sc_network c) @ ''/accounts/'' @ addr @ ''/balance'')) = Inr resp"
    and "rs_ok resp" "rs_json resp = Inr data" "truthy data"
    and "own data ''balance_atto'' = JStr (nat_str n)"
  shows "bal_atto (getBalance fetch c addr) = JStr (nat_str n) \<and>
    bal_sprx (getBalance fetch c addr) = attoToSprx (int n) \<and>
    sprxToAtto (bal_sprx (getBalance fetch c addr)) = Inr (int n)"
proof -
  have "js_or (JStr (nat_str n)) (JStr ''0'') = JStr (nat_str n)"
    by (simp add: js_or_def radix_str_ne)
  then have "getBalance_try fetch c addr =
      Inr \<lparr> bal_atto = JStr (nat_str n), bal_sprx = attoToSprx (int n),
            bal_fiatEstimates = fiat_estimates (parseFloat (attoToSprx (int n))) \<rparr>"
    using assms by (simp add: getBalance_try_def truthy_get Let_def)
  then show ?thesis by (simp add: getBalance_def sprxToAtto_attoToSprx)
qed

lemma getBalance_failed:
  "getBalance_try fetch c addr = Inl e \<Longrightarrow> getBalance fetch c addr = offline_balance"
  by (simp add: getBalance_def)

section \<open>Properties\<close>

text \<open>C17: A balance that the node reports as a decimal text is shown exactly: the field keeps the
  text, and the displayed SPRX amount parses back to the reported number of atto-SPRX.\<close>

theorem balance_exact:
  assumes "fetch (GET (net_rpcUrl (sc_network c) @ ''/accounts/'' @ addr @ ''/balance'')) = Inr resp"
    and "rs_ok resp" "rs_json resp = Inr data" "truthy data"
    and "own data ''balance_atto'' = JStr (nat_str n)"
  shows "bal_atto (getBalance fetch c addr) = JStr (nat_str n) \<and>
    sprxToAtto (bal_sprx (getBalance fetch c addr)) = Inr (int n)"
  using getBalance_reported [where fetch = fetch and c = c and addr = addr, OF assms] by blast

definition sample_balance :: jsval where
  "sample_balance = JObj [(''balance_atto'', JStr (nat_str 2500000000000000000))]"

definition sample_net :: fetch_fn where
  "sample_net = net_const 200 (case stringify sample_balance of Some t \<Rightarrow> t | None \<Rightarrow> [])"

lemma sample_net_json: "\<exists>resp. sample_net r = Inr resp \<and> rs_ok resp \<and> rs_json resp = Inr sample_balance"
proof -
  have p: "plain sample_balance" by (simp add: sample_balance_def)
  obtain a u where t: "stringify sample_balance = Some (a # u)" using plain_text [OF p] by blast
  with JSON_parse_stringify [OF p t] show ?thesis
    by (simp add: sample_net_def net_const_def rs_ok_def rs_json_def)
qed

theorem balance_exact_witness:
  "sprxToAtto (bal_sprx (getBalance sample_net (new_SpraxClient None) ''sprax1x'')) = Inr 2500000000000000000"
proof -
  let ?c = "new_SpraxClient None"
  obtain resp where r: "sample_net (GET (net_rpcUrl (sc_network ?c) @ ''/accounts/'' @ ''sprax1x'' @ ''/balance'')) = Inr resp"
    "rs_ok resp" "rs_json resp = Inr sample_balance"
    using sample_net_json by blast
  show ?thesis
    using balance_exact [where fetch = sample_net and c = ?c and addr = "''sprax1x''", OF r, of 2500000000000000000]
    by (simp add: sample_balance_def own_def)
qed


definition sample_tx :: SignedTransaction where
  "sample_tx = \<lparr> st_body = \<lparr> sb_chainId = ''c'', sb_sender = ''s'', sb_nonce = JInt 3,
       sb_messages = [\<lparr> tm_type = ''Transfer'', tm_to = ''t'', tm_amount = ''1'' \<rparr>],
       sb_fee = \<lparr> sf_amount = ''5'', sf_gas_limit = 200000 \<rparr>, sb_memo = [], sb_timeout_height = 0 \<rparr>,
     st_keyType = ''Ed25519'', st_publicKey = ''0x'', st_signature = ''0x'' \<rparr>"


end
