(* ===== verification/Wallet_Views.thy ===== *)
theory Wallet_Views
  imports Client
begin

text \<open>
  \<^verbatim>\<open>WalletDashboard.tsx\<close> and \<^verbatim>\<open>ReceiveModal.tsx\<close> of \<^verbatim>\<open>src/apps/web-wallet/src/components\<close>: their local
  state, the handlers that change it and the texts they show.
\<close>

datatype WalletCurrency = usd | inr | eur | jpy

record Dashboard =
  db_balance :: Balance
  db_selectedCurrency :: WalletCurrency
  db_copied :: bool
  db_isLoading :: bool

definition dashboard_init :: Dashboard where
  "dashboard_init = \<lparr> db_balance = offline_balance, db_selectedCurrency = usd, db_copied = False, db_isLoading = False \<rparr>"

text \<open>\<open>fetchBalance\<close> marks the card as loading until the client answers; the client never throws.\<close>

definition fetchBalance_start :: "Dashboard \<Rightarrow> Dashboard" where
  "fetchBalance_start d = d \<lparr> db_isLoading := True \<rparr>"

definition fetchBalance_end :: "fetch_fn \<Rightarrow> NetworkConfig \<Rightarrow> Account \<Rightarrow> Dashboard \<Rightarrow> Dashboard" where
  "fetchBalance_end fetch network account d =
     (let bal = getBalance fetch (new_SpraxClient (Some network)) (acc_addressBech32 account)
      in d \<lparr> db_balance := bal, db_isLoading := False \<rparr>)"

text \<open>The text written to the clipboard, and the state after it; the mark is cleared by a timer.\<close>

definition copyAddress :: "Account \<Rightarrow> Dashboard \<Rightarrow> string \<times> Dashboard" where
  "copyAddress account d = (acc_addressBech32 account, d \<lparr> db_copied := True \<rparr>)"

definition clearCopied :: "Dashboard \<Rightarrow> Dashboard" where
  "clearCopied d = d \<lparr> db_copied := False \<rparr>"

definition selectCurrency :: "WalletCurrency \<Rightarrow> Dashboard \<Rightarrow> Dashboard" where
  "selectCurrency c d = d \<lparr> db_selectedCurrency := c \<rparr>"

fun currencySymbols :: "WalletCurrency \<Rightarrow> string" where
  "currencySymbols usd = ''$''"
| "currencySymbols inr = ''<U+20B9>''"
| "currencySymbols eur = ''<U+20AC>''"
| "currencySymbols jpy = [char_of (165 :: nat)]"

fun fiat_of :: "WalletCurrency \<Rightarrow> FiatEstimates \<Rightarrow> string" where
  "fiat_of usd f = fe_usd f"
| "fiat_of inr f = fe_inr f"
| "fiat_of eur f = fe_eur f"
| "fiat_of jpy f = fe_jpy f"

record DashboardView =
  dv_network :: string
  dv_testnet_colour :: bool
  dv_name :: string
  dv_address :: string
  dv_copy_label :: string
  dv_balance :: string
  dv_fiat :: string

definition dashboard_view :: "Account \<Rightarrow> NetworkConfig \<Rightarrow> Dashboard \<Rightarrow> DashboardView" where
  "dashboard_view account network d =
     \<lparr> dv_network = net_name network,
       dv_testnet_colour = net_isTestnet network,
       dv_name = acc_name account,
       dv_address = slice (acc_addressBech32 account) 0 10 @ ''...'' @ slice_from (acc_addressBech32 account) (- 6),
       dv_copy_label = (if db_copied d then ''<U+2713> Copied'' else ''Copy''),
       dv_balance = bal_sprx (db_balance d) @ '' SPRX'',
       dv_fiat = ''<U+2248> '' @ currencySymbols (db_selectedCurrency d)
                   @ fiat_of (db_selectedCurrency d) (bal_fiatEstimates (db_balance d)) \<rparr>"

record ReceiveModal =
  rm_copied :: bool
  rm_amount :: string

definition receive_init :: ReceiveModal where
  "receive_init = \<lparr> rm_copied = False, rm_amount = [] \<rparr>"

definition paymentUri :: "Account \<Rightarrow> ReceiveModal \<Rightarrow> string" where
  "paymentUri account r =
     (if rm_amount r \<noteq> [] then ''sprax:'' @ acc_addressBech32 account @ ''?amount='' @ rm_amount r
      else ''sprax:'' @ acc_addressBech32 account)"

definition receive_copy :: "Account \<Rightarrow> ReceiveModal \<Rightarrow> string \<times> ReceiveModal" where
  "receive_copy account r = (acc_addressBech32 account, r \<lparr> rm_copied := True \<rparr>)"

definition receive_setAmount :: "string \<Rightarrow> ReceiveModal \<Rightarrow> ReceiveModal" where
  "receive_setAmount a r = r \<lparr> rm_amount := a \<rparr>"

definition receive_qr_text :: "Account \<Rightarrow> ReceiveModal \<Rightarrow> string" where
  "receive_qr_text account r = ''QR Code: '' @ slice (paymentUri account r) 0 32 @ ''...''"

section \<open>Payment links\<close>

text \<open>The address of a payment link can be read back from it: everything up to the question mark.\<close>

definition uri_address :: "string \<Rightarrow> string" where
  "uri_address u = takeWhile (\<lambda>c. c \<noteq> CHR ''?'') (drop 6 u)"

lemma uri_address_paymentUri:
  assumes "CHR ''?'' \<notin> set (acc_addressBech32 account)"
  shows "uri_address (paymentUri account r) = acc_addressBech32 account"
proof -
  have "takeWhile (\<lambda>c. c \<noteq> CHR ''?'') (acc_addressBech32 account @ x) = acc_addressBech32 account
      @ takeWhile (\<lambda>c. c \<noteq> CHR ''?'') x" for x
    using assms by (intro takeWhile_append2) auto
  from this [of "[]"] this [of "''?amount='' @ rm_amount r"] show ?thesis
    by (simp add: uri_address_def paymentUri_def)
qed

end
