(* ===== verification/Send_Modal.thy ===== *)
theory Send_Modal
  imports Client
begin

text \<open>
  \<^verbatim>\<open>src/apps/web-wallet/src/components/SendModal.tsx\<close>.  The handler of the form is asynchronous: its
  part before the first \<^verbatim>\<open>await\<close> is \<open>send_submit\<close>, which captures the values the closure sees, and
  its continuation is \<open>send_complete\<close>, which runs when the network answers.  What it does to the
  outside (requests, calls of its callbacks) is a list of effects.
\<close>

record SendProps =
  sp_account :: Account
  sp_network :: NetworkConfig
  sp_privateKey :: bytes

record SendModal =
  sm_recipient :: string
  sm_amount :: string
  sm_memo :: string
  sm_isSubmitting :: bool
  sm_errorMessage :: string

definition send_init :: SendModal where
  "send_init = \<lparr> sm_recipient = [], sm_amount = [], sm_memo = [], sm_isSubmitting = False, sm_errorMessage = [] \<rparr>"

definition isValidRecipient :: "bech32_lib \<Rightarrow> SendModal \<Rightarrow> bool" where
  "isValidRecipient lib s \<longleftrightarrow> length (sm_recipient s) > 0 \<and> isValidAddress lib (sm_recipient s)"

record Submission =
  su_props :: SendProps
  su_recipient :: string
  su_amount :: string
  su_memo :: string

definition send_submit :: "bech32_lib \<Rightarrow> SendProps \<Rightarrow> SendModal \<Rightarrow> SendModal \<times> Submission option" where
  "send_submit lib props s =
     (let s1 = s \<lparr> sm_errorMessage := [] \<rparr> in
      if \<not> isValidRecipient lib s
      then (s1 \<lparr> sm_errorMessage := ''Please enter a valid SPRX Bech32 (sprax1...) or Hex (0x...) address.'' \<rparr>, None)
      else (let parsedAmount = parseFloat (sm_amount s) in
            if parsedAmount = NaN \<or> n_le parsedAmount (Fin 0)
            then (s1 \<lparr> sm_errorMessage := ''Amount must be a positive decimal number.'', sm_isSubmitting := False \<rparr>, None)
            else (s1 \<lparr> sm_isSubmitting := True \<rparr>,
                  Some \<lparr> su_props = props, su_recipient = sm_recipient s, su_amount = sm_amount s,
                         su_memo = sm_memo s \<rparr>)))"

datatype SendEffect =
    Sent http_request
  | OnSuccess jsval
  | OnClose

definition send_request :: "Submission \<Rightarrow> jsval \<Rightarrow> SendTxRequest" where
  "send_request su nonce =
     \<lparr> req_fromAddress = acc_addressBech32 (sp_account (su_props su)), req_toAddress = su_recipient su,
       req_amountSprx = su_amount su, req_nonce = nonce, req_fee = None, req_memo = Some (su_memo su),
       req_timeoutHeight = None \<rparr>"

text \<open>
  Nonce, signature, broadcast, then the two callbacks.  \<open>onSuccess\<close> is the parent's callback, which
  may throw.  The effects up to the point of failure stay.
\<close>

definition send_try :: "bech32_lib \<Rightarrow> crypto_lib \<Rightarrow> fetch_fn \<Rightarrow> (jsval \<Rightarrow> unit res) \<Rightarrow> Submission
    \<Rightarrow> SendEffect list \<times> unit res" where
  "send_try lib cl fetch onSuccess su =
     (let p = su_props su;
          client = new_SpraxClient (Some (sp_network p));
          nonce = getAccountNonce fetch client (acc_addressBech32 (sp_account p))
      in case sign lib cl (send_request su nonce) (net_chainId (sp_network p)) (sp_privateKey p)
                (acc_algorithm (sp_account p)) of
           Inl e \<Rightarrow> ([], Inl e)
         | Inr signedTx \<Rightarrow>
             (let sent = Sent (broadcast_request client signedTx) in
              case broadcastTransaction fetch client signedTx of
                Inl e \<Rightarrow> ([sent], Inl e)
              | Inr txHash \<Rightarrow>
                  (case onSuccess txHash of
                     Inl e \<Rightarrow> ([sent, OnSuccess txHash], Inl e)
                   | Inr _ \<Rightarrow> ([sent, OnSuccess txHash, OnClose], Inr ()))))"

definition send_complete :: "bech32_lib \<Rightarrow> crypto_lib \<Rightarrow> fetch_fn \<Rightarrow> (jsval \<Rightarrow> unit res) \<Rightarrow> Submission
    \<Rightarrow> SendModal \<Rightarrow> SendModal \<times> SendEffect list" where
  "send_complete lib cl fetch onSuccess su s =
     (case send_try lib cl fetch onSuccess su of
        (effects, Inr _) \<Rightarrow> (s \<lparr> sm_isSubmitting := False \<rparr>, effects)
      | (effects, Inl e) \<Rightarrow>
          (s \<lparr> sm_errorMessage := (if message e \<noteq> [] then message e else ''Failed to broadcast transaction''),
               sm_isSubmitting := False \<rparr>, effects))"

section \<open>What a submission can send\<close>

text \<open>A submission that passed the checks of the form.\<close>

definition submission_ok :: "bech32_lib \<Rightarrow> Submission \<Rightarrow> bool" where
  "submission_ok lib su \<longleftrightarrow> isValidAddress lib (su_recipient su) \<and> n_less (Fin 0) (parseFloat (su_amount su))"

lemma not_le_zero: "n \<noteq> NaN \<Longrightarrow> \<not> n_le n (Fin 0) \<Longrightarrow> n_less (Fin 0) n"
  by (cases n) (auto simp: n_le_def n_eq_def)

lemma send_submit_ok:
  "send_submit lib props s = (s', Some su) \<Longrightarrow> submission_ok lib su \<and> su_props su = props \<and> sm_isSubmitting s'"
  by (auto simp: send_submit_def Let_def submission_ok_def isValidRecipient_def not_le_zero split: if_splits)

lemma send_submit_refused: "send_submit lib props s = (s', None) \<Longrightarrow> sm_errorMessage s' \<noteq> []"
  by (auto simp: send_submit_def Let_def split: if_splits)

text \<open>
  The transaction behind a request: signed with the account's key for the selected network's chain,
  from the account to the recipient, for a positive amount.
\<close>

definition justified :: "bech32_lib \<Rightarrow> crypto_lib \<Rightarrow> Submission \<Rightarrow> http_request \<Rightarrow> bool" where
  "justified lib cl su r \<longleftrightarrow>
     (\<exists>nonce tx a. sign lib cl (send_request su nonce) (net_chainId (sp_network (su_props su)))
          (sp_privateKey (su_props su)) (acc_algorithm (sp_account (su_props su))) = Inr tx \<and>
        r = broadcast_request \<lparr> sc_network = sp_network (su_props su) \<rparr> tx \<and>
        sprxToAtto (su_amount su) = Inr a \<and> 0 < a)"

lemma sign_amount:
  assumes "sign lib cl req chainId key alg = Inr tx"
  obtains a where "sprxToAtto (req_amountSprx req) = Inr a" "0 < a"
    "isValidAddress lib (req_fromAddress req)" "isValidAddress lib (req_toAddress req)"
proof -
  have "is_ok (getSignBytes lib req chainId)"
    using assms by (auto simp: sign_def ebind_Inr_iff)
  then show ?thesis using that unfolding getSignBytes_Inr_iff by blast
qed

lemma send_try_sent:
  assumes "send_try lib cl fetch onSuccess su = (effects, r)" "Sent q \<in> set effects"
  shows "justified lib cl su q"
proof -
  let ?n = "getAccountNonce fetch (new_SpraxClient (Some (sp_network (su_props su))))
      (acc_addressBech32 (sp_account (su_props su)))"
  obtain tx where tx: "sign lib cl (send_request su ?n) (net_chainId (sp_network (su_props su)))
      (sp_privateKey (su_props su)) (acc_algorithm (sp_account (su_props su))) = Inr tx"
    and q: "q = broadcast_request (new_SpraxClient (Some (sp_network (su_props su)))) tx"
    using assms by (auto simp: send_try_def Let_def split: sum.splits)
  from tx obtain a where "sprxToAtto (su_amount su) = Inr a" "0 < a"
    by (rule sign_amount) (auto simp: send_request_def)
  with tx q show ?thesis by (auto simp: justified_def new_SpraxClient_def)
qed

lemma send_try_at_most_once:
  "send_try lib cl fetch onSuccess su = (effects, r) \<Longrightarrow>
     length (filter (\<lambda>e. case e of Sent _ \<Rightarrow> True | _ \<Rightarrow> False) effects) \<le> 1"
  by (auto simp: send_try_def Let_def split: sum.splits)

lemma send_complete_error:
  assumes "send_complete lib cl fetch onSuccess su s = (s', effects)"
  shows "(OnClose \<in> set effects \<or> sm_errorMessage s' \<noteq> []) \<and> \<not> sm_isSubmitting s'"
  using assms
  by (auto simp: send_complete_def send_try_def Let_def split: sum.splits if_splits)

section \<open>Properties\<close>

text \<open>C9: Submitting the form sends at most one transaction, and only one that is justified by the
  form: the recipient is a valid address, the amount is positive both as a number and in atto-SPRX,
  and the payload is signed with the account's key for the chain of the selected network.\<close>

theorem send_form_safe:
  assumes "send_submit lib props s = (s', Some su)"
    and "send_try lib cl fetch onSuccess su = (effects, r)"
  shows "isValidAddress lib (su_recipient su) \<and> n_less (Fin 0) (parseFloat (su_amount su)) \<and> su_props su = props \<and>
    length (filter (\<lambda>e. case e of Sent _ \<Rightarrow> True | _ \<Rightarrow> False) effects) \<le> 1 \<and>
    (\<forall>q. Sent q \<in> set effects \<longrightarrow> justified lib cl su q)"
  using send_submit_ok [OF assms(1)] send_try_at_most_once [OF assms(2)] send_try_sent [OF assms(2)]
  by (simp add: submission_ok_def)

lemma parseFloat_15: "parseFloat ''15'' = Fin 15"
proof -
  have "to_double 15 = Fin 15" using to_double_int [of 15] by simp
  then show ?thesis
    by (simp add: parseFloat_def js_ws_def decimal_prefix_def is_dec_def exponent_part_def dec_nat_def digit_val_def
        pow_int_def Let_def)
qed

definition sample_props :: SendProps where
  "sample_props = \<lparr> sp_account = \<lparr> acc_index = 0, acc_name = ''Account 1'', acc_addressBech32 = ''0x'' @ replicate 40 (CHR ''a''),
       acc_addressHex = ''0x'' @ replicate 40 (CHR ''a''), acc_publicKeyHex = [], acc_algorithm = Ed25519, acc_path = [] \<rparr>,
     sp_network = NETWORK_local, sp_privateKey = replicate 32 7 \<rparr>"

definition sample_form :: SendModal where
  "sample_form = send_init \<lparr> sm_recipient := ''0x'' @ replicate 40 (CHR ''b''), sm_amount := ''15'' \<rparr>"

lemma sample_submit:
  "\<exists>s' su. send_submit hex_bech32 sample_props sample_form = (s', Some su) \<and> su_amount su = ''15'' \<and>
     su_recipient su = ''0x'' @ replicate 40 (CHR ''b'')"
  using valid_hex_text [OF sample_hex(2), of hex_bech32]
  by (simp add: send_submit_def sample_form_def send_init_def isValidRecipient_def parseFloat_15 n_le_def n_eq_def)

theorem send_form_safe_witness:
  "\<exists>s' su effects r. send_submit hex_bech32 sample_props sample_form = (s', Some su) \<and>
     send_try hex_bech32 plain_crypto net_down (\<lambda>_. Inr ()) su = (effects, r) \<and>
     n_less (Fin 0) (parseFloat (su_amount su)) \<and> isValidAddress hex_bech32 (su_recipient su)"
proof -
  obtain s' su where su: "send_submit hex_bech32 sample_props sample_form = (s', Some su)"
    using sample_submit by blast
  obtain effects r where "send_try hex_bech32 plain_crypto net_down (\<lambda>_. Inr ()) su = (effects, r)"
    by (cases "send_try hex_bech32 plain_crypto net_down (\<lambda>_. Inr ()) su")
  with send_form_safe [OF su this] su show ?thesis by blast
qed

end
