(* ===== verification/Mnemonic.thy ===== *)
theory Mnemonic
  imports Crypto
begin

text \<open>
  \<^verbatim>\<open>src/packages/sprax-wallet-core/src/mnemonic.ts\<close>: \<^verbatim>\<open>MnemonicUtil\<close>.  Word list and checksum are the
  package \<^verbatim>\<open>bip39\<close>'s; the code adds the normalisation of the phrase and the check of the word count.
\<close>

definition generate :: "crypto_lib \<Rightarrow> nat \<Rightarrow> string" where
  "generate cl wordCount =
     (let strength = (if wordCount = 12 then 128 else 256) in bip39_generateMnemonic cl strength)"

definition validate :: "crypto_lib \<Rightarrow> string \<Rightarrow> bool" where
  "validate cl mnemonic =
     (let trimmed = toLowerCase (trim mnemonic);
          words = split_ws trimmed
      in if length words \<noteq> 12 \<and> length words \<noteq> 24 then False
         else bip39_validateMnemonic cl trimmed)"

definition toSeed :: "crypto_lib \<Rightarrow> string \<Rightarrow> string \<Rightarrow> bytes res" where
  "toSeed cl mnemonic passphrase =
     (if \<not> validate cl mnemonic
      then Inl (Error ''Invalid BIP-39 mnemonic phrase or checksum failure'')
      else Inr (bip39_mnemonicToSeedSync cl (toLowerCase (trim mnemonic)) passphrase))"

section \<open>Normalisation\<close>

lemma js_ws_lower [simp]: "js_ws (lower_char c) = js_ws c"
proof (cases "(65 \<le> code_unit c \<and> code_unit c \<le> 90) \<or>
    (192 \<le> code_unit c \<and> code_unit c \<le> 222 \<and> code_unit c \<noteq> 215)")
  case True
  then have "code_unit (lower_char c) = code_unit c + 32"
    by (auto simp: lower_char_def Let_def)
  with True show ?thesis by (auto simp: js_ws_def)
next
  case False
  then have "lower_char c = c"
    unfolding lower_char_def Let_def by (simp only: if_False)
  then show ?thesis by simp
qed

lemma trim_lower: "trim (toLowerCase s) = toLowerCase (trim s)"
  by (simp add: trim_def toLowerCase_def rev_map dropWhile_map o_def)

lemma normalise_phrase [simp]:
  "toLowerCase (trim (toLowerCase (trim s))) = toLowerCase (trim s)"
  "toLowerCase (trim (trim s)) = toLowerCase (trim s)"
  "toLowerCase (trim (toLowerCase s)) = toLowerCase (trim s)"
  by (simp_all add: trim_lower)

lemma validate_normalised:
  "validate cl (trim s) = validate cl s" "validate cl (toLowerCase s) = validate cl s"
  by (simp_all add: validate_def)

lemma toSeed_normalised:
  "toSeed cl (trim s) p = toSeed cl s p" "toSeed cl (toLowerCase s) p = toSeed cl s p"
  by (simp_all add: toSeed_def validate_normalised)

lemma toSeed_Inr_iff: "is_ok (toSeed cl m p) \<longleftrightarrow> validate cl m"
  by (simp add: toSeed_def)

lemma toSeed_length: "crypto_ok cl \<Longrightarrow> toSeed cl m p = Inr s \<Longrightarrow> length s = 64"
  by (auto simp: toSeed_def crypto_okD(3) split: if_splits)

lemma split_ws_ne: "split_ws s \<noteq> []"
proof (induction s rule: split_ws.induct)
  case (2 x s)
  then show ?case
    by (subst split_ws.simps) (auto simp del: split_ws.simps split: list.splits)
qed simp

lemma length_split_ws_lower: "length (split_ws (toLowerCase s)) = length (split_ws s)"
proof (induction s rule: split_ws.induct)
  case (2 x s)
  have step: "length (split_ws (y # t)) =
      (if js_ws y then (case t of z # _ \<Rightarrow> (if js_ws z then length (split_ws t) else Suc (length (split_ws t))) | [] \<Rightarrow> 2)
       else length (split_ws t))" for y t
    using split_ws_ne [of t] by (subst split_ws.simps) (auto simp del: split_ws.simps split: list.splits)
  show ?case
    using 2 by (cases s) (simp_all only: step toLowerCase_simps js_ws_lower list.case if_splits, auto simp del: split_ws.simps)
qed simp

lemma validate_word_count: "validate cl m \<Longrightarrow> length (split_ws (trim m)) \<in> {12, 24}"
  by (auto simp: validate_def Let_def length_split_ws_lower simp del: split_ws.simps split: if_splits)

section \<open>Properties\<close>

text \<open>Surrounding white space and the case of letters do not matter: neither the validity of a
  phrase nor its seed change under trimming or lower-casing, the seed exists exactly for the valid
  phrases, and a valid phrase has 12 or 24 words.\<close>

theorem mnemonic_normalised:
  "toSeed cl (trim m) p = toSeed cl m p \<and> toSeed cl (toLowerCase m) p = toSeed cl m p \<and>
   is_ok (toSeed cl m p) = validate cl m \<and>
   (if validate cl m then length (split_ws (trim m)) \<in> {12, 24} else True)"
  using toSeed_normalised toSeed_Inr_iff validate_word_count by simp

end
