(* ===== verification/State_Machine.thy ===== *)
theory State_Machine
  imports Main
begin

text \<open>
  User interfaces as event-driven state machines: an initial state, the events a state offers (the
  controls it renders) and the handler of each event.  \<open>reach\<close> are the states a user can reach;
  an interpretation of \<open>invariant_system\<close> shows one property for all of them.
\<close>

inductive reach :: "'s \<Rightarrow> ('e \<Rightarrow> 's \<Rightarrow> bool) \<Rightarrow> ('e \<Rightarrow> 's \<Rightarrow> 's) \<Rightarrow> 's \<Rightarrow> bool"
  for init enabled handle where
  init: "reach init enabled handle init"
| step: "reach init enabled handle s \<Longrightarrow> enabled e s \<Longrightarrow> reach init enabled handle (handle e s)"

text \<open>The state after a list of events, provided each is offered when it happens.\<close>

fun run :: "('e \<Rightarrow> 's \<Rightarrow> bool) \<Rightarrow> ('e \<Rightarrow> 's \<Rightarrow> 's) \<Rightarrow> 'e list \<Rightarrow> 's \<Rightarrow> 's option" where
  "run enabled handle [] s = Some s"
| "run enabled handle (e # es) s = (if enabled e s then run enabled handle es (handle e s) else None)"

lemma run_reach:
  assumes "reach init enabled handle s" and "run enabled handle es s = Some t"
  shows "reach init enabled handle t"
  using assms by (induction es arbitrary: s) (auto split: if_splits intro: reach.step)

locale invariant_system =
  fixes init :: 's
    and enabled :: "'e \<Rightarrow> 's \<Rightarrow> bool"
    and handle :: "'e \<Rightarrow> 's \<Rightarrow> 's"
    and inv :: "'s \<Rightarrow> bool"
  assumes inv_init: "inv init"
    and inv_step: "inv s \<Longrightarrow> enabled e s \<Longrightarrow> inv (handle e s)"
begin

lemma reach_inv: "reach init enabled handle s \<Longrightarrow> inv s"
  by (induction rule: reach.induct) (auto intro: inv_init inv_step)

lemma run_inv: "run enabled handle es init = Some t \<Longrightarrow> inv t"
  using run_reach [OF reach.init] reach_inv by metis

end

end
