(* ===== verification/Onboarding.thy ===== *)
theory Onboarding
  imports Mnemonic State_Machine
begin

text \<open>
  \<^verbatim>\<open>src/apps/web-wallet/src/components/WalletOnboarding.tsx\<close>: the component's state, the events its
  rendered controls offer and their handlers.  Submitting the password form may call the parent's
  \<^verbatim>\<open>onVaultCreated\<close>; the calls made so far are kept in the state as a log.
\<close>

datatype OnbStep = Choose | Create | Verify | Import | SetPassword

record Onboarding =
  ob_step :: OnbStep
  ob_generatedMnemonic :: string
  ob_importInput :: string
  ob_password :: string
  ob_confirmPassword :: string
  ob_verificationIndex :: nat
  ob_verificationInput :: string
  ob_errorMessage :: string
  ob_created :: "(string \<times> string) list"

definition onboarding_init :: Onboarding where
  "onboarding_init =
     \<lparr> ob_step = Choose, ob_generatedMnemonic = [], ob_importInput = [], ob_password = [],
       ob_confirmPassword = [], ob_verificationIndex = 0, ob_verificationInput = [],
       ob_errorMessage = [], ob_created = [] \<rparr>"

text \<open>\<open>random\<close> is the draw \<^verbatim>\<open>Math.floor(Math.random() * 12)\<close>.\<close>

definition handleStartCreate :: "crypto_lib \<Rightarrow> nat \<Rightarrow> Onboarding \<Rightarrow> Onboarding" where
  "handleStartCreate cl random s =
     s \<lparr> ob_generatedMnemonic := generate cl 12, ob_verificationIndex := random, ob_step := Create \<rparr>"

definition handleVerifyStep :: "Onboarding \<Rightarrow> Onboarding" where
  "handleVerifyStep s = s \<lparr> ob_step := Verify \<rparr>"

text \<open>An index past the last word reads undefined, which differs from every input.\<close>

definition handleCheckWord :: "Onboarding \<Rightarrow> Onboarding" where
  "handleCheckWord s =
     (let words = split_on (CHR '' '') (ob_generatedMnemonic s);
          i = ob_verificationIndex s
      in if \<not> (i < length words \<and> toLowerCase (trim (ob_verificationInput s)) = words ! i)
         then s \<lparr> ob_errorMessage := ''Incorrect word for #'' @ nat_str (i + 1) @ ''. Please review your backup.'' \<rparr>
         else s \<lparr> ob_errorMessage := [], ob_step := SetPassword \<rparr>)"

definition handleCompletePassword :: "Onboarding \<Rightarrow> Onboarding" where
  "handleCompletePassword s =
     (if length (ob_password s) < 8
      then s \<lparr> ob_errorMessage := ''Password must be at least 8 characters long.'' \<rparr>
      else if ob_password s \<noteq> ob_confirmPassword s
      then s \<lparr> ob_errorMessage := ''Passwords do not match.'' \<rparr>
      else (let mnemonicToSave = (if ob_generatedMnemonic s \<noteq> [] then ob_generatedMnemonic s
                                  else toLowerCase (trim (ob_importInput s)))
            in s \<lparr> ob_created := ob_created s @ [(mnemonicToSave, ob_password s)] \<rparr>))"

definition handleImportMnemonic :: "crypto_lib \<Rightarrow> Onboarding \<Rightarrow> Onboarding" where
  "handleImportMnemonic cl s =
     (if \<not> validate cl (ob_importInput s)
      then s \<lparr> ob_errorMessage := ''Invalid 12 or 24-word BIP-39 mnemonic phrase.'' \<rparr>
      else s \<lparr> ob_errorMessage := [], ob_step := SetPassword \<rparr>)"

datatype OnbEvent =
    ClickCreate nat
  | ClickImportExisting
  | ClickSaved
  | TypeWord string
  | ClickVerify
  | TypeImport string
  | ClickImport
  | TypePassword string
  | TypeConfirm string
  | SubmitPassword

text \<open>Which controls the component renders in a step.\<close>

fun onboarding_offers :: "OnbEvent \<Rightarrow> Onboarding \<Rightarrow> bool" where
  "onboarding_offers (ClickCreate r) s = (ob_step s = Choose \<and> r < 12)"
| "onboarding_offers ClickImportExisting s = (ob_step s = Choose)"
| "onboarding_offers ClickSaved s = (ob_step s = Create)"
| "onboarding_offers (TypeWord _) s = (ob_step s = Verify)"
| "onboarding_offers ClickVerify s = (ob_step s = Verify)"
| "onboarding_offers (TypeImport _) s = (ob_step s = Import)"
| "onboarding_offers ClickImport s = (ob_step s = Import)"
| "onboarding_offers (TypePassword _) s = (ob_step s = SetPassword)"
| "onboarding_offers (TypeConfirm _) s = (ob_step s = SetPassword)"
| "onboarding_offers SubmitPassword s = (ob_step s = SetPassword)"

fun onboarding_handle :: "crypto_lib \<Rightarrow> OnbEvent \<Rightarrow> Onboarding \<Rightarrow> Onboarding" where
  "onboarding_handle cl (ClickCreate r) s = handleStartCreate cl r s"
| "onboarding_handle cl ClickImportExisting s = s \<lparr> ob_step := Import \<rparr>"
| "onboarding_handle cl ClickSaved s = handleVerifyStep s"
| "onboarding_handle cl (TypeWord t) s = s \<lparr> ob_verificationInput := t \<rparr>"
| "onboarding_handle cl ClickVerify s = handleCheckWord s"
| "onboarding_handle cl (TypeImport t) s = s \<lparr> ob_importInput := t \<rparr>"
| "onboarding_handle cl ClickImport s = handleImportMnemonic cl s"
| "onboarding_handle cl (TypePassword t) s = s \<lparr> ob_password := t \<rparr>"
| "onboarding_handle cl (TypeConfirm t) s = s \<lparr> ob_confirmPassword := t \<rparr>"
| "onboarding_handle cl SubmitPassword s = handleCompletePassword s"

section \<open>Invariant\<close>

text \<open>The generator yields valid phrases, as the package documents.\<close>

definition bip39_ok :: "crypto_lib \<Rightarrow> bool" where
  "bip39_ok cl \<longleftrightarrow> validate cl (generate cl 12)"

definition phrase_of :: "Onboarding \<Rightarrow> string" where
  "phrase_of s = (if ob_generatedMnemonic s \<noteq> [] then ob_generatedMnemonic s
                  else toLowerCase (trim (ob_importInput s)))"

text \<open>The word the user had to repeat before a generated phrase can be used.\<close>

definition word_checked :: "Onboarding \<Rightarrow> bool" where
  "word_checked s \<longleftrightarrow>
     (let words = split_on (CHR '' '') (ob_generatedMnemonic s) in
      ob_verificationIndex s < length words \<and>
      toLowerCase (trim (ob_verificationInput s)) = words ! ob_verificationIndex s)"

definition onboarding_inv :: "crypto_lib \<Rightarrow> Onboarding \<Rightarrow> bool" where
  "onboarding_inv cl s \<longleftrightarrow>
     (ob_step s \<in> {Choose, Import} \<longrightarrow> ob_generatedMnemonic s = []) \<and>
     (ob_step s \<in> {Create, Verify} \<longrightarrow> ob_generatedMnemonic s = generate cl 12 \<and> ob_verificationIndex s < 12) \<and>
     (ob_step s = SetPassword \<longrightarrow>
        (ob_generatedMnemonic s = generate cl 12 \<and> word_checked s) \<or>
        (ob_generatedMnemonic s = [] \<and> validate cl (ob_importInput s))) \<and>
     (ob_created s \<noteq> [] \<longrightarrow> ob_step s = SetPassword) \<and>
     list_all (\<lambda>(m, pw). m = phrase_of s \<and> 8 \<le> length pw) (ob_created s)"

lemma onboarding_inv_init: "onboarding_inv cl onboarding_init"
  by (simp add: onboarding_inv_def onboarding_init_def)

lemma onboarding_inv_step:
  assumes "onboarding_inv cl s" "onboarding_offers e s"
  shows "onboarding_inv cl (onboarding_handle cl e s)"
  using assms
  by (cases e)
     (auto simp: onboarding_inv_def handleStartCreate_def handleVerifyStep_def handleCheckWord_def
        handleCompletePassword_def handleImportMnemonic_def word_checked_def phrase_of_def Let_def
        list_all_iff)

interpretation onboarding: invariant_system onboarding_init onboarding_offers "onboarding_handle cl"
    "onboarding_inv cl" for cl
  by unfold_locales (rule onboarding_inv_init, rule onboarding_inv_step)

lemma validate_Nil [simp]: "\<not> validate cl []"
  by (simp add: validate_def)

lemma validate_phrase:
  assumes "bip39_ok cl" "onboarding_inv cl s" "ob_step s = SetPassword"
  shows "validate cl (phrase_of s)"
  using assms validate_normalised
  by (auto simp: onboarding_inv_def bip39_ok_def phrase_of_def dest: sym [of "[]"])

text \<open>Every phrase handed to the parent is valid, and its password has at least eight characters.\<close>

lemma created_valid:
  assumes "bip39_ok cl" "reach onboarding_init onboarding_offers (onboarding_handle cl) s"
    and "(m, pw) \<in> set (ob_created s)"
  shows "validate cl m \<and> 8 \<le> length pw"
proof -
  have inv: "onboarding_inv cl s" using assms(2) by (rule onboarding.reach_inv)
  with assms(3) have "m = phrase_of s" "8 \<le> length pw" "ob_step s = SetPassword"
    by (auto simp: onboarding_inv_def list_all_iff)
  with validate_phrase [OF assms(1) inv] show ?thesis by simp
qed

section \<open>Properties\<close>

text \<open>C10: Every phrase the onboarding hands to the application is a valid one, under a password of at
  least eight characters, whichever way the user walks through the steps; and a generated phrase
  is handed over only after the requested word of it was typed correctly.\<close>

theorem onboarding_only_valid:
  assumes "bip39_ok cl" "reach onboarding_init onboarding_offers (onboarding_handle cl) s"
    and "(m, pw) \<in> set (ob_created s)"
  shows "validate cl m \<and> 8 \<le> length pw \<and>
    (ob_generatedMnemonic s = [] \<or> (m = ob_generatedMnemonic s \<and> word_checked s))"
proof -
  have inv: "onboarding_inv cl s" using assms(2) by (rule onboarding.reach_inv)
  have gen: "generate cl 12 \<noteq> []" using assms(1) by (metis bip39_ok_def validate_Nil)
  from inv assms(3) have "m = phrase_of s" "ob_step s = SetPassword"
    by (auto simp: onboarding_inv_def list_all_iff)
  with inv gen have "ob_generatedMnemonic s = [] \<or> (m = ob_generatedMnemonic s \<and> word_checked s)"
    by (auto simp: onboarding_inv_def phrase_of_def)
  with created_valid [OF assms] show ?thesis by blast
qed

definition sample_onboarding :: "OnbEvent list" where
  "sample_onboarding =
     [ClickImportExisting, TypeImport '' A b c d e f g h i j k l'', ClickImport,
      TypePassword ''password'', TypeConfirm ''password'', SubmitPassword]"

lemma sample_valid: "validate plain_crypto '' A b c d e f g h i j k l''" "bip39_ok plain_crypto"
  by (simp_all add: validate_def trim_def js_ws_def toLowerCase_def lower_char_def plain_crypto_def bip39_ok_def
      generate_def char_of_eq_iff)

theorem onboarding_only_valid_witness:
  "\<exists>s. run onboarding_offers (onboarding_handle plain_crypto) sample_onboarding onboarding_init = Some s \<and>
     ob_created s = [(toLowerCase (trim '' A b c d e f g h i j k l''), ''password'')] \<and>
     validate plain_crypto (toLowerCase (trim '' A b c d e f g h i j k l''))"
proof -
  obtain s where s: "run onboarding_offers (onboarding_handle plain_crypto) sample_onboarding onboarding_init = Some s"
    "ob_created s = [(toLowerCase (trim '' A b c d e f g h i j k l''), ''password'')]"
    using sample_valid(1)
    by (simp add: sample_onboarding_def onboarding_init_def handleImportMnemonic_def handleCompletePassword_def)
  with onboarding_only_valid [OF sample_valid(2) run_reach [OF reach.init s(1)],
      of "toLowerCase (trim '' A b c d e f g h i j k l'')" "''password''"]
  show ?thesis by auto
qed

end
