(* ===== verification/Hd_Wallet.thy ===== *)
theory Hd_Wallet
  imports Wallet_Types Address Mnemonic
begin

text \<open>
  \<^verbatim>\<open>src/packages/sprax-wallet-core/src/hd_wallet.ts\<close>: the class \<^verbatim>\<open>HDWallet\<close>.  Its state is the seed;
  typed arrays are byte lists, \<open>u8_set\<close> is \<^verbatim>\<open>Uint8Array.prototype.set\<close> with its range check, and the
  account index goes through the 32-bit operators of the source.
\<close>

unbundle bit_operations_syntax

definition SPRAX_COIN_TYPE :: int where
  "SPRAX_COIN_TYPE = 9999"

definition DEFAULT_DERIVATION_PATH :: string where
  "DEFAULT_DERIVATION_PATH = ''m/44'/'' @ int_str SPRAX_COIN_TYPE @ [char_of (39 :: nat)] @ ''/0'/0''"

record HDWallet =
  hd_seed :: bytes

definition new_HDWallet :: "bytes \<Rightarrow> HDWallet res" where
  "new_HDWallet seed =
     (if length seed \<noteq> 64
      then Inl (Error (''HD wallet seed must be 64 bytes, got '' @ nat_str (length seed)))
      else Inr \<lparr> hd_seed = seed \<rparr>)"

definition fromMnemonic :: "crypto_lib \<Rightarrow> string \<Rightarrow> string \<Rightarrow> HDWallet res" where
  "fromMnemonic cl mnemonic passphrase = ebind (toSeed cl mnemonic passphrase) new_HDWallet"

definition deriveMasterKey :: "crypto_lib \<Rightarrow> HDWallet \<Rightarrow> string \<Rightarrow> bytes \<times> bytes" where
  "deriveMasterKey cl w saltKey =
     (let I = hmac_sha512 cl (TextEncoder_encode saltKey) (hd_seed w)
      in (slice I 0 32, slice I 32 64))"

text \<open>\<^verbatim>\<open>setUint32(0, 0x80000000 | index, false)\<close>: big-endian bytes of the hardened index.\<close>

definition index_word :: "int \<Rightarrow> 32 word" where
  "index_word index = 0x80000000 OR word_of_int index"

definition index_data :: "int \<Rightarrow> bytes" where
  "index_data index = map (\<lambda>k. ucast (drop_bit k (index_word index))) [24, 16, 8, 0]"

definition u8_set :: "bytes \<Rightarrow> bytes \<Rightarrow> nat \<Rightarrow> bytes res" where
  "u8_set buf src off =
     (if length buf < off + length src then Inl (RangeError ''offset is out of bounds'')
      else Inr (take off buf @ src @ drop (off + length src) buf))"

definition child_data :: "bytes \<Rightarrow> int \<Rightarrow> bytes res" where
  "child_data key index =
     (let data = (replicate 37 0)[0 := 0] in
      ebind (u8_set data key 1) (\<lambda>data. u8_set data (index_data index) 33))"

definition childKey :: "crypto_lib \<Rightarrow> HDWallet \<Rightarrow> string \<Rightarrow> int \<Rightarrow> bytes res" where
  "childKey cl w saltKey index =
     (let (key, chainCode) = deriveMasterKey cl w saltKey in
      ebind (child_data key index) (\<lambda>data.
        let childI = hmac_sha512 cl chainCode data in Inr (slice childI 0 32)))"

definition default_name :: "int \<Rightarrow> string" where
  "default_name index = ''Account '' @ int_str (index + 1)"

definition deriveAccount :: "bech32_lib \<Rightarrow> crypto_lib \<Rightarrow> HDWallet \<Rightarrow> int \<Rightarrow> string \<Rightarrow> (Account \<times> bytes) res" where
  "deriveAccount lib cl w index name =
     (let path = DEFAULT_DERIVATION_PATH @ ''/'' @ int_str index in
      ebind (childKey cl w ''ed25519 seed'' index) (\<lambda>privateKey.
      ebind (ed25519_getPublicKey cl privateKey) (\<lambda>publicKey.
      let pubHash = sha256 cl publicKey;
          rawAddress = slice pubHash 0 20
      in ebind (toBech32 lib rawAddress) (\<lambda>addressBech32.
         ebind (toHex rawAddress) (\<lambda>addressHex.
           Inr (\<lparr> acc_index = index, acc_name = name, acc_addressBech32 = addressBech32,
                  acc_addressHex = addressHex, acc_publicKeyHex = bytes_hex publicKey,
                  acc_algorithm = Ed25519, acc_path = path \<rparr>, privateKey))))))"

definition deriveSecp256k1Account :: "bech32_lib \<Rightarrow> crypto_lib \<Rightarrow> HDWallet \<Rightarrow> int \<Rightarrow> string
    \<Rightarrow> (Account \<times> bytes) res" where
  "deriveSecp256k1Account lib cl w index name =
     (let path = ''m/44'/60'/0'/0/'' @ int_str index in
      ebind (childKey cl w ''Bitcoin seed'' index) (\<lambda>privateKey.
      ebind (secp256k1_getPublicKey cl privateKey) (\<lambda>publicKey.
      let pubHash = sha256 cl publicKey;
          rawAddress = slice pubHash 0 20
      in ebind (toBech32 lib rawAddress) (\<lambda>addressBech32.
         ebind (toHex rawAddress) (\<lambda>addressHex.
           Inr (\<lparr> acc_index = index, acc_name = name, acc_addressBech32 = addressBech32,
                  acc_addressHex = addressHex, acc_publicKeyHex = bytes_hex publicKey,
                  acc_algorithm = Secp256k1, acc_path = path \<rparr>, privateKey))))))"

section \<open>The hardened index\<close>

lemma slice_0: "slice s 0 (int n) = take n s"
  using slice_nat [of s 0 n] by simp

lemma slice_0_20: "slice s 0 20 = take 20 s"
  using slice_0 [of s 20] by simp

lemma slice_take_drop: "slice s (int m) (int n) = take (n - m) (drop m s)"
  using slice_nat [of s m n] by (simp only: drop_take)

lemma length_index_data [simp]: "length (index_data i) = 4"
  by (simp add: index_data_def)

lemma bit_index_word: "n < 31 \<Longrightarrow> bit (index_word i) n \<longleftrightarrow> bit i n"
proof -
  assume "n < 31"
  have "bit (0x80000000 :: 32 word) n \<longleftrightarrow> n = 31"
    using bit_exp_iff [of 31 n, where 'a = "32 word"] by auto
  with \<open>n < 31\<close> show ?thesis by (simp add: index_word_def bit_or_iff bit_word_of_int_iff)
qed

lemma index_word_inj:
  assumes "0 \<le> i" "i < 2 ^ 31" "0 \<le> j" "j < 2 ^ 31" "index_word i = index_word j"
  shows "i = j"
proof -
  have "take_bit 31 i = take_bit 31 j"
    using assms(5) bit_index_word by (intro bit_eqI) (metis bit_take_bit_iff)
  with assms show ?thesis by (simp add: take_bit_int_eq_self)
qed

lemma byte_at_bits:
  fixes v w :: "32 word"
  assumes "(ucast (drop_bit k v) :: byte) = ucast (drop_bit k w)" "m < 8"
  shows "bit v (k + m) = bit w (k + m)"
proof -
  have "bit (ucast (drop_bit k v) :: byte) m = bit (ucast (drop_bit k w) :: byte) m"
    using assms(1) by simp
  with assms(2) show ?thesis by (simp add: bit_ucast_iff bit_drop_bit_eq)
qed

lemma index_data_word: "index_data i = index_data j \<Longrightarrow> index_word i = index_word j"
proof (rule bit_word_eqI)
  fix n
  assume eq: "index_data i = index_data j" and "n < LENGTH(32)"
  then have "n < 32" by simp
  then consider "n < 8" | "8 \<le> n \<and> n - 8 < 8" | "16 \<le> n \<and> n - 16 < 8" | "24 \<le> n \<and> n - 24 < 8" by linarith
  then show "bit (index_word i) n = bit (index_word j) n"
    using eq byte_at_bits [of 0 "index_word i" "index_word j" n]
      byte_at_bits [of 8 "index_word i" "index_word j" "n - 8"]
      byte_at_bits [of 16 "index_word i" "index_word j" "n - 16"]
      byte_at_bits [of 24 "index_word i" "index_word j" "n - 24"]
    by cases (auto simp: index_data_def)
qed

lemma index_data_inj:
  "0 \<le> i \<Longrightarrow> i < 2 ^ 31 \<Longrightarrow> 0 \<le> j \<Longrightarrow> j < 2 ^ 31 \<Longrightarrow> index_data i = index_data j \<longleftrightarrow> i = j"
  using index_data_word index_word_inj by blast

lemma child_data_eq: "length key = 32 \<Longrightarrow> child_data key i = Inr (0 # key @ index_data i)"
proof -
  assume "length key = 32"
  moreover have "(replicate 37 (0 :: byte))[0 := 0] = 0 # replicate 36 0"
    by (simp add: eval_nat_numeral)
  ultimately show ?thesis by (simp add: child_data_def u8_set_def)
qed

section \<open>Derived accounts\<close>

lemma childKey_eq:
  assumes "crypto_ok cl"
  obtains key cc where "deriveMasterKey cl w salt = (key, cc)" "length key = 32" "length cc = 32"
    "childKey cl w salt i = Inr (take 32 (hmac_sha512 cl cc (0 # key @ index_data i)))"
proof -
  let ?I = "hmac_sha512 cl (TextEncoder_encode salt) (hd_seed w)"
  let ?key = "take 32 ?I" and ?cc = "take 32 (drop 32 ?I)"
  have m: "deriveMasterKey cl w salt = (?key, ?cc)"
    using slice_0 [of ?I 32] slice_take_drop [of ?I 32 64] by (simp add: deriveMasterKey_def Let_def)
  have len: "length ?key = 32" "length ?cc = 32"
    using assms by (simp_all add: crypto_okD(2))
  show ?thesis
    by (rule that [OF m len])
       (use slice_0 [of _ 32] len in \<open>simp add: childKey_def m child_data_eq Let_def\<close>)
qed

lemma childKey_length:
  assumes "crypto_ok cl" "childKey cl w salt i = Inr k"
  shows "length k = 32"
  by (rule childKey_eq [OF assms(1), of w salt i]) (use assms in \<open>auto simp: crypto_okD(2)\<close>)

text \<open>What every derived account satisfies: both texts of its address denote the first twenty bytes
  of the hash of its public key.\<close>

definition account_ok :: "bech32_lib \<Rightarrow> crypto_lib \<Rightarrow> bytes \<Rightarrow> Account \<Rightarrow> bool" where
  "account_ok lib cl pub acc \<longleftrightarrow>
     acc_publicKeyHex acc = bytes_hex pub \<and>
     parseToBytes lib (acc_addressHex acc) = Inr (take 20 (sha256 cl pub)) \<and>
     parseToBytes lib (acc_addressBech32 acc) = Inr (take 20 (sha256 cl pub))"

lemma address_texts:
  assumes "bech32_ok lib" "crypto_ok cl"
  obtains b h where "toBech32 lib (take 20 (sha256 cl pub)) = Inr b" "toHex (take 20 (sha256 cl pub)) = Inr h"
    "parseToBytes lib b = Inr (take 20 (sha256 cl pub))" "parseToBytes lib h = Inr (take 20 (sha256 cl pub))"
proof -
  let ?raw = "take 20 (sha256 cl pub)"
  have len: "length ?raw = 20" using assms(2) by (simp add: crypto_okD(1))
  obtain b where b: "toBech32 lib ?raw = Inr b"
    using codec.enc_total [OF bech32_codec [OF assms(1)] len] by blast
  obtain h where h: "toHex ?raw = Inr h" using hexa.enc_total [OF len] by blast
  show ?thesis
    using that [OF b h] codec.dec_enc [OF bech32_codec [OF assms(1)] len b] hexa.dec_enc [OF len h] by blast
qed

lemma deriveAccount_ok:
  assumes "bech32_ok lib" "crypto_ok cl"
  obtains acc key pub where "deriveAccount lib cl w i name = Inr (acc, key)"
    "length key = 32" "ed25519_getPublicKey cl key = Inr pub" "account_ok lib cl pub acc"
    "acc_index acc = i" "acc_name acc = name" "acc_algorithm acc = Ed25519"
    "acc_path acc = ''m/44'/9999'/0'/0/'' @ int_str i"
proof -
  obtain key where key: "childKey cl w ''ed25519 seed'' i = Inr key"
    by (rule childKey_eq [OF assms(2), of w "''ed25519 seed''" i])
  then have len: "length key = 32" using assms(2) childKey_length by blast
  then obtain pub where pub: "ed25519_getPublicKey cl key = Inr pub"
    using crypto_ok_ed_key [OF assms(2)] by blast
  obtain b h where bh: "toBech32 lib (take 20 (sha256 cl pub)) = Inr b" "toHex (take 20 (sha256 cl pub)) = Inr h"
    "parseToBytes lib b = Inr (take 20 (sha256 cl pub))" "parseToBytes lib h = Inr (take 20 (sha256 cl pub))"
    by (rule address_texts [OF assms])
  have path: "DEFAULT_DERIVATION_PATH @ ''/'' = ''m/44'/9999'/0'/0/''"
    by (simp add: DEFAULT_DERIVATION_PATH_def SPRAX_COIN_TYPE_def int_str_def radix_str.simps digit_of_def
        char_of_eq_iff)
  have "deriveAccount lib cl w i name =
      Inr (\<lparr> acc_index = i, acc_name = name, acc_addressBech32 = b, acc_addressHex = h,
             acc_publicKeyHex = bytes_hex pub, acc_algorithm = Ed25519,
             acc_path = DEFAULT_DERIVATION_PATH @ ''/'' @ int_str i \<rparr>, key)"
    using key pub bh(1,2) slice_0 [of "sha256 cl pub" 20] by (simp add: deriveAccount_def Let_def)
  with len pub bh path show ?thesis
    by (intro that) (auto simp: account_ok_def simp flip: append_assoc)
qed

lemma deriveSecp256k1Account_ok:
  assumes "bech32_ok lib" "crypto_ok cl" "deriveSecp256k1Account lib cl w i name = Inr (acc, key)"
  obtains pub where "secp256k1_getPublicKey cl key = Inr pub" "length pub = 33" "length key = 32"
    "account_ok lib cl pub acc" "acc_algorithm acc = Secp256k1" "acc_path acc = ''m/44'/60'/0'/0/'' @ int_str i"
proof -
  from assms(3) obtain pub b h where pub: "secp256k1_getPublicKey cl key = Inr pub"
    and key: "childKey cl w ''Bitcoin seed'' i = Inr key"
    and b: "toBech32 lib (take 20 (sha256 cl pub)) = Inr b"
    and h: "toHex (take 20 (sha256 cl pub)) = Inr h"
    and acc: "acc = \<lparr> acc_index = i, acc_name = name, acc_addressBech32 = b, acc_addressHex = h,
       acc_publicKeyHex = bytes_hex pub, acc_algorithm = Secp256k1, acc_path = ''m/44'/60'/0'/0/'' @ int_str i \<rparr>"
    by (auto simp: deriveSecp256k1Account_def ebind_Inr_iff Let_def slice_0_20)
  moreover obtain b' h' where "toBech32 lib (take 20 (sha256 cl pub)) = Inr b'" "toHex (take 20 (sha256 cl pub)) = Inr h'"
    "parseToBytes lib b' = Inr (take 20 (sha256 cl pub))" "parseToBytes lib h' = Inr (take 20 (sha256 cl pub))"
    by (rule address_texts [OF assms(1,2)])
  ultimately show ?thesis
    using childKey_length [OF assms(2) key] crypto_okD(4) [OF assms(2) pub]
    by (intro that) (auto simp: account_ok_def)
qed

section \<open>Properties\<close>



text \<open>C15: The data hashed for a child key is a zero byte, the master key and the big-endian hardened
  index; account indices from 0 to \<open>2 ^ 31 - 1\<close> are encoded injectively.\<close>

theorem child_data_injective:
  assumes "length key = 32" "0 \<le> i" "i < 2 ^ 31" "0 \<le> j" "j < 2 ^ 31"
  shows "child_data key i = Inr (0 # key @ index_data i) \<and> (child_data key i = child_data key j \<longleftrightarrow> i = j)"
  using assms by (simp add: child_data_eq index_data_inj)

theorem child_data_injective_witness:
  "child_data (replicate 32 9) 0 \<noteq> child_data (replicate 32 9) 2147483647"
  using child_data_injective [of "replicate 32 9" 0 2147483647] by auto

end
