(* ===== verification/Vault.thy ===== *)
theory Vault
  imports Hd_Wallet
begin

text \<open>
  \<^verbatim>\<open>src/packages/sprax-wallet-core/src/vault.ts\<close>: \<^verbatim>\<open>WalletVault\<close>.  The random salt and initialisation
  vector are arguments.  A decrypted text with a code unit above U+00FF is the result \<open>Inr None\<close>.
\<close>

definition DEFAULT_ITERATIONS :: int where
  "DEFAULT_ITERATIONS = 100000"

definition bytesToHex :: "bytes \<Rightarrow> string" where
  "bytesToHex bs = bytes_hex bs"

definition hexToBytes :: "string \<Rightarrow> bytes" where
  "hexToBytes hex = (let clean = (if startsWith hex ''0x'' then drop 2 hex else hex) in hex_bytes clean)"

text \<open>The loop over \<^verbatim>\<open>i < accountCount\<close>.\<close>

fun derive_accounts :: "bech32_lib \<Rightarrow> crypto_lib \<Rightarrow> HDWallet \<Rightarrow> int \<Rightarrow> nat \<Rightarrow> Account list res" where
  "derive_accounts lib cl w i 0 = Inr []"
| "derive_accounts lib cl w i (Suc n) =
     ebind (deriveAccount lib cl w i (default_name i)) (\<lambda>(account, _).
     ebind (derive_accounts lib cl w (i + 1) n) (\<lambda>rest. Inr (account # rest)))"

definition subtle_error :: "string \<Rightarrow> js_error" where
  "subtle_error what =
     Error (''Cryptographic environment error: WebCrypto SubtleCrypto is required for AES-256-GCM vault '' @ what)"

definition encrypt :: "bech32_lib \<Rightarrow> crypto_lib \<Rightarrow> bytes \<Rightarrow> bytes \<Rightarrow> string \<Rightarrow> string \<Rightarrow> int \<Rightarrow> EncryptedVault res" where
  "encrypt lib cl salt iv mnemonic password accountCount =
     ebind (pbkdf2_sha256 cl (TextEncoder_encode password) salt DEFAULT_ITERATIONS 32) (\<lambda>derivedKey.
     ebind (fromMnemonic cl mnemonic []) (\<lambda>wallet.
     ebind (derive_accounts lib cl wallet 0 (nat accountCount)) (\<lambda>accounts.
     let plaintext = TextEncoder_encode mnemonic in
     if \<not> subtle_available cl then Inl (subtle_error ''encryption'')
     else ebind (aes_gcm_encrypt cl derivedKey iv plaintext) (\<lambda>cipherBytes.
       Inr \<lparr> ev_version = 1, ev_cipherTextHex = bytesToHex cipherBytes, ev_saltHex = bytesToHex salt,
             ev_ivHex = bytesToHex iv, ev_kdfIterations = DEFAULT_ITERATIONS, ev_accounts = accounts \<rparr>))))"

text \<open>\<^verbatim>\<open>new TextDecoder().decode\<close> drops a leading byte order mark.\<close>

definition strip_bom :: "bytes \<Rightarrow> bytes" where
  "strip_bom bs = (case bs of a # b # c # ds \<Rightarrow> (if a = 0xEF \<and> b = 0xBB \<and> c = 0xBF then ds else bs) | _ \<Rightarrow> bs)"

definition decrypt :: "crypto_lib \<Rightarrow> EncryptedVault \<Rightarrow> string \<Rightarrow> string option res" where
  "decrypt cl vault password =
     (let salt = hexToBytes (ev_saltHex vault);
          iv = hexToBytes (ev_ivHex vault);
          cipherBytes = hexToBytes (ev_cipherTextHex vault)
      in ebind (pbkdf2_sha256 cl (TextEncoder_encode password) salt (ev_kdfIterations vault) 32) (\<lambda>derivedKey.
         if \<not> subtle_available cl then Inl (subtle_error ''decryption'')
         else ebind (try_catch (aes_gcm_decrypt cl derivedKey iv cipherBytes)
                       (\<lambda>_. Inl (Error ''Incorrect password or corrupted wallet vault'')))
                (\<lambda>decryptedBytes. Inr (TextDecoder_decode (strip_bom decryptedBytes)))))"

section \<open>The hexadecimal fields\<close>

lemma hexToBytes_bytesToHex [simp]: "hexToBytes (bytesToHex bs) = bs"
proof -
  have "\<not> startsWith (bytes_hex bs) ''0x''"
  proof
    assume "startsWith (bytes_hex bs) ''0x''"
    then have "CHR ''x'' \<in> set (bytes_hex bs)" by (auto simp: startsWith_iff)
    then have "is_hex (CHR ''x'')" using bytes_hex_is_hex [of bs] by (auto simp: list_all_iff)
    then show False using hex_not_special by blast
  qed
  then show ?thesis by (simp add: hexToBytes_def bytesToHex_def)
qed

interpretation vault_hex: codec "\<lambda>bs. Inr (bytesToHex bs)" "\<lambda>s. Inr (hexToBytes s)" "\<lambda>_. True"
  by unfold_locales auto

section \<open>Round trip\<close>

lemma utf8_first: "utf8_char c = b # bs \<Longrightarrow> b \<noteq> 0xEF"
proof
  assume eq: "utf8_char c = b # bs" and "b = 0xEF"
  have "code_unit c < 128 \<or> code_unit c div 64 \<in> {2, 3}"
  proof -
    have "code_unit c < 256" by (rule char_code_lt)
    then have "128 \<le> code_unit c \<Longrightarrow> code_unit c div 64 = 2 \<or> code_unit c div 64 = 3" by linarith
    then show ?thesis by auto
  qed
  with eq have "\<exists>n < 240. n \<noteq> 239 \<and> b = of_nat n"
    by (auto simp: utf8_char_def Let_def split: if_splits intro: exI [of _ "code_unit c"] exI [of _ 194] exI [of _ 195])
  then obtain n where "n < 240" "n \<noteq> 239" "b = of_nat n" by blast
  then have "unat b = n" using unat_of_nat_byte [of n] by simp
  with \<open>b = 0xEF\<close> \<open>n \<noteq> 239\<close> show False by simp
qed

lemma strip_bom_encode [simp]: "strip_bom (TextEncoder_encode s) = TextEncoder_encode s"
proof (cases s)
  case (Cons c t)
  obtain b bs where b: "utf8_char c = b # bs"
    by (cases "utf8_char c") (auto simp: utf8_char_def Let_def split: if_splits)
  then have "b \<noteq> 0xEF" by (rule utf8_first)
  with Cons b show ?thesis by (auto simp: strip_bom_def TextEncoder_encode_def split: list.splits)
qed (simp add: strip_bom_def TextEncoder_encode_def)

lemma derive_accounts_ok:
  assumes "bech32_ok lib" "crypto_ok cl"
  shows "\<exists>accs. derive_accounts lib cl w i n = Inr accs \<and> length accs = n \<and>
           map acc_index accs = map (\<lambda>k. i + int k) [0 ..< n]"
proof (induction n arbitrary: i)
  case (Suc n)
  obtain acc key where acc: "deriveAccount lib cl w i (default_name i) = Inr (acc, key)" "acc_index acc = i"
    by (rule deriveAccount_ok [OF assms])
  moreover obtain accs where "derive_accounts lib cl w (i + 1) n = Inr accs" "length accs = n"
      "map acc_index accs = map (\<lambda>k. i + 1 + int k) [0 ..< n]"
    using Suc.IH [of "i + 1"] by blast
  moreover have "map (\<lambda>k. i + int k) [0 ..< Suc n] = i # map (\<lambda>k. i + 1 + int k) [0 ..< n]"
    by (simp add: upt_rec [of 0 "Suc n"] map_Suc_upt [symmetric] o_def algebra_simps del: upt_Suc)
  ultimately show ?case by (simp del: upt_Suc)
qed simp

lemma fromMnemonic_ok:
  assumes "crypto_ok cl"
  shows "is_ok (fromMnemonic cl m p) \<longleftrightarrow> validate cl m"
  using assms by (auto simp: fromMnemonic_def toSeed_def new_HDWallet_def crypto_okD(3))

lemma encrypt_ok:
  assumes lib: "bech32_ok lib" "crypto_ok cl" "subtle_available cl"
    and "validate cl m" "length salt = 16" "length iv = 12"
  obtains v where "encrypt lib cl salt iv m pw n = Inr v" "decrypt cl v pw = Inr (Some m)"
    "map acc_index (ev_accounts v) = map int [0 ..< nat n]"
proof -
  obtain key where key: "pbkdf2_sha256 cl (TextEncoder_encode pw) salt DEFAULT_ITERATIONS 32 = Inr key" "length key = 32"
    by (rule crypto_ok_pbkdf2 [OF lib(2), of DEFAULT_ITERATIONS]) (simp_all add: DEFAULT_ITERATIONS_def)
  obtain w where w: "fromMnemonic cl m [] = Inr w"
    using fromMnemonic_ok [OF lib(2)] assms(4) by (auto simp: is_ok_iff)
  obtain accs where accs: "derive_accounts lib cl w 0 (nat n) = Inr accs"
    "map acc_index accs = map int [0 ..< nat n]"
    using derive_accounts_ok [OF lib(1,2), of w 0 "nat n"] by auto
  obtain c where c: "aes_gcm_encrypt cl key iv (TextEncoder_encode m) = Inr c"
    "aes_gcm_decrypt cl key iv c = Inr (TextEncoder_encode m)"
    by (rule crypto_ok_aes [OF lib(2) key(2) assms(6)])
  let ?v = "\<lparr> ev_version = 1, ev_cipherTextHex = bytesToHex c, ev_saltHex = bytesToHex salt,
      ev_ivHex = bytesToHex iv, ev_kdfIterations = DEFAULT_ITERATIONS, ev_accounts = accs \<rparr>"
  have "encrypt lib cl salt iv m pw n = Inr ?v"
    using key w accs c lib(3) by (simp add: encrypt_def)
  moreover have "decrypt cl ?v pw = Inr (Some m)"
    using key c lib(3) by (simp add: decrypt_def)
  ultimately show ?thesis using accs(2) by (intro that) auto
qed

lemma decrypt_error:
  assumes "crypto_ok cl" "subtle_available cl" "0 < ev_kdfIterations v" "decrypt cl v pw = Inl e"
  shows "e = Error ''Incorrect password or corrupted wallet vault''"
proof -
  obtain k where "pbkdf2_sha256 cl (TextEncoder_encode pw) (hexToBytes (ev_saltHex v)) (ev_kdfIterations v) 32 = Inr k"
    by (rule crypto_ok_pbkdf2 [OF assms(1,3)])
  with assms(2,4) show ?thesis
    by (cases "aes_gcm_decrypt cl k (hexToBytes (ev_ivHex v)) (hexToBytes (ev_cipherTextHex v))")
       (auto simp: decrypt_def)
qed

section \<open>Properties\<close>

text \<open>C3: A valid phrase can be sealed, the vault opens with the same password to exactly that phrase,
  and it lists the requested number of accounts, numbered from zero.\<close>

theorem vault_round_trip:
  assumes "bech32_ok lib" "crypto_ok cl" "subtle_available cl"
    and "validate cl m" "length salt = 16" "length iv = 12"
  shows "\<exists>v. encrypt lib cl salt iv m pw n = Inr v \<and> decrypt cl v pw = Inr (Some m) \<and>
    map acc_index (ev_accounts v) = map int [0 ..< nat n]"
  by (rule encrypt_ok [OF assms]) blast

lemma sample_phrase_valid: "validate plain_crypto ''a b c d e f g h i j k l''"
  by (simp add: validate_def trim_def js_ws_def toLowerCase_def lower_char_def plain_crypto_def)

theorem vault_round_trip_witness:
  "\<exists>v. encrypt hex_bech32 plain_crypto (replicate 16 1) (replicate 12 2) ''a b c d e f g h i j k l'' ''secret'' 2 = Inr v \<and>
    decrypt plain_crypto v ''secret'' = Inr (Some ''a b c d e f g h i j k l'') \<and>
    map acc_index (ev_accounts v) = map int [0 ..< nat 2]"
  by (rule vault_round_trip [OF hex_bech32_ok plain_crypto_ok _ sample_phrase_valid]) (simp_all add: plain_crypto_def)


text \<open>A library whose decryption rejects every ciphertext that does not start with the key.\<close>

definition checked_crypto :: crypto_lib where
  "checked_crypto = plain_crypto \<lparr> aes_gcm_encrypt := (\<lambda>k iv m. Inr (k @ m)),
     aes_gcm_decrypt := (\<lambda>k iv c. if take 32 c = k then Inr (drop 32 c) else Inl (Error ''OperationError'')) \<rparr>"

lemma checked_crypto_ok: "crypto_ok checked_crypto"
  by (simp add: crypto_ok_def checked_crypto_def plain_crypto_def)


end
