(* ===== verification/Web_Wallet.thy ===== *)
theory Web_Wallet
  imports Wallet_Views Send_Modal Onboarding Vault
begin

text \<open>
  \<^verbatim>\<open>src/apps/web-wallet/src/App.tsx\<close> and its composition with the onboarding and the send form: one
  state machine whose events are the controls rendered in a state and the answers of the network.
  React keeps a component's state while it stays mounted and creates it anew when it is mounted
  again; \<open>remount\<close> does that for the two forms.
\<close>

record WalletApp =
  wa_network :: NetworkConfig
  wa_account :: "Account option"
  wa_privateKey :: "bytes option"
  wa_vault :: "EncryptedVault option"
  wa_isSendOpen :: bool
  wa_isReceiveOpen :: bool
  wa_statusMessage :: "string option"
  wa_alerts :: "string list"

definition app_init :: WalletApp where
  "app_init = \<lparr> wa_network = NETWORK_local, wa_account = None, wa_privateKey = None, wa_vault = None,
     wa_isSendOpen = False, wa_isReceiveOpen = False, wa_statusMessage = None, wa_alerts = [] \<rparr>"

definition vault_created_try :: "bech32_lib \<Rightarrow> crypto_lib \<Rightarrow> bytes \<Rightarrow> bytes \<Rightarrow> string \<Rightarrow> string
    \<Rightarrow> (Account \<times> bytes \<times> EncryptedVault) res" where
  "vault_created_try lib cl salt iv mnemonic password =
     ebind (fromMnemonic cl mnemonic []) (\<lambda>wallet.
     ebind (deriveAccount lib cl wallet 0 (default_name 0)) (\<lambda>(derivedAccount, derivedPrivKey).
     ebind (encrypt lib cl salt iv mnemonic password 1) (\<lambda>encryptedVault.
       Inr (derivedAccount, derivedPrivKey, encryptedVault))))"

definition handleVaultCreated :: "bech32_lib \<Rightarrow> crypto_lib \<Rightarrow> bytes \<Rightarrow> bytes \<Rightarrow> string \<Rightarrow> string
    \<Rightarrow> WalletApp \<Rightarrow> WalletApp" where
  "handleVaultCreated lib cl salt iv mnemonic password a =
     (case vault_created_try lib cl salt iv mnemonic password of
        Inr (derivedAccount, derivedPrivKey, encryptedVault) \<Rightarrow>
          a \<lparr> wa_account := Some derivedAccount, wa_privateKey := Some derivedPrivKey,
              wa_vault := Some encryptedVault,
              wa_statusMessage := Some ''Wallet created and encrypted successfully!'' \<rparr>
      | Inl err \<Rightarrow>
          a \<lparr> wa_alerts := wa_alerts a @ [''Error initializing wallet: '' @ message err] \<rparr>)"

definition handleLockWallet :: "WalletApp \<Rightarrow> WalletApp" where
  "handleLockWallet a = a \<lparr> wa_privateKey := None, wa_account := None \<rparr>"

definition selectNetwork :: "string \<Rightarrow> WalletApp \<Rightarrow> WalletApp" where
  "selectNetwork v a =
     a \<lparr> wa_network := (case map_of NETWORKS v of Some n \<Rightarrow> n | None \<Rightarrow> NETWORK_local) \<rparr>"

text \<open>\<^verbatim>\<open>txHash.slice(0, 10)\<close> in a template string: strings and arrays have \<^verbatim>\<open>slice\<close>, other values throw.\<close>

definition js_slice10 :: "jsval \<Rightarrow> string res" where
  "js_slice10 v =
     (case v of
        JStr s \<Rightarrow> Inr (slice s 0 10)
      | JArr xs \<Rightarrow> Inr (to_str (JArr (slice xs 0 10)))
      | JUndefined \<Rightarrow> Inl (TypeError ''Cannot read properties of undefined (reading 'slice')'')
      | JNull \<Rightarrow> Inl (TypeError ''Cannot read properties of null (reading 'slice')'')
      | _ \<Rightarrow> Inl (TypeError ''txHash.slice is not a function''))"

text \<open>The callback closes the form first and then builds the message, which may throw.\<close>

definition app_onSuccess :: "jsval \<Rightarrow> WalletApp \<Rightarrow> WalletApp" where
  "app_onSuccess txHash a =
     (let a1 = a \<lparr> wa_isSendOpen := False \<rparr> in
      case js_slice10 txHash of
        Inr t \<Rightarrow> a1 \<lparr> wa_statusMessage := Some (''Transaction submitted: '' @ t @ ''...'') \<rparr>
      | Inl _ \<Rightarrow> a1)"

definition onSuccess_result :: "jsval \<Rightarrow> unit res" where
  "onSuccess_result txHash = ebind (js_slice10 txHash) (\<lambda>_. Inr ())"

definition sendProps :: "WalletApp \<Rightarrow> SendProps option" where
  "sendProps a =
     (case (wa_account a, wa_privateKey a) of
        (Some acc, Some key) \<Rightarrow>
          (if wa_isSendOpen a
           then Some \<lparr> sp_account = acc, sp_network = wa_network a, sp_privateKey = key \<rparr> else None)
      | _ \<Rightarrow> None)"

definition shows_onboarding :: "WalletApp \<Rightarrow> bool" where
  "shows_onboarding a \<longleftrightarrow> wa_account a = None"

definition shows_receive :: "WalletApp \<Rightarrow> bool" where
  "shows_receive a \<longleftrightarrow> wa_isReceiveOpen a \<and> wa_account a \<noteq> None"

section \<open>The whole page\<close>

record WalletUi =
  ui_app :: WalletApp
  ui_onb :: Onboarding
  ui_send :: SendModal
  ui_mounts :: nat
  ui_inflight :: "(nat \<times> Submission) list"
  ui_effects :: "SendEffect list"

definition ui_init :: WalletUi where
  "ui_init = \<lparr> ui_app = app_init, ui_onb = onboarding_init, ui_send = send_init,
     ui_mounts = 0, ui_inflight = [], ui_effects = [] \<rparr>"

datatype UiEvent =
    SelectNetwork string
  | OnbEvent OnbEvent bytes bytes
  | ClickLock
  | ClickSend
  | ClickReceive
  | CloseSend
  | CloseReceive
  | TypeRecipient string
  | TypeAmount string
  | TypeMemo string
  | SubmitSend
  | NetworkAnswers nat fetch_fn
  | StatusTimeout

fun ui_offers :: "UiEvent \<Rightarrow> WalletUi \<Rightarrow> bool" where
  "ui_offers (SelectNetwork v) u = True"
| "ui_offers (OnbEvent e salt iv) u =
     (shows_onboarding (ui_app u) \<and> onboarding_offers e (ui_onb u) \<and> length salt = 16 \<and> length iv = 12)"
| "ui_offers ClickLock u = (\<not> shows_onboarding (ui_app u))"
| "ui_offers ClickSend u = (\<not> shows_onboarding (ui_app u))"
| "ui_offers ClickReceive u = (\<not> shows_onboarding (ui_app u))"
| "ui_offers CloseSend u = (sendProps (ui_app u) \<noteq> None)"
| "ui_offers CloseReceive u = shows_receive (ui_app u)"
| "ui_offers (TypeRecipient t) u = (sendProps (ui_app u) \<noteq> None)"
| "ui_offers (TypeAmount t) u = (sendProps (ui_app u) \<noteq> None)"
| "ui_offers (TypeMemo t) u = (sendProps (ui_app u) \<noteq> None)"
| "ui_offers SubmitSend u = (sendProps (ui_app u) \<noteq> None \<and> \<not> sm_isSubmitting (ui_send u))"
| "ui_offers (NetworkAnswers i fetch) u = (i < length (ui_inflight u))"
| "ui_offers StatusTimeout u = True"

text \<open>Setting the state of a component that was just mounted, and counting the mounts of the send form.\<close>

definition remount :: "WalletApp \<Rightarrow> WalletUi \<Rightarrow> WalletUi" where
  "remount old u =
     u \<lparr> ui_onb := (if shows_onboarding (ui_app u) \<and> \<not> shows_onboarding old then onboarding_init else ui_onb u),
         ui_send := (if sendProps (ui_app u) \<noteq> None \<and> sendProps old = None then send_init else ui_send u),
         ui_mounts := (if sendProps (ui_app u) \<noteq> None \<and> sendProps old = None then Suc (ui_mounts u) else ui_mounts u) \<rparr>"

text \<open>A call of the parent's \<^verbatim>\<open>onVaultCreated\<close> is an entry that the form added to its log.\<close>

definition onb_event :: "bech32_lib \<Rightarrow> crypto_lib \<Rightarrow> OnbEvent \<Rightarrow> bytes \<Rightarrow> bytes \<Rightarrow> WalletUi \<Rightarrow> WalletUi" where
  "onb_event lib cl e salt iv u =
     (let o' = onboarding_handle cl e (ui_onb u);
          new = drop (length (ob_created (ui_onb u))) (ob_created o')
      in u \<lparr> ui_onb := o',
             ui_app := fold (\<lambda>(m, pw). handleVaultCreated lib cl salt iv m pw) new (ui_app u) \<rparr>)"

definition apply_effect :: "SendEffect \<Rightarrow> WalletApp \<Rightarrow> WalletApp" where
  "apply_effect e a =
     (case e of Sent _ \<Rightarrow> a | OnSuccess h \<Rightarrow> app_onSuccess h a | OnClose \<Rightarrow> a \<lparr> wa_isSendOpen := False \<rparr>)"

definition submit_event :: "bech32_lib \<Rightarrow> WalletUi \<Rightarrow> WalletUi" where
  "submit_event lib u =
     (case sendProps (ui_app u) of
        None \<Rightarrow> u
      | Some p \<Rightarrow>
          (case send_submit lib p (ui_send u) of
             (s, Some su) \<Rightarrow> u \<lparr> ui_send := s, ui_inflight := ui_inflight u @ [(ui_mounts u, su)] \<rparr>
           | (s, None) \<Rightarrow> u \<lparr> ui_send := s \<rparr>))"

text \<open>
  The continuation of a submission.  Its state updates have an effect only while the form that
  started it is still mounted; the callbacks of the parent always have.
\<close>

definition answer_event :: "bech32_lib \<Rightarrow> crypto_lib \<Rightarrow> nat \<Rightarrow> fetch_fn \<Rightarrow> WalletUi \<Rightarrow> WalletUi" where
  "answer_event lib cl i fetch u =
     (let (mount, su) = ui_inflight u ! i;
          (s, effects) = send_complete lib cl fetch onSuccess_result su (ui_send u);
          mounted = (sendProps (ui_app u) \<noteq> None \<and> mount = ui_mounts u)
      in u \<lparr> ui_send := (if mounted then s else ui_send u),
             ui_inflight := take i (ui_inflight u) @ drop (Suc i) (ui_inflight u),
             ui_effects := ui_effects u @ effects,
             ui_app := fold apply_effect effects (ui_app u) \<rparr>)"

fun ui_event :: "bech32_lib \<Rightarrow> crypto_lib \<Rightarrow> UiEvent \<Rightarrow> WalletUi \<Rightarrow> WalletUi" where
  "ui_event lib cl (SelectNetwork v) u = u \<lparr> ui_app := selectNetwork v (ui_app u) \<rparr>"
| "ui_event lib cl (OnbEvent e salt iv) u = onb_event lib cl e salt iv u"
| "ui_event lib cl ClickLock u = u \<lparr> ui_app := handleLockWallet (ui_app u) \<rparr>"
| "ui_event lib cl ClickSend u = u \<lparr> ui_app := ui_app u \<lparr> wa_isSendOpen := True \<rparr> \<rparr>"
| "ui_event lib cl ClickReceive u = u \<lparr> ui_app := ui_app u \<lparr> wa_isReceiveOpen := True \<rparr> \<rparr>"
| "ui_event lib cl CloseSend u = u \<lparr> ui_app := ui_app u \<lparr> wa_isSendOpen := False \<rparr> \<rparr>"
| "ui_event lib cl CloseReceive u = u \<lparr> ui_app := ui_app u \<lparr> wa_isReceiveOpen := False \<rparr> \<rparr>"
| "ui_event lib cl (TypeRecipient t) u = u \<lparr> ui_send := ui_send u \<lparr> sm_recipient := t \<rparr> \<rparr>"
| "ui_event lib cl (TypeAmount t) u = u \<lparr> ui_send := ui_send u \<lparr> sm_amount := t \<rparr> \<rparr>"
| "ui_event lib cl (TypeMemo t) u = u \<lparr> ui_send := ui_send u \<lparr> sm_memo := t \<rparr> \<rparr>"
| "ui_event lib cl SubmitSend u = submit_event lib u"
| "ui_event lib cl (NetworkAnswers i fetch) u = answer_event lib cl i fetch u"
| "ui_event lib cl StatusTimeout u = u \<lparr> ui_app := ui_app u \<lparr> wa_statusMessage := None \<rparr> \<rparr>"

definition ui_handle :: "bech32_lib \<Rightarrow> crypto_lib \<Rightarrow> UiEvent \<Rightarrow> WalletUi \<Rightarrow> WalletUi" where
  "ui_handle lib cl e u = remount (ui_app u) (ui_event lib cl e u)"

section \<open>Invariant\<close>

text \<open>An account and key that come from a phrase, and a vault that seals a phrase under a long password.\<close>

definition derived :: "bech32_lib \<Rightarrow> crypto_lib \<Rightarrow> Account \<Rightarrow> bytes \<Rightarrow> bool" where
  "derived lib cl acc key \<longleftrightarrow>
     (\<exists>m w. fromMnemonic cl m [] = Inr w \<and> deriveAccount lib cl w 0 (default_name 0) = Inr (acc, key))"

definition vault_sealed :: "bech32_lib \<Rightarrow> crypto_lib \<Rightarrow> EncryptedVault \<Rightarrow> bool" where
  "vault_sealed lib cl v \<longleftrightarrow>
     (\<exists>salt iv m pw. 8 \<le> length pw \<and> encrypt lib cl salt iv m pw 1 = Inr v)"

definition known_network :: "NetworkConfig \<Rightarrow> bool" where
  "known_network n \<longleftrightarrow> n \<in> snd ` set NETWORKS"

definition app_ok :: "bech32_lib \<Rightarrow> crypto_lib \<Rightarrow> WalletApp \<Rightarrow> bool" where
  "app_ok lib cl a \<longleftrightarrow>
     (case (wa_account a, wa_privateKey a) of
        (None, None) \<Rightarrow> True
      | (Some acc, Some key) \<Rightarrow> derived lib cl acc key
      | _ \<Rightarrow> False) \<and>
     (case wa_vault a of None \<Rightarrow> True | Some v \<Rightarrow> vault_sealed lib cl v) \<and>
     known_network (wa_network a)"

definition submission_derived :: "bech32_lib \<Rightarrow> crypto_lib \<Rightarrow> Submission \<Rightarrow> bool" where
  "submission_derived lib cl su \<longleftrightarrow>
     submission_ok lib su \<and> derived lib cl (sp_account (su_props su)) (sp_privateKey (su_props su)) \<and>
     known_network (sp_network (su_props su))"

definition ui_inv :: "bech32_lib \<Rightarrow> crypto_lib \<Rightarrow> WalletUi \<Rightarrow> bool" where
  "ui_inv lib cl u \<longleftrightarrow>
     app_ok lib cl (ui_app u) \<and>
     (shows_onboarding (ui_app u) \<longrightarrow> onboarding_inv cl (ui_onb u)) \<and>
     (\<forall>(n, su) \<in> set (ui_inflight u). submission_derived lib cl su) \<and>
     (\<forall>q. Sent q \<in> set (ui_effects u) \<longrightarrow> (\<exists>su. submission_derived lib cl su \<and> justified lib cl su q))"

lemma app_ok_updates [simp]:
  "app_ok lib cl (a \<lparr> wa_isSendOpen := b \<rparr>) = app_ok lib cl a"
  "app_ok lib cl (a \<lparr> wa_isReceiveOpen := b \<rparr>) = app_ok lib cl a"
  "app_ok lib cl (a \<lparr> wa_statusMessage := m \<rparr>) = app_ok lib cl a"
  "app_ok lib cl (a \<lparr> wa_alerts := x \<rparr>) = app_ok lib cl a"
  by (simp_all add: app_ok_def)

lemma app_ok_onSuccess [simp]: "app_ok lib cl (app_onSuccess h a) = app_ok lib cl a"
  by (simp add: app_onSuccess_def Let_def split: sum.splits)

lemma app_ok_effects: "app_ok lib cl a \<Longrightarrow> app_ok lib cl (fold apply_effect es a)"
  by (induction es arbitrary: a) (auto simp: apply_effect_def split: SendEffect.splits)

lemma app_ok_select: "app_ok lib cl a \<Longrightarrow> app_ok lib cl (selectNetwork v a)"
  by (auto simp: app_ok_def selectNetwork_def known_network_def NETWORKS_def)

lemma app_ok_lock: "app_ok lib cl a \<Longrightarrow> app_ok lib cl (handleLockWallet a)"
  by (simp add: app_ok_def handleLockWallet_def)

lemma app_ok_created:
  assumes "app_ok lib cl a" "8 \<le> length pw"
  shows "app_ok lib cl (handleVaultCreated lib cl salt iv m pw a)"
proof (cases "vault_created_try lib cl salt iv m pw")
  case (Inl e)
  with assms show ?thesis by (simp add: handleVaultCreated_def)
next
  case (Inr r)
  obtain acc key v where r: "r = (acc, key, v)" by (cases r) auto
  with Inr have "derived lib cl acc key" "encrypt lib cl salt iv m pw 1 = Inr v"
    by (auto simp: vault_created_try_def derived_def ebind_Inr_iff)
  with assms Inr r show ?thesis
    by (auto simp: handleVaultCreated_def app_ok_def vault_sealed_def)
qed

lemma account_unchanged [simp]:
  "wa_account (app_onSuccess h a) = wa_account a" "wa_account (selectNetwork v a) = wa_account a"
  by (simp_all add: app_onSuccess_def selectNetwork_def Let_def split: sum.splits)

lemma account_effects [simp]: "wa_account (fold apply_effect es a) = wa_account a"
  by (induction es arbitrary: a) (auto simp: apply_effect_def split: SendEffect.splits)

lemma sendProps_derived:
  "app_ok lib cl a \<Longrightarrow> sendProps a = Some p \<Longrightarrow>
     derived lib cl (sp_account p) (sp_privateKey p) \<and> known_network (sp_network p)"
  by (auto simp: sendProps_def app_ok_def split: option.splits if_splits)

lemma onb_event_inv:
  assumes "ui_inv lib cl u" "ui_offers (OnbEvent e salt iv) u"
  shows "ui_inv lib cl (onb_event lib cl e salt iv u)"
proof -
  let ?o = "onboarding_handle cl e (ui_onb u)"
  let ?new = "drop (length (ob_created (ui_onb u))) (ob_created ?o)"
  have inv: "onboarding_inv cl ?o"
    using assms by (intro onboarding_inv_step) (auto simp: ui_inv_def)
  then have "\<forall>(m, pw) \<in> set ?new. 8 \<le> length pw"
    by (auto simp: onboarding_inv_def list_all_iff dest: in_set_dropD)
  moreover have "app_ok lib cl a \<Longrightarrow> \<forall>(m, pw) \<in> set xs. 8 \<le> length pw \<Longrightarrow>
      app_ok lib cl (fold (\<lambda>(m, pw). handleVaultCreated lib cl salt iv m pw) xs a)" for xs a
    by (induction xs arbitrary: a) (auto simp: app_ok_created)
  ultimately show ?thesis
    using assms inv by (auto simp: onb_event_def ui_inv_def Let_def)
qed

lemma submit_event_inv:
  assumes "ui_inv lib cl u"
  shows "ui_inv lib cl (submit_event lib u)"
  using assms send_submit_ok sendProps_derived
  by (fastforce simp: submit_event_def ui_inv_def submission_derived_def
      split: option.splits prod.splits)

lemma answer_event_inv:
  assumes "ui_inv lib cl u" "i < length (ui_inflight u)"
  shows "ui_inv lib cl (answer_event lib cl i fetch u)"
proof -
  obtain n su where su: "ui_inflight u ! i = (n, su)" by force
  obtain s es where s: "send_complete lib cl fetch onSuccess_result su (ui_send u) = (s, es)" by force
  have d: "submission_derived lib cl su"
    using assms su by (force simp: ui_inv_def dest: nth_mem)
  have "justified lib cl su q" if "Sent q \<in> set es" for q
    using s that by (auto simp: send_complete_def split: prod.splits sum.splits intro: send_try_sent)
  moreover have "set (take i (ui_inflight u) @ drop (Suc i) (ui_inflight u)) \<subseteq> set (ui_inflight u)"
    by (auto dest: in_set_takeD in_set_dropD)
  ultimately show ?thesis
    using assms d
    by (auto simp: answer_event_def su s ui_inv_def app_ok_effects shows_onboarding_def Let_def
        dest: in_set_takeD in_set_dropD)
qed

lemma ui_event_inv:
  assumes "ui_inv lib cl u" "ui_offers e u" "e \<noteq> ClickLock"
  shows "ui_inv lib cl (ui_event lib cl e u)"
proof (cases e)
  case (OnbEvent f salt iv)
  with assms show ?thesis by (simp only: ui_event.simps onb_event_inv)
next
  case SubmitSend
  with assms show ?thesis by (simp only: ui_event.simps submit_event_inv)
next
  case (NetworkAnswers i fetch)
  with assms show ?thesis by (simp only: ui_event.simps ui_offers.simps answer_event_inv)
qed (use assms in \<open>simp_all add: ui_inv_def shows_onboarding_def app_ok_select\<close>)

lemma remount_inv: "ui_inv lib cl u \<Longrightarrow> ui_inv lib cl (remount old u)"
  by (auto simp: ui_inv_def remount_def onboarding_inv_init)

lemma ui_handle_inv:
  assumes "ui_inv lib cl u" "ui_offers e u"
  shows "ui_inv lib cl (ui_handle lib cl e u)"
proof (cases "e = ClickLock")
  case True
  with assms show ?thesis
    by (auto simp: ui_handle_def ui_inv_def remount_def handleLockWallet_def shows_onboarding_def app_ok_def
        onboarding_inv_init)
next
  case False
  with assms show ?thesis unfolding ui_handle_def by (intro remount_inv ui_event_inv)
qed

lemma ui_init_inv: "ui_inv lib cl ui_init"
  by (simp add: ui_inv_def ui_init_def app_ok_def app_init_def onboarding_inv_init known_network_def NETWORKS_def)

interpretation wallet: invariant_system ui_init ui_offers "ui_handle lib cl" "ui_inv lib cl" for lib cl
  by unfold_locales (rule ui_init_inv, rule ui_handle_inv)

section \<open>Completing the onboarding\<close>

lemma created_account:
  assumes "bech32_ok lib" "crypto_ok cl" "subtle_available cl" "validate cl m" "length salt = 16" "length iv = 12"
  obtains acc key v where "handleVaultCreated lib cl salt iv m pw a =
      a \<lparr> wa_account := Some acc, wa_privateKey := Some key, wa_vault := Some v,
          wa_statusMessage := Some ''Wallet created and encrypted successfully!'' \<rparr>"
    "decrypt cl v pw = Inr (Some m)" "derived lib cl acc key"
proof -
  obtain w where w: "fromMnemonic cl m [] = Inr w"
    using fromMnemonic_ok [OF assms(2), of m "[]"] assms(4) by (auto simp: is_ok_iff)
  obtain acc key where acc: "deriveAccount lib cl w 0 (default_name 0) = Inr (acc, key)"
    by (rule deriveAccount_ok [OF assms(1,2)])
  obtain v where v: "encrypt lib cl salt iv m pw 1 = Inr v" "decrypt cl v pw = Inr (Some m)"
    by (rule encrypt_ok [OF assms])
  with w acc show ?thesis
    by (intro that) (auto simp: handleVaultCreated_def vault_created_try_def derived_def)
qed

lemma onboarding_completes:
  assumes "bech32_ok lib" "crypto_ok cl" "subtle_available cl" "bip39_ok cl"
    and "ui_inv lib cl u" "shows_onboarding (ui_app u)" "ob_step (ui_onb u) = SetPassword"
    and "8 \<le> length (ob_password (ui_onb u))" "ob_confirmPassword (ui_onb u) = ob_password (ui_onb u)"
    and "length salt = 16" "length iv = 12"
  shows "\<exists>v. \<not> shows_onboarding (ui_app (ui_handle lib cl (OnbEvent SubmitPassword salt iv) u)) \<and>
    wa_vault (ui_app (ui_handle lib cl (OnbEvent SubmitPassword salt iv) u)) = Some v \<and>
    decrypt cl v (ob_password (ui_onb u)) = Inr (Some (phrase_of (ui_onb u)))"
proof -
  let ?o = "ui_onb u" and ?m = "phrase_of (ui_onb u)"
  have m: "validate cl ?m"
    using assms(4-7) by (intro validate_phrase) (auto simp: ui_inv_def)
  have h: "onboarding_handle cl SubmitPassword ?o = ?o \<lparr> ob_created := ob_created ?o @ [(?m, ob_password ?o)] \<rparr>"
    using assms(8,9) by (simp add: handleCompletePassword_def phrase_of_def)
  obtain acc key v where hv: "handleVaultCreated lib cl salt iv ?m (ob_password ?o) (ui_app u) =
      ui_app u \<lparr> wa_account := Some acc, wa_privateKey := Some key, wa_vault := Some v,
          wa_statusMessage := Some ''Wallet created and encrypted successfully!'' \<rparr>"
    and "decrypt cl v (ob_password ?o) = Inr (Some ?m)"
    by (rule created_account [OF assms(1-3) m assms(10,11)])
  then show ?thesis
    by (simp add: ui_handle_def remount_def onb_event_def h hv shows_onboarding_def Let_def
        del: onboarding_handle.simps)
qed

section \<open>A valid form is broadcast\<close>

lemma derived_account:
  assumes "bech32_ok lib" "crypto_ok cl" "derived lib cl acc key"
  obtains "length key = 32" "acc_algorithm acc = Ed25519" "isValidAddress lib (acc_addressBech32 acc)"
proof -
  obtain w where w: "deriveAccount lib cl w 0 (default_name 0) = Inr (acc, key)"
    using assms(3) by (auto simp: derived_def)
  show ?thesis
    by (rule deriveAccount_ok [OF assms(1,2), of w 0 "default_name 0"])
       (use w that in \<open>auto simp: account_ok_def isValidAddress_def\<close>)
qed

lemma send_try_sends:
  assumes "bech32_ok lib" "crypto_ok cl"
    and "derived lib cl (sp_account (su_props su)) (sp_privateKey (su_props su))"
    and "isValidAddress lib (su_recipient su)" "sprxToAtto (su_amount su) = Inr a" "0 < a"
  shows "\<exists>q es r. send_try lib cl fetch onSuccess su = (Sent q # es, r)"
proof -
  let ?p = "su_props su"
  obtain "length (sp_privateKey ?p) = 32" "acc_algorithm (sp_account ?p) = Ed25519"
    "isValidAddress lib (acc_addressBech32 (sp_account ?p))"
    by (rule derived_account [OF assms(1-3)])
  then have "\<exists>tx. sign lib cl (send_request su n) c (sp_privateKey ?p) (acc_algorithm (sp_account ?p)) = Inr tx" for n c
    using sign_ok [OF assms(1,2), of "sp_privateKey ?p" "send_request su n" a c] assms(4-6)
    by (simp add: send_request_def)
  then show ?thesis
    by (auto simp: send_try_def Let_def split: sum.splits) (metis sum.distinct(1))
qed

text \<open>A user with an unlocked wallet who opens the form, fills it in and submits it.\<close>

definition send_events :: "string \<Rightarrow> string \<Rightarrow> fetch_fn \<Rightarrow> UiEvent list" where
  "send_events recipient amount fetch =
     [ClickSend, TypeRecipient recipient, TypeAmount amount, SubmitSend, NetworkAnswers 0 fetch]"

lemma send_run:
  assumes "bech32_ok lib" "crypto_ok cl" "ui_inv lib cl u"
    and "\<not> shows_onboarding (ui_app u)" "\<not> wa_isSendOpen (ui_app u)" "ui_inflight u = []"
    and "isValidAddress lib r" "r \<noteq> []" "parseFloat t \<noteq> NaN" "\<not> n_le (parseFloat t) (Fin 0)"
    and "sprxToAtto t = Inr a" "0 < a"
  shows "\<exists>v q. run ui_offers (ui_handle lib cl) (send_events r t fetch) u = Some v \<and> Sent q \<in> set (ui_effects v)"
proof -
  let ?a = "ui_app u"
  obtain acc where acc: "wa_account ?a = Some acc" using assms(4) by (auto simp: shows_onboarding_def)
  with assms(3) obtain key where key: "wa_privateKey ?a = Some key" "derived lib cl acc key"
    by (auto simp: ui_inv_def app_ok_def split: option.splits)
  let ?p = "\<lparr> sp_account = acc, sp_network = wa_network ?a, sp_privateKey = key \<rparr>"
  let ?su = "\<lparr> su_props = ?p, su_recipient = r, su_amount = t, su_memo = [] \<rparr>"
  obtain q es x where st: "send_try lib cl fetch onSuccess_result ?su = (Sent q # es, x)"
    using send_try_sends [OF assms(1,2), of ?su a fetch onSuccess_result] key(2) assms(7,11,12) by auto
  let ?u1 = "u \<lparr> ui_app := ?a \<lparr> wa_isSendOpen := True \<rparr>, ui_mounts := Suc (ui_mounts u),
      ui_send := send_init \<lparr> sm_recipient := r, sm_amount := t \<rparr> \<rparr>"
  let ?u2 = "?u1 \<lparr> ui_send := (ui_send ?u1) \<lparr> sm_isSubmitting := True, sm_errorMessage := [] \<rparr>,
      ui_inflight := [(Suc (ui_mounts u), ?su)] \<rparr>"
  have p0: "sendProps ?a = None" "sendProps (?a \<lparr> wa_isSendOpen := True \<rparr>) = Some ?p"
    using acc key assms(5) by (simp_all add: sendProps_def)
  have "run ui_offers (ui_handle lib cl) [ClickSend, TypeRecipient r, TypeAmount t] u = Some ?u1"
    using acc p0 by (simp add: ui_handle_def remount_def shows_onboarding_def)
  moreover have "send_submit lib ?p (ui_send ?u1) = (ui_send ?u2, Some ?su)"
    using assms(7-10) by (simp add: send_submit_def send_init_def isValidRecipient_def)
  then have "run ui_offers (ui_handle lib cl) [SubmitSend] ?u1 = Some ?u2"
    using acc p0 assms(6) by (simp add: ui_handle_def remount_def submit_event_def shows_onboarding_def send_init_def)
  moreover have "Sent q \<in> set (ui_effects (answer_event lib cl 0 fetch ?u2))"
    by (cases x) (simp_all add: answer_event_def send_complete_def st Let_def)
  then have "\<exists>v. run ui_offers (ui_handle lib cl) [NetworkAnswers 0 fetch] ?u2 = Some v \<and> Sent q \<in> set (ui_effects v)"
    by (simp add: ui_handle_def remount_def)
  moreover have "run ui_offers (ui_handle lib cl) (xs @ ys) s =
      (case run ui_offers (ui_handle lib cl) xs s of Some s' \<Rightarrow> run ui_offers (ui_handle lib cl) ys s' | None \<Rightarrow> None)" for xs ys s
    by (induction xs arbitrary: s) simp_all
  ultimately show ?thesis
    unfolding send_events_def by (metis (no_types, lifting) append_Cons append_Nil option.simps(5))
qed

section \<open>Properties\<close>

text \<open>C6: In every reachable state of the wallet the private key is present exactly when an account
  is, the key is the one derived with that account from a recovery phrase, and the stored vault
  seals a phrase under a password of at least eight characters.\<close>

theorem wallet_keys_consistent:
  assumes "reach ui_init ui_offers (ui_handle lib cl) u"
  shows "(wa_account (ui_app u) = None \<longleftrightarrow> wa_privateKey (ui_app u) = None) \<and>
    (\<forall>acc key. wa_account (ui_app u) = Some acc \<longrightarrow> wa_privateKey (ui_app u) = Some key \<longrightarrow> derived lib cl acc key) \<and>
    (\<forall>v. wa_vault (ui_app u) = Some v \<longrightarrow> vault_sealed lib cl v)"
  using wallet.reach_inv [OF assms]
  by (auto simp: ui_inv_def app_ok_def split: option.splits)

lemma sample_unlocked:
  assumes "bech32_ok lib" "crypto_ok cl" "subtle_available cl" "validate cl m" "m \<noteq> []"
  shows "\<exists>u v. reach ui_init ui_offers (ui_handle lib cl) u \<and> \<not> shows_onboarding (ui_app u) \<and>
    wa_vault (ui_app u) = Some v \<and> \<not> wa_isSendOpen (ui_app u) \<and> ui_inflight u = []"
proof -
  let ?s = "replicate 16 (0 :: byte)" and ?i = "replicate 12 (0 :: byte)"
  let ?m = "toLowerCase (trim m)" and ?pw = "''password''"
  let ?es = "[OnbEvent ClickImportExisting ?s ?i, OnbEvent (TypeImport m) ?s ?i, OnbEvent ClickImport ?s ?i,
      OnbEvent (TypePassword ?pw) ?s ?i, OnbEvent (TypeConfirm ?pw) ?s ?i, OnbEvent SubmitPassword ?s ?i]"
  have vm: "validate cl ?m" using assms(4) validate_normalised by simp
  obtain acc key v where hv: "handleVaultCreated lib cl ?s ?i ?m ?pw app_init =
      app_init \<lparr> wa_account := Some acc, wa_privateKey := Some key, wa_vault := Some v,
        wa_statusMessage := Some ''Wallet created and encrypted successfully!'' \<rparr>"
    by (rule created_account [OF assms(1-3) vm, of ?s ?i ?pw app_init]) simp_all
  have "\<exists>u. run ui_offers (ui_handle lib cl) ?es ui_init = Some u \<and> wa_account (ui_app u) = Some acc \<and>
      wa_vault (ui_app u) = Some v \<and> \<not> wa_isSendOpen (ui_app u) \<and> ui_inflight u = []"
    using assms(4) hv
    by (simp add: ui_init_def ui_handle_def remount_def onb_event_def shows_onboarding_def onboarding_init_def
        handleImportMnemonic_def handleCompletePassword_def sendProps_def app_init_def Let_def)
  then show ?thesis
    using run_reach [OF reach.init] by (metis option.distinct(1) shows_onboarding_def)
qed

lemma sample_wallet:
  "\<exists>u v. reach ui_init ui_offers (ui_handle hex_bech32 plain_crypto) u \<and> \<not> shows_onboarding (ui_app u) \<and>
     wa_vault (ui_app u) = Some v \<and> \<not> wa_isSendOpen (ui_app u) \<and> ui_inflight u = []"
  by (rule sample_unlocked [OF hex_bech32_ok plain_crypto_ok _ sample_valid(1)]) (simp_all add: plain_crypto_def)

theorem wallet_keys_consistent_witness:
  "\<exists>u v key. reach ui_init ui_offers (ui_handle hex_bech32 plain_crypto) u \<and> wa_privateKey (ui_app u) = Some key \<and>
     wa_vault (ui_app u) = Some v \<and> vault_sealed hex_bech32 plain_crypto v"
  using sample_wallet wallet_keys_consistent [of hex_bech32 plain_crypto]
  by (metis not_None_eq shows_onboarding_def)

text \<open>C2: Every transaction the wallet ever broadcasts, in any interleaving of clicks, typing, network
  changes, locking and late answers, comes from a submission with a valid recipient and a positive
  amount, signed with the key derived with the sending account, for one of the configured networks.\<close>

theorem wallet_broadcasts_justified:
  assumes "reach ui_init ui_offers (ui_handle lib cl) u" and "Sent q \<in> set (ui_effects u)"
  shows "\<exists>su. submission_ok lib su \<and> justified lib cl su q \<and>
    derived lib cl (sp_account (su_props su)) (sp_privateKey (su_props su)) \<and>
    known_network (sp_network (su_props su))"
  using wallet.reach_inv [OF assms(1)] assms(2)
  by (auto simp: ui_inv_def submission_derived_def)

theorem wallet_broadcasts_justified_witness:
  "\<exists>u q su. reach ui_init ui_offers (ui_handle hex_bech32 plain_crypto) u \<and> Sent q \<in> set (ui_effects u) \<and>
     submission_ok hex_bech32 su \<and> justified hex_bech32 plain_crypto su q"
proof -
  obtain u where u: "reach ui_init ui_offers (ui_handle hex_bech32 plain_crypto) u"
    "\<not> shows_onboarding (ui_app u)" "\<not> wa_isSendOpen (ui_app u)" "ui_inflight u = []"
    using sample_wallet by blast
  have "sprxToAtto ''15'' = Inr (int (dec_value ''15'') * ATTO_PER_SPRX)"
    by (rule sprxToAtto_integer) (simp add: is_dec_def)
  then have "sprxToAtto ''15'' = Inr 15000000000000000000"
    by (simp add: dec_value_def digit_val_def ATTO_PER_SPRX_def)
  then obtain v q where v: "run ui_offers (ui_handle hex_bech32 plain_crypto)
      (send_events (''0x'' @ replicate 40 (CHR ''b'')) ''15'' net_down) u = Some v" "Sent q \<in> set (ui_effects v)"
    using send_run [OF hex_bech32_ok plain_crypto_ok wallet.reach_inv [OF u(1)] u(2-4)
        valid_hex_text [OF sample_hex(2)], of "''15''" _ net_down] parseFloat_15
    by (auto simp: n_le_def n_eq_def)
  have "reach ui_init ui_offers (ui_handle hex_bech32 plain_crypto) v" using u(1) v(1) by (rule run_reach)
  with v(2) wallet_broadcasts_justified [OF this v(2)] show ?thesis by blast
qed

text \<open>C8: Completing the password step with two equal passwords of at least eight characters always
  unlocks the wallet, and its vault opens with that password to the chosen phrase.\<close>

theorem wallet_creation_completes:
  assumes "bech32_ok lib" "crypto_ok cl" "subtle_available cl" "bip39_ok cl"
    and "reach ui_init ui_offers (ui_handle lib cl) u"
    and "shows_onboarding (ui_app u)" "ob_step (ui_onb u) = SetPassword"
    and "8 \<le> length (ob_password (ui_onb u))" "ob_confirmPassword (ui_onb u) = ob_password (ui_onb u)"
    and "length salt = 16" "length iv = 12"
  shows "\<exists>v. \<not> shows_onboarding (ui_app (ui_handle lib cl (OnbEvent SubmitPassword salt iv) u)) \<and>
    wa_vault (ui_app (ui_handle lib cl (OnbEvent SubmitPassword salt iv) u)) = Some v \<and>
    decrypt cl v (ob_password (ui_onb u)) = Inr (Some (phrase_of (ui_onb u)))"
  using onboarding_completes [OF assms(1-4) wallet.reach_inv [OF assms(5)] assms(6-11)] .

lemma sample_password_step:
  "\<exists>u. reach ui_init ui_offers (ui_handle hex_bech32 plain_crypto) u \<and> shows_onboarding (ui_app u) \<and>
     ob_step (ui_onb u) = SetPassword \<and> ob_password (ui_onb u) = ''password'' \<and> ob_confirmPassword (ui_onb u) = ''password''"
proof -
  let ?s = "replicate 16 (0 :: byte)" and ?i = "replicate 12 (0 :: byte)"
  let ?es = "[OnbEvent ClickImportExisting ?s ?i, OnbEvent (TypeImport '' A b c d e f g h i j k l'') ?s ?i,
      OnbEvent ClickImport ?s ?i, OnbEvent (TypePassword ''password'') ?s ?i, OnbEvent (TypeConfirm ''password'') ?s ?i]"
  have "\<exists>u. run ui_offers (ui_handle hex_bech32 plain_crypto) ?es ui_init = Some u \<and> shows_onboarding (ui_app u) \<and>
     ob_step (ui_onb u) = SetPassword \<and> ob_password (ui_onb u) = ''password'' \<and> ob_confirmPassword (ui_onb u) = ''password''"
    using sample_valid(1)
    by (simp add: ui_init_def ui_handle_def remount_def onb_event_def shows_onboarding_def onboarding_init_def
        handleImportMnemonic_def sendProps_def app_init_def Let_def)
  then show ?thesis using run_reach [OF reach.init] by metis
qed

theorem wallet_creation_completes_witness:
  "\<exists>u v. \<not> shows_onboarding (ui_app (ui_handle hex_bech32 plain_crypto (OnbEvent SubmitPassword (replicate 16 0) (replicate 12 0)) u)) \<and>
     decrypt plain_crypto v ''password'' = Inr (Some (phrase_of (ui_onb u)))"
proof -
  obtain u where u: "reach ui_init ui_offers (ui_handle hex_bech32 plain_crypto) u" "shows_onboarding (ui_app u)"
    "ob_step (ui_onb u) = SetPassword" "ob_password (ui_onb u) = ''password''" "ob_confirmPassword (ui_onb u) = ''password''"
    using sample_password_step by blast
  have "subtle_available plain_crypto" by (simp add: plain_crypto_def)
  from wallet_creation_completes [OF hex_bech32_ok plain_crypto_ok this sample_valid(2) u(1-3),
      of "replicate 16 0" "replicate 12 0"] u(4,5)
  show ?thesis by auto
qed



end
