(* ===== verification/Js_List.thy ===== *)
theory Js_List
  imports Js_Prelude
begin

text \<open>\<^verbatim>\<open>filter\<close>, \<^verbatim>\<open>find\<close> and \<^verbatim>\<open>map\<close> with a function that may throw.\<close>

fun filter_res :: "('a \<Rightarrow> bool res) \<Rightarrow> 'a list \<Rightarrow> 'a list res" where
  "filter_res P [] = Inr []"
| "filter_res P (x # xs) =
     ebind (P x) (\<lambda>b. ebind (filter_res P xs) (\<lambda>ys. Inr (if b then x # ys else ys)))"

fun find_res :: "('a \<Rightarrow> bool res) \<Rightarrow> 'a list \<Rightarrow> 'a option res" where
  "find_res P [] = Inr None"
| "find_res P (x # xs) = ebind (P x) (\<lambda>b. if b then Inr (Some x) else find_res P xs)"

fun map_res :: "('a \<Rightarrow> 'b res) \<Rightarrow> 'a list \<Rightarrow> 'b list res" where
  "map_res f [] = Inr []"
| "map_res f (x # xs) = ebind (f x) (\<lambda>y. ebind (map_res f xs) (\<lambda>ys. Inr (y # ys)))"

text \<open>A function that does not throw on the list.\<close>

lemma filter_res_total: "(\<And>x. x \<in> set xs \<Longrightarrow> P x = Inr (Q x)) \<Longrightarrow> filter_res P xs = Inr (filter Q xs)"
  by (induction xs) simp_all

lemma map_res_total: "(\<And>x. x \<in> set xs \<Longrightarrow> f x = Inr (g x)) \<Longrightarrow> map_res f xs = Inr (map g xs)"
  by (induction xs) simp_all

end
