(* ===== verification/Explorer_Types.thy ===== *)
theory Explorer_Types
  imports Js_Value
begin

text \<open>
  The data types of \<^verbatim>\<open>src/apps/explorer-ui/src/types/index.ts\<close>.  Interfaces are records with the
  source's field names behind a prefix; unions of string literals are datatypes with the literal
  recovered by a \<open>_text\<close> function where the code prints or compares it.  A \<^verbatim>\<open>number\<close> that counts is
  an \<open>int\<close>, one that may be fractional a \<open>js_number\<close>.  The \<open>_val\<close> functions give the value of a
  record as the code sees it next to unvalidated responses.
\<close>

datatype Network = mainnet | testnet | local_net

fun Network_text :: "Network \<Rightarrow> string" where
  "Network_text mainnet = ''mainnet''"
| "Network_text testnet = ''testnet''"
| "Network_text local_net = ''local''"

datatype Currency = USD | INR | EUR | GBP | JPY

fun Currency_text :: "Currency \<Rightarrow> string" where
  "Currency_text USD = ''USD''"
| "Currency_text INR = ''INR''"
| "Currency_text EUR = ''EUR''"
| "Currency_text GBP = ''GBP''"
| "Currency_text JPY = ''JPY''"

record 'a PaginatedResponse =
  pr_items :: "'a list"
  pr_total :: int
  pr_limit :: int
  pr_offset :: int
  pr_has_more :: bool

record IndexedBlock =
  bk_height :: int
  bk_hash :: string
  bk_parent_hash :: string
  bk_chain_id :: string
  bk_timestamp_unix_secs :: int
  bk_proposer :: string
  bk_txs_count :: int
  bk_txs_root :: string
  bk_state_root :: string
  bk_gas_used :: int
  bk_block_size_bytes :: int

record ExTxMessage =
  xm_type :: string
  xm_sender :: string
  xm_recipient :: "string option"
  xm_amount :: "string option"
  xm_data :: "string option"

record IndexedTx =
  ix_tx_hash :: string
  ix_block_height :: int
  ix_block_hash :: string
  ix_sender :: string
  ix_recipient :: "string option"
  ix_message_type :: string
  ix_amount :: string
  ix_fee_amount :: string
  ix_nonce :: int
  ix_memo :: string
  ix_success :: bool
  ix_gas_used :: int
  ix_timestamp_unix_secs :: int
  ix_raw_messages :: "ExTxMessage list option"

record IndexedAccount =
  ia_address :: string
  ia_address_hex :: string
  ia_balance :: string
  ia_balance_sprx :: string
  ia_nonce :: int
  ia_tx_count :: int
  ia_first_seen_height :: int
  ia_last_active_height :: int

datatype ValidatorStatus = Active | Inactive | Jailed

fun ValidatorStatus_text :: "ValidatorStatus \<Rightarrow> string" where
  "ValidatorStatus_text Active = ''Active''"
| "ValidatorStatus_text Inactive = ''Inactive''"
| "ValidatorStatus_text Jailed = ''Jailed''"

record IndexedValidator =
  iv_operator_address :: string
  iv_moniker :: string
  iv_voting_power :: int
  iv_voting_power_percentage :: js_number
  iv_tokens :: string
  iv_commission_rate :: js_number
  iv_status :: ValidatorStatus
  iv_is_tombstoned :: bool
  iv_missed_blocks_count :: int
  iv_uptime_percentage :: js_number
  iv_blocks_proposed_count :: int

record NetworkStats =
  ns_chain_id :: string
  ns_latest_height :: int
  ns_latest_block_hash :: string
  ns_total_transactions :: int
  ns_total_accounts :: int
  ns_active_validators_count :: int
  ns_total_bonded_tokens :: string
  ns_avg_block_time_seconds :: js_number
  ns_current_tps :: js_number
  ns_latest_state_root :: string

record SmartContract =
  ct_address :: string
  ct_creator :: string
  ct_created_height :: int
  ct_bytecode_size :: int
  ct_tx_count :: int
  ct_verified :: bool
  ct_compiler_version :: "string option"
  ct_source_code :: "string option"
  ct_abi :: "string option"

datatype ProjectCategory = DeFi_project | RWA_Payments | Wallets | Infrastructure | Enterprise | Gaming_Identity

datatype ProjectStage = Mainnet_stage | Testnet_stage | In_Development

record EcosystemProject =
  ep_id :: string
  ep_name :: string
  ep_tagline :: string
  ep_description :: string
  ep_category :: ProjectCategory
  ep_stage :: ProjectStage
  ep_verified :: bool
  ep_website :: string
  ep_github :: "string option"
  ep_metrics :: "(string \<times> string) option"

datatype AssetCategory = Native | Stable_Asset | DeFi_asset | RWA

record MarketAsset =
  ma_id :: string
  ma_symbol :: string
  ma_name :: string
  ma_priceUsd :: js_number
  ma_change24h :: js_number
  ma_high24h :: js_number
  ma_low24h :: js_number
  ma_volume24hUsd :: js_number
  ma_marketCapUsd :: js_number
  ma_circulatingSupply :: string
  ma_sparkline :: "js_number list"
  ma_category :: AssetCategory

datatype SIPStatus = SIP_Draft | SIP_Review | SIP_Accepted | SIP_Final | SIP_Rejected

datatype SIPCategory = SIP_Core | SIP_Networking | SIP_Execution | SIP_Standards | SIP_Meta | SIP_Consensus

record SIPItem =
  si_id :: int
  si_sipNumber :: string
  si_title :: string
  si_author :: string
  si_status :: SIPStatus
  si_category :: SIPCategory
  si_createdDate :: string
  si_summary :: string
  si_motivation :: string
  si_specification :: string
  si_rationale :: string

datatype ProposalStatus = Voting | Deposit | Passed | Prop_Rejected | Executed

datatype ProposalCategory = ParameterChange | CommunityPoolSpend | SoftwareUpgrade | TextProposal

record ProposalVotes =
  pv_yes :: js_number
  pv_no :: js_number
  pv_noWithVeto :: js_number
  pv_abstain :: js_number

record GovernanceProposal =
  gp_id :: int
  gp_title :: string
  gp_description :: string
  gp_proposer :: string
  gp_status :: ProposalStatus
  gp_category :: ProposalCategory
  gp_totalDeposit :: string
  gp_minDepositRequired :: string
  gp_votingEndTime :: string
  gp_votes :: ProposalVotes
  gp_quorumMet :: bool
  gp_timelockDelayHours :: "int option"

datatype PaperCategory = Paper_Consensus | Cryptography | RWA_Legal_Rails | State_Storage | MEV_Defense

record ResearchPaper =
  rp_id :: string
  rp_title :: string
  rp_authors :: "string list"
  rp_date :: string
  rp_abstract :: string
  rp_category :: PaperCategory
  rp_downloadUrl :: "string option"
  rp_readingMinutes :: int

section \<open>Values\<close>

definition opt_val :: "string option \<Rightarrow> jsval" where
  "opt_val x = (case x of Some s \<Rightarrow> JStr s | None \<Rightarrow> JNull)"

definition opt_field :: "string \<Rightarrow> string option \<Rightarrow> (string \<times> jsval) list" where
  "opt_field k x = (case x of Some s \<Rightarrow> [(k, JStr s)] | None \<Rightarrow> [])"

definition block_val :: "IndexedBlock \<Rightarrow> jsval" where
  "block_val b = JObj
     [(''height'', JInt (bk_height b)), (''hash'', JStr (bk_hash b)), (''parent_hash'', JStr (bk_parent_hash b)),
      (''chain_id'', JStr (bk_chain_id b)), (''timestamp_unix_secs'', JInt (bk_timestamp_unix_secs b)),
      (''proposer'', JStr (bk_proposer b)), (''txs_count'', JInt (bk_txs_count b)),
      (''txs_root'', JStr (bk_txs_root b)), (''state_root'', JStr (bk_state_root b)),
      (''gas_used'', JInt (bk_gas_used b)), (''block_size_bytes'', JInt (bk_block_size_bytes b))]"

definition message_val :: "ExTxMessage \<Rightarrow> jsval" where
  "message_val m = JObj
     ([(''type'', JStr (xm_type m)), (''sender'', JStr (xm_sender m))]
      @ opt_field ''recipient'' (xm_recipient m) @ opt_field ''amount'' (xm_amount m) @ opt_field ''data'' (xm_data m))"

definition tx_val :: "IndexedTx \<Rightarrow> jsval" where
  "tx_val t = JObj
     ([(''tx_hash'', JStr (ix_tx_hash t)), (''block_height'', JInt (ix_block_height t)),
      (''block_hash'', JStr (ix_block_hash t)), (''sender'', JStr (ix_sender t)),
      (''recipient'', opt_val (ix_recipient t)), (''message_type'', JStr (ix_message_type t)),
      (''amount'', JStr (ix_amount t)), (''fee_amount'', JStr (ix_fee_amount t)),
      (''nonce'', JInt (ix_nonce t)), (''memo'', JStr (ix_memo t)), (''success'', JBool (ix_success t)),
      (''gas_used'', JInt (ix_gas_used t)), (''timestamp_unix_secs'', JInt (ix_timestamp_unix_secs t))]
      @ (case ix_raw_messages t of Some ms \<Rightarrow> [(''raw_messages'', JArr (map message_val ms))] | None \<Rightarrow> []))"

definition account_val :: "IndexedAccount \<Rightarrow> jsval" where
  "account_val a = JObj
     [(''address'', JStr (ia_address a)), (''address_hex'', JStr (ia_address_hex a)),
      (''balance'', JStr (ia_balance a)), (''balance_sprx'', JStr (ia_balance_sprx a)),
      (''nonce'', JInt (ia_nonce a)), (''tx_count'', JInt (ia_tx_count a)),
      (''first_seen_height'', JInt (ia_first_seen_height a)),
      (''last_active_height'', JInt (ia_last_active_height a))]"

definition validator_val :: "IndexedValidator \<Rightarrow> jsval" where
  "validator_val v = JObj
     [(''operator_address'', JStr (iv_operator_address v)), (''moniker'', JStr (iv_moniker v)),
      (''voting_power'', JInt (iv_voting_power v)),
      (''voting_power_percentage'', JNum (iv_voting_power_percentage v)),
      (''tokens'', JStr (iv_tokens v)), (''commission_rate'', JNum (iv_commission_rate v)),
      (''status'', JStr (ValidatorStatus_text (iv_status v))), (''is_tombstoned'', JBool (iv_is_tombstoned v)),
      (''missed_blocks_count'', JInt (iv_missed_blocks_count v)),
      (''uptime_percentage'', JNum (iv_uptime_percentage v)),
      (''blocks_proposed_count'', JInt (iv_blocks_proposed_count v))]"

definition stats_val :: "NetworkStats \<Rightarrow> jsval" where
  "stats_val s = JObj
     [(''chain_id'', JStr (ns_chain_id s)), (''latest_height'', JInt (ns_latest_height s)),
      (''latest_block_hash'', JStr (ns_latest_block_hash s)),
      (''total_transactions'', JInt (ns_total_transactions s)),
      (''total_accounts'', JInt (ns_total_accounts s)),
      (''active_validators_count'', JInt (ns_active_validators_count s)),
      (''total_bonded_tokens'', JStr (ns_total_bonded_tokens s)),
      (''avg_block_time_seconds'', JNum (ns_avg_block_time_seconds s)),
      (''current_tps'', JNum (ns_current_tps s)), (''latest_state_root'', JStr (ns_latest_state_root s))]"

definition contract_val :: "SmartContract \<Rightarrow> jsval" where
  "contract_val c = JObj
     ([(''address'', JStr (ct_address c)), (''creator'', JStr (ct_creator c)),
       (''created_height'', JInt (ct_created_height c)), (''bytecode_size'', JInt (ct_bytecode_size c)),
       (''tx_count'', JInt (ct_tx_count c)), (''verified'', JBool (ct_verified c))]
      @ opt_field ''compiler_version'' (ct_compiler_version c)
      @ opt_field ''source_code'' (ct_source_code c) @ opt_field ''abi'' (ct_abi c))"

definition page_val :: "('a \<Rightarrow> jsval) \<Rightarrow> 'a PaginatedResponse \<Rightarrow> jsval" where
  "page_val f p = JObj
     [(''items'', JArr (map f (pr_items p))), (''total'', JInt (pr_total p)), (''limit'', JInt (pr_limit p)),
      (''offset'', JInt (pr_offset p)), (''has_more'', JBool (pr_has_more p))]"

end
