(* ===== verification/Explorer_Mock.thy ===== *)
theory Explorer_Mock
  imports Explorer_Types
begin

text \<open>
  \<^verbatim>\<open>src/apps/explorer-ui/src/services/mockData.ts\<close>: the data the explorer falls back to.  The generated
  blocks and transactions depend on the clock when the module is loaded, the argument \<open>now\<close> in
  seconds.
\<close>

definition dbl :: "int \<Rightarrow> int \<Rightarrow> js_number" where
  "dbl n d = to_double (of_int n / of_int d)"

text \<open>\<^verbatim>\<open>JSON.stringify(o, null, 2)\<close> of an object without nested values.\<close>

definition stringify_indented :: "(string \<times> jsval) list \<Rightarrow> string" where
  "stringify_indented kvs =
     (let nl = [char_of (10 :: nat)]
      in ''{'' @ nl @ join ('','' @ nl) (map (\<lambda>(k, v). ''  '' @ quote k @ '': '' @ the (stringify v)) kvs) @ nl @ ''}'')"

definition MOCK_GENESIS_VALIDATORS :: "IndexedValidator list" where
  "MOCK_GENESIS_VALIDATORS =
    [\<lparr> iv_operator_address = ''spraxvaloper1q8x9y7w6e5r4t3y2u1i0o9p8a7s6d5f4g3h2j1'',
       iv_moniker = ''SPRX Core Genesis Alpha'', iv_voting_power = 3500000,
       iv_voting_power_percentage = Fin 35, iv_tokens = ''3,500,000 SPRX'',
       iv_commission_rate = dbl 5 100, iv_status = Active, iv_is_tombstoned = False,
       iv_missed_blocks_count = 0, iv_uptime_percentage = dbl 9998 100,
       iv_blocks_proposed_count = 48920 \<rparr>,
     \<lparr> iv_operator_address = ''spraxvaloper1a2s3d4f5g6h7j8k9l0z1x2c3v4b5n6m7q8w9e0'',
       iv_moniker = ''Global Real-World X Node'', iv_voting_power = 2800000,
       iv_voting_power_percentage = Fin 28, iv_tokens = ''2,800,000 SPRX'',
       iv_commission_rate = dbl 4 100, iv_status = Active, iv_is_tombstoned = False,
       iv_missed_blocks_count = 1, iv_uptime_percentage = dbl 9995 100,
       iv_blocks_proposed_count = 39150 \<rparr>,
     \<lparr> iv_operator_address = ''spraxvaloper1z9y8x7w6v5u4t3s2r1q0p9o8n7m6l5k4j3h2g1'',
       iv_moniker = ''Nexus Staking Labs'', iv_voting_power = 1900000,
       iv_voting_power_percentage = Fin 19, iv_tokens = ''1,900,000 SPRX'',
       iv_commission_rate = dbl 5 100, iv_status = Active, iv_is_tombstoned = False,
       iv_missed_blocks_count = 3, iv_uptime_percentage = dbl 9989 100,
       iv_blocks_proposed_count = 26400 \<rparr>,
     \<lparr> iv_operator_address = ''spraxvaloper1m0n9b8v7c6x5z4l3k2j1h0g9f8d7s6a5q4w3e2'',
       iv_moniker = ''Hyperion Validator'', iv_voting_power = 1200000,
       iv_voting_power_percentage = Fin 12, iv_tokens = ''1,200,000 SPRX'',
       iv_commission_rate = dbl 8 100, iv_status = Active, iv_is_tombstoned = False,
       iv_missed_blocks_count = 6, iv_uptime_percentage = dbl 9972 100,
       iv_blocks_proposed_count = 16800 \<rparr>,
     \<lparr> iv_operator_address = ''spraxvaloper1p1o2i3u4y5t6r7e8w9q0a1s2d3f4g5h6j7k8l9'',
       iv_moniker = ''Antares Infrastructure'', iv_voting_power = 600000,
       iv_voting_power_percentage = Fin 6, iv_tokens = ''600,000 SPRX'',
       iv_commission_rate = dbl 10 100, iv_status = Active, iv_is_tombstoned = False,
       iv_missed_blocks_count = 12, iv_uptime_percentage = dbl 9945 100,
       iv_blocks_proposed_count = 8400 \<rparr>]"

definition mock_block :: "int \<Rightarrow> nat \<Rightarrow> IndexedBlock" where
  "mock_block now i =
     \<lparr> bk_height = 8245920 - int i,
       bk_hash = ''0x7f8a9b2c3d4e5f60718293a4b5c6d7e8f901a2b3c4d5e6f708192a3b4c5d6e7'' @ nat_str (i mod 10),
       bk_parent_hash = ''0x6e7d8c9b0a1f2e3d4c5b6a708192a3b4c5d6e7f8091a2b3c4d5e6f708192a3b'' @ nat_str ((i + 1) mod 10),
       bk_chain_id = ''sprax-mainnet-1'',
       bk_timestamp_unix_secs = now - int i * 2,
       bk_proposer = iv_operator_address (MOCK_GENESIS_VALIDATORS ! (i mod length MOCK_GENESIS_VALIDATORS)),
       bk_txs_count = (int i * 7 + 3) mod 18 + 1,
       bk_txs_root = ''0x11223344556677889900aabbccddeeff00112233445566778899aabbccddeeff'',
       bk_state_root = ''0xabcdef0123456789abcdef0123456789abcdef0123456789abcdef0123456789'',
       bk_gas_used = 145000 + int i * 12500,
       bk_block_size_bytes = 4200 + int i * 350 \<rparr>"

definition MOCK_GENESIS_BLOCKS :: "int \<Rightarrow> IndexedBlock list" where
  "MOCK_GENESIS_BLOCKS now = map (mock_block now) [0 ..< 20]"

definition mock_types :: "string list" where
  "mock_types = [''Transfer'', ''Delegate'', ''ContractCall'', ''Transfer'', ''Undelegate'', ''Transfer'']"

definition mock_senders :: "string list" where
  "mock_senders = [''sprax1sdtpz05x2r7d70u428v2ff3rtyj49z65a380gr'', ''sprax1q8x9y7w6e5r4t3y2u1i0o9p8a7s6d5f4g3h2j1'',
     ''sprax1a2s3d4f5g6h7j8k9l0z1x2c3v4b5n6m7q8w9e0'']"

definition mock_recipients :: "string list" where
  "mock_recipients = [''sprax1z9y8x7w6v5u4t3s2r1q0p9o8n7m6l5k4j3h2g1'', ''sprax1m0n9b8v7c6x5z4l3k2j1h0g9f8d7s6a5q4w3e2'',
     ''sprax14hj2tavq8fpesdwxxcu44rty3hh90vhujrvcmstl4zr3txmfvw9syh7p89'']"

definition mock_tx_hash :: "nat \<Rightarrow> string" where
  "mock_tx_hash i = ''0x89abcdef0123456789abcdef0123456789abcdef0123456789abcdef01234567''
     @ padStart 2 (CHR ''0'') (radix_str 16 i)"

definition mock_tx :: "int \<Rightarrow> nat \<Rightarrow> IndexedTx" where
  "mock_tx now i =
     (let msgType = mock_types ! (i mod length mock_types) in
      \<lparr> ix_tx_hash = mock_tx_hash i,
        ix_block_height = 8245920 - int (i div 2),
        ix_block_hash = ''0x7f8a9b2c3d4e5f60718293a4b5c6d7e8f901a2b3c4d5e6f708192a3b4c5d6e7'' @ nat_str (i mod 10),
        ix_sender = mock_senders ! (i mod length mock_senders),
        ix_recipient = (if msgType = ''Transfer'' then Some (mock_recipients ! (i mod length mock_recipients)) else None),
        ix_message_type = msgType,
        ix_amount = toFixed (n_mul (NInt (int i + 1)) (Fin (49 / 2))) 2 @ '' SPRX'',
        ix_fee_amount = ''0.0005 SPRX'',
        ix_nonce = int i + 1,
        ix_memo = (if i mod 3 = 0 then ''SPRX Settlement'' else []),
        ix_success = (i \<noteq> 7),
        ix_gas_used = (if msgType = ''ContractCall'' then 85000 else 21000),
        ix_timestamp_unix_secs = now - int i * 3,
        ix_raw_messages = None \<rparr>)"

definition MOCK_GENESIS_TXS :: "int \<Rightarrow> IndexedTx list" where
  "MOCK_GENESIS_TXS now = map (mock_tx now) [0 ..< 30]"

definition MOCK_GENESIS_STATS :: NetworkStats where
  "MOCK_GENESIS_STATS =
     \<lparr> ns_chain_id = ''sprax-mainnet-1'', ns_latest_height = 8245920,
       ns_latest_block_hash = ''0x7f8a9b2c3d4e5f60718293a4b5c6d7e8f901a2b3c4d5e6f708192a3b4c5d6e70'',
       ns_total_transactions = 14852910, ns_total_accounts = 342180, ns_active_validators_count = 100,
       ns_total_bonded_tokens = ''420,000,000 SPRX'', ns_avg_block_time_seconds = dbl 15 10,
       ns_current_tps = dbl 12405 10,
       ns_latest_state_root = ''0xabcdef0123456789abcdef0123456789abcdef0123456789abcdef0123456789'' \<rparr>"

definition MOCK_GENESIS_CONTRACTS :: "SmartContract list" where
  "MOCK_GENESIS_CONTRACTS =
    [\<lparr> ct_address = ''sprax14hj2tavq8fpesdwxxcu44rty3hh90vhujrvcmstl4zr3txmfvw9syh7p89'',
       ct_creator = ''sprax1sdtpz05x2r7d70u428v2ff3rtyj49z65a380gr'', ct_created_height = 124000,
       ct_bytecode_size = 48200, ct_tx_count = 894000, ct_verified = True,
       ct_compiler_version = Some (''cosmwasm-rust:1.80.0''),
       ct_source_code = Some (''// CW20 Standard Token Implementation for RealWorld USD on SPRX'' @ [char_of (10 :: nat)] @ ''use cosmwasm_std::{entry_point, Binary, Deps, DepsMut, Env, MessageInfo, Response, StdResult};'' @ [char_of (10 :: nat)] @ ''use cw20_base::contract::{execute as cw20_execute, instantiate as cw20_instantiate, query as cw20_query};'' @ [char_of (10 :: nat)] @ ''use cw20_base::msg::{ExecuteMsg, InstantiateMsg, QueryMsg};'' @ [char_of (10 :: nat)] @ [char_of (10 :: nat)] @ ''#[entry_point]'' @ [char_of (10 :: nat)] @ ''pub fn instantiate(deps: DepsMut, env: Env, info: MessageInfo, msg: InstantiateMsg) -> StdResult<Response> {'' @ [char_of (10 :: nat)] @ ''    cw20_instantiate(deps, env, info, msg)'' @ [char_of (10 :: nat)] @ ''}'' @ [char_of (10 :: nat)] @ [char_of (10 :: nat)] @ ''#[entry_point]'' @ [char_of (10 :: nat)] @ ''pub fn execute(deps: DepsMut, env: Env, info: MessageInfo, msg: ExecuteMsg) -> StdResult<Response> {'' @ [char_of (10 :: nat)] @ ''    cw20_execute(deps, env, info, msg)'' @ [char_of (10 :: nat)] @ ''}''),
       ct_abi = Some (stringify_indented [(''contract'', JStr (''CW20-RealWorldUSD'')), (''standard'', JStr (''SXS-20'')), (''decimals'', JInt 6), (''symbol'', JStr (''sUSD''))]) \<rparr>,
     \<lparr> ct_address = ''sprax1v8x7y6w5e4r3t2y1u0i9o8p7a6s5d4f3g2h1j0k9l8z7x6c5v4b3n2m1q0'',
       ct_creator = ''sprax1sdtpz05x2r7d70u428v2ff3rtyj49z65a380gr'', ct_created_height = 245000,
       ct_bytecode_size = 64100, ct_tx_count = 412000, ct_verified = True,
       ct_compiler_version = Some (''cosmwasm-rust:1.80.0''), ct_source_code = None,
       ct_abi = Some (stringify_indented [(''contract'', JStr (''MultiPartyEscrowRWA'')), (''standard'', JStr (''SXS-Escrow''))]) \<rparr>,
     \<lparr> ct_address = ''sprax1k9l8z7x6c5v4b3n2m1q0w9e8r7t6y5u4i3o2p1a0s9d8f7g6h5j4k3l2z1'',
       ct_creator = ''sprax1sdtpz05x2r7d70u428v2ff3rtyj49z65a380gr'', ct_created_height = 520000,
       ct_bytecode_size = 38900, ct_tx_count = 154000, ct_verified = True,
       ct_compiler_version = Some (''cosmwasm-rust:1.80.0''), ct_source_code = None,
       ct_abi = Some (stringify_indented [(''contract'', JStr (''OnChainGovernanceTreasury'')), (''standard'', JStr (''SXS-Gov''))]) \<rparr>]"

definition MOCK_ECOSYSTEM_PROJECTS :: "EcosystemProject list" where
  "MOCK_ECOSYSTEM_PROJECTS =
    [\<lparr> ep_id = ''sprax-swap'', ep_name = ''SpraxSwap DEX'',
       ep_tagline = ''Ultra-low latency AMM and Orderbook Hybrid'',
       ep_description = ''Next-generation decentralized exchange with concentrated liquidity, sub-second settlement, and native multi-asset fee routing.'',
       ep_category = DeFi_project, ep_stage = Mainnet_stage, ep_verified = True,
       ep_website = ''https://swap.sprax.network'',
       ep_github = Some (''https://github.com/sprax-chain/sprax-swap''),
       ep_metrics = Some (''24h Volume'', ''$4.2M'') \<rparr>,
     \<lparr> ep_id = ''sprax-rwa-settlement'', ep_name = ''SPRX Settlement Rails'',
       ep_tagline = ''Institutional Real-World Asset Tokenization & Settlement'',
       ep_description = ''Compliant digital bond, real estate, and invoice tokenization infrastructure with automated dividend distribution and legal escrow anchors.'',
       ep_category = RWA_Payments, ep_stage = Mainnet_stage, ep_verified = True,
       ep_website = ''https://rwa.sprax.network'', ep_github = None,
       ep_metrics = Some (''Total Asset Value'', ''$18.5M'') \<rparr>,
     \<lparr> ep_id = ''sprax-wallet-mobile'', ep_name = ''SPRX Mobile & Web Wallet'',
       ep_tagline = ''Non-custodial, multi-currency HD wallet suite'',
       ep_description = ''Hardware-grade key security, BIP-39 mnemonic recovery, biometric signing, fiat conversions, and seamless dApp connect.'',
       ep_category = Wallets, ep_stage = Mainnet_stage, ep_verified = True,
       ep_website = ''https://wallet.sprax.network'',
       ep_github = Some (''https://github.com/sprax-chain/sprax/tree/main/apps/mobile-wallet''),
       ep_metrics = Some (''Active Users'', ''85K+'') \<rparr>,
     \<lparr> ep_id = ''sprax-perp'', ep_name = ''SpraxPerp Perpetual Futures'',
       ep_tagline = ''Zero-slippage synthetic perps with on-chain oracles'',
       ep_description = ''High-frequency decentralized perpetual contracts powered by real-time oracle price aggregation and sub-second CometBFT finality.'',
       ep_category = DeFi_project, ep_stage = Mainnet_stage, ep_verified = True,
       ep_website = ''https://perps.sprax.network'', ep_github = None,
       ep_metrics = Some (''Open Interest'', ''$8.9M'') \<rparr>,
     \<lparr> ep_id = ''sprax-depin-node'', ep_name = ''SPRX DePIN Sensor Mesh'',
       ep_tagline = ''Verifiable IoT and energy telemetry on-chain'',
       ep_description = ''Lightweight cryptographic attestation nodes for decentralized physical infrastructure networks and real-world sensor streams.'',
       ep_category = Enterprise, ep_stage = Testnet_stage, ep_verified = True,
       ep_website = ''https://depin.sprax.network'', ep_github = None,
       ep_metrics = Some (''Active Nodes'', ''1,420'') \<rparr>,
     \<lparr> ep_id = ''sprax-id-credentials'', ep_name = ''SPRX Identity & SXS-Credentials'',
       ep_tagline = ''Sovereign verifiable credentials and KYC abstractions'',
       ep_description = ''Privacy-preserving zero-knowledge identity assertions for compliant institutional DeFi and enterprise access control.'',
       ep_category = Gaming_Identity, ep_stage = In_Development, ep_verified = True,
       ep_website = ''https://id.sprax.network'', ep_github = None,
       ep_metrics = Some (''Credentials Issued'', ''32K'') \<rparr>,
     \<lparr> ep_id = ''sprax-indexer-api'', ep_name = ''SPRX Graph Indexer'',
       ep_tagline = ''Real-time GraphQL and REST indexing layer'',
       ep_description = ''High-throughput block indexing engine providing sub-10ms query response times for enterprise dApps and analytics dashboards.'',
       ep_category = Infrastructure, ep_stage = Mainnet_stage, ep_verified = True,
       ep_website = ''https://indexer.sprax.network'',
       ep_github = Some (''https://github.com/sprax-chain/sprax/tree/main/crates/sprax-indexer''),
       ep_metrics = Some (''Avg Query Latency'', ''8ms'') \<rparr>]"

definition MOCK_MARKET_ASSETS :: "MarketAsset list" where
  "MOCK_MARKET_ASSETS =
    [\<lparr> ma_id = ''sprx'', ma_symbol = ''SPRX'', ma_name = ''SPRX Native'', ma_priceUsd = dbl 148 100,
       ma_change24h = dbl 684 100, ma_high24h = dbl 154 100, ma_low24h = dbl 136 100,
       ma_volume24hUsd = Fin 8450200, ma_marketCapUsd = Fin 1480000000,
       ma_circulatingSupply = ''1,000,000,000 SPRX'',
       ma_sparkline = [dbl 136 100, dbl 138 100, dbl 141 100, dbl 139 100, dbl 144 100, dbl 146 100, dbl 148 100],
       ma_category = Native \<rparr>,
     \<lparr> ma_id = ''susd'', ma_symbol = ''sUSD'', ma_name = ''SPRX Real-World USD'', ma_priceUsd = Fin 1,
       ma_change24h = dbl 2 100, ma_high24h = dbl 1002 1000, ma_low24h = dbl 998 1000,
       ma_volume24hUsd = Fin 12400000, ma_marketCapUsd = Fin 45000000,
       ma_circulatingSupply = ''45,000,000 sUSD'',
       ma_sparkline = [Fin 1, Fin 1, dbl 1001 1000, dbl 999 1000, Fin 1, Fin 1, Fin 1],
       ma_category = Stable_Asset \<rparr>,
     \<lparr> ma_id = ''sprax-swap-token'', ma_symbol = ''SSWAP'', ma_name = ''SpraxSwap Governance'',
       ma_priceUsd = dbl 62 100, ma_change24h = dbl 415 100, ma_high24h = dbl 65 100,
       ma_low24h = dbl 58 100, ma_volume24hUsd = Fin 1820000, ma_marketCapUsd = Fin 18600000,
       ma_circulatingSupply = ''30,000,000 SSWAP'',
       ma_sparkline = [dbl 58 100, dbl 59 100, dbl 60 100, dbl 61 100, dbl 60 100, dbl 63 100, dbl 62 100],
       ma_category = DeFi_asset \<rparr>,
     \<lparr> ma_id = ''sprax-rwa-bond'', ma_symbol = ''sTBOND'', ma_name = ''SPRX Treasury Yield Bond'',
       ma_priceUsd = dbl 10420 100, ma_change24h = dbl 12 100, ma_high24h = dbl 10425 100,
       ma_low24h = dbl 10410 100, ma_volume24hUsd = Fin 3100000, ma_marketCapUsd = Fin 25000000,
       ma_circulatingSupply = ''240,000 sTBOND'',
       ma_sparkline = [dbl 10410 100, dbl 10412 100, dbl 10415 100, dbl 10418 100, dbl 10419 100, dbl 10420 100, dbl 10420 100],
       ma_category = RWA \<rparr>]"

definition MOCK_SIPS :: "SIPItem list" where
  "MOCK_SIPS =
    [\<lparr> si_id = 1, si_sipNumber = ''SIP-001'',
       si_title = ''CometBFT Consensus & Dynamic Weighted Round-Robin Proposer Selection'',
       si_author = ''SPRX Core Engineering Guild'', si_status = SIP_Final, si_category = SIP_Consensus,
       si_createdDate = ''2026-01-15'',
       si_summary = ''Formalizes Byzantine Fault Tolerant state-machine replication with deterministic round-robin proposer election prioritizing validator voting power and 1.5s block finality.'',
       si_motivation = ''Guarantees mathematical safety under 1/3 Byzantine adversarial thresholds and eliminates selfish proposing attacks.'',
       si_specification = ''Proposer priority increases by validator voting power at each step. The highest priority validator proposes block H.'',
       si_rationale = ''Battle-tested across Cosmos and CometBFT ecosystems, ensuring deterministic low-latency settlement.'' \<rparr>,
     \<lparr> si_id = 2, si_sipNumber = ''SIP-002'',
       si_title = ''CosmWasm Actor-Model WASM Virtual Machine (sprax-wasm)'',
       si_author = ''SPRX Virtual Machine Working Group'', si_status = SIP_Final,
       si_category = SIP_Execution, si_createdDate = ''2026-02-10'',
       si_summary = ''Defines deterministic WebAssembly execution runtime with strict step-wise gas metering, memory boundaries, and non-reentrancy call stack guards.'',
       si_motivation = ''Enables secure, high-performance Rust smart contracts without the vulnerabilities inherent in EVM reentrancy and unchecked overflow.'',
       si_specification = ''Contracts export instantiate, execute, and query handlers. Sandboxed KV state isolation prevents cross-contract tampering.'',
       si_rationale = ''Rust compile-time safety and WASM isolation ensure enterprise-grade stability for complex financial logic.'' \<rparr>,
     \<lparr> si_id = 3, si_sipNumber = ''SIP-003'',
       si_title = ''Decoupled Universal Multi-Currency Presentation Layer'',
       si_author = ''SPRX UX Architecture Team'', si_status = SIP_Final, si_category = SIP_Standards,
       si_createdDate = ''2026-03-05'',
       si_summary = ''Standardizes decentralized oracle price feed consumption in wallets and explorers to display balances in USD, INR, EUR, GBP, and JPY without contaminating chain state.'',
       si_motivation = ''Bridges blockchain precision with tangible real-world accounting for global users.'',
       si_specification = ''All consensus operations compute in 18-decimal atto-SPRX. Presentation layers query authenticated off-chain feeds.'',
       si_rationale = ''Keeps consensus strictly deterministic and free from off-chain oracle dependency inside the execution block cycle.'' \<rparr>,
     \<lparr> si_id = 4, si_sipNumber = ''SIP-004'',
       si_title = ''SXS-20 & SXS-721 Real-World Extensible Asset Standards'',
       si_author = ''SPRX Standards Committee'', si_status = SIP_Review, si_category = SIP_Standards,
       si_createdDate = ''2026-05-20'',
       si_summary = ''Extensible smart contract specifications for fungible tokens, real-world asset collateral, and multi-signature regulatory escrow.'',
       si_motivation = ''Provides standard interfaces for institutional token issuance, automated dividend payouts, and KYC assertion checks.'',
       si_specification = ''Standard message interfaces for Transfer, Approve, MintWithMetadata, and EscrowDeposit.'',
       si_rationale = ''Unifies dApp interoperability across DeFi and real-world asset settlement platforms.'' \<rparr>,
     \<lparr> si_id = 5, si_sipNumber = ''SIP-005'',
       si_title = ''Dual-Tier Storage Architecture: Jellyfish Merkle Trie & Redb Block Log'',
       si_author = ''SPRX Core Storage Team'', si_status = SIP_Accepted, si_category = SIP_Core,
       si_createdDate = ''2026-06-12'',
       si_summary = ''Implements memory-efficient pure-Rust state persistence using Redb and sparse Merkle state roots for instantaneous snapshot sync.'',
       si_motivation = ''Eliminates heavy C++ database dependencies while guaranteeing crash consistency and sub-millisecond state reads.'',
       si_specification = ''Separates state KV store from append-only raw block logs with automated WAL checkpointing.'',
       si_rationale = ''Reduces validator memory footprint by 45% compared to legacy storage models.'' \<rparr>]"

definition MOCK_GOVERNANCE_PROPOSALS :: "GovernanceProposal list" where
  "MOCK_GOVERNANCE_PROPOSALS =
    [\<lparr> gp_id = 12, gp_title = ''Parameter Update: Reduce Minimum Validator Self-Stake to 500 SPRX'',
       gp_description = ''Proposal to adjust network staking parameters to encourage broader validator decentralization across global regional nodes.'',
       gp_proposer = ''sprax1sdtpz05x2r7d70u428v2ff3rtyj49z65a380gr'', gp_status = Voting,
       gp_category = ParameterChange, gp_totalDeposit = ''1,000 SPRX'',
       gp_minDepositRequired = ''1,000 SPRX'', gp_votingEndTime = ''2026-08-28 18:00 UTC'',
       gp_votes = \<lparr> pv_yes = dbl 784 10, pv_no = dbl 121 10, pv_noWithVeto = dbl 15 10, pv_abstain = Fin 8 \<rparr>,
       gp_quorumMet = True, gp_timelockDelayHours = Some 48 \<rparr>,
     \<lparr> gp_id = 11,
       gp_title = ''Ecosystem Grant: Funding for Open-Source Python & Go SPRX Client SDKs'',
       gp_description = ''Disburse 50,000 SPRX from Community Pool to developer collective for building production-grade Python and Go client SDKs.'',
       gp_proposer = ''sprax1q8x9y7w6e5r4t3y2u1i0o9p8a7s6d5f4g3h2j1'', gp_status = Passed,
       gp_category = CommunityPoolSpend, gp_totalDeposit = ''1,000 SPRX'',
       gp_minDepositRequired = ''1,000 SPRX'', gp_votingEndTime = ''2026-08-14 12:00 UTC'',
       gp_votes = \<lparr> pv_yes = dbl 942 10, pv_no = dbl 31 10, pv_noWithVeto = dbl 2 10, pv_abstain = dbl 25 10 \<rparr>,
       gp_quorumMet = True, gp_timelockDelayHours = Some 24 \<rparr>]"

definition MOCK_RESEARCH_PAPERS :: "ResearchPaper list" where
  "MOCK_RESEARCH_PAPERS =
    [\<lparr> rp_id = ''sprx-consensus-math'',
       rp_title = ''Formal Liveness & Safety Guarantees of BFT-PoS Under Partial Asynchrony'',
       rp_authors = [''SPRX Protocol Research Group'', ''Dr. A. Verma'', ''K. Thorne''],
       rp_date = ''2026-04-18'',
       rp_abstract = ''We prove mathematical safety invariants of the SPRX CometBFT consensus engine under network partitions and Byzantine equivocation, establishing optimal 1.5s block finality with minimal message complexity.'',
       rp_category = Paper_Consensus, rp_downloadUrl = None, rp_readingMinutes = 14 \<rparr>,
     \<lparr> rp_id = ''sprx-rwa-framework'',
       rp_title = ''Deterministic Settlement Rails for Real-World Asset Tokenization'',
       rp_authors = [''Institutional DeFi Lab'', ''SPRX Legal Architecture Guild''],
       rp_date = ''2026-06-02'',
       rp_abstract = ''A comprehensive framework integrating cryptographic on-chain state commitments with off-chain legal custodianship, automated dividend distribution, and multi-jurisdictional compliance.'',
       rp_category = RWA_Legal_Rails, rp_downloadUrl = None, rp_readingMinutes = 22 \<rparr>,
     \<lparr> rp_id = ''sprx-storage-jmt'',
       rp_title = ''Jellyfish Sparse Merkle Trees & Memory-Mapped State Persistence in Rust'',
       rp_authors = [''SPRX Storage Engineering Team''], rp_date = ''2026-07-20'',
       rp_abstract = ''Analyzing the performance characteristics of sparse Merkle commitment schemes combined with memory-mapped embedded key-value stores for high-throughput Layer-1 execution engines.'',
       rp_category = State_Storage, rp_downloadUrl = None, rp_readingMinutes = 16 \<rparr>]"

end
