(* ===== verification/Js_Round.thy ===== *)
theory Js_Round
  imports Js_Float
begin

text \<open>
  The rounding error of a quotient.  A double is within half a unit in the last place of the
  exact value, so \<^verbatim>\<open>Math.ceil(a / b)\<close> of two safe integers is the exact ceiling: the page counts of
  the user interfaces are computed this way.
\<close>

lemma pow_int_powi: "pow_int b e = b powi e"
  by (simp add: pow_int_def power_int_def power_inverse inverse_eq_divide power_one_over)

lemma pow2_bit_len_diff:
  assumes "0 < b"
  shows "(2 :: rat) powi (int a - int b) = 2 ^ a / 2 ^ b"
  by (simp add: power_int_diff)

lemma log2_floor_bounds:
  assumes "0 < r"
  shows "(2 :: rat) powi (log2_floor r) \<le> r" "r < 2 powi (log2_floor r + 1)"
proof -
  obtain n d where nd: "quotient_of r = (n, d)" by force
  then have d: "0 < d" and r: "r = of_int n / of_int d"
    by (simp_all add: quotient_of_denom_pos quotient_of_div)
  with assms have n: "0 < n" by (simp add: zero_less_divide_iff)
  define a where "a = bit_len (nat n)"
  define b where "b = bit_len (nat d)"
  have pos: "0 < a" "0 < b"
    using n d by (simp_all add: a_def b_def bit_len.simps)
  have rat_pow: "of_nat (2 ^ k) = (2 :: rat) ^ k" for k by simp
  have "2 ^ (a - 1) \<le> nat n \<and> nat n < 2 ^ a" "2 ^ (b - 1) \<le> nat d \<and> nat d < 2 ^ b"
    unfolding a_def b_def using n d by (intro bit_len_bounds; simp)+
  moreover have "(of_nat (nat n) :: rat) = of_int n" "(of_nat (nat d) :: rat) = of_int d"
    using n d by simp_all
  ultimately have na: "(2 :: rat) ^ (a - 1) \<le> of_int n" "of_int n < (2 :: rat) ^ a"
    and db: "(2 :: rat) ^ (b - 1) \<le> of_int d" "of_int d < (2 :: rat) ^ b"
    by (metis rat_pow of_nat_le_iff, metis rat_pow of_nat_less_iff,
        metis rat_pow of_nat_le_iff, metis rat_pow of_nat_less_iff)
  have low: "(2 :: rat) powi (int a - int b - 1) \<le> r"
  proof -
    have "(2 :: rat) powi (int a - int b - 1) = 2 ^ (a - 1) / 2 ^ b"
      using pos pow2_bit_len_diff [of b "a - 1"] by (simp add: of_nat_diff algebra_simps)
    also have "\<dots> \<le> of_int n / of_int d"
      using na db d n by (intro frac_le) simp_all
    finally show ?thesis by (simp add: r)
  qed
  have up: "r < (2 :: rat) powi (int a - int b + 1)"
  proof -
    have "of_int n / of_int d < (2 :: rat) ^ a / 2 ^ (b - 1)"
      using na db d by (intro frac_less) (simp_all add: n less_imp_le)
    also have "\<dots> = (2 :: rat) powi (int a - int b + 1)"
    proof -
      obtain c where "b = Suc c" using pos by (cases b) simp_all
      then show ?thesis by (simp add: power_int_diff)
    qed
    finally show ?thesis by (simp add: r)
  qed
  show "(2 :: rat) powi (log2_floor r) \<le> r" "r < 2 powi (log2_floor r + 1)"
    using low up by (auto simp: log2_floor_def nd pow_int_powi Let_def a_def [symmetric] b_def [symmetric])
qed

lemma round_even_error: "\<bar>of_int (round_even r) - r\<bar> \<le> 1 / 2"
  using floor_correct [of r] by (auto simp: round_even_def Let_def abs_le_iff)

text \<open>Normal numbers: the relative error is at most \<open>2 ^ -53\<close>.\<close>

lemma to_double_error:
  assumes "(1 :: rat) / 2 ^ 53 \<le> r" "r < 2 ^ 53"
  obtains v where "to_double r = Fin v" "\<bar>v - r\<bar> \<le> r / 2 ^ 53"
proof -
  have r: "0 < r" using assms(1) by (rule less_le_trans [rotated]) simp
  define e where "e = log2_floor r"
  note b = log2_floor_bounds [OF r, folded e_def]
  have "(2 :: rat) powi (- 53) < 2 powi (e + 1)"
    using assms(1) b(2) by (simp add: power_int_minus inverse_eq_divide)
  then have e: "- 54 < e"
    using power_int_increasing [of "e + 1" "- 53" "2 :: rat"] by linarith
  define v where "v = of_int (round_even (r / 2 powi (e - 52))) * (2 :: rat) powi (e - 52)"
  define p where "p = (2 :: rat) powi (e - 52)"
  have p: "0 < p" by (simp add: p_def)
  have "v - r = (of_int (round_even (r / p)) - r / p) * p"
    using p by (simp add: v_def p_def [symmetric] field_simps)
  then have "\<bar>v - r\<bar> = \<bar>of_int (round_even (r / p)) - r / p\<bar> * p"
    using p by (simp add: abs_mult)
  also have "\<dots> \<le> 1 / 2 * p"
    using p by (intro mult_right_mono [OF round_even_error]) simp
  also have "\<dots> = 2 powi e / 2 ^ 53"
    by (simp add: p_def power_int_diff)
  also have "\<dots> \<le> r / 2 ^ 53"
    using b(1) by (simp add: divide_right_mono)
  finally have err: "\<bar>v - r\<bar> \<le> r / 2 ^ 53" .
  have "v \<le> r + r / 2 ^ 53" using err by linarith
  also have "\<dots> \<le> 2 * r" using r by simp
  also have "\<dots> < 2 ^ 54" using assms(2) by simp
  also have "(2 :: rat) ^ 54 \<le> pow_int 2 1024"
    unfolding pow_int_def by (simp only: zero_le_numeral if_True nat_numeral) (rule power_increasing, simp_all)
  finally have small: "\<not> pow_int 2 1024 \<le> v" by simp
  have q: "max (log2_floor r - 52) (- 1074) = e - 52" using e by (simp add: e_def)
  have "to_double r = Fin v"
    using r small by (simp add: to_double_def q pow_int_powi v_def [symmetric] Let_def)
  with err show thesis by (rule that [rotated])
qed

text \<open>
  The double of a quotient \<open>a / b\<close> of safe integers is less than \<open>1 / b\<close> away from it, hence on the same
  side of every integer, and exact when the quotient is an integer.
\<close>

lemma quotient_near:
  assumes "0 < a" "a < 2 ^ 53" "0 < b" "b \<le> 2 ^ 53"
  obtains v where "n_div (NInt a) (NInt b) = Fin v" "\<bar>v - of_int a / of_int b\<bar> < 1 / of_int b"
proof -
  define x where "x = (of_int a / of_int b :: rat)"
  have a1: "(1 :: rat) \<le> of_int a" using assms(1) by linarith
  have "(of_int a :: rat) < of_int (2 ^ 53)"
    using assms(2) by (simp only: of_int_less_iff)
  then have a2: "(of_int a :: rat) < 2 ^ 53" by (simp only: of_int_power of_int_numeral)
  have b1: "(1 :: rat) \<le> of_int b" using assms(3) by linarith
  have "(of_int b :: rat) \<le> of_int (2 ^ 53)"
    using assms(4) by (simp only: of_int_le_iff)
  then have b2: "(of_int b :: rat) \<le> 2 ^ 53" by (simp only: of_int_power of_int_numeral)
  have low: "1 / 2 ^ 53 \<le> x"
    unfolding x_def by (rule frac_le) (use a1 b1 b2 in simp_all)
  have "x \<le> of_int a / 1"
    unfolding x_def by (rule divide_left_mono) (use a1 b1 in simp_all)
  with a2 have up: "x < 2 ^ 53" by simp
  obtain v where v: "to_double x = Fin v" "\<bar>v - x\<bar> \<le> x / 2 ^ 53"
    using to_double_error [OF low up] .
  have "x / 2 ^ 53 < 1 / of_int b"
    unfolding x_def using a2 b1 by (simp add: field_simps)
  with v(2) have "\<bar>v - x\<bar> < 1 / of_int b" by linarith
  with v(1) b1 show thesis by (intro that [of v]) (simp_all add: x_def)
qed

lemma quotient_exact:
  assumes "0 \<le> a" "a < 2 ^ 53" "0 < b" "b dvd a"
  shows "n_div (NInt a) (NInt b) = NInt (a div b)"
proof -
  obtain k where k: "a = b * k" using assms(4) by (elim dvdE)
  have "0 \<le> k" using assms(1,3) by (simp add: k zero_le_mult_iff)
  then have "1 * k \<le> b * k" using assms(3) by (intro mult_right_mono) simp_all
  with assms(1,2) \<open>0 \<le> k\<close> have "\<bar>k\<bar> < 2 ^ 53" by (simp add: k)
  with assms(3) show ?thesis by (simp add: k to_double_int)
qed

lemma grid_le:
  assumes "(0 :: int) < b" "of_int k < (of_int a / of_int b :: rat)"
  shows "of_int k + 1 / of_int b \<le> (of_int a / of_int b :: rat)"
proof -
  have b: "(0 :: rat) < of_int b" using assms(1) by simp
  have "of_int (k * b) < (of_int a :: rat)"
    using assms(2) b by (simp add: field_simps)
  then have "k * b + 1 \<le> a" by (simp only: of_int_less_iff)
  then have "of_int (k * b + 1) \<le> (of_int a :: rat)" by (simp only: of_int_le_iff)
  then have "of_int (k * b + 1) / of_int b \<le> (of_int a / of_int b :: rat)"
    using b by (intro divide_right_mono) simp_all
  then show ?thesis using assms(1) by (simp add: add_divide_distrib)
qed

lemma grid_ge:
  assumes "(0 :: int) < b" "(of_int a / of_int b :: rat) < of_int k"
  shows "(of_int a / of_int b :: rat) \<le> of_int k - 1 / of_int b"
  using grid_le [of b "- k" "- a"] assms by simp

lemma ceil_quotient:
  assumes "0 \<le> a" "a < 2 ^ 53" "0 < b" "b \<le> 2 ^ 53"
  shows "Math_ceil (n_div (NInt a) (NInt b)) = NInt \<lceil>of_int a / of_int b :: rat\<rceil>"
proof (cases "b dvd a")
  case True
  then obtain k where "a = b * k" by (elim dvdE)
  with quotient_exact [OF assms(1-3) True] assms(3) show ?thesis by simp
next
  case False
  then have "0 < a" using assms(1) by (cases "a = 0") simp_all
  then obtain v where v: "n_div (NInt a) (NInt b) = Fin v" "\<bar>v - of_int a / of_int b\<bar> < 1 / of_int b"
    using quotient_near assms(2-4) by blast
  define k where "k = \<lceil>of_int a / of_int b :: rat\<rceil>"
  have k: "of_int (k - 1) < (of_int a / of_int b :: rat)" "of_int a / of_int b \<le> (of_int k :: rat)"
    unfolding k_def by linarith+
  have "of_int a / of_int b \<noteq> (of_int k :: rat)"
    using False assms(3) by (auto simp: field_simps simp flip: of_int_mult)
  with k(2) have "of_int a / of_int b < (of_int k :: rat)" by simp
  from grid_ge [OF assms(3) this] v(2) have "v \<le> of_int k" by linarith
  moreover from grid_le [OF assms(3) k(1)] v(2) have "of_int (k - 1) < v" by linarith
  ultimately have "\<lceil>v\<rceil> = k" by (intro ceiling_unique) simp_all
  with v(1) show ?thesis by (simp add: k_def)
qed

lemma floor_quotient:
  assumes "0 \<le> a" "a < 2 ^ 53" "0 < b" "b \<le> 2 ^ 53"
  shows "Math_floor (n_div (NInt a) (NInt b)) = NInt (a div b)"
proof (cases "b dvd a")
  case True
  with quotient_exact [OF assms(1-3)] show ?thesis by simp
next
  case False
  then have "0 < a" using assms(1) by (cases "a = 0") simp_all
  then obtain v where v: "n_div (NInt a) (NInt b) = Fin v" "\<bar>v - of_int a / of_int b\<bar> < 1 / of_int b"
    using quotient_near assms(2-4) by blast
  define k where "k = a div b"
  have fl: "\<lfloor>of_int a / of_int b :: rat\<rfloor> = k" by (simp add: k_def floor_divide_of_int_eq)
  have k: "of_int k \<le> (of_int a / of_int b :: rat)" "of_int a / of_int b < (of_int (k + 1) :: rat)"
    using fl by linarith+
  have "of_int a / of_int b \<noteq> (of_int k :: rat)"
    using False assms(3) by (auto simp: field_simps simp flip: of_int_mult)
  with k(1) have "of_int k < (of_int a / of_int b :: rat)" by simp
  from grid_le [OF assms(3) this] v(2) have "of_int k \<le> v" by linarith
  moreover from grid_ge [OF assms(3) k(2)] v(2) have "v < of_int (k + 1)" by linarith
  ultimately have "\<lfloor>v\<rfloor> = k" by (intro floor_unique) simp_all
  with v(1) show ?thesis by (simp add: k_def)
qed

end
