(* ===== verification/Paging.thy ===== *)
theory Paging
  imports Explorer_Types Js_Round State_Machine
begin

text \<open>
  Pages of a list: the pages the explorer serves from its fallback data
  (\<^verbatim>\<open>src/apps/explorer-ui/src/services/api.ts\<close>) and the control that walks through them
  (\<^verbatim>\<open>src/apps/explorer-ui/src/components/Pagination.tsx\<close>).  The contract between the two is the
  locale \<open>paged_source\<close>.
\<close>

definition page_of :: "'a list \<Rightarrow> int \<Rightarrow> int \<Rightarrow> 'a PaginatedResponse" where
  "page_of xs limit offset =
     \<lparr> pr_items = slice xs offset (offset + limit), pr_total = int (length xs), pr_limit = limit,
       pr_offset = offset, pr_has_more = (offset + limit < int (length xs)) \<rparr>"

section \<open>The control\<close>

definition totalPages :: "js_number \<Rightarrow> js_number \<Rightarrow> js_number" where
  "totalPages totalItems pageSize = Math_max (Fin 1) (Math_ceil (n_div totalItems pageSize))"

definition pagination_shown :: "js_number \<Rightarrow> js_number \<Rightarrow> bool" where
  "pagination_shown totalItems pageSize = (\<not> n_le (totalPages totalItems pageSize) (Fin 1))"

definition startItem :: "js_number \<Rightarrow> js_number \<Rightarrow> js_number" where
  "startItem currentPage pageSize = n_add (n_mul (n_sub currentPage (Fin 1)) pageSize) (Fin 1)"

definition endItem :: "js_number \<Rightarrow> js_number \<Rightarrow> js_number \<Rightarrow> js_number" where
  "endItem currentPage pageSize totalItems = Math_min (n_mul currentPage pageSize) totalItems"

datatype page_button = First_page | Previous_page | Next_page | Last_page

fun page_enabled :: "js_number \<Rightarrow> js_number \<Rightarrow> page_button \<Rightarrow> js_number \<Rightarrow> bool" where
  "page_enabled totalItems pageSize First_page cur =
     (pagination_shown totalItems pageSize \<and> \<not> n_eq cur (Fin 1))"
| "page_enabled totalItems pageSize Previous_page cur =
     (pagination_shown totalItems pageSize \<and> \<not> n_eq cur (Fin 1))"
| "page_enabled totalItems pageSize Next_page cur =
     (pagination_shown totalItems pageSize \<and> \<not> n_le (totalPages totalItems pageSize) cur)"
| "page_enabled totalItems pageSize Last_page cur =
     (pagination_shown totalItems pageSize \<and> \<not> n_le (totalPages totalItems pageSize) cur)"

fun page_click :: "js_number \<Rightarrow> js_number \<Rightarrow> page_button \<Rightarrow> js_number \<Rightarrow> js_number" where
  "page_click totalItems pageSize First_page cur = Fin 1"
| "page_click totalItems pageSize Previous_page cur = n_sub cur (Fin 1)"
| "page_click totalItems pageSize Next_page cur = n_add cur (Fin 1)"
| "page_click totalItems pageSize Last_page cur = totalPages totalItems pageSize"

section \<open>The number of pages\<close>

definition page_count :: "int \<Rightarrow> int \<Rightarrow> int" where
  "page_count n l = max 1 \<lceil>of_int n / of_int l :: rat\<rceil>"

definition safe_size :: "int \<Rightarrow> int \<Rightarrow> bool" where
  "safe_size n l \<longleftrightarrow> 0 \<le> n \<and> n < 2 ^ 53 \<and> 0 < l \<and> l \<le> 2 ^ 53"

lemma Math_max_NInt: "Math_max (Fin 1) (NInt k) = NInt (max 1 k)"
  by (auto simp: Math_max_def max_def)

lemma Math_min_NInt: "Math_min (NInt a) (NInt b) = NInt (min a b)"
  by (auto simp: Math_min_def min_def)

lemma totalPages_exact:
  assumes "safe_size n l"
  shows "totalPages (NInt n) (NInt l) = NInt (page_count n l)"
proof -
  have "Math_ceil (n_div (NInt n) (NInt l)) = NInt \<lceil>of_int n / of_int l :: rat\<rceil>"
    using assms by (intro ceil_quotient) (simp_all add: safe_size_def)
  then show ?thesis
    by (simp only: totalPages_def page_count_def Math_max_NInt)
qed

lemma page_count_bounds:
  assumes "safe_size n l"
  shows "1 \<le> page_count n l" "n \<le> page_count n l * l" "0 < n \<Longrightarrow> (page_count n l - 1) * l < n"
    "page_count n l < 2 ^ 53"
proof -
  have l: "0 < (of_int l :: rat)" using assms by (simp add: safe_size_def)
  define k where "k = \<lceil>of_int n / of_int l :: rat\<rceil>"
  show "1 \<le> page_count n l" by (simp add: page_count_def)
  have k: "of_int n / of_int l \<le> (of_int k :: rat)" "of_int (k - 1) < (of_int n / of_int l :: rat)"
    unfolding k_def by linarith+
  have "of_int n \<le> (of_int (k * l) :: rat)"
    using k(1) l by (simp add: field_simps)
  then have up: "n \<le> k * l" by (simp only: of_int_le_iff)
  have "of_int ((k - 1) * l) < (of_int n :: rat)"
    using k(2) l by (simp add: field_simps)
  then have low: "(k - 1) * l < n" by (simp only: of_int_less_iff)
  have eq: "page_count n l = max 1 k" by (simp add: page_count_def k_def)
  show "n \<le> page_count n l * l"
    unfolding eq using up assms by (rule_tac order_trans [OF up]) (simp add: mult_right_mono safe_size_def)
  show "0 < n \<Longrightarrow> (page_count n l - 1) * l < n"
    unfolding eq using low by (cases "1 \<le> k") simp_all
  have "k < 2 ^ 53"
  proof (cases "k \<le> 1")
    case False
    then have "(k - 1) * 1 \<le> (k - 1) * l"
      using assms by (intro mult_left_mono) (simp_all add: safe_size_def)
    with low assms show ?thesis by (simp add: safe_size_def)
  qed simp
  then show "page_count n l < 2 ^ 53" unfolding eq by simp
qed

section \<open>Walking through the pages\<close>

definition page_inv :: "int \<Rightarrow> int \<Rightarrow> js_number \<Rightarrow> bool" where
  "page_inv n l cur \<longleftrightarrow> (safe_size n l \<longrightarrow> (\<exists>p. cur = NInt p \<and> 1 \<le> p \<and> p \<le> page_count n l))"

lemma n_add_NInt: "\<bar>a + b\<bar> < 2 ^ 53 \<Longrightarrow> n_add (NInt a) (NInt b) = NInt (a + b)"
  using to_double_int [of "a + b"] by simp

lemma n_sub_NInt: "\<bar>a - b\<bar> < 2 ^ 53 \<Longrightarrow> n_sub (NInt a) (NInt b) = NInt (a - b)"
  using to_double_int [of "a - b"] by (simp add: n_sub_def)

lemma n_mul_NInt: "\<bar>a * b\<bar> < 2 ^ 53 \<Longrightarrow> n_mul (NInt a) (NInt b) = NInt (a * b)"
  using to_double_int [of "a * b"] by simp

lemma NInt_order [simp]:
  "n_le (NInt a) (NInt b) \<longleftrightarrow> a \<le> b" "n_less (NInt a) (NInt b) \<longleftrightarrow> a < b"
  "n_eq (NInt a) (NInt b) \<longleftrightarrow> a = b"
  by (auto simp: n_le_def n_eq_def)

lemma page_step:
  assumes "page_inv n l cur" "page_enabled (NInt n) (NInt l) b cur"
  shows "page_inv n l (page_click (NInt n) (NInt l) b cur)"
  unfolding page_inv_def
proof
  assume safe: "safe_size n l"
  with assms(1) obtain p where p: "cur = NInt p" "1 \<le> p" "p \<le> page_count n l"
    by (auto simp: page_inv_def)
  note tp = totalPages_exact [OF safe] and pb = page_count_bounds(1,4) [OF safe]
  show "\<exists>p. page_click (NInt n) (NInt l) b cur = NInt p \<and> 1 \<le> p \<and> p \<le> page_count n l"
  proof (cases b)
    case First_page
    then show ?thesis using pb by (intro exI [of _ 1]) simp
  next
    case Previous_page
    then have "p \<noteq> 1" using assms(2) p NInt_order(3) [of p 1] by auto
    then show ?thesis
      using Previous_page p pb n_sub_NInt [of p 1] by (intro exI [of _ "p - 1"]) simp
  next
    case Next_page
    then have "p < page_count n l" using assms(2) p tp by simp
    then show ?thesis
      using Next_page p pb n_add_NInt [of p 1] by (intro exI [of _ "p + 1"]) simp
  next
    case Last_page
    then show ?thesis using pb tp by simp
  qed
qed

interpretation pg: invariant_system "Fin 1" "page_enabled (NInt n) (NInt l)"
  "page_click (NInt n) (NInt l)" "page_inv n l" for n l
proof
  show "page_inv n l (Fin 1)"
    using page_count_bounds(1) [of n l] by (auto simp: page_inv_def intro: exI [of _ 1])
qed (rule page_step)

lemma every_page_reached:
  assumes safe: "safe_size n l" and "1 \<le> p" "p \<le> page_count n l"
  shows "reach (Fin 1) (page_enabled (NInt n) (NInt l)) (page_click (NInt n) (NInt l)) (NInt p)"
  using assms(2,3)
proof (induction p rule: int_ge_induct)
  case base
  show ?case using reach.init [of "Fin 1"] by simp
next
  case (step p)
  have "page_enabled (NInt n) (NInt l) Next_page (NInt p)"
    using step totalPages_exact [OF safe] NInt_order(1) [of "page_count n l" 1]
    by (simp add: pagination_shown_def)
  with step have "reach (Fin 1) (page_enabled (NInt n) (NInt l)) (page_click (NInt n) (NInt l))
      (page_click (NInt n) (NInt l) Next_page (NInt p))"
    by (intro reach.step) simp_all
  moreover have "page_click (NInt n) (NInt l) Next_page (NInt p) = NInt (p + 1)"
    using n_add_NInt [of p 1] page_count_bounds(4) [OF safe] step by simp
  ultimately show ?case by (simp only:)
qed

lemma shown_range:
  assumes "safe_size n l" "n + l < 2 ^ 53" "0 < n" "1 \<le> p" "p \<le> page_count n l"
  shows "startItem (NInt p) (NInt l) = NInt ((p - 1) * l + 1)"
    and "endItem (NInt p) (NInt l) (NInt n) = NInt (min (p * l) n)"
    and "(p - 1) * l < n"
proof -
  have l: "0 < l" using assms(1) by (simp add: safe_size_def)
  have "(p - 1) * l \<le> (page_count n l - 1) * l"
    using assms(5) l by (intro mult_right_mono) simp_all
  with page_count_bounds(3) [OF assms(1,3)] show low: "(p - 1) * l < n" by simp
  have nonneg: "0 \<le> (p - 1) * l" using assms(4) l by simp
  have "p < 2 ^ 53" using assms(5) page_count_bounds(4) [OF assms(1)] by simp
  then have sub: "n_sub (NInt p) (Fin 1) = NInt (p - 1)"
    using assms(4) n_sub_NInt [of p 1] by simp
  have mul: "n_mul (NInt (p - 1)) (NInt l) = NInt ((p - 1) * l)"
    using low nonneg assms(2) l by (intro n_mul_NInt) simp
  have "\<bar>(p - 1) * l + 1\<bar> < 2 ^ 53" using low nonneg assms(2) l by linarith
  then have "n_add (NInt ((p - 1) * l)) (Fin 1) = NInt ((p - 1) * l + 1)"
    using n_add_NInt [of "(p - 1) * l" 1] by (simp only: of_int_1)
  then show "startItem (NInt p) (NInt l) = NInt ((p - 1) * l + 1)"
    using sub mul by (simp only: startItem_def)
  have pl: "p * l = (p - 1) * l + l" by (simp add: algebra_simps)
  then have "n_mul (NInt p) (NInt l) = NInt (p * l)"
    using low nonneg assms(2) l by (intro n_mul_NInt) simp
  then show "endItem (NInt p) (NInt l) (NInt n) = NInt (min (p * l) n)"
    by (simp only: endItem_def Math_min_NInt)
qed

text \<open>C22: The page buttons reach exactly the pages 1 to \<open>\<lceil>n / l\<rceil>\<close> of n entries shown l at a time,
  whatever is clicked in whatever order, and the range "Showing a to b of n" on each of them is the
  page's own, non-empty part of the entries.\<close>

theorem pagination_walk:
  assumes "safe_size n l" "n + l < 2 ^ 53" "0 < n"
  shows "(reach (Fin 1) (page_enabled (NInt n) (NInt l)) (page_click (NInt n) (NInt l)) cur
            \<longleftrightarrow> (\<exists>p. cur = NInt p \<and> 1 \<le> p \<and> p \<le> page_count n l)) \<and>
         (\<forall>p. 1 \<le> p \<and> p \<le> page_count n l \<longrightarrow>
            startItem (NInt p) (NInt l) = NInt ((p - 1) * l + 1) \<and>
            endItem (NInt p) (NInt l) (NInt n) = NInt (min (p * l) n) \<and>
            (p - 1) * l + 1 \<le> min (p * l) n)"
proof (intro conjI allI impI)
  show "reach (Fin 1) (page_enabled (NInt n) (NInt l)) (page_click (NInt n) (NInt l)) cur
           \<longleftrightarrow> (\<exists>p. cur = NInt p \<and> 1 \<le> p \<and> p \<le> page_count n l)"
    using pg.reach_inv [of n l cur] every_page_reached [OF assms(1)] assms(1)
    by (auto simp: page_inv_def)
next
  fix p
  assume p: "1 \<le> p \<and> p \<le> page_count n l"
  have "(p - 1) * l + 1 \<le> p * l" using assms(1) by (simp add: algebra_simps safe_size_def)
  then show "(p - 1) * l + 1 \<le> min (p * l) n"
    using shown_range(3) [OF assms, of p] p by simp
qed (simp_all add: shown_range [OF assms])

theorem pagination_walk_witness:
  "reach (Fin 1) (page_enabled (NInt 31) (NInt 15)) (page_click (NInt 31) (NInt 15)) (NInt 3) \<and>
   startItem (NInt 3) (NInt 15) = NInt 31 \<and> endItem (NInt 3) (NInt 15) (NInt 31) = NInt 31"
proof -
  have safe: "safe_size 31 15" "(31 :: int) + 15 < 2 ^ 53" "0 < (31 :: int)"
    by (simp_all add: safe_size_def)
  have pc: "page_count 31 15 = 3"
    by (simp add: page_count_def ceiling_eq_iff)
  show ?thesis
    using pagination_walk [OF safe, of "NInt 3"] pc by (auto dest: spec [of _ 3])
qed

section \<open>Sources of pages\<close>

locale paged_source =
  fixes page :: "int \<Rightarrow> int \<Rightarrow> 'a PaginatedResponse"
    and entries :: "'a list"
  assumes items: "0 < l \<Longrightarrow> 0 \<le> off \<Longrightarrow> pr_items (page l off) = take (nat l) (drop (nat off) entries)"
    and total: "0 < l \<Longrightarrow> 0 \<le> off \<Longrightarrow> pr_total (page l off) = int (length entries)"
    and more: "0 < l \<Longrightarrow> 0 \<le> off \<Longrightarrow> pr_has_more (page l off) \<longleftrightarrow> off + l < int (length entries)"
begin

lemma pages_prefix:
  assumes "0 < l"
  shows "concat (map (\<lambda>k. pr_items (page l (int k * l))) [0 ..< n]) = take (n * nat l) entries"
proof (induction n)
  case (Suc n)
  have "nat (int n * l) = n * nat l" using assms by (simp add: nat_mult_distrib)
  with Suc assms show ?case by (simp add: items take_add [symmetric] add.commute)
qed simp

lemma pages_cover:
  assumes "0 < l" "int (length entries) \<le> n * l"
  shows "concat (map (\<lambda>k. pr_items (page l (int k * l))) [0 ..< nat n]) = entries"
proof -
  have "length entries \<le> nat n * nat l"
    using assms by (metis nat_int nat_mono nat_mult_distrib_neg nat_mult_distrib mult.commute less_imp_le)
  with pages_prefix [OF assms(1), of "nat n"] show ?thesis by simp
qed

lemma page_short: "0 < l \<Longrightarrow> 0 \<le> off \<Longrightarrow> int (length (pr_items (page l off))) \<le> l"
  by (simp add: items)

lemma no_more_at_end:
  assumes "0 < l" "0 \<le> off" "\<not> pr_has_more (page l off)"
  shows "drop (nat off) entries = pr_items (page l off)"
  using assms by (simp add: items more)

end

lemma slice_page: "0 < l \<Longrightarrow> 0 \<le> off \<Longrightarrow> slice xs off (off + l) = take (nat l) (drop (nat off) xs)"
  by (auto simp: slice_def rel_index_def min_def drop_take nat_add_distrib not_le le_nat_iff
      zless_nat_conj nat_le_iff)

interpretation po: paged_source "page_of xs" xs for xs
  by unfold_locales (simp_all add: page_of_def slice_page)

end
