(* ===== verification/Explorer_Api.thy ===== *)
theory Explorer_Api
  imports Http Explorer_Mock Paging
begin

text \<open>
  \<^verbatim>\<open>src/apps/explorer-ui/src/services/api.ts\<close>: the service that answers the explorer's pages from the
  backend, from a node, or from the fallback data.  A method is a function of the network, of the
  host (the clock and what the locale decides) and of the service's state; it returns a result and
  the new state, since a method may have updated the state before it throws.  Answers of the
  network are unvalidated, so results are values.  The stored network name is any string; the
  names that \<^verbatim>\<open>Object.prototype\<close> gives to every table are not considered.
\<close>

record net_config =
  nc_name :: string
  nc_chainId :: string
  nc_apiBase :: string
  nc_rpcUrl :: string
  nc_isTestnet :: bool

definition NETWORK_CONFIG :: "(string \<times> net_config) list" where
  "NETWORK_CONFIG =
     [(''mainnet'', \<lparr> nc_name = ''SPRX Mainnet'', nc_chainId = ''sprax-mainnet-1'', nc_apiBase = ''/api/v1'',
        nc_rpcUrl = ''https://rpc.sprax.network:26657'', nc_isTestnet = False \<rparr>),
      (''testnet'', \<lparr> nc_name = ''SPRX Testnet'', nc_chainId = ''sprax-testnet-1'',
        nc_apiBase = ''https://testnet-api.sprax.network/api/v1'',
        nc_rpcUrl = ''https://testnet-rpc.sprax.network:26657'', nc_isTestnet = True \<rparr>),
      (''local'', \<lparr> nc_name = ''Local Devnet'', nc_chainId = ''sprax-devnet-1'',
        nc_apiBase = ''http://127.0.0.1:8000/api/v1'', nc_rpcUrl = ''http://127.0.0.1:26657'',
        nc_isTestnet = True \<rparr>)]"

text \<open>
  The host: the clock at the call in milliseconds, the clock when the module was loaded in seconds,
  \<^verbatim>\<open>Date.parse\<close> and \<^verbatim>\<open>toLocaleString\<close> in the host's own locale.
\<close>

record host =
  h_now :: int
  h_loaded :: int
  h_date_parse :: "string \<Rightarrow> js_number"
  h_toLocaleString :: "js_number \<Rightarrow> nat \<Rightarrow> nat \<Rightarrow> string"

definition now_secs :: "host \<Rightarrow> js_number" where
  "now_secs h = Math_floor (n_div (NInt (h_now h)) (Fin 1000))"

text \<open>\<^verbatim>\<open>new Date(v).getTime()\<close>.\<close>

fun date_time :: "host \<Rightarrow> jsval \<Rightarrow> js_number" where
  "date_time h (JNum (Fin r)) =
     (if \<bar>r\<bar> \<le> 8640000000000000 then NInt (if r < 0 then \<lceil>r\<rceil> else \<lfloor>r\<rfloor>) else NaN)"
| "date_time h (JNum _) = NaN"
| "date_time h JUndefined = NaN"
| "date_time h JNull = Fin 0"
| "date_time h (JBool b) = (if b then Fin 1 else Fin 0)"
| "date_time h v = h_date_parse h (to_str v)"

record ExplorerApiService =
  es_network :: string
  es_offline :: bool

definition new_ExplorerApiService :: ExplorerApiService where
  "new_ExplorerApiService = \<lparr> es_network = ''local'', es_offline = False \<rparr>"

type_synonym 'a api = "ExplorerApiService \<Rightarrow> 'a res \<times> ExplorerApiService"

definition api_bind :: "'a api \<Rightarrow> ('a \<Rightarrow> 'b api) \<Rightarrow> 'b api" where
  "api_bind m f s = (case m s of (Inr x, s') \<Rightarrow> f x s' | (Inl e, s') \<Rightarrow> (Inl e, s'))"

section \<open>State and requests\<close>

definition setNetwork_ex :: "string \<Rightarrow> ExplorerApiService \<Rightarrow> ExplorerApiService" where
  "setNetwork_ex n s = s \<lparr> es_network := n \<rparr>"

definition getNetwork_ex :: "ExplorerApiService \<Rightarrow> string" where
  "getNetwork_ex s = es_network s"

definition getNetworkConfig :: "ExplorerApiService \<Rightarrow> net_config option" where
  "getNetworkConfig s = map_of NETWORK_CONFIG (es_network s)"

definition isUsingOfflineFallback :: "ExplorerApiService \<Rightarrow> bool" where
  "isUsingOfflineFallback s = es_offline s"

text \<open>A field of the configuration; reading it throws when the network is not in the table.\<close>

definition config_field :: "(net_config \<Rightarrow> string) \<Rightarrow> string \<Rightarrow> ExplorerApiService \<Rightarrow> string res" where
  "config_field f k s =
     (case getNetworkConfig s of
        Some c \<Rightarrow> Inr (f c)
      | None \<Rightarrow> ebind (get JUndefined k) (\<lambda>_. Inr []))"

definition online :: "bool \<Rightarrow> ExplorerApiService \<Rightarrow> ExplorerApiService" where
  "online b s = s \<lparr> es_offline := \<not> b \<rparr>"

definition GET_json :: "string \<Rightarrow> http_request" where
  "GET_json url = \<lparr> rq_method = ''GET'', rq_url = url, rq_headers = [(''Accept'', ''application/json'')], rq_body = None \<rparr>"

definition json_answer :: "fetch_fn \<Rightarrow> string res \<Rightarrow> string \<Rightarrow> jsval" where
  "json_answer fetch base endpoint =
     (case ebind base (\<lambda>b. ebind (fetch (GET_json (b @ endpoint))) (\<lambda>res.
             if \<not> rs_ok res then Inr JNull else rs_json res)) of
        Inr v \<Rightarrow> v
      | Inl _ \<Rightarrow> JNull)"

definition fetchJson :: "fetch_fn \<Rightarrow> ExplorerApiService \<Rightarrow> string \<Rightarrow> jsval" where
  "fetchJson fetch s endpoint = json_answer fetch (config_field nc_apiBase ''apiBase'' s) endpoint"

definition fetchRpcJson :: "fetch_fn \<Rightarrow> ExplorerApiService \<Rightarrow> string \<Rightarrow> jsval" where
  "fetchRpcJson fetch s endpoint = json_answer fetch (config_field nc_rpcUrl ''rpcUrl'' s) endpoint"

text \<open>\<^verbatim>\<open>data && data.items && data.items.length > 0\<close>.\<close>

definition positive_length :: "jsval \<Rightarrow> bool" where
  "positive_length v = (truthy v \<and> n_less (Fin 0) (to_num (own v ''length'')))"

definition has_items :: "jsval \<Rightarrow> bool" where
  "has_items data = (truthy data \<and> positive_length (own data ''items''))"

section \<open>Statistics\<close>

definition backend_chain :: "jsval \<Rightarrow> bool" where
  "backend_chain d = (truthy d \<and> truthy (js_or (opt_get (own d ''data'') ''chainId'') (own d ''chainId'')))"

definition backend_stats :: "jsval \<Rightarrow> jsval" where
  "backend_stats backendData =
     (let d = js_or (own backendData ''data'') backendData in
      JObj [(''chain_id'', js_or (own d ''chainId'') (JStr ''sprax-mainnet-1'')),
            (''latest_height'', js_or (own d ''latestBlockHeight'') (js_or (own d ''height'') (JInt 0))),
            (''latest_block_hash'', js_or (own d ''latestBlockHash'') (JStr ''0x00'')),
            (''total_transactions'', js_or (own d ''totalTransactions'') (JInt 0)),
            (''total_accounts'', js_or (own d ''totalAccounts'') (JInt 100)),
            (''active_validators_count'', js_or (own d ''activeValidators'') (JInt 100)),
            (''total_bonded_tokens'', js_or (own d ''totalStaked'') (JStr ''420,000,000 SPRX'')),
            (''avg_block_time_seconds'', JNum (Fin (3 / 2))),
            (''current_tps'', js_or (own d ''tps'') (JInt 10)),
            (''latest_state_root'', js_or (own d ''stateRoot'') (JStr ''0x00''))])"

definition rpc_stats :: "jsval \<Rightarrow> jsval" where
  "rpc_stats rpcData =
     (let height = own rpcData ''height'' in
      JObj [(''chain_id'', js_or (own rpcData ''chainId'') (JStr ''sprax-mainnet-1'')),
            (''latest_height'', js_or height (JInt 0)),
            (''latest_block_hash'', js_or (own rpcData ''latestBlockHash'') (JStr ''0x00'')),
            (''total_transactions'',
               if n_less (Fin 0) (to_num height) then JNum (n_mul (to_num height) (Fin 2)) else JInt 0),
            (''total_accounts'', JInt 100),
            (''active_validators_count'', js_or (own rpcData ''validatorCount'') (JInt 100)),
            (''total_bonded_tokens'', JStr ''420,000,000 SPRX''),
            (''avg_block_time_seconds'', JNum (Fin (3 / 2))),
            (''current_tps'', JInt 5),
            (''latest_state_root'', js_or (own rpcData ''stateRoot'') (JStr ''0x00''))])"

definition getStats :: "fetch_fn \<Rightarrow> jsval api" where
  "getStats fetch s =
     (let backendData = fetchJson fetch s ''/blockchain/status'' in
      if backend_chain backendData then (Inr (backend_stats backendData), online True s)
      else let rpcData = fetchRpcJson fetch s ''/status'' in
           if truthy rpcData \<and> truthy (own rpcData ''chainId'') then (Inr (rpc_stats rpcData), online True s)
           else (Inr (stats_val MOCK_GENESIS_STATS), online False s))"

section \<open>Blocks\<close>

definition zero_hash :: string where
  "zero_hash = ''0x0000000000000000000000000000000000000000000000000000000000000000''"

text \<open>A block of the node's answer, as \<^verbatim>\<open>getBlocks\<close> and \<^verbatim>\<open>getBlock\<close> build it.\<close>

definition rpc_block :: "host \<Rightarrow> ExplorerApiService \<Rightarrow> jsval \<Rightarrow> jsval \<Rightarrow> string \<Rightarrow> jsval res" where
  "rpc_block h s rpc height hash =
     (let header = own rpc ''header'' in
      ebind (if truthy (own header ''chain_id'') then Inr (own header ''chain_id'')
             else ebind (config_field nc_chainId ''chainId'' s) (\<lambda>c. Inr (JStr c))) (\<lambda>chain_id.
      Inr (JObj
        [(''height'', height),
         (''hash'', js_or (own header ''app_hash'') (JStr hash)),
         (''parent_hash'', js_or (opt_get (own header ''last_block_id'') ''hash'') (JStr zero_hash)),
         (''chain_id'', chain_id),
         (''timestamp_unix_secs'',
            if truthy (own header ''time'')
            then JNum (Math_floor (n_div (date_time h (own header ''time'')) (Fin 1000)))
            else JNum (now_secs h)),
         (''proposer'', js_or (own header ''proposer_address'')
            (JStr (iv_operator_address (MOCK_GENESIS_VALIDATORS ! 0)))),
         (''txs_count'', js_or (opt_get (opt_get (own rpc ''data'') ''txs'') ''length'') (JInt 0)),
         (''txs_root'', js_or (own header ''data_hash'') (JStr zero_hash)),
         (''state_root'', js_or (own header ''app_hash'') (JStr zero_hash)),
         (''gas_used'', JInt 21000),
         (''block_size_bytes'', JInt 1024)])))"

definition getBlocks :: "fetch_fn \<Rightarrow> host \<Rightarrow> int \<Rightarrow> int \<Rightarrow> jsval api" where
  "getBlocks fetch h limit offset s =
     (let data = fetchJson fetch s (''/blocks?limit='' @ int_str limit @ ''&offset='' @ int_str offset) in
      if has_items data then (Inr data, online True s)
      else let latestRpc = fetchRpcJson fetch s ''/blocks/latest'' in
           if truthy latestRpc \<and> truthy (own latestRpc ''header'')
           then let s' = online True s;
                    height = js_or (own (own latestRpc ''header'') ''height'') (JInt 1)
                in (ebind (rpc_block h s' latestRpc height (''0x'' @ replicate 64 (CHR ''1''))) (\<lambda>liveBlock.
                    Inr (JObj [(''items'', JArr [liveBlock]), (''total'', height), (''limit'', JInt limit),
                               (''offset'', JInt offset), (''has_more'', JBool False)])), s')
           else (Inr (page_val block_val (page_of (MOCK_GENESIS_BLOCKS (h_loaded h)) limit offset)), online False s))"

text \<open>\<^verbatim>\<open>parseInt(s, 10)\<close> of a text of digits, and \<^verbatim>\<open>a % b\<close>.\<close>

definition parseInt_digits :: "string \<Rightarrow> js_number" where
  "parseInt_digits s = (case radix_val 10 s of Some n \<Rightarrow> to_double (of_nat n) | None \<Rightarrow> NaN)"

fun n_rem :: "js_number \<Rightarrow> js_number \<Rightarrow> js_number" where
  "n_rem (Fin a) (Fin b) =
     (if b = 0 then NaN
      else Fin (a - b * of_int (if a / b < 0 then \<lceil>a / b\<rceil> else \<lfloor>a / b\<rfloor>)))"
| "n_rem (Fin a) (Infinity _) = Fin a"
| "n_rem _ _ = NaN"

definition generated_block :: "host \<Rightarrow> string \<Rightarrow> js_number \<Rightarrow> jsval" where
  "generated_block h chain_id height = JObj
     [(''height'', JNum height),
      (''hash'', JStr (''0x7f8a9b2c3d4e5f60718293a4b5c6d7e8f901a2b3c4d5e6f708192a3b4c5d6e''
         @ padStart 2 (CHR ''0'') (num_str (n_rem height (Fin 99))))),
      (''parent_hash'', JStr (''0x6e7d8c9b0a1f2e3d4c5b6a708192a3b4c5d6e7f8091a2b3c4d5e6f708192a3''
         @ padStart 2 (CHR ''0'') (num_str (n_rem (n_sub height (Fin 1)) (Fin 99))))),
      (''chain_id'', JStr chain_id),
      (''timestamp_unix_secs'', JNum (n_sub (now_secs h) (Fin 20))),
      (''proposer'', JStr (iv_operator_address (MOCK_GENESIS_VALIDATORS ! 0))),
      (''txs_count'', JInt 5),
      (''txs_root'', JStr ''0x11223344556677889900aabbccddeeff00112233445566778899aabbccddeeff''),
      (''state_root'', JStr ''0xabcdef0123456789abcdef0123456789abcdef0123456789abcdef0123456789''),
      (''gas_used'', JInt 105000),
      (''block_size_bytes'', JInt 3800)]"

definition block_matches :: "string \<Rightarrow> IndexedBlock \<Rightarrow> bool" where
  "block_matches identifier b =
     (if digits_only identifier then n_eq (NInt (bk_height b)) (parseInt_digits identifier)
      else toLowerCase (bk_hash b) = toLowerCase identifier)"

definition getBlock :: "fetch_fn \<Rightarrow> host \<Rightarrow> jsval \<Rightarrow> jsval api" where
  "getBlock fetch h heightOrHash s =
     (let identifier = trim (to_str heightOrHash);
          data = fetchJson fetch s (''/blocks/'' @ identifier)
      in if truthy data then (Inr data, online True s)
      else let rpcBlock = fetchRpcJson fetch s (''/blocks/'' @ identifier) in
           if truthy rpcBlock \<and> truthy (own rpcBlock ''header'')
           then let s' = online True s
                in (rpc_block h s' rpcBlock (own (own rpcBlock ''header'') ''height'') (''0x'' @ identifier), s')
           else (case find (block_matches identifier) (MOCK_GENESIS_BLOCKS (h_loaded h)) of
                   Some b \<Rightarrow> (Inr (block_val b), s)
                 | None \<Rightarrow>
                     if digits_only identifier
                     then (ebind (config_field nc_chainId ''chainId'' s) (\<lambda>c.
                             Inr (generated_block h c (parseInt_digits identifier))), s)
                     else (Inr JNull, s)))"

section \<open>Transactions\<close>

definition getTransactions :: "fetch_fn \<Rightarrow> host \<Rightarrow> int \<Rightarrow> int \<Rightarrow> jsval api" where
  "getTransactions fetch h limit offset s =
     (let data = fetchJson fetch s (''/txs?limit='' @ int_str limit @ ''&offset='' @ int_str offset) in
      if has_items data then (Inr data, s)
      else (Inr (page_val tx_val (page_of (MOCK_GENESIS_TXS (h_loaded h)) limit offset)), s))"

definition rpc_tx :: "host \<Rightarrow> jsval \<Rightarrow> jsval" where
  "rpc_tx h rpcTx = JObj
     [(''tx_hash'', own rpcTx ''hash''),
      (''block_height'', js_or (own rpcTx ''height'') (JInt 1)),
      (''block_hash'', js_or (own rpcTx ''block_hash'') (JStr zero_hash)),
      (''sender'', js_or (own rpcTx ''sender'') (JStr ''sprax1qpzry9x8gf2tvdw0s3jn54khce6mua7l4w3e2r'')),
      (''recipient'', js_or (own rpcTx ''recipient'') (JStr ''sprax18888888888888888888888888888888888888888'')),
      (''message_type'', JStr ''Transfer''),
      (''amount'', js_or (own rpcTx ''amount'') (JStr ''0.00 SPRX'')),
      (''fee_amount'', JStr ''0.0005 SPRX''),
      (''nonce'', js_or (own rpcTx ''nonce'') (JInt 0)),
      (''memo'', js_or (own rpcTx ''memo'') (JStr ''Verified on Sprax Chain'')),
      (''success'', JBool (own rpcTx ''success'' \<noteq> JBool False)),
      (''gas_used'', JInt 21000),
      (''timestamp_unix_secs'', JNum (n_sub (now_secs h) (Fin 10)))]"

definition without_0x :: "string \<Rightarrow> string" where
  "without_0x s = (if startsWith s ''0x'' then drop 2 s else s)"

definition tx_matches :: "string \<Rightarrow> IndexedTx \<Rightarrow> bool" where
  "tx_matches cleanHash tx =
     (toLowerCase (ix_tx_hash tx) = cleanHash \<or> js_includes (toLowerCase (ix_tx_hash tx)) (without_0x cleanHash))"

definition getTransaction :: "fetch_fn \<Rightarrow> host \<Rightarrow> string \<Rightarrow> jsval api" where
  "getTransaction fetch h hash s =
     (let cleanHash = toLowerCase (trim hash);
          data = fetchJson fetch s (''/blockchain/transactions/'' @ cleanHash)
      in if truthy data then (Inr data, online True s)
      else let rpcTx = fetchRpcJson fetch s (''/txs/'' @ cleanHash) in
           if truthy rpcTx \<and> truthy (own rpcTx ''hash'') then (Inr (rpc_tx h rpcTx), online True s)
           else (case find (tx_matches cleanHash) (MOCK_GENESIS_TXS (h_loaded h)) of
                   Some t \<Rightarrow> (Inr (tx_val t), s)
                 | None \<Rightarrow> (Inr JNull, s)))"

section \<open>Addresses\<close>

definition hex_address :: "string \<Rightarrow> bool" where
  "hex_address s = (startsWith s ''0x'' \<and> hex_only 40 (drop 2 s))"

definition rpc_account :: "host \<Rightarrow> string \<Rightarrow> jsval \<Rightarrow> jsval \<Rightarrow> jsval res" where
  "rpc_account h cleanAddr balRes nonceRes =
     (let atto = own balRes ''balance_atto'' in
      ebind (to_bigint (js_or atto (JStr ''0''))) (\<lambda>attoBig.
      let sprxUnits = n_div (to_double (of_int (big_div attoBig (10 ^ 14)))) (Fin 10000);
          nonce = js_or (opt_get nonceRes ''nonce'') (JInt 0)
      in Inr (JObj
           [(''address'', JStr cleanAddr),
            (''address_hex'', js_or (own balRes ''address_hex'') (JStr cleanAddr)),
            (''balance'', atto),
            (''balance_sprx'', JStr (h_toLocaleString h sprxUnits 2 6 @ '' SPRX'')),
            (''nonce'', nonce), (''tx_count'', nonce),
            (''first_seen_height'', JInt 1), (''last_active_height'', JInt 1)])))"

definition mock_account :: "string \<Rightarrow> IndexedAccount" where
  "mock_account cleanAddr =
     \<lparr> ia_address = cleanAddr,
       ia_address_hex = (if startsWith cleanAddr ''0x'' then cleanAddr
                         else ''0x3f8a9b2c3d4e5f60718293a4b5c6d7e8f901a2b3''),
       ia_balance = ''1250000000000000000000'', ia_balance_sprx = ''1,250.00 SPRX'', ia_nonce = 42,
       ia_tx_count = 87, ia_first_seen_height = 10420, ia_last_active_height = 8245920 \<rparr>"

definition is_sprax :: "string \<Rightarrow> bool" where
  "is_sprax a = (startsWith (toLowerCase a) ''sprax1'' \<or> hex_address a)"

definition getAddress :: "fetch_fn \<Rightarrow> host \<Rightarrow> string \<Rightarrow> jsval api" where
  "getAddress fetch h address s =
     (let cleanAddr = trim address;
          data = fetchJson fetch s (''/blockchain/accounts/'' @ cleanAddr)
      in if truthy data then (Inr data, online True s)
      else let balRes = fetchRpcJson fetch s (''/accounts/'' @ cleanAddr @ ''/balance'');
               nonceRes = fetchRpcJson fetch s (''/accounts/'' @ cleanAddr @ ''/nonce'')
           in if truthy balRes \<and> own balRes ''balance_atto'' \<noteq> JUndefined
              then (rpc_account h cleanAddr balRes nonceRes, online True s)
              else if is_sprax cleanAddr then (Inr (account_val (mock_account cleanAddr)), s)
              else (Inr JNull, s))"

definition tx_involves :: "string \<Rightarrow> IndexedTx \<Rightarrow> bool" where
  "tx_involves addr t =
     (toLowerCase (ix_sender t) = toLowerCase addr \<or>
      (case ix_recipient t of
         Some r \<Rightarrow> r \<noteq> [] \<and> toLowerCase r = toLowerCase addr
       | None \<Rightarrow> False))"

definition address_source :: "IndexedTx list \<Rightarrow> string \<Rightarrow> IndexedTx list" where
  "address_source txs cleanAddr =
     (let related = filter (tx_involves cleanAddr) txs
      in if related \<noteq> [] then related else slice txs 0 10)"

definition getAddressTransactions :: "fetch_fn \<Rightarrow> host \<Rightarrow> string \<Rightarrow> int \<Rightarrow> int \<Rightarrow> jsval api" where
  "getAddressTransactions fetch h address limit offset s =
     (let cleanAddr = trim address;
          data = fetchJson fetch s (''/addresses/'' @ cleanAddr @ ''/txs?limit='' @ int_str limit
                   @ ''&offset='' @ int_str offset)
      in if has_items data then (Inr data, s)
      else (Inr (page_val tx_val (page_of (address_source (MOCK_GENESIS_TXS (h_loaded h)) cleanAddr) limit offset)), s))"

section \<open>Validators and contracts\<close>

definition getValidators :: "fetch_fn \<Rightarrow> jsval api" where
  "getValidators fetch s =
     (let data = fetchJson fetch s ''/validators'' in
      if positive_length data then (Inr data, s)
      else (Inr (JArr (map validator_val MOCK_GENESIS_VALIDATORS)), s))"

definition getContracts :: "jsval api" where
  "getContracts s = (Inr (JArr (map contract_val MOCK_GENESIS_CONTRACTS)), s)"

definition dynamic_contract :: "string \<Rightarrow> SmartContract" where
  "dynamic_contract address =
     \<lparr> ct_address = address, ct_creator = ''sprax1qpzry9x8gf2tvdw0s3jn54khce6mua7l4w3e2r'',
       ct_created_height = 10420, ct_bytecode_size = 18450, ct_tx_count = 1420, ct_verified = True,
       ct_compiler_version = Some ''cosmwasm-rust:1.80.0'', ct_source_code = None, ct_abi = Some ''[]'' \<rparr>"

definition getContract :: "string \<Rightarrow> SmartContract option" where
  "getContract address =
     (case find (\<lambda>c. toLowerCase (ct_address c) = toLowerCase (trim address)) MOCK_GENESIS_CONTRACTS of
        Some c \<Rightarrow> Some c
      | None \<Rightarrow> if js_includes (toLowerCase address) ''contract'' then Some (dynamic_contract address) else None)"

section \<open>Search\<close>

text \<open>\<^verbatim>\<open>encodeURIComponent\<close>.\<close>

definition uri_unreserved :: "char \<Rightarrow> bool" where
  "uri_unreserved c =
     (let n = code_unit c
      in is_dec c \<or> (65 \<le> n \<and> n \<le> 90) \<or> (97 \<le> n \<and> n \<le> 122) \<or> n \<in> {45, 95, 46, 33, 126, 42, 39, 40, 41})"

definition encodeURIComponent :: "string \<Rightarrow> string" where
  "encodeURIComponent s =
     concat (map (\<lambda>c. if uri_unreserved c then [c]
                     else concat (map (\<lambda>b. ''%'' @ toUpperCase (byte_hex b)) (utf8_char c))) s)"

definition found :: "string \<Rightarrow> jsval \<Rightarrow> jsval" where
  "found ty data = JObj [(''type'', JStr ty), (''data'', data)]"

text \<open>The steps of the local resolution: each returns a result, or hands over to the next.\<close>

definition or_else :: "jsval api \<Rightarrow> string \<Rightarrow> jsval api \<Rightarrow> jsval api" where
  "or_else m ty k = api_bind m (\<lambda>v. if truthy v then (\<lambda>s. (Inr (found ty v), s)) else k)"

definition validator_named :: "string \<Rightarrow> jsval" where
  "validator_named clean =
     (case find (\<lambda>v. js_includes (toLowerCase (iv_moniker v)) (toLowerCase clean)) MOCK_GENESIS_VALIDATORS of
        Some v \<Rightarrow> found ''Validator'' (validator_val v)
      | None \<Rightarrow> JNull)"

definition search_address :: "fetch_fn \<Rightarrow> host \<Rightarrow> string \<Rightarrow> jsval api" where
  "search_address fetch h clean =
     (let by_name = (\<lambda>s. (Inr (validator_named clean), s))
      in if is_sprax clean then or_else (getAddress fetch h clean) ''Address'' by_name else by_name)"

definition search_contract :: "fetch_fn \<Rightarrow> host \<Rightarrow> string \<Rightarrow> jsval api" where
  "search_contract fetch h clean =
     (if startsWith (toLowerCase clean) ''sprax1contract''
      then (case find (\<lambda>c. toLowerCase (ct_address c) = toLowerCase clean) MOCK_GENESIS_CONTRACTS of
              Some c \<Rightarrow> (\<lambda>s. (Inr (found ''Contract'' (contract_val c)), s))
            | None \<Rightarrow> search_address fetch h clean)
      else search_address fetch h clean)"

definition search_validator :: "fetch_fn \<Rightarrow> host \<Rightarrow> string \<Rightarrow> jsval api" where
  "search_validator fetch h clean =
     (if startsWith (toLowerCase clean) ''spraxvaloper1''
      then (case find (\<lambda>v. toLowerCase (iv_operator_address v) = toLowerCase clean) MOCK_GENESIS_VALIDATORS of
              Some v \<Rightarrow> (\<lambda>s. (Inr (found ''Validator'' (validator_val v)), s))
            | None \<Rightarrow> search_contract fetch h clean)
      else search_contract fetch h clean)"

definition search_hash :: "fetch_fn \<Rightarrow> host \<Rightarrow> string \<Rightarrow> jsval api" where
  "search_hash fetch h clean =
     (let hexMatch = (if startsWith clean ''0x'' then slice_from clean 2 else clean)
      in if hex_only 64 hexMatch
         then or_else (getTransaction fetch h clean) ''Transaction''
                (or_else (getBlock fetch h (JStr clean)) ''Block'' (search_validator fetch h clean))
         else search_validator fetch h clean)"

definition search :: "fetch_fn \<Rightarrow> host \<Rightarrow> string \<Rightarrow> jsval api" where
  "search fetch h query s =
     (let clean = trim query in
      if clean = [] then (Inr JNull, s)
      else let remoteRes = fetchJson fetch s (''/search?q='' @ encodeURIComponent clean) in
           if truthy remoteRes then (Inr remoteRes, s)
           else if digits_only clean
                then or_else (getBlock fetch h (JStr clean)) ''Block'' (search_hash fetch h clean) s
                else search_hash fetch h clean s)"

section \<open>The remaining tables\<close>

definition getEcosystemProjects :: "EcosystemProject list" where
  "getEcosystemProjects = MOCK_ECOSYSTEM_PROJECTS"

definition getMarketAssets :: "MarketAsset list" where
  "getMarketAssets = MOCK_MARKET_ASSETS"

definition getSIPs :: "SIPItem list" where
  "getSIPs = MOCK_SIPS"

definition getSIP :: "js_number + string \<Rightarrow> SIPItem option" where
  "getSIP ident =
     (let num = (case ident of Inl n \<Rightarrow> n | Inr t \<Rightarrow> parseInt_digits (filter is_dec t));
          text = (case ident of Inl n \<Rightarrow> num_str n | Inr t \<Rightarrow> t)
      in find (\<lambda>p. n_eq (NInt (si_id p)) num \<or> toLowerCase (si_sipNumber p) = toLowerCase text) MOCK_SIPS)"

definition getGovernanceProposals :: "GovernanceProposal list" where
  "getGovernanceProposals = MOCK_GOVERNANCE_PROPOSALS"

definition getResearchPapers :: "ResearchPaper list" where
  "getResearchPapers = MOCK_RESEARCH_PAPERS"

section \<open>Without an answer\<close>

text \<open>No request succeeds: the host is unreachable, the request is aborted, or the status is an error.\<close>

definition silent :: "fetch_fn \<Rightarrow> bool" where
  "silent fetch \<longleftrightarrow> (\<forall>r resp. fetch r = Inr resp \<longrightarrow> \<not> rs_ok resp)"

definition sample_host :: "int \<Rightarrow> host" where
  "sample_host secs = \<lparr> h_now = secs * 1000, h_loaded = secs, h_date_parse = (\<lambda>_. NaN),
     h_toLocaleString = toLocaleString \<rparr>"

named_theorems silent_simps \<open>answers of a network that does not answer\<close>

lemma silent_net_down: "silent net_down"
  by (simp add: silent_def net_down_def)

lemma silent_json [silent_simps]:
  assumes "silent fetch"
  shows "fetchJson fetch s e = JNull" "fetchRpcJson fetch s e = JNull"
  using assms by (auto simp: fetchJson_def fetchRpcJson_def json_answer_def silent_def ebind_def split: sum.splits)

lemma JNull_unusable [silent_simps]:
  "\<not> has_items JNull" "\<not> positive_length JNull" "\<not> backend_chain JNull" "own JNull k = JUndefined"
  by (simp_all add: has_items_def positive_length_def backend_chain_def own_def)

lemma silent_pages [silent_simps]:
  assumes "silent fetch"
  shows "getBlocks fetch h l off s =
           (Inr (page_val block_val (page_of (MOCK_GENESIS_BLOCKS (h_loaded h)) l off)), online False s)"
    and "getTransactions fetch h l off s = (Inr (page_val tx_val (page_of (MOCK_GENESIS_TXS (h_loaded h)) l off)), s)"
    and "getAddressTransactions fetch h a l off s =
           (Inr (page_val tx_val (page_of (address_source (MOCK_GENESIS_TXS (h_loaded h)) (trim a)) l off)), s)"
  using assms by (simp_all add: getBlocks_def getTransactions_def getAddressTransactions_def silent_simps Let_def)

subsection \<open>Pages of the fallback data\<close>

definition page_items :: "jsval res \<times> 's \<Rightarrow> jsval list" where
  "page_items r = (case r of (Inr v, _) \<Rightarrow> (case own v ''items'' of JArr xs \<Rightarrow> xs | _ \<Rightarrow> []) | _ \<Rightarrow> [])"

lemma page_items_val [simp]: "page_items (Inr (page_val f p), s) = map f (pr_items p)"
  by (simp add: page_items_def page_val_def own_def)

lemma mapped_pages_cover:
  assumes "0 < l" "safe_size (int (length xs)) l"
  shows "concat (map (\<lambda>k. map f (pr_items (page_of xs l (int k * l)))) [0 ..< nat (page_count (int (length xs)) l)])
           = map f xs"
proof -
  have "concat (map (\<lambda>k. map f (pr_items (page_of xs l (int k * l)))) ks) =
      map f (concat (map (\<lambda>k. pr_items (page_of xs l (int k * l))) ks))" for ks
    by (induction ks) simp_all
  with po.pages_cover [OF assms(1) page_count_bounds(2) [OF assms(2)]] show ?thesis by simp
qed

lemma safe_small: "0 < l \<Longrightarrow> l \<le> 2 ^ 53 \<Longrightarrow> length xs \<le> 30 \<Longrightarrow> safe_size (int (length xs)) l"
  by (simp add: safe_size_def)

lemma mock_lengths:
  "length (MOCK_GENESIS_BLOCKS now) = 20" "length (MOCK_GENESIS_TXS now) = 30"
  by (simp_all add: MOCK_GENESIS_BLOCKS_def MOCK_GENESIS_TXS_def)

lemma address_source_length: "length (address_source (MOCK_GENESIS_TXS now) a) \<le> 30"
  using length_filter_le [of "tx_involves a" "MOCK_GENESIS_TXS now"]
  by (simp add: address_source_def Let_def slice_def rel_index_def mock_lengths)



subsection \<open>Blocks and transactions by name\<close>

definition known_network :: "ExplorerApiService \<Rightarrow> bool" where
  "known_network s \<longleftrightarrow> getNetworkConfig s \<noteq> None"

lemma known_chainId: "known_network s \<Longrightarrow> \<exists>c. config_field nc_chainId ''chainId'' s = Inr c"
  by (auto simp: known_network_def config_field_def)

lemma own_height [simp]:
  "own (block_val b) ''height'' = JInt (bk_height b)"
  "own (generated_block h c n) ''height'' = JNum n"
  by (simp_all add: block_val_def generated_block_def own_def)

lemma truthy_vals [simp]:
  "truthy (block_val b)" "truthy (tx_val t)" "truthy (account_val a)" "truthy (generated_block h c n)"
  by (simp_all add: block_val_def tx_val_def account_val_def generated_block_def)

lemma silent_getBlock [silent_simps]:
  assumes "silent fetch"
  shows "getBlock fetch h v s =
     (let identifier = trim (to_str v) in
      case find (block_matches identifier) (MOCK_GENESIS_BLOCKS (h_loaded h)) of
        Some b \<Rightarrow> (Inr (block_val b), s)
      | None \<Rightarrow>
          if digits_only identifier
          then (ebind (config_field nc_chainId ''chainId'' s) (\<lambda>c.
                  Inr (generated_block h c (parseInt_digits identifier))), s)
          else (Inr JNull, s))"
  using assms by (simp add: getBlock_def silent_simps Let_def)

lemma silent_getTransaction [silent_simps]:
  assumes "silent fetch"
  shows "getTransaction fetch h hash s =
     (case find (tx_matches (toLowerCase (trim hash))) (MOCK_GENESIS_TXS (h_loaded h)) of
        Some t \<Rightarrow> (Inr (tx_val t), s)
      | None \<Rightarrow> (Inr JNull, s))"
  using assms by (simp add: getTransaction_def silent_simps Let_def)

lemma silent_getAddress [silent_simps]:
  assumes "silent fetch"
  shows "getAddress fetch h a s =
     (if is_sprax (trim a) then (Inr (account_val (mock_account (trim a))), s) else (Inr JNull, s))"
  using assms by (simp add: getAddress_def silent_simps Let_def)

lemma find_someD: "find P xs = Some x \<Longrightarrow> x \<in> set xs \<and> P x"
  by (auto simp: find_Some_iff in_set_conv_nth)

lemma getBlock_digits:
  assumes "silent fetch" "known_network s" "digits_only t" "trim t = t"
  shows "\<exists>b. getBlock fetch h (JStr t) s = (Inr b, s) \<and> truthy b \<and> own b ''height'' = JNum (parseInt_digits t)"
proof -
  obtain c where c: "config_field nc_chainId ''chainId'' s = Inr c"
    using known_chainId [OF assms(2)] by blast
  show ?thesis
    using assms(3,4) by (auto simp: silent_simps assms(1) c block_matches_def n_eq_def split: option.split
        dest!: find_someD)
qed

subsection \<open>What a search may answer\<close>

inductive answers :: "host \<Rightarrow> string \<Rightarrow> jsval \<Rightarrow> bool" for h clean where
  nothing: "answers h clean JNull"
| height: "digits_only clean \<Longrightarrow> own b ''height'' = JNum (parseInt_digits clean) \<Longrightarrow>
    answers h clean (found ''Block'' b)"
| block_hash: "b \<in> set (MOCK_GENESIS_BLOCKS (h_loaded h)) \<Longrightarrow> toLowerCase (bk_hash b) = toLowerCase clean \<Longrightarrow>
    answers h clean (found ''Block'' (block_val b))"
| transaction: "t \<in> set (MOCK_GENESIS_TXS (h_loaded h)) \<Longrightarrow>
    js_includes (toLowerCase (ix_tx_hash t)) (without_0x (toLowerCase clean)) \<Longrightarrow>
    answers h clean (found ''Transaction'' (tx_val t))"
| validator: "v \<in> set MOCK_GENESIS_VALIDATORS \<Longrightarrow>
    toLowerCase (iv_operator_address v) = toLowerCase clean \<or>
      js_includes (toLowerCase (iv_moniker v)) (toLowerCase clean) \<Longrightarrow>
    answers h clean (found ''Validator'' (validator_val v))"
| contract: "c \<in> set MOCK_GENESIS_CONTRACTS \<Longrightarrow> toLowerCase (ct_address c) = toLowerCase clean \<Longrightarrow>
    answers h clean (found ''Contract'' (contract_val c))"
| address: "is_sprax clean \<Longrightarrow> own a ''address'' = JStr clean \<Longrightarrow> answers h clean (found ''Address'' a)"

lemma validator_named_answers: "answers h clean (validator_named clean)"
  by (auto simp: validator_named_def split: option.split dest!: find_someD intro: answers.intros)

lemma search_address_answers:
  assumes "silent fetch" "trim clean = clean"
  shows "\<exists>r. search_address fetch h clean s = (Inr r, s) \<and> answers h clean r"
  using assms by (auto simp: search_address_def Let_def or_else_def api_bind_def silent_simps validator_named_answers
      own_def account_val_def mock_account_def intro!: answers.address)

lemma search_contract_answers:
  assumes "silent fetch" "trim clean = clean"
  shows "\<exists>r. search_contract fetch h clean s = (Inr r, s) \<and> answers h clean r"
  using search_address_answers [OF assms]
  by (auto simp: search_contract_def split: option.split dest!: find_someD intro!: answers.contract)

lemma search_validator_answers:
  assumes "silent fetch" "trim clean = clean"
  shows "\<exists>r. search_validator fetch h clean s = (Inr r, s) \<and> answers h clean r"
  using search_contract_answers [OF assms]
  by (auto simp: search_validator_def split: option.split dest!: find_someD intro!: answers.validator)

lemma or_else_block_answers:
  assumes "silent fetch" "known_network s" "trim clean = clean"
    and "\<exists>r. k s = (Inr r, s) \<and> answers h clean r"
  shows "\<exists>r. or_else (getBlock fetch h (JStr clean)) ''Block'' k s = (Inr r, s) \<and> answers h clean r"
proof (cases "digits_only clean")
  case True
  then show ?thesis
    using getBlock_digits [OF assms(1,2) True assms(3), of h]
    by (auto simp: or_else_def api_bind_def intro: answers.height)
next
  case False
  with assms show ?thesis
    by (auto simp: or_else_def api_bind_def silent_simps block_matches_def split: option.split
        dest!: find_someD intro: answers.block_hash)
qed

lemma includes_without_0x: "js_includes t (without_0x t)"
  by (auto simp: without_0x_def js_includes_iff startsWith_iff intro: exI [of _ "''0x''"] exI [of _ "[]"])

lemma search_hash_answers:
  assumes "silent fetch" "known_network s" "trim clean = clean"
  shows "\<exists>r. search_hash fetch h clean s = (Inr r, s) \<and> answers h clean r"
proof -
  note k = search_validator_answers [OF assms(1,3), of h s]
  have tx: "\<exists>r. or_else (getTransaction fetch h clean) ''Transaction'' m s = (Inr r, s) \<and> answers h clean r"
    if "\<exists>r. m s = (Inr r, s) \<and> answers h clean r" for m
    using that assms by (auto simp: or_else_def api_bind_def silent_simps tx_matches_def includes_without_0x
        split: option.split dest!: find_someD intro!: answers.transaction)
  note b = or_else_block_answers [where k = "search_validator fetch h clean", OF assms k]
  show ?thesis
    using k tx [of "or_else (getBlock fetch h (JStr clean)) ''Block'' (search_validator fetch h clean)", OF b] by (simp add: search_hash_def Let_def)
qed

text \<open>C21: Without an answer from the network, a search on a configured network always ends with a result,
  leaves the service's state alone, and what it finds is what was asked for: a block of that height
  or hash, a transaction whose hash contains the query, a validator or a contract of that address or
  name, or the account of exactly that address.\<close>

theorem search_sound:
  assumes "silent fetch" "known_network s"
  shows "\<exists>r. search fetch h q s = (Inr r, s) \<and> answers h (trim q) r"
proof -
  have t: "trim (trim q) = trim q" by simp
  note k = search_hash_answers [OF assms t, of h]
  show ?thesis
    using k or_else_block_answers [where k = "search_hash fetch h (trim q)", OF assms t k] assms(1)
    by (auto simp: search_def Let_def silent_simps intro: answers.nothing)
qed

theorem search_sound_witness:
  "\<exists>r. search net_down (sample_host 0) ''8245915'' new_ExplorerApiService = (Inr r, new_ExplorerApiService)
     \<and> answers (sample_host 0) (trim ''8245915'') r"
  by (rule search_sound) (simp_all add: silent_net_down known_network_def getNetworkConfig_def
      new_ExplorerApiService_def NETWORK_CONFIG_def)

text \<open>A search for a number finds, without an answer from the network, the block of exactly that
  height, for every height a double represents exactly.\<close>

theorem height_search_finds_block:
  assumes "silent fetch" "known_network s" "n < 2 ^ 53"
  shows "\<exists>b. search fetch h (nat_str n) s = (Inr (found ''Block'' b), s) \<and> own b ''height'' = JInt (int n)"
proof -
  have "\<bar>int n\<bar> < 2 ^ 53" using assms(3) by simp
  then have n: "parseInt_digits (nat_str n) = NInt (int n)"
    using to_double_int [of "int n"] by (simp add: parseInt_digits_def)
  have t: "trim (nat_str n) = nat_str n" by (rule trim_no_ws) (simp add: nat_str_not_ws)
  obtain b where b: "getBlock fetch h (JStr (nat_str n)) s = (Inr b, s)" "truthy b"
      "own b ''height'' = JNum (parseInt_digits (nat_str n))"
    using getBlock_digits [OF assms(1,2) digits_only_nat_str t, of h] by blast
  then show ?thesis
    by (intro exI [of _ b]) (simp add: search_def Let_def t silent_json [OF assms(1)] or_else_def api_bind_def n)
qed

theorem height_search_finds_block_witness:
  "\<exists>b. search net_down (sample_host 0) (nat_str 42) new_ExplorerApiService
     = (Inr (found ''Block'' b), new_ExplorerApiService) \<and> own b ''height'' = JInt (int 42)"
  by (rule height_search_finds_block) (simp_all add: silent_net_down known_network_def getNetworkConfig_def
      new_ExplorerApiService_def NETWORK_CONFIG_def)

subsection \<open>Fallback transactions\<close>

lemma radix_val_padStart:
  assumes "2 \<le> r" "r \<le> 36"
  shows "radix_val r (padStart k (CHR ''0'') (radix_str r n)) = Some n"
  using assms by (simp add: padStart_def radix_val_def radix_acc_append radix_acc_str)

lemma lower_digit_of: "d < 36 \<Longrightarrow> lower_char (digit_of d) = digit_of d"
  by (auto simp: lower_char_def Let_def digit_code)

lemma toLowerCase_radix: "2 \<le> r \<Longrightarrow> r \<le> 36 \<Longrightarrow> toLowerCase (radix_str r n) = radix_str r n"
  using set_radix_str [of r n] by (auto simp: toLowerCase_def lower_digit_of intro!: map_idI)

lemma includes_behind_two:
  assumes "js_includes (a # b # P @ d) (P @ e)" "length d = length e" "P = c # P'" "c \<noteq> a" "c \<noteq> b"
  shows "d = e"
proof -
  obtain u v where uv: "a # b # P @ d = u @ (P @ e) @ v"
    using assms(1) unfolding js_includes_iff by blast
  then have "length (a # b # P @ d) = length (u @ (P @ e) @ v)" by (simp only:)
  then have len: "length u + length v = 2" using assms(2) by simp
  show ?thesis
  proof (cases u)
    case Nil
    with uv assms(3,4) show ?thesis by simp
  next
    case (Cons x u')
    then show ?thesis
      using uv len assms(2,3,5) by (cases u') auto
  qed
qed

lemma mock_tx_hash_lower: "toLowerCase (mock_tx_hash i) = mock_tx_hash i"
  using toLowerCase_radix [of 16 i]
  by (simp add: mock_tx_hash_def padStart_def toLowerCase_def lower_char_def map_replicate)

lemma without_0x_Cons: "without_0x (CHR ''0'' # CHR ''x'' # s) = s"
  by (simp add: without_0x_def)

lemma length_hash_digits: "i < 256 \<Longrightarrow> length (padStart 2 (CHR ''0'') (radix_str 16 i)) = 2"
  by (auto simp: radix_str.simps)

lemma mock_tx_hash_matches:
  assumes "i < 30" "j < 30"
  shows "tx_matches (mock_tx_hash i) (mock_tx now j) \<longleftrightarrow> i = j"
proof
  define e where "e = (\<lambda>i. padStart 2 (CHR ''0'') (radix_str 16 i))"
  define P where "P = ''89abcdef0123456789abcdef0123456789abcdef0123456789abcdef01234567''"
  have hash: "mock_tx_hash k = CHR ''0'' # CHR ''x'' # P @ e k" for k
    unfolding mock_tx_hash_def e_def P_def by (simp only: append_Cons append_Nil)
  have len: "length (e i) = length (e j)"
    using assms length_hash_digits [of i] length_hash_digits [of j] by (simp add: e_def)
  assume "tx_matches (mock_tx_hash i) (mock_tx now j)"
  then have "js_includes (mock_tx_hash j) (without_0x (mock_tx_hash i))"
    by (auto simp: tx_matches_def mock_tx_def Let_def mock_tx_hash_lower includes_without_0x)
  then have "js_includes (CHR ''0'' # CHR ''x'' # P @ e j) (P @ e i)"
    by (simp only: hash without_0x_Cons)
  then have "e j = e i"
    by (rule includes_behind_two [OF _ len [symmetric] P_def]) simp_all
  then show "i = j"
    using radix_val_padStart [of 16 2 i] radix_val_padStart [of 16 2 j] by (simp add: e_def)
qed (simp add: tx_matches_def mock_tx_def Let_def mock_tx_hash_lower)

lemma find_upt:
  assumes "i < n" "P (f i)" "\<And>j. j < i \<Longrightarrow> \<not> P (f j)"
  shows "find P (map f [0 ..< n]) = Some (f i)"
  using assms by (auto simp: find_Some_iff intro!: exI [of _ i])

lemma mock_tx_hash_trim: "trim (mock_tx_hash i) = mock_tx_hash i"
proof (rule trim_id, intro disjI2 conjI)
  show "\<not> js_ws (hd (mock_tx_hash i))" by (simp add: mock_tx_hash_def js_ws_def)
  have "last (mock_tx_hash i) \<in> set (radix_str 16 i)" by (simp add: mock_tx_hash_def padStart_def)
  then show "\<not> js_ws (last (mock_tx_hash i))"
    using set_radix_str [of 16 i] by auto
qed

lemma includes_length: "js_includes s p \<Longrightarrow> length p \<le> length s"
  by (auto simp: js_includes_iff)

lemma long_name_unknown:
  assumes "40 < length clean"
  shows "validator_named clean = JNull"
proof -
  have "\<forall>v \<in> set MOCK_GENESIS_VALIDATORS. length (iv_moniker v) \<le> 40"
    by (simp add: MOCK_GENESIS_VALIDATORS_def)
  then have "find (\<lambda>v. js_includes (toLowerCase (iv_moniker v)) (toLowerCase clean)) MOCK_GENESIS_VALIDATORS = None"
    using assms by (force simp: find_None_iff dest: includes_length)
  then show ?thesis by (simp add: validator_named_def)
qed

text \<open>Every fallback transaction is found under its own hash, as the transaction lists link to it, but
  the search box never finds one: the hashes have 66 hexadecimal digits and the search accepts
  only 64.\<close>

theorem fallback_tx_lookup:
  assumes "silent fetch" "i < 30"
  shows "getTransaction fetch h (mock_tx_hash i) s = (Inr (tx_val (mock_tx (h_loaded h) i)), s) \<and>
         search fetch h (mock_tx_hash i) s = (Inr JNull, s)"
proof
  have "find (tx_matches (mock_tx_hash i)) (MOCK_GENESIS_TXS (h_loaded h)) = Some (mock_tx (h_loaded h) i)"
    unfolding MOCK_GENESIS_TXS_def using assms(2) by (intro find_upt) (simp_all add: mock_tx_hash_matches)
  then show "getTransaction fetch h (mock_tx_hash i) s = (Inr (tx_val (mock_tx (h_loaded h) i)), s)"
    by (simp add: silent_simps assms(1) mock_tx_hash_trim mock_tx_hash_lower)
  have len: "length (mock_tx_hash i) = 68"
    using assms(2) length_hash_digits [of i] by (simp add: mock_tx_hash_def)
  obtain t where t: "mock_tx_hash i = CHR ''0'' # CHR ''x'' # t" "length t = 66"
    using len by (simp add: mock_tx_hash_def)
  have "search_validator fetch h (mock_tx_hash i) s = (Inr JNull, s)"
    using long_name_unknown [of "mock_tx_hash i"] len
    by (simp add: search_validator_def search_contract_def search_address_def Let_def is_sprax_def hex_address_def
        hex_only_def mock_tx_hash_lower) (simp add: t)
  moreover have "\<not> digits_only (mock_tx_hash i)"
    by (simp add: t digits_only_def is_dec_def)
  moreover have "search_hash fetch h (mock_tx_hash i) = search_validator fetch h (mock_tx_hash i)"
  proof -
    have "startsWith (mock_tx_hash i) ''0x''" by (simp add: t)
    moreover have "slice_from (mock_tx_hash i) 2 = t"
      using slice_from_nat [of "mock_tx_hash i" 2] by (simp add: t)
    ultimately show ?thesis by (simp add: search_hash_def Let_def hex_only_def t(2))
  qed
  ultimately show "search fetch h (mock_tx_hash i) s = (Inr JNull, s)"
    using len by (auto simp: search_def Let_def mock_tx_hash_trim silent_simps assms(1))
qed

theorem fallback_tx_lookup_witness:
  "search net_down (sample_host 0) (mock_tx_hash 7) new_ExplorerApiService = (Inr JNull, new_ExplorerApiService)"
  using fallback_tx_lookup [of net_down 7 "sample_host 0" new_ExplorerApiService] by (simp add: silent_net_down)

subsection \<open>Balances of the node\<close>

lemma quotient_error:
  assumes "0 < k" "k < 2 ^ 45"
  obtains v where "n_div (NInt k) (Fin 10000) = Fin v" "0 < v" "\<bar>v * 10 ^ 6 - of_int (k * 100)\<bar> < 1 / 2"
proof -
  define x where "x = (of_int k / 10000 :: rat)"
  have "(of_int k :: rat) < of_int (2 ^ 45)" using assms(2) by (simp only: of_int_less_iff)
  then have k: "(1 :: rat) \<le> of_int k" "(of_int k :: rat) < 2 ^ 45"
    using assms(1) by simp_all
  have "1 / 2 ^ 53 \<le> (1 / 10000 :: rat)" by simp
  also have "\<dots> \<le> x" unfolding x_def using k(1) by (intro divide_right_mono) simp_all
  finally have low: "1 / 2 ^ 53 \<le> x" .
  have "x < 2 ^ 45 / 10000" unfolding x_def using k(2) by (intro divide_strict_right_mono) simp_all
  then have x: "0 < x" "x < 2 ^ 45 / 10000" "x < 2 ^ 53"
    using k(1) by (simp_all add: x_def)
  obtain v where v: "to_double x = Fin v" "\<bar>v - x\<bar> \<le> x / 2 ^ 53"
    using to_double_error [OF low x(3)] .
  have "x / 2 ^ 53 < x" using x(1) by simp
  then have "0 < v" using v(2) by linarith
  moreover have "\<bar>v - x\<bar> < 1 / (2 * 10 ^ 6)"
    using v(2) x(2) by (simp add: field_simps)
  then have "\<bar>v * 10 ^ 6 - of_int (k * 100)\<bar> < 1 / 2"
  proof -
    have "v * 10 ^ 6 - of_int (k * 100) = (v - x) * 10 ^ 6" by (simp add: x_def algebra_simps)
    with \<open>\<bar>v - x\<bar> < _\<close> show ?thesis by (simp only: abs_mult) simp
  qed
  ultimately show thesis using v(1) by (intro that [of v]) (simp_all add: x_def)
qed

definition four_decimals :: "int \<Rightarrow> string" where
  "four_decimals k =
     group3 (nat_str (nat (k div 10000)))
       @ fraction_text 2 (padStart 6 (CHR ''0'') (nat_str (nat (k mod 10000 * 100))))"

lemma four_decimals_text:
  assumes "0 \<le> k" "k < 2 ^ 45"
  shows "toLocaleString (n_div (NInt k) (Fin 10000)) 2 6 = four_decimals k"
proof (cases "k = 0")
  case False
  with assms obtain v where v: "n_div (NInt k) (Fin 10000) = Fin v" "0 < v"
      "\<bar>v * 10 ^ 6 - of_int (k * 100)\<bar> < 1 / 2"
    using quotient_error [of k] by force
  have "\<lfloor>v * 10 ^ 6 + 1 / 2\<rfloor> = k * 100"
    using v(3) by (intro floor_unique) (simp_all only: abs_less_iff of_int_add of_int_1, linarith+)
  then have r: "round_half_up \<bar>v\<bar> 6 = nat (k * 100)"
    using v(2) by (simp add: round_half_up_def)
  obtain m where m: "k = int m" using assms(1) nonneg_int_cases by blast
  have "nat (k * 100) div 10 ^ 6 = nat (k div 10000)" "nat (k * 100) mod 10 ^ 6 = nat (k mod 10000 * 100)"
    using mult_mod_left [of m 10000 100] by (simp_all add: m nat_mult_distrib nat_div_distrib nat_mod_distrib)
  with v r show ?thesis by (simp add: four_decimals_def Let_def)
qed (simp add: four_decimals_def to_double_def round_half_up_def)

text \<open>C23: The balance shown for an account the node knows is the exact amount in SPRX cut off (not rounded)
  after the fourth decimal, for every amount below 3.5 billion SPRX on a host with the en-US
  locale, although the code computes it in doubles.\<close>

theorem account_balance_text:
  assumes "\<not> truthy (fetchJson fetch s (''/blockchain/accounts/'' @ trim a))"
    and "fetchRpcJson fetch s (''/accounts/'' @ trim a @ ''/balance'') = JObj kvs"
    and "own (JObj kvs) ''balance_atto'' = JStr (nat_str n)" "int n div 10 ^ 14 < 2 ^ 45"
    and "h_toLocaleString h = toLocaleString"
  shows "\<exists>acc. getAddress fetch h a s = (Inr acc, online True s) \<and>
           own acc ''balance_sprx'' = JStr (four_decimals (int n div 10 ^ 14) @ '' SPRX'')"
proof -
  define k where "k = int n div 10 ^ 14"
  have k: "0 \<le> k" "k < 2 ^ 45" using assms(4) by (simp_all add: k_def)
  have "to_double (of_int k) = NInt k"
    using k by (intro to_double_int) simp
  moreover have "big_div (int n) (10 ^ 14) = k" by (simp add: big_div_nonneg k_def)
  ultimately have "\<exists>acc. rpc_account h (trim a) (JObj kvs) nr = Inr acc \<and>
      own acc ''balance_sprx'' = JStr (four_decimals k @ '' SPRX'')" for nr
    using assms(3,5) four_decimals_text [OF k]
    by (simp only: rpc_account_def Let_def js_or_def truthy.simps to_bigint.simps radix_str_ne not_False_eq_True
        if_True BigInt_nat_str ebind_simps) (simp add: own_def)
  with assms(1,2,3) show ?thesis
    by (simp add: getAddress_def Let_def k_def)
qed

text \<open>A network on which one host answers, with the text of a value.\<close>

definition net_serving :: "string \<Rightarrow> jsval \<Rightarrow> fetch_fn" where
  "net_serving base v r =
     (if startsWith (rq_url r) base
      then net_const 200 (case stringify v of Some t \<Rightarrow> t | None \<Rightarrow> []) r
      else net_down r)"

lemma net_serving_json:
  assumes "plain v"
  shows "json_answer (net_serving base v) (Inr base) e = v"
proof -
  obtain c u where t: "stringify v = Some (c # u)" using plain_text [OF assms] by blast
  with JSON_parse_stringify [OF assms t] show ?thesis
    by (simp add: json_answer_def net_serving_def GET_json_def net_const_def rs_ok_def rs_json_def)
qed

lemma net_serving_other:
  "\<not> startsWith (b @ e) base \<Longrightarrow> json_answer (net_serving base v) (Inr b) e = JNull"
  by (simp add: json_answer_def net_serving_def GET_json_def net_down_def)

definition local_node :: "jsval \<Rightarrow> fetch_fn" where
  "local_node = net_serving ''http://127.0.0.1:26657''"

lemma local_node_json:
  "plain v \<Longrightarrow> fetchRpcJson (local_node v) new_ExplorerApiService e = v"
  "fetchJson (local_node v) new_ExplorerApiService e = JNull"
  using net_serving_json [of v "''http://127.0.0.1:26657''" e]
    net_serving_other [of "''http://127.0.0.1:8000/api/v1''" e "''http://127.0.0.1:26657''" v]
  by (simp_all add: fetchRpcJson_def fetchJson_def config_field_def getNetworkConfig_def new_ExplorerApiService_def
      NETWORK_CONFIG_def local_node_def)

theorem account_balance_text_witness:
  "\<exists>acc. getAddress (local_node (JObj [(''balance_atto'', JStr (nat_str 1250999900000000000001))])) (sample_host 0)
        ''sprax1x'' new_ExplorerApiService = (Inr acc, online True new_ExplorerApiService) \<and>
     own acc ''balance_sprx'' = JStr (four_decimals 12509999 @ '' SPRX'')"
  using account_balance_text [of "local_node (JObj [(''balance_atto'', JStr (nat_str 1250999900000000000001))])"
      new_ExplorerApiService "''sprax1x''" "[(''balance_atto'', JStr (nat_str 1250999900000000000001))]"
      1250999900000000000001 "sample_host 0"]
  by (simp add: local_node_json own_def sample_host_def)

end
