(* ===== verification/Explorer_Nav.thy ===== *)
theory Explorer_Nav
  imports Js_Prelude
begin

text \<open>
  Navigation in the explorer: the page that \<^verbatim>\<open>src/apps/explorer-ui/src/App.tsx\<close> renders for a route,
  and the links of the header, the footer, the start dialog and the pages.  The header's local state
  (open drop-down, mobile menu) comes with its handlers.
\<close>

section \<open>Routes\<close>

datatype ExPage =
    HomePage | BlocksPage | BlockDetailsPage | TransactionsPage | TxDetailsPage | AddressPage | LearnPage
  | DevelopersPortalPage | NetworkStatusPage | ValidatorsPage | ValidatorDetailsPage | StakingPage
  | ContractsPage | ContractDetailsPage | EcosystemPage | GovernancePage | ResearchPage | WhitepaperPage
  | AboutPage | BrandKitPage | AnalyticsPage | FaucetPage | NotFoundPage

text \<open>The records a page needs before it is rendered.\<close>

record loaded =
  ld_stats :: bool
  ld_block :: bool
  ld_tx :: bool
  ld_account :: bool
  ld_validator :: bool
  ld_contract :: bool

text \<open>The tests on the route: \<^verbatim>\<open>currentRoute === "/x"\<close> and \<^verbatim>\<open>currentRoute.startsWith("/x")\<close>.\<close>

datatype route_test = Exact string | Prefix string

fun test_route :: "string \<Rightarrow> route_test \<Rightarrow> bool" where
  "test_route r (Exact s) = (r = s)"
| "test_route r (Prefix s) = startsWith r s"

definition always :: "loaded \<Rightarrow> bool" where
  "always ld = True"

text \<open>The tests in the order of the code: the explorer's own pages, then the portal's.\<close>

definition core_routes :: "(route_test list \<times> (loaded \<Rightarrow> bool) \<times> ExPage) list" where
  "core_routes =
     [([Exact ''/''], ld_stats, HomePage),
      ([Exact ''/explorer''], ld_stats, HomePage),
      ([Exact ''/blocks''], always, BlocksPage),
      ([Prefix ''/block/''], ld_block, BlockDetailsPage),
      ([Exact ''/transactions''], always, TransactionsPage),
      ([Prefix ''/tx/''], ld_tx, TxDetailsPage),
      ([Prefix ''/address/''], ld_account, AddressPage),
      ([Prefix ''/learn''], always, LearnPage),
      ([Prefix ''/developers''], always, DevelopersPortalPage),
      ([Exact ''/network''], ld_stats, NetworkStatusPage),
      ([Exact ''/validators''], always, ValidatorsPage),
      ([Prefix ''/validator/''], ld_validator, ValidatorDetailsPage),
      ([Exact ''/staking''], always, StakingPage)]"

definition portal_routes :: "(route_test list \<times> (loaded \<Rightarrow> bool) \<times> ExPage) list" where
  "portal_routes =
     [([Exact ''/contracts''], always, ContractsPage),
      ([Prefix ''/contract/''], ld_contract, ContractDetailsPage),
      ([Prefix ''/ecosystem'', Exact ''/discover'', Exact ''/markets''], always, EcosystemPage),
      ([Prefix ''/governance'', Prefix ''/sips'', Prefix ''/community/grants'', Prefix ''/security/bug-bounty''],
         always, GovernancePage),
      ([Prefix ''/research''], always, ResearchPage),
      ([Exact ''/whitepaper''], always, WhitepaperPage),
      ([Exact ''/about''], always, AboutPage),
      ([Exact ''/brand''], always, BrandKitPage),
      ([Exact ''/analytics''], always, AnalyticsPage),
      ([Exact ''/faucet''], always, FaucetPage),
      ([Exact ''/404''], always, NotFoundPage)]"

definition route_table :: "(route_test list \<times> (loaded \<Rightarrow> bool) \<times> ExPage) list" where
  "route_table = core_routes @ portal_routes"

definition entry_shown :: "loaded \<Rightarrow> string \<Rightarrow> route_test list \<times> (loaded \<Rightarrow> bool) \<times> ExPage \<Rightarrow> bool" where
  "entry_shown ld r e = (case e of (tests, needs, _) \<Rightarrow> list_ex (test_route r) tests \<and> needs ld)"

definition rendered :: "loaded \<Rightarrow> string \<Rightarrow> ExPage list" where
  "rendered ld currentRoute = map (snd \<circ> snd) (filter (entry_shown ld currentRoute) route_table)"

section \<open>The header\<close>

record menu_item =
  mi_title :: string
  mi_sub :: string
  mi_route :: string

definition item :: "string \<Rightarrow> string \<Rightarrow> string \<Rightarrow> menu_item" where
  "item title sub route = \<lparr> mi_title = title, mi_sub = sub, mi_route = route \<rparr>"

definition explore_menu :: "menu_item list" where
  "explore_menu =
     [item ''Blockchain Explorer'' ''Live block stream & search'' ''/explorer'',
      item ''Blocks & Finality'' ''CometBFT verified blocks'' ''/blocks'',
      item ''Transactions'' ''Atomic state transfers'' ''/transactions'',
      item ''Smart Contracts'' ''Verified WASM bytecode'' ''/contracts'',
      item ''Network Analytics'' ''TPS & Gas throughput charts'' ''/analytics'']"

definition learn_menu :: "menu_item list" where
  "learn_menu =
     [item ''Learn Hub'' ''Master guide to SPRX architecture'' ''/learn'',
      item ''What is SPRX?'' ''Scalable Protocol for Real-world X'' ''/learn/what-is-sprx'',
      item ''Real-World X Rails'' ''Payments, RWA, Identity & DePIN'' ''/learn/real-world-x'',
      item ''Tokenomics & Precision'' ''1B Supply, 18 decimals, Base burn'' ''/learn/tokenomics'',
      item ''Wallets & Self-Custody'' ''Keys, seed phrases & signing'' ''/learn/wallets'']"

definition devs_menu :: "menu_item list" where
  "devs_menu =
     [item ''Developer Command Center'' ''Quickstarts, SDKs & APIs'' ''/developers'',
      item ''JSON-RPC & REST Playground'' ''Live query runner & schemas'' ''/developers/rpc'',
      item ''CosmWasm Smart Contracts'' ''Rust WASM contract templates'' ''/developers/smart-contracts'',
      item ''Run a Node & Sentry'' ''CLI setup & sync guide'' ''/developers/nodes'',
      item ''Testnet Faucet'' ''Get free tSPRX tokens for testing'' ''/faucet'']"

definition network_menu :: "menu_item list" where
  "network_menu =
     [item ''Network Status'' ''CometBFT health & peers'' ''/network'',
      item ''Validator Set (Top 100)'' ''Voting power & commission'' ''/validators'',
      item ''Staking & Yield'' ''Delegate SPRX & earn rewards'' ''/staking'']"

definition ecosystem_menu :: "menu_item list" where
  "ecosystem_menu =
     [item ''dApp Directory'' ''DeFi, RWA, Wallets & Infra'' ''/ecosystem'',
      item ''Discover Showcase'' ''Trending protocols & utilities'' ''/discover'',
      item ''Live Markets'' ''SPRX asset price & tickers'' ''/markets'']"

definition gov_menu :: "menu_item list" where
  "gov_menu =
     [item ''Voting Portal'' ''On-chain proposal voting'' ''/governance'',
      item ''SIP Proposals'' ''SPRX Improvement Proposals'' ''/sips'',
      item ''Ecosystem Grants'' ''Funding for open source'' ''/community/grants'']"

definition header_menus :: "(string \<times> string \<times> menu_item list) list" where
  "header_menus =
     [(''explore'', ''Explore'', explore_menu), (''learn'', ''Learn'', learn_menu),
      (''devs'', ''Developers'', devs_menu), (''network'', ''Network'', network_menu),
      (''ecosystem'', ''Ecosystem'', ecosystem_menu), (''gov'', ''Governance'', gov_menu)]"

text \<open>Which menu is highlighted for a route.\<close>

definition menu_active :: "string \<Rightarrow> string \<Rightarrow> bool" where
  "menu_active key r =
     (if key = ''explore'' then startsWith r ''/explorer'' \<or> startsWith r ''/block'' \<or> startsWith r ''/tx''
      else if key = ''learn'' then startsWith r ''/learn''
      else if key = ''devs'' then startsWith r ''/developers''
      else if key = ''network'' then startsWith r ''/network'' \<or> startsWith r ''/validator'' \<or> r = ''/staking''
      else if key = ''ecosystem'' then startsWith r ''/ecosystem'' \<or> r = ''/discover'' \<or> r = ''/markets''
      else if key = ''gov'' then startsWith r ''/governance'' \<or> startsWith r ''/sips''
      else key = ''research'' \<and> r = ''/research'')"

definition mobile_menu :: "(string \<times> string) list" where
  "mobile_menu =
     [(''Home'', ''/''), (''Explorer'', ''/explorer''), (''Learn'', ''/learn''), (''Developers'', ''/developers''),
      (''Network'', ''/network''), (''Ecosystem'', ''/ecosystem''), (''Governance'', ''/governance''),
      (''SIP Proposals'', ''/sips''), (''Markets'', ''/markets''), (''Research'', ''/research''),
      (''Faucet'', ''/faucet''), (''Whitepaper'', ''/whitepaper'')]"

record AppHeader =
  hd_mobileMenuOpen :: bool
  hd_activeDropdown :: "string option"
  hd_closing :: bool

definition header_init :: AppHeader where
  "header_init = \<lparr> hd_mobileMenuOpen = False, hd_activeDropdown = None, hd_closing = False \<rparr>"

text \<open>
  \<^verbatim>\<open>handleMouseLeave\<close> starts a timer (\<open>hd_closing\<close>) that closes the drop-down unless the pointer
  enters a menu first.
\<close>

definition header_handleNav :: "AppHeader \<Rightarrow> AppHeader" where
  "header_handleNav h = h \<lparr> hd_mobileMenuOpen := False, hd_activeDropdown := None \<rparr>"

definition handleMouseEnter :: "string \<Rightarrow> AppHeader \<Rightarrow> AppHeader" where
  "handleMouseEnter menuKey h = h \<lparr> hd_closing := False, hd_activeDropdown := Some menuKey \<rparr>"

definition handleMouseLeave :: "AppHeader \<Rightarrow> AppHeader" where
  "handleMouseLeave h = h \<lparr> hd_closing := True \<rparr>"

definition dropdown_timeout :: "AppHeader \<Rightarrow> AppHeader" where
  "dropdown_timeout h = (if hd_closing h then h \<lparr> hd_closing := False, hd_activeDropdown := None \<rparr> else h)"

definition toggle_mobile :: "AppHeader \<Rightarrow> AppHeader" where
  "toggle_mobile h = h \<lparr> hd_mobileMenuOpen := \<not> hd_mobileMenuOpen h \<rparr>"

text \<open>The routes the header offers in a state.\<close>

definition header_links :: "AppHeader \<Rightarrow> string list" where
  "header_links h =
     [''/'', ''/research'']
     @ (case hd_activeDropdown h of
          Some key \<Rightarrow> (case map_of header_menus key of Some (_, items) \<Rightarrow> map mi_route items | None \<Rightarrow> [])
        | None \<Rightarrow> [])
     @ (if hd_mobileMenuOpen h then map snd mobile_menu else [])"

section \<open>Other links\<close>

definition footer_explore :: "(string \<times> string) list" where
  "footer_explore =
     [(''Blockchain Explorer'', ''/explorer''), (''Verified Blocks'', ''/blocks''),
      (''Transactions Feed'', ''/transactions''), (''Validator Leaderboard'', ''/validators''),
      (''Staking & Delegation'', ''/staking''), (''Network Telemetry'', ''/network'')]"

definition footer_learn :: "(string \<times> string) list" where
  "footer_learn =
     [(''What is SPRX?'', ''/learn/what-is-sprx''), (''Real-World X Rails'', ''/learn/real-world-x''),
      (''Native Tokenomics'', ''/learn/tokenomics''), (''Developer Center'', ''/developers''),
      (''JSON-RPC & REST APIs'', ''/developers/rpc''), (''CosmWasm Rust WASM'', ''/developers/smart-contracts''),
      (''Testnet Faucet'', ''/faucet'')]"

definition footer_ecosystem :: "(string \<times> string) list" where
  "footer_ecosystem =
     [(''dApp Directory'', ''/ecosystem''), (''Discover Showcase'', ''/discover''),
      (''Live Markets'', ''/markets''), (''Voting Portal'', ''/governance''), (''SIP Proposals'', ''/sips''),
      (''Research Papers'', ''/research''), (''Technical Whitepaper'', ''/whitepaper''),
      (''Bug Bounty Program'', ''/security/bug-bounty'')]"

definition footer_bottom :: "(string \<times> string) list" where
  "footer_bottom =
     [(''Brand Assets'', ''/brand''), (''About SPRX'', ''/about''), (''Security'', ''/security/bug-bounty'')]"

definition footer_links :: "(string \<times> string) list" where
  "footer_links = (''SPRX Protocol'', ''/'') # footer_explore @ footer_learn @ footer_ecosystem @ footer_bottom"

record pathway =
  pw_title :: string
  pw_description :: string
  pw_route :: string
  pw_cta :: string

definition pathways :: "pathway list" where
  "pathways =
     [\<lparr> pw_title = ''Explore Applications & RWA'',
        pw_description = ''Discover verified dApps, real-world asset settlement rails, and high-frequency DEX markets.'',
        pw_route = ''/ecosystem'', pw_cta = ''Explore Ecosystem'' \<rparr>,
      \<lparr> pw_title = ''Build & Deploy Smart Contracts'',
        pw_description = ''Get started with TypeScript SDK, CosmWasm Rust WASM contracts, and request free testnet tokens.'',
        pw_route = ''/developers'', pw_cta = ''Developer Hub'' \<rparr>,
      \<lparr> pw_title = ''Stake SPRX & Run a Validator'',
        pw_description = ''Delegate tokens to active validators, calculate staking yield, or spin up a sovereign CometBFT node.'',
        pw_route = ''/staking'', pw_cta = ''Staking & Nodes'' \<rparr>,
      \<lparr> pw_title = ''Participate in Governance'',
        pw_description = ''Vote on on-chain proposals, review SPRX Improvement Proposals (SIPs), and join ecosystem grants.'',
        pw_route = ''/governance'', pw_cta = ''Governance Portal'' \<rparr>]"

definition get_started_links :: "string list" where
  "get_started_links = map pw_route pathways @ [''/learn/wallets'', ''/learn/what-is-sprx'']"

definition strip_links :: "string list" where
  "strip_links = [''/blocks'', ''/validators'', ''/staking'', ''/network'']"

definition visualizer_links :: "string list" where
  "visualizer_links =
     [''/learn/real-world-x'', ''/developers/rpc'', ''/developers/smart-contracts'', ''/learn/consensus'', ''/developers/nodes'']"

definition home_links :: "string list" where
  "home_links =
     [''/learn/what-is-sprx'', ''/developers'', ''/developers/rpc''] @ strip_links
     @ [''/blocks'', ''/learn/consensus'', ''/analytics'', ''/validators'', ''/staking'', ''/transactions'', ''/learn/real-world-x'']
     @ [''/learn/real-world-x'', ''/learn/real-world-x'', ''/learn/real-world-x'', ''/learn/real-world-x'',
        ''/learn/real-world-x'', ''/ecosystem'']
     @ visualizer_links @ [''/developers'', ''/blocks'', ''/transactions'', ''/developers'', ''/faucet'']"

text \<open>The links of the remaining pages, with the back buttons of the detail pages.\<close>

definition page_links :: "ExPage \<Rightarrow> string list" where
  "page_links p =
     (case p of
        HomePage \<Rightarrow> home_links
      | LearnPage \<Rightarrow> [''/security/bug-bounty'']
      | DevelopersPortalPage \<Rightarrow> [''/faucet'']
      | ResearchPage \<Rightarrow> [''/whitepaper'']
      | BlockDetailsPage \<Rightarrow> [''/blocks'']
      | TxDetailsPage \<Rightarrow> [''/transactions'']
      | AddressPage \<Rightarrow> [''/'']
      | ValidatorDetailsPage \<Rightarrow> [''/validators'']
      | ContractDetailsPage \<Rightarrow> [''/contracts'']
      | WhitepaperPage \<Rightarrow> [''/'']
      | NotFoundPage \<Rightarrow> [''/'']
      | _ \<Rightarrow> [])"

text \<open>Every route that a visible control navigates to.\<close>

definition offered_routes :: "AppHeader \<Rightarrow> bool \<Rightarrow> loaded \<Rightarrow> string \<Rightarrow> string list" where
  "offered_routes h getStartedOpen ld route =
     header_links h @ map snd footer_links @ (if getStartedOpen then get_started_links else [])
     @ concat (map page_links (rendered ld route))"

section \<open>One page at a time\<close>

text \<open>Two tests that no route passes together.\<close>

fun apart :: "route_test \<Rightarrow> route_test \<Rightarrow> bool" where
  "apart (Exact a) (Exact b) = (a \<noteq> b)"
| "apart (Exact a) (Prefix b) = (\<not> startsWith a b)"
| "apart (Prefix a) (Exact b) = (\<not> startsWith b a)"
| "apart (Prefix a) (Prefix b) = (\<not> startsWith a b \<and> \<not> startsWith b a)"

lemmas routes_defs = route_table_def core_routes_def portal_routes_def

lemma apart_sound: "apart m n \<Longrightarrow> test_route r m \<Longrightarrow> test_route r n \<Longrightarrow> False"
  by (cases m; cases n) (auto simp: startsWith_iff append_eq_append_conv2)

definition entries_apart ::
    "route_test list \<times> (loaded \<Rightarrow> bool) \<times> ExPage \<Rightarrow> route_test list \<times> (loaded \<Rightarrow> bool) \<times> ExPage \<Rightarrow> bool" where
  "entries_apart e f = list_all (\<lambda>m. list_all (apart m) (fst f)) (fst e)"

lemma entries_apart_sound: "entries_apart e f \<Longrightarrow> entry_shown ld r e \<Longrightarrow> \<not> entry_shown ld r f"
  by (fastforce simp: entries_apart_def entry_shown_def list_ex_iff list_all_iff split: prod.splits
      dest: apart_sound)

lemma sorted_wrt_filter_one:
  assumes "sorted_wrt R xs" "\<And>x y. R x y \<Longrightarrow> P x \<Longrightarrow> \<not> P y"
  shows "length (filter P xs) \<le> 1"
  using assms(1)
proof (induction xs)
  case (Cons x xs)
  then have "P x \<Longrightarrow> filter P xs = []" using assms(2) by (auto simp: filter_empty_conv)
  with Cons show ?case by auto
qed simp

lemma route_table_apart: "sorted_wrt entries_apart route_table"
  by (simp add: routes_defs entries_apart_def)

lemma rendered_one: "length (rendered ld r) \<le> 1"
  unfolding rendered_def length_map
  by (rule sorted_wrt_filter_one [OF route_table_apart]) (rule entries_apart_sound)

lemma rendered_shown: "e \<in> set route_table \<Longrightarrow> entry_shown ld r e \<Longrightarrow> rendered ld r \<noteq> []"
  by (auto simp: rendered_def filter_empty_conv)

definition only_stats :: loaded where
  "only_stats = \<lparr> ld_stats = True, ld_block = False, ld_tx = False, ld_account = False, ld_validator = False,
     ld_contract = False \<rparr>"

definition link_covered :: "string \<Rightarrow> bool" where
  "link_covered t =
     list_ex (\<lambda>(tests, needs, _). list_ex (test_route t) tests \<and> needs only_stats) route_table"

lemma needs_mono:
  assumes "(tests, needs, p) \<in> set route_table" "ld_stats ld"
    and "needs only_stats"
  shows "needs ld"
proof -
  have "\<forall>e \<in> set route_table. fst (snd e) \<in> {ld_stats, always} \<or>
      \<not> fst (snd e) only_stats"
    by (simp add: routes_defs only_stats_def)
  with assms show ?thesis by (fastforce simp: always_def)
qed

lemma link_rendered:
  assumes "link_covered t" "ld_stats ld"
  shows "length (rendered ld t) = 1"
proof -
  obtain tests needs p where e: "(tests, needs, p) \<in> set route_table" "list_ex (test_route t) tests"
    "needs only_stats"
    using assms(1) by (auto simp: link_covered_def list_ex_iff)
  then have "entry_shown ld t (tests, needs, p)"
    using needs_mono [OF e(1) assms(2) e(3)] by (simp add: entry_shown_def)
  then have "rendered ld t \<noteq> []" using rendered_shown [OF e(1)] by blast
  with rendered_one [of ld t] show ?thesis by (cases "rendered ld t") auto
qed

text \<open>A link never leads below the address of a detail page: such an entry would be shown besides the other.\<close>

lemma link_not_detail:
  assumes "link_covered t" "(tests, needs, p) \<in> set route_table" "\<not> needs only_stats" "needs ld" "ld_stats ld"
  shows "\<not> list_ex (test_route t) tests"
proof
  assume "list_ex (test_route t) tests"
  with assms(4) have e: "entry_shown ld t (tests, needs, p)" by (simp add: entry_shown_def)
  obtain tests' needs' p' where e': "(tests', needs', p') \<in> set route_table" "list_ex (test_route t) tests'"
    "needs' only_stats"
    using assms(1) by (auto simp: link_covered_def list_ex_iff)
  then have shown': "entry_shown ld t (tests', needs', p')"
    using needs_mono [OF e'(1) assms(5) e'(3)] by (simp add: entry_shown_def)
  have "length (filter (entry_shown ld t) route_table) \<le> 1"
    using rendered_one [of ld t] by (simp add: rendered_def)
  moreover have "(tests, needs, p) \<in> set (filter (entry_shown ld t) route_table)"
    "(tests', needs', p') \<in> set (filter (entry_shown ld t) route_table)"
    using e shown' assms(2) e'(1) by simp_all
  ultimately have "(tests, needs, p) = (tests', needs', p')"
    by (cases "filter (entry_shown ld t) route_table") auto
  with assms(3) e'(3) show False by simp
qed

lemmas footer_defs = footer_links_def footer_explore_def footer_learn_def footer_ecosystem_def footer_bottom_def

lemma list_allD: "list_all P xs \<Longrightarrow> x \<in> set xs \<Longrightarrow> P x"
  by (simp add: list_all_iff)

lemma menus_covered: "list_all (\<lambda>(_, _, items). list_all (link_covered \<circ> mi_route) items) header_menus"
  by (simp add: header_menus_def explore_menu_def learn_menu_def devs_menu_def network_menu_def
      ecosystem_menu_def gov_menu_def item_def link_covered_def routes_defs always_def only_stats_def)

lemma header_covered: "t \<in> set (header_links h) \<Longrightarrow> link_covered t"
proof -
  have fixed: "list_all link_covered ([''/'', ''/research''] @ map snd mobile_menu)"
    by (simp add: mobile_menu_def link_covered_def routes_defs always_def only_stats_def)
  assume t: "t \<in> set (header_links h)"
  then consider "t \<in> set ([''/'', ''/research''] @ map snd mobile_menu)"
    | key label items where "(key, label, items) \<in> set header_menus" "t \<in> set (map mi_route items)"
    by (auto simp: header_links_def split: option.splits if_splits dest!: map_of_SomeD [OF sym])
  then show ?thesis
  proof cases
    case 1
    then show ?thesis by (rule list_allD [OF fixed])
  next
    case 2
    from list_allD [OF menus_covered 2(1)] have "list_all (link_covered \<circ> mi_route) items"
      by (simp only: prod.case)
    with 2(2) show ?thesis by (auto simp: list_all_iff)
  qed
qed

lemma page_links_covered: "t \<in> set (page_links p) \<Longrightarrow> link_covered t"
proof -
  have "list_all link_covered (home_links @ [''/security/bug-bounty'', ''/faucet'', ''/whitepaper'', ''/blocks'',
      ''/transactions'', ''/'', ''/validators'', ''/contracts''])"
    by (simp add: home_links_def strip_links_def visualizer_links_def link_covered_def routes_defs always_def only_stats_def)
  moreover assume "t \<in> set (page_links p)"
  then have "t \<in> set (home_links @ [''/security/bug-bounty'', ''/faucet'', ''/whitepaper'', ''/blocks'',
      ''/transactions'', ''/'', ''/validators'', ''/contracts''])"
    by (auto simp: page_links_def split: ExPage.splits)
  ultimately show ?thesis by (rule list_allD)
qed

lemma footer_covered: "t \<in> set (map snd footer_links @ get_started_links) \<Longrightarrow> link_covered t"
proof -
  have "list_all link_covered (map snd footer_links @ get_started_links)"
    by (simp add: footer_defs get_started_links_def pathways_def link_covered_def routes_defs always_def only_stats_def)
  then show "t \<in> set (map snd footer_links @ get_started_links) \<Longrightarrow> link_covered t"
    by (rule list_allD)
qed

lemma offered_covered:
  assumes "t \<in> set (offered_routes h g ld r)"
  shows "link_covered t"
proof -
  from assms consider "t \<in> set (header_links h)" | "t \<in> set (map snd footer_links @ get_started_links)"
    | p where "t \<in> set (page_links p)"
    by (auto simp: offered_routes_def split: if_splits)
  then show ?thesis
    by cases (rule header_covered footer_covered page_links_covered, assumption)+
qed

text \<open>C26: Whatever the route, at most one page is rendered; and once the network statistics are loaded,
  every link that the header, the footer, the start dialog or the page shown offers leads to
  exactly one page.\<close>

theorem links_lead_to_one_page:
  shows "length (rendered ld r) \<le> 1 \<and>
         (ld_stats ld \<longrightarrow> (\<forall>t \<in> set (offered_routes h g ld r). length (rendered ld t) = 1))"
  using rendered_one [of ld r] offered_covered link_rendered by blast

theorem links_lead_to_one_page_witness: "length (rendered only_stats ''/explorer'') = 1"
proof -
  have "''/explorer'' \<in> snd ` set footer_links" by (simp add: footer_defs)
  then have "''/explorer'' \<in> set (offered_routes header_init False only_stats ''/'')"
    unfolding offered_routes_def by simp
  moreover have "ld_stats only_stats" by (simp add: only_stats_def)
  ultimately show ?thesis using links_lead_to_one_page by blast
qed

end
