(* ===== verification/Js_Storage.thy ===== *)
theory Js_Storage
  imports Js_Prelude
begin

text \<open>
  \<^verbatim>\<open>localStorage\<close>: a map from keys to strings.  The explorer keeps its preferences, recent searches and
  connected wallet there, the administration panel its session.
\<close>

type_synonym storage = "string \<Rightarrow> string option"

definition getItem :: "storage \<Rightarrow> string \<Rightarrow> string option" where
  "getItem st k = st k"

definition setItem :: "string \<Rightarrow> string \<Rightarrow> storage \<Rightarrow> storage" where
  "setItem k v st = st(k := Some v)"

definition removeItem :: "string \<Rightarrow> storage \<Rightarrow> storage" where
  "removeItem k st = st(k := None)"

lemmas storage_defs = getItem_def setItem_def removeItem_def

end
