(* ===== verification/Explorer_Formatters.thy ===== *)
theory Explorer_Formatters
  imports Explorer_Types Js_Round
begin

text \<open>
  \<^verbatim>\<open>src/apps/explorer-ui/src/utils/formatters.ts\<close>.  A parameter of the type
  \<^verbatim>\<open>string | number | undefined | null\<close> is a \<open>jsval\<close>.  What the host decides is an argument: the clock
  (\<open>now\<close>, in milliseconds), the text of a date in the host's time zone, \<^verbatim>\<open>Math.log\<close> and the clipboard.
\<close>

record fiat_rate =
  fr_symbol :: string
  fr_prefix :: string
  fr_rate :: js_number

definition fiat_USD :: fiat_rate where
  "fiat_USD = \<lparr> fr_symbol = ''USD'', fr_prefix = ''$'', fr_rate = Fin (5 / 4) \<rparr>"

definition FIAT_RATES :: "(string \<times> fiat_rate) list" where
  "FIAT_RATES =
     [(''USD'', fiat_USD),
      (''INR'', \<lparr> fr_symbol = ''INR'', fr_prefix = ''<U+20B9>'', fr_rate = Fin (209 / 2) \<rparr>),
      (''EUR'', \<lparr> fr_symbol = ''EUR'', fr_prefix = ''<U+20AC>'', fr_rate = to_double (115 / 100) \<rparr>),
      (''GBP'', \<lparr> fr_symbol = ''GBP'', fr_prefix = [char_of (163 :: nat)], fr_rate = to_double (98 / 100) \<rparr>),
      (''JPY'', \<lparr> fr_symbol = ''JPY'', fr_prefix = [char_of (165 :: nat)], fr_rate = Fin 195 \<rparr>)]"

section \<open>Hashes and addresses\<close>

definition truncateHash :: "string option \<Rightarrow> int \<Rightarrow> int \<Rightarrow> string" where
  "truncateHash hash start end =
     (case hash of
        None \<Rightarrow> []
      | Some h \<Rightarrow>
          if h = [] then []
          else if int (length h) \<le> start + end + 3 then h
          else slice h 0 start @ ''...'' @ slice_from h (- end))"

definition truncateAddress :: "string option \<Rightarrow> int \<Rightarrow> int \<Rightarrow> string" where
  "truncateAddress address start end =
     (case address of
        None \<Rightarrow> []
      | Some a \<Rightarrow>
          if a = [] then []
          else if int (length a) \<le> start + end + 3 then a
          else slice a 0 start @ ''...'' @ slice_from a (- end))"

section \<open>Amounts\<close>

definition without_commas :: "string \<Rightarrow> string" where
  "without_commas s = filter (\<lambda>c. c \<noteq> CHR '','') s"

text \<open>\<^verbatim>\<open>s.replace(/p/i, "")\<close> for a literal p in lower case: the first match is removed.\<close>

fun remove_first_ci :: "string \<Rightarrow> string \<Rightarrow> string" where
  "remove_first_ci p [] = []"
| "remove_first_ci p (c # s) =
     (if startsWith (toLowerCase (c # s)) p then drop (length p) (c # s) else c # remove_first_ci p s)"

definition formatAmount :: "jsval \<Rightarrow> nat \<Rightarrow> string" where
  "formatAmount val maxDecimals =
     (if nullish val \<or> val = JStr [] then ''0''
      else let num = (case val of JStr s \<Rightarrow> parseFloat (without_commas s) | _ \<Rightarrow> to_num val)
           in if num = NaN then to_str val else toLocaleString num 0 maxDecimals)"

definition formatFiat :: "jsval \<Rightarrow> string \<Rightarrow> string" where
  "formatFiat sprxAmount currency =
     (if nullish sprxAmount \<or> sprxAmount = JStr [] then ''-''
      else let num = (case sprxAmount of
                        JStr s \<Rightarrow> parseFloat (remove_first_ci '' sprx'' (without_commas s))
                      | _ \<Rightarrow> to_num sprxAmount)
           in if num = NaN then ''-''
              else let rateConfig = (case map_of FIAT_RATES currency of Some r \<Rightarrow> r | None \<Rightarrow> fiat_USD);
                       fiatVal = n_mul num (fr_rate rateConfig)
                   in fr_prefix rateConfig @ toLocaleString fiatVal 2 2)"

definition formatNumber :: "jsval \<Rightarrow> string" where
  "formatNumber num = (if nullish num then ''0'' else toLocaleString (to_num num) 0 3)"

section \<open>Times and sizes\<close>

definition formatTimestamp :: "(js_number \<Rightarrow> string) \<Rightarrow> js_number \<Rightarrow> string" where
  "formatTimestamp date_text unixSecs =
     (if \<not> n_truthy unixSecs then ''-'' else date_text (n_mul unixSecs (Fin 1000)))"

definition formatTimeAgo :: "int \<Rightarrow> js_number \<Rightarrow> string" where
  "formatTimeAgo now unixSecs =
     (if \<not> n_truthy unixSecs then ''-''
      else let nowSecs = Math_floor (n_div (NInt now) (Fin 1000));
               diffSecs = Math_max (Fin 0) (n_sub nowSecs unixSecs)
           in if n_less diffSecs (Fin 5) then ''just now''
              else if n_less diffSecs (Fin 60) then num_str diffSecs @ ''s ago''
              else let mins = Math_floor (n_div diffSecs (Fin 60))
                   in if n_less mins (Fin 60) then num_str mins @ ''m ago''
                      else let hours = Math_floor (n_div mins (Fin 60))
                           in if n_less hours (Fin 24) then num_str hours @ ''h ago''
                              else let days = Math_floor (n_div hours (Fin 24))
                                   in num_str days @ ''d ago'')"

text \<open>\<^verbatim>\<open>Math.pow(1024, i)\<close> for the i that a floor gives.\<close>

fun pow_1024 :: "js_number \<Rightarrow> js_number" where
  "pow_1024 NaN = NaN"
| "pow_1024 (Infinity s) = (if s then Fin 0 else Infinity False)"
| "pow_1024 (Fin i) = to_double (pow_int 1024 \<lfloor>i\<rfloor>)"

definition byte_sizes :: "string list" where
  "byte_sizes = [''B'', ''KB'', ''MB'', ''GB'']"

definition formatBytes :: "(js_number \<Rightarrow> js_number) \<Rightarrow> js_number \<Rightarrow> string" where
  "formatBytes Math_log bytes =
     (if n_eq bytes (Fin 0) then ''0 B''
      else let i = Math_floor (n_div (Math_log bytes) (Math_log (Fin 1024)));
               size = (case i of
                         Fin r \<Rightarrow> (if 0 \<le> r \<and> r < 4 then byte_sizes ! nat \<lfloor>r\<rfloor> else ''undefined'')
                       | _ \<Rightarrow> ''undefined'')
           in num_str (parseFloat (toFixed (n_div bytes (pow_1024 i)) 2)) @ '' '' @ size)"

section \<open>Search queries and the clipboard\<close>

datatype query_type = Q_height | Q_tx_hash | Q_block_hash | Q_address | Q_validator | Q_unknown

definition parseSearchQuery :: "string \<Rightarrow> query_type \<times> string" where
  "parseSearchQuery query =
     (let clean = trim query in
      if clean = [] then (Q_unknown, [])
      else if digits_only clean then (Q_height, clean)
      else let hexMatch = (if startsWith clean ''0x'' then slice_from clean 2 else clean) in
           if hex_only 64 hexMatch then (Q_tx_hash, if startsWith clean ''0x'' then clean else ''0x'' @ clean)
           else if startsWith (toLowerCase clean) ''sprax1'' \<and> 38 \<le> length clean then (Q_address, clean)
           else if startsWith clean ''0x'' \<and> hex_only 40 (drop 2 clean) then (Q_address, clean)
           else if 2 < length clean then (Q_validator, clean)
           else (Q_unknown, clean))"

text \<open>
  \<^verbatim>\<open>writeText\<close> is absent where the browser has no asynchronous clipboard; then the text goes through
  a temporary text area (\<open>execCommand_copy\<close>).
\<close>

definition copyToClipboard ::
    "(string \<Rightarrow> unit res) option \<Rightarrow> (string \<Rightarrow> bool res) \<Rightarrow> string \<Rightarrow> bool" where
  "copyToClipboard writeText execCommand_copy text =
     (case (case writeText of
              Some write \<Rightarrow> ebind (write text) (\<lambda>_. Inr True)
            | None \<Rightarrow> execCommand_copy text) of
        Inr success \<Rightarrow> success
      | Inl _ \<Rightarrow> False)"

section \<open>What is shown\<close>

text \<open>A shortened hash is the hash itself when that is at most \<open>start + end + 3\<close> characters long, and
  otherwise its first \<open>start\<close> and last \<open>end\<close> characters around three dots, which is shorter than
  the hash.\<close>

theorem truncateHash_shape:
  assumes "0 \<le> start" "0 < end"
  shows "(int (length h) \<le> start + end + 3 \<longrightarrow> truncateHash (Some h) start end = h) \<and>
         (start + end + 3 < int (length h) \<longrightarrow>
            truncateHash (Some h) start end =
              take (nat start) h @ ''...'' @ drop (length h - nat end) h \<and>
            length (truncateHash (Some h) start end) < length h)"
  using assms by (auto simp: truncateHash_def slice_def slice_from_def rel_index_def nat_diff_distrib)

theorem truncateHash_shape_witness:
  "truncateHash (Some ''0x0123456789abcdef0123'') 6 6 = ''0x0123...ef0123''"
  using truncateHash_shape [of 6 6 "''0x0123456789abcdef0123''"] by simp

text \<open>The age of something that happened \<open>d\<close> seconds ago, from the exact quotients.\<close>

definition age_text :: "nat \<Rightarrow> string" where
  "age_text d =
     (if d < 5 then ''just now''
      else if d < 60 then nat_str d @ ''s ago''
      else if d < 3600 then nat_str (d div 60) @ ''m ago''
      else if d < 86400 then nat_str (d div 3600) @ ''h ago''
      else nat_str (d div 86400) @ ''d ago'')"

lemma n_less_numeral: "n_less (NInt a) (Fin (numeral k)) \<longleftrightarrow> a < numeral k"
  by simp

lemma floor_div_numeral:
  assumes "0 \<le> a" "a < 2 ^ 53" "(numeral k :: int) \<le> 2 ^ 53"
  shows "Math_floor (n_div (NInt a) (Fin (numeral k))) = NInt (a div numeral k)"
  using floor_quotient [of a "numeral k"] assms by simp

lemma age_units:
  assumes "0 \<le> d" "d < 2 ^ 53" and diff: "diffSecs = NInt d"
  shows "(if n_less diffSecs (Fin 5) then ''just now''
          else if n_less diffSecs (Fin 60) then num_str diffSecs @ ''s ago''
          else let mins = Math_floor (n_div diffSecs (Fin 60))
               in if n_less mins (Fin 60) then num_str mins @ ''m ago''
                  else let hours = Math_floor (n_div mins (Fin 60))
                       in if n_less hours (Fin 24) then num_str hours @ ''h ago''
                          else let days = Math_floor (n_div hours (Fin 24))
                               in num_str days @ ''d ago'') = age_text (nat d)"
proof -
  have m: "Math_floor (n_div (NInt d) (Fin 60)) = NInt (d div 60)"
    using assms by (intro floor_div_numeral) simp_all
  have h: "Math_floor (n_div (NInt (d div 60)) (Fin 60)) = NInt (d div 3600)"
    using floor_div_numeral [of "d div 60" "num.Bit0 (num.Bit0 (num.Bit1 (num.Bit1 (num.Bit1 num.One))))"]
      assms by (simp add: zdiv_zmult2_eq [symmetric])
  have y: "Math_floor (n_div (NInt (d div 3600)) (Fin 24)) = NInt (d div 86400)"
    using floor_div_numeral [of "d div 3600" "num.Bit0 (num.Bit0 (num.Bit0 (num.Bit1 num.One)))"]
      assms by (simp add: zdiv_zmult2_eq [symmetric])
  have str: "num_str (NInt (d div k)) = nat_str (nat d div nat k)" if "0 < k" for k
  proof -
    have "0 \<le> d div k" using that assms(1) by (simp add: pos_imp_zdiv_nonneg_iff)
    moreover have "d div k \<le> d" using zdiv_mono2 [of d 1 k] that assms(1) by simp
    ultimately have "0 \<le> d div k" "d div k \<le> d" .
    with assms that show ?thesis by (simp add: num_str_int int_str_def nat_div_distrib)
  qed
  have less: "d div 60 < 60 \<longleftrightarrow> nat d < 3600" "d div 3600 < 24 \<longleftrightarrow> nat d < 86400"
    "d < 5 \<longleftrightarrow> nat d < 5" "d < 60 \<longleftrightarrow> nat d < 60"
    using assms(1) by linarith+
  have texts: "num_str (NInt d) = nat_str (nat d)" "num_str (NInt (d div 60)) = nat_str (nat d div 60)"
    "num_str (NInt (d div 3600)) = nat_str (nat d div 3600)"
    "num_str (NInt (d div 86400)) = nat_str (nat d div 86400)"
    using str [of 1] str [of 60] str [of 3600] str [of 86400] by (simp_all del: num_str.simps)
  show ?thesis
    unfolding diff m Let_def h y n_less_numeral less texts age_text_def ..
qed

text \<open>C24: The age shown for a time stamp counts whole seconds, minutes, hours or days, never rounding up
  to the next unit, although the code divides doubles; a time stamp in the future is "just now".\<close>

theorem formatTimeAgo_exact:
  assumes "0 \<le> now" "now < 2 ^ 53" "t \<noteq> 0" "\<bar>now div 1000 - t\<bar> < 2 ^ 53"
  shows "formatTimeAgo now (NInt t) = age_text (nat (now div 1000 - t))"
proof -
  have secs: "Math_floor (n_div (NInt now) (Fin 1000)) = NInt (now div 1000)"
    using assms by (intro floor_div_numeral) simp_all
  have "n_sub (NInt (now div 1000)) (NInt t) = NInt (now div 1000 - t)"
    using to_double_int [OF assms(4)] by (simp add: n_sub_def)
  then have diff: "Math_max (Fin 0) (n_sub (NInt (now div 1000)) (NInt t)) = NInt (max 0 (now div 1000 - t))"
    by (auto simp: Math_max_def max_def)
  have "n_truthy (NInt t)" using assms(3) by (simp add: n_truthy_def)
  moreover have "nat (max 0 (now div 1000 - t)) = nat (now div 1000 - t)" by simp
  ultimately show ?thesis
    using age_units [OF _ _ diff] assms(4) unfolding formatTimeAgo_def secs Let_def by simp
qed

theorem formatTimeAgo_exact_witness:
  "formatTimeAgo 1763200000999 (NInt 1763196401) = ''59m ago''"
  using formatTimeAgo_exact [of 1763200000999 1763196401] by (simp add: age_text_def radix_str.simps digit_of_def char_of_eq_iff)

end
