(* ===== verification/Explorer_Search_Ui.thy ===== *)
theory Explorer_Search_Ui
  imports Js_Value Js_Storage Explorer_Formatters State_Machine
begin

text \<open>
  The search palette and the search bar of the explorer
  (\<^verbatim>\<open>src/apps/explorer-ui/src/components/SearchModal.tsx\<close> and \<^verbatim>\<open>SearchBar.tsx\<close>), with the recent searches
  that the palette keeps in \<^verbatim>\<open>localStorage\<close>.  What is read back from the storage is any JSON value.
\<close>

definition recents_key :: string where
  "recents_key = ''sprx_recent_searches''"

section \<open>The palette\<close>

record SearchModal =
  sm_query :: string
  sm_recents :: jsval

definition search_modal_init :: SearchModal where
  "search_modal_init = \<lparr> sm_query = [], sm_recents = JArr [] \<rparr>"

text \<open>\<^verbatim>\<open>v.slice(0, 5)\<close>; anything but an array or a string has no such method.\<close>

definition slice5 :: "jsval \<Rightarrow> jsval res" where
  "slice5 v =
     (case v of
        JArr xs \<Rightarrow> Inr (JArr (take 5 xs))
      | JStr s \<Rightarrow> Inr (JStr (take 5 s))
      | _ \<Rightarrow> Inl (TypeError ''JSON.parse(...).slice is not a function''))"

text \<open>The effect that runs when the palette is mounted, opened or closed.\<close>

definition load_recents :: "storage \<Rightarrow> SearchModal \<Rightarrow> SearchModal" where
  "load_recents st m =
     (case getItem st recents_key of
        None \<Rightarrow> m
      | Some stored \<Rightarrow>
          if stored = [] then m
          else (case ebind (JSON_parse stored) slice5 of
                  Inr v \<Rightarrow> m \<lparr> sm_recents := v \<rparr>
                | Inl _ \<Rightarrow> m))"

definition updated_recents :: "string \<Rightarrow> jsval \<Rightarrow> jsval list res" where
  "updated_recents clean recents =
     (case recents of
        JArr xs \<Rightarrow> Inr (take 5 (JStr clean # filter (\<lambda>r. r \<noteq> JStr clean) xs))
      | _ \<Rightarrow> Inl (TypeError ''recents.filter is not a function''))"

text \<open>
  \<^verbatim>\<open>handleExecute\<close>: the new state and storage, and the query handed to the application, which closes
  the palette.  \<open>full\<close> says that the storage refuses to write.
\<close>

definition handleExecute :: "bool \<Rightarrow> string \<Rightarrow> SearchModal \<times> storage \<Rightarrow> (SearchModal \<times> storage) \<times> string option" where
  "handleExecute full targetQuery ms =
     (let (m, st) = ms; clean = trim targetQuery in
      if clean = [] then (ms, None)
      else (case updated_recents clean (sm_recents m) of
              Inr updated \<Rightarrow>
                if full then (ms, Some clean)
                else ((m \<lparr> sm_recents := JArr updated \<rparr>,
                       setItem recents_key (case stringify (JArr updated) of Some t \<Rightarrow> t | None \<Rightarrow> ''undefined'') st),
                      Some clean)
            | Inl _ \<Rightarrow> (ms, Some clean)))"

definition clear_recents :: "SearchModal \<times> storage \<Rightarrow> SearchModal \<times> storage" where
  "clear_recents ms = (let (m, st) = ms in (m \<lparr> sm_recents := JArr [] \<rparr>, removeItem recents_key st))"

definition recents_shown :: "SearchModal \<Rightarrow> jsval list" where
  "recents_shown m =
     (if trim (sm_query m) = [] then (case sm_recents m of JArr xs \<Rightarrow> xs | _ \<Rightarrow> []) else [])"

text \<open>The label and the text of the preview of a query.\<close>

definition preview :: "SearchModal \<Rightarrow> (string \<times> string) option" where
  "preview m =
     (if trim (sm_query m) = [] then None
      else let (ty, value) = parseSearchQuery (sm_query m)
           in Some (case ty of
                      Q_height \<Rightarrow> ''Search Block Height''
                    | Q_tx_hash \<Rightarrow> ''Search Transaction Hash''
                    | Q_address \<Rightarrow> ''Search Account Address''
                    | Q_validator \<Rightarrow> ''Search Validator Moniker''
                    | _ \<Rightarrow> ''Universal Search'', value))"

text \<open>
  The palette's keyboard listener: Escape and the shortcut close an open palette.  The shortcut is
  also the application's own; its listener toggles the palette first (see \<open>Explorer_App\<close>).
\<close>

datatype key_press = Shortcut_K | Escape | Other_key

definition modal_key_closes :: "bool \<Rightarrow> key_press \<Rightarrow> bool" where
  "modal_key_closes isOpen k = (isOpen \<and> (k = Shortcut_K \<or> k = Escape))"

section \<open>The search bar\<close>

record SearchBar =
  bar_query :: string
  bar_detectedType :: "string option"

definition search_bar_init :: SearchBar where
  "search_bar_init = \<lparr> bar_query = [], bar_detectedType = None \<rparr>"

definition detected_type :: "string \<Rightarrow> string option" where
  "detected_type query =
     (if trim query = [] then None
      else (case fst (parseSearchQuery query) of
              Q_height \<Rightarrow> Some ''Block Height''
            | Q_tx_hash \<Rightarrow> Some ''Tx Hash''
            | Q_address \<Rightarrow> Some ''Address''
            | Q_validator \<Rightarrow> Some ''Validator''
            | _ \<Rightarrow> None))"

definition bar_setQuery :: "string \<Rightarrow> SearchBar \<Rightarrow> SearchBar" where
  "bar_setQuery q b = b \<lparr> bar_query := q, bar_detectedType := detected_type q \<rparr>"

definition bar_submit :: "SearchBar \<Rightarrow> string option" where
  "bar_submit b = (if trim (bar_query b) \<noteq> [] then Some (trim (bar_query b)) else None)"

section \<open>Recent searches\<close>

datatype PaletteEvent =
    Type_query string
  | Enter_key bool
  | Execute bool string
  | Clear_recents
  | Toggle_open
  | Reload

fun palette_offers :: "PaletteEvent \<Rightarrow> SearchModal \<times> storage \<Rightarrow> bool" where
  "palette_offers (Enter_key _) (m, st) = (trim (sm_query m) \<noteq> [])"
| "palette_offers Clear_recents (m, st) = (recents_shown m \<noteq> [])"
| "palette_offers _ _ = True"

fun palette_handle :: "PaletteEvent \<Rightarrow> SearchModal \<times> storage \<Rightarrow> SearchModal \<times> storage" where
  "palette_handle (Type_query q) (m, st) = (m \<lparr> sm_query := q \<rparr>, st)"
| "palette_handle (Enter_key full) (m, st) = fst (handleExecute full (sm_query m) (m, st))"
| "palette_handle (Execute full q) ms = fst (handleExecute full q ms)"
| "palette_handle Clear_recents ms = clear_recents ms"
| "palette_handle Toggle_open (m, st) = (load_recents st m, st)"
| "palette_handle Reload (m, st) = (load_recents st search_modal_init, st)"

definition recent_list :: "string list \<Rightarrow> bool" where
  "recent_list rs \<longleftrightarrow> length rs \<le> 5 \<and> distinct rs \<and> list_all (\<lambda>r. r \<noteq> [] \<and> trim r = r) rs"

definition stored_recents :: "string list \<Rightarrow> string option" where
  "stored_recents rs = (if rs = [] then None else stringify (JArr (map JStr rs)))"

definition palette_inv :: "SearchModal \<times> storage \<Rightarrow> bool" where
  "palette_inv ms \<longleftrightarrow>
     (\<exists>rs. sm_recents (fst ms) = JArr (map JStr rs) \<and> recent_list rs \<and> snd ms recents_key = stored_recents rs)"

lemma plain_strings: "plain (JArr (map JStr rs))"
  by (induction rs) simp_all

lemma stored_text: "\<exists>c u. stringify (JArr (map JStr rs)) = Some (c # u)"
  using plain_text [OF plain_strings] by blast

lemma load_stored:
  assumes "st recents_key = stored_recents rs" "recent_list rs" "rs = [] \<Longrightarrow> sm_recents m = JArr []"
  shows "sm_recents (load_recents st m) = JArr (map JStr rs)"
proof (cases "rs = []")
  case False
  obtain c u where t: "stringify (JArr (map JStr rs)) = Some (c # u)" using stored_text by blast
  have "JSON_parse (c # u) = Inr (JArr (map JStr rs))"
    using JSON_parse_stringify [OF plain_strings t] .
  with False t assms show ?thesis
    by (simp add: load_recents_def getItem_def stored_recents_def slice5_def recent_list_def)
qed (use assms in \<open>simp add: load_recents_def getItem_def stored_recents_def\<close>)

lemma updated_list:
  assumes "recent_list rs" "clean \<noteq> []" "trim clean = clean"
  shows "\<exists>rs'. updated_recents clean (JArr (map JStr rs)) = Inr (map JStr rs') \<and> recent_list rs' \<and> hd rs' = clean \<and> rs' \<noteq> []"
proof -
  define rs' where "rs' = take 5 (clean # filter (\<lambda>r. r \<noteq> clean) rs)"
  have "filter (\<lambda>r. r \<noteq> JStr clean) (map JStr rs) = map JStr (filter (\<lambda>r. r \<noteq> clean) rs)"
    by (simp add: filter_map comp_def)
  then have "updated_recents clean (JArr (map JStr rs)) = Inr (map JStr rs')"
    by (simp add: updated_recents_def rs'_def take_map)
  moreover have "recent_list rs'"
  proof -
    have "set rs' \<subseteq> insert clean (set rs)"
      unfolding rs'_def using set_take_subset [of 5 "clean # filter (\<lambda>r. r \<noteq> clean) rs"] by auto
    moreover have "distinct rs'" unfolding rs'_def
      using assms(1) by (intro distinct_take) (simp add: recent_list_def)
    moreover have "length rs' \<le> 5" by (simp add: rs'_def)
    ultimately show ?thesis using assms by (auto simp: recent_list_def list_all_iff)
  qed
  moreover have "hd rs' = clean" "rs' \<noteq> []" by (simp_all add: rs'_def)
  ultimately show ?thesis by blast
qed

lemma execute_inv:
  assumes "palette_inv ms"
  shows "palette_inv (fst (handleExecute full q ms))"
proof -
  obtain m st where ms: "ms = (m, st)" by force
  obtain rs where rs: "sm_recents m = JArr (map JStr rs)" "recent_list rs" "st recents_key = stored_recents rs"
    using assms by (auto simp: palette_inv_def ms)
  show ?thesis
  proof (cases "trim q = [] \<or> full")
    case True
    then show ?thesis using assms by (auto simp: handleExecute_def ms Let_def split: sum.split)
  next
    case False
    obtain rs' where rs': "updated_recents (trim q) (JArr (map JStr rs)) = Inr (map JStr rs')" "recent_list rs'" "rs' \<noteq> []"
      using updated_list [OF rs(2), of "trim q"] False by auto
    obtain c u where "stringify (JArr (map JStr rs')) = Some (c # u)" using stored_text by blast
    with False rs(1) rs' show ?thesis
      by (auto simp: handleExecute_def ms Let_def palette_inv_def setItem_def stored_recents_def intro!: exI [of _ rs'])
  qed
qed

lemma palette_step: "palette_inv ms \<Longrightarrow> palette_offers e ms \<Longrightarrow> palette_inv (palette_handle e ms)"
proof (induction e ms rule: palette_handle.induct)
  case (4 ms)
  show ?case
    by (cases ms) (auto simp: palette_inv_def clear_recents_def removeItem_def stored_recents_def recent_list_def)
next
  case (5 m st)
  then show ?case by (auto simp: palette_inv_def load_stored)
next
  case (6 m st)
  then show ?case by (auto simp: palette_inv_def load_stored search_modal_init_def)
qed (auto simp: execute_inv, simp add: palette_inv_def)

interpretation pal: invariant_system "(search_modal_init, \<lambda>_. None)" palette_offers palette_handle palette_inv
proof
  show "palette_inv (search_modal_init, \<lambda>_. None)"
    by (auto simp: palette_inv_def search_modal_init_def recent_list_def stored_recents_def intro: exI [of _ "[]"])
qed (rule palette_step)

text \<open>C27: However the search palette is used, reopened or reloaded, its recent searches are at most five
  different, trimmed, non-empty queries, and the storage holds exactly their JSON text, which
  parses back to them; running a query puts it in front.\<close>

theorem recent_searches:
  assumes "reach (search_modal_init, \<lambda>_. None) palette_offers palette_handle (m, st)"
  shows "\<exists>rs. sm_recents m = JArr (map JStr rs) \<and> recent_list rs \<and> st recents_key = stored_recents rs \<and>
              (rs \<noteq> [] \<longrightarrow> JSON_parse (the (st recents_key)) = Inr (sm_recents m)) \<and>
              (\<forall>q. trim q \<noteq> [] \<longrightarrow>
                 (\<exists>rs'. sm_recents (fst (fst (handleExecute False q (m, st)))) = JArr (map JStr rs') \<and>
                        hd rs' = trim q \<and> snd (handleExecute False q (m, st)) = Some (trim q)))"
proof -
  obtain rs where rs: "sm_recents m = JArr (map JStr rs)" "recent_list rs" "st recents_key = stored_recents rs"
    using pal.reach_inv [OF assms] by (auto simp: palette_inv_def)
  have parse: "rs \<noteq> [] \<longrightarrow> JSON_parse (the (st recents_key)) = Inr (sm_recents m)"
  proof
    assume "rs \<noteq> []"
    moreover obtain c u where t: "stringify (JArr (map JStr rs)) = Some (c # u)" using stored_text by blast
    ultimately show "JSON_parse (the (st recents_key)) = Inr (sm_recents m)"
      using JSON_parse_stringify [OF plain_strings t] rs by (simp add: stored_recents_def)
  qed
  have front: "\<exists>rs'. sm_recents (fst (fst (handleExecute False q (m, st)))) = JArr (map JStr rs') \<and>
      hd rs' = trim q \<and> snd (handleExecute False q (m, st)) = Some (trim q)" if "trim q \<noteq> []" for q
    using updated_list [OF rs(2) that] that rs(1) by (auto simp: handleExecute_def Let_def)
  from rs parse front show ?thesis by blast
qed

theorem recent_searches_witness:
  "\<exists>rs. sm_recents (fst (palette_handle (Execute False '' 42 '') (search_modal_init, \<lambda>_. None))) = JArr (map JStr rs)
     \<and> recent_list rs"
proof -
  let ?s = "palette_handle (Execute False '' 42 '') (search_modal_init, \<lambda>_. None)"
  have "reach (search_modal_init, \<lambda>_. None) palette_offers palette_handle ?s"
    by (rule reach.step [OF reach.init]) simp
  then show ?thesis
    using recent_searches [of "fst ?s" "snd ?s"] by auto
qed

end
