(* ===== verification/Explorer_App.thy ===== *)
theory Explorer_App
  imports Js_List Explorer_Api Explorer_Nav Explorer_Search_Ui
begin

text \<open>
  \<^verbatim>\<open>src/apps/explorer-ui/src/App.tsx\<close> with the wallet dialog
  (\<^verbatim>\<open>src/apps/explorer-ui/src/components/ConnectWalletModal.tsx\<close>): the application's state, its handlers
  and their composition with the header, the search palette and the service.  An asynchronous
  handler is one step, taken when its requests have been answered; the network and the host at
  that time are arguments.  An exception that a handler does not catch leaves the updates made
  before it.  Page numbers are integers, as the pagination control produces them.
\<close>

section \<open>Values of responses\<close>

text \<open>\<^verbatim>\<open>a === b\<close>; two objects of different origin are never identical.\<close>

fun strict_eq :: "jsval \<Rightarrow> jsval \<Rightarrow> bool" where
  "strict_eq (JNum a) (JNum b) = n_eq a b"
| "strict_eq (JArr _) _ = False"
| "strict_eq (JObj _) _ = False"
| "strict_eq a b = (a = b)"

definition elements :: "jsval \<Rightarrow> jsval list res" where
  "elements v = (case v of JArr xs \<Rightarrow> Inr xs | _ \<Rightarrow> Inl (TypeError ''not an array''))"

definition lower_of :: "jsval \<Rightarrow> string res" where
  "lower_of v = (case v of JStr s \<Rightarrow> Inr (toLowerCase s) | _ \<Rightarrow> Inl (TypeError ''toLowerCase is not a function''))"

section \<open>State\<close>

record ConnectWallet =
  cw_connectingId :: "string option"
  cw_connectedAddress :: "string option"
  cw_timers :: "string list"

record ExApp =
  ea_theme :: string
  ea_currency :: string
  ea_network :: string
  ea_route :: string
  ea_searchOpen :: bool
  ea_getStartedOpen :: bool
  ea_walletOpen :: bool
  ea_connectedWallet :: "string option"
  ea_stats :: jsval
  ea_blocks :: jsval
  ea_transactions :: jsval
  ea_validators :: jsval
  ea_contracts :: jsval
  ea_currentBlock :: jsval
  ea_currentBlockTxs :: jsval
  ea_currentTx :: jsval
  ea_currentAccount :: jsval
  ea_currentAccountTxs :: jsval
  ea_currentValidator :: jsval
  ea_currentContract :: jsval
  ea_blocksPage :: int
  ea_txsPage :: int
  ea_dark :: bool
  ea_light :: bool
  ea_service :: ExplorerApiService
  ea_storage :: storage
  ea_header :: AppHeader
  ea_palette :: SearchModal
  ea_wallet :: ConnectWallet

definition pageSize :: int where
  "pageSize = 15"

text \<open>\<^verbatim>\<open>localStorage.getItem(k) || d\<close>.\<close>

definition pref :: "storage \<Rightarrow> string \<Rightarrow> string \<Rightarrow> string" where
  "pref st k d = (case getItem st k of Some v \<Rightarrow> (if v = [] then d else v) | None \<Rightarrow> d)"

definition stored_wallet :: "storage \<Rightarrow> string option" where
  "stored_wallet st = (case getItem st ''sprx_connected_wallet'' of Some v \<Rightarrow> (if v = [] then None else Some v) | None \<Rightarrow> None)"

definition sync_theme :: "bool \<Rightarrow> ExApp \<Rightarrow> ExApp" where
  "sync_theme prefersDark a =
     (let a = a \<lparr> ea_storage := setItem ''sprx_theme'' (ea_theme a) (ea_storage a) \<rparr> in
      if ea_theme a = ''dark'' then a \<lparr> ea_dark := True, ea_light := False \<rparr>
      else if ea_theme a = ''light'' then a \<lparr> ea_dark := False, ea_light := True \<rparr>
      else a \<lparr> ea_dark := prefersDark, ea_light := \<not> prefersDark \<rparr>)"

text \<open>The state after the first render and its effects, without an answer yet.\<close>

definition ex_mount :: "storage \<Rightarrow> string \<Rightarrow> ExApp" where
  "ex_mount st pathname =
     \<lparr> ea_theme = pref st ''sprx_theme'' ''dark'', ea_currency = pref st ''sprx_currency'' ''USD'',
       ea_network = pref st ''sprx_network'' ''mainnet'',
       ea_route = (if pathname = [] then ''/'' else pathname),
       ea_searchOpen = False, ea_getStartedOpen = False, ea_walletOpen = False,
       ea_connectedWallet = stored_wallet st,
       ea_stats = JNull, ea_blocks = JArr [], ea_transactions = JArr [], ea_validators = JArr [], ea_contracts = JArr [],
       ea_currentBlock = JNull, ea_currentBlockTxs = JArr [], ea_currentTx = JNull, ea_currentAccount = JNull,
       ea_currentAccountTxs = JArr [], ea_currentValidator = JNull, ea_currentContract = JNull,
       ea_blocksPage = 1, ea_txsPage = 1, ea_dark = False, ea_light = False,
       ea_service = new_ExplorerApiService, ea_storage = st, ea_header = header_init,
       ea_palette = load_recents st search_modal_init,
       ea_wallet = \<lparr> cw_connectingId = None, cw_connectedAddress = stored_wallet st, cw_timers = [] \<rparr> \<rparr>"

definition ex_init :: "storage \<Rightarrow> string \<Rightarrow> bool \<Rightarrow> ExApp" where
  "ex_init st pathname prefersDark = sync_theme prefersDark (ex_mount st pathname)"

section \<open>Preferences and navigation\<close>

definition handleCurrencyChange :: "string \<Rightarrow> ExApp \<Rightarrow> ExApp" where
  "handleCurrencyChange c a =
     a \<lparr> ea_currency := c, ea_storage := setItem ''sprx_currency'' c (ea_storage a) \<rparr>"

text \<open>The reload that follows is a step of its own.\<close>

definition handleNetworkChange :: "string \<Rightarrow> ExApp \<Rightarrow> ExApp" where
  "handleNetworkChange n a =
     a \<lparr> ea_network := n, ea_service := setNetwork_ex n (ea_service a),
         ea_storage := setItem ''sprx_network'' n (ea_storage a) \<rparr>"

definition toggleTheme :: "bool \<Rightarrow> ExApp \<Rightarrow> ExApp" where
  "toggleTheme prefersDark a =
     sync_theme prefersDark (a \<lparr> ea_theme := (if ea_theme a = ''dark'' then ''light'' else ''dark'') \<rparr>)"

definition navigateTo :: "string \<Rightarrow> ExApp \<Rightarrow> ExApp" where
  "navigateTo route a = a \<lparr> ea_route := route \<rparr>"

section \<open>Loading\<close>

text \<open>
  The requests of one load run concurrently, and only the statistics and the blocks touch the
  service's flag: the one that finishes last decides it.
\<close>

definition settle :: "bool \<Rightarrow> ExplorerApiService \<Rightarrow> ExplorerApiService \<Rightarrow> ExplorerApiService" where
  "settle stats_last s_stats s_blocks = (if stats_last then s_stats else s_blocks)"

definition loadAllData :: "fetch_fn \<Rightarrow> host \<Rightarrow> bool \<Rightarrow> ExApp \<Rightarrow> ExApp" where
  "loadAllData fetch h stats_last a =
     (let s = ea_service a;
          (st, s_stats) = getStats fetch s;
          (blkRes, s_blocks) = getBlocks fetch h pageSize ((ea_blocksPage a - 1) * pageSize) s;
          (txRes, _) = getTransactions fetch h pageSize ((ea_txsPage a - 1) * pageSize) s;
          (valList, _) = getValidators fetch s;
          (ctList, _) = getContracts s;
          a = a \<lparr> ea_service := settle stats_last s_stats s_blocks \<rparr>
      in case (st, blkRes, txRes, valList, ctList) of
           (Inr st, Inr blk, Inr tx, Inr vals, Inr cts) \<Rightarrow>
             a \<lparr> ea_stats := st, ea_blocks := own blk ''items'', ea_transactions := own tx ''items'',
                 ea_validators := vals, ea_contracts := cts \<rparr>
         | _ \<Rightarrow> a)"

definition poll :: "fetch_fn \<Rightarrow> host \<Rightarrow> bool \<Rightarrow> ExApp \<Rightarrow> ExApp" where
  "poll fetch h stats_last a =
     (let s = ea_service a;
          (st, s_stats) = getStats fetch s;
          (blkRes, s_blocks) = getBlocks fetch h pageSize 0 s;
          (txRes, _) = getTransactions fetch h pageSize 0 s;
          a = a \<lparr> ea_service := settle stats_last s_stats s_blocks \<rparr>
      in case (st, blkRes, txRes) of
           (Inr st, Inr blk, Inr tx) \<Rightarrow>
             a \<lparr> ea_stats := st, ea_blocks := own blk ''items'', ea_transactions := own tx ''items'' \<rparr>
         | _ \<Rightarrow> a)"

section \<open>Selections\<close>

text \<open>The transactions shown with a block: those of its height, or the first three of the list.\<close>

definition block_txs :: "jsval \<Rightarrow> jsval res \<Rightarrow> jsval res" where
  "block_txs transactions height =
     ebind (elements transactions) (\<lambda>xs.
     ebind (filter_res (\<lambda>t. ebind (get t ''block_height'') (\<lambda>bh. ebind height (\<lambda>ht. Inr (strict_eq bh ht)))) xs) (\<lambda>txs.
     Inr (JArr (if txs \<noteq> [] then txs else slice xs 0 3))))"

definition show_block :: "jsval \<Rightarrow> ExApp \<Rightarrow> ExApp" where
  "show_block block a =
     (let a = a \<lparr> ea_currentBlock := block \<rparr> in
      case block_txs (ea_transactions a) (get block ''height'') of
        Inl _ \<Rightarrow> a
      | Inr txs \<Rightarrow>
          let a = a \<lparr> ea_currentBlockTxs := txs \<rparr> in
          (case get block ''height'' of
             Inr ht \<Rightarrow> navigateTo (''/block/'' @ to_str ht) a
           | Inl _ \<Rightarrow> a))"

definition handleSelectBlock :: "fetch_fn \<Rightarrow> host \<Rightarrow> jsval \<Rightarrow> ExApp \<Rightarrow> ExApp" where
  "handleSelectBlock fetch h heightOrHash a =
     (let (r, s) = getBlock fetch h heightOrHash (ea_service a);
          a = a \<lparr> ea_service := s \<rparr>
      in case r of
           Inl _ \<Rightarrow> a
         | Inr block \<Rightarrow> if truthy block then show_block block a else navigateTo ''/404'' a)"

definition handleSelectTx :: "fetch_fn \<Rightarrow> host \<Rightarrow> string \<Rightarrow> ExApp \<Rightarrow> ExApp" where
  "handleSelectTx fetch h hash a =
     (let (r, s) = getTransaction fetch h hash (ea_service a);
          a = a \<lparr> ea_service := s \<rparr>
      in case r of
           Inl _ \<Rightarrow> a
         | Inr tx \<Rightarrow>
             if truthy tx
             then navigateTo (''/tx/'' @ to_str (own tx ''tx_hash'')) (a \<lparr> ea_currentTx := tx \<rparr>)
             else navigateTo ''/404'' a)"

definition handleSelectAddress :: "fetch_fn \<Rightarrow> host \<Rightarrow> string \<Rightarrow> ExApp \<Rightarrow> ExApp" where
  "handleSelectAddress fetch h address a =
     (let (r, s) = getAddress fetch h address (ea_service a);
          (rt, _) = getAddressTransactions fetch h address 20 0 (ea_service a);
          a = a \<lparr> ea_service := s \<rparr>
      in case (r, rt) of
           (Inr acc, Inr accTxs) \<Rightarrow>
             if truthy acc
             then navigateTo (''/address/'' @ to_str (own acc ''address''))
                    (a \<lparr> ea_currentAccount := acc, ea_currentAccountTxs := own accTxs ''items'' \<rparr>)
             else navigateTo ''/404'' a
         | _ \<Rightarrow> a)"

definition handleSelectValidator :: "string \<Rightarrow> ExApp \<Rightarrow> ExApp" where
  "handleSelectValidator operatorAddress a =
     (case ebind (elements (ea_validators a)) (find_res (\<lambda>v.
             ebind (get v ''operator_address'') (\<lambda>o'. ebind (lower_of o') (\<lambda>l. Inr (l = toLowerCase operatorAddress))))) of
        Inl _ \<Rightarrow> a
      | Inr (Some val) \<Rightarrow>
          navigateTo (''/validator/'' @ to_str (own val ''operator_address'')) (a \<lparr> ea_currentValidator := val \<rparr>)
      | Inr None \<Rightarrow> navigateTo ''/404'' a)"

definition handleSelectContract :: "string \<Rightarrow> ExApp \<Rightarrow> ExApp" where
  "handleSelectContract contractAddress a =
     (case getContract contractAddress of
        Some ct \<Rightarrow> navigateTo (''/contract/'' @ ct_address ct) (a \<lparr> ea_currentContract := contract_val ct \<rparr>)
      | None \<Rightarrow> navigateTo ''/404'' a)"

text \<open>The branches of the universal search, by the type of the result.\<close>

definition show_address :: "fetch_fn \<Rightarrow> host \<Rightarrow> jsval \<Rightarrow> ExApp \<Rightarrow> ExApp" where
  "show_address fetch h data a =
     (let a = a \<lparr> ea_currentAccount := data \<rparr> in
      case get data ''address'' of
        Inr (JStr addr) \<Rightarrow>
          (case getAddressTransactions fetch h addr 20 0 (ea_service a) of
             (Inr accTxs, _) \<Rightarrow>
               navigateTo (''/address/'' @ addr) (a \<lparr> ea_currentAccountTxs := own accTxs ''items'' \<rparr>)
           | _ \<Rightarrow> a)
      | _ \<Rightarrow> a)"

definition show_record :: "string \<Rightarrow> string \<Rightarrow> (jsval \<Rightarrow> ExApp \<Rightarrow> ExApp) \<Rightarrow> jsval \<Rightarrow> ExApp \<Rightarrow> ExApp" where
  "show_record base key set_record data a =
     (let a = set_record data a in
      case get data key of
        Inr v \<Rightarrow> navigateTo (base @ to_str v) a
      | Inl _ \<Rightarrow> a)"

definition handleUniversalSearch :: "fetch_fn \<Rightarrow> host \<Rightarrow> string \<Rightarrow> ExApp \<Rightarrow> ExApp" where
  "handleUniversalSearch fetch h query a =
     (let (r, s) = search fetch h query (ea_service a);
          a = a \<lparr> ea_service := s \<rparr>
      in case r of
           Inl _ \<Rightarrow> a
         | Inr result \<Rightarrow>
             if \<not> truthy result then navigateTo ''/404'' a
             else let ty = own result ''type''; data = own result ''data'' in
                  if ty = JStr ''Block'' then show_block data a
                  else if ty = JStr ''Transaction''
                       then show_record ''/tx/'' ''tx_hash'' (\<lambda>d a. a \<lparr> ea_currentTx := d \<rparr>) data a
                  else if ty = JStr ''Address'' then show_address fetch h data a
                  else if ty = JStr ''Validator''
                       then show_record ''/validator/'' ''operator_address'' (\<lambda>d a. a \<lparr> ea_currentValidator := d \<rparr>) data a
                  else if ty = JStr ''Contract''
                       then show_record ''/contract/'' ''address'' (\<lambda>d a. a \<lparr> ea_currentContract := d \<rparr>) data a
                  else a)"

section \<open>The wallet dialog\<close>

record wallet_option =
  wo_id :: string
  wo_name :: string
  wo_description :: string
  wo_badge :: string
  wo_sampleAddress :: string

definition walletOptions :: "wallet_option list" where
  "walletOptions =
     [\<lparr> wo_id = ''sprx-web'', wo_name = ''SPRX Web Wallet'',
        wo_description = ''Fast in-browser non-custodial HD wallet powered by @sprax/wallet-core'', wo_badge = ''Official'',
        wo_sampleAddress = ''sprax1sdtpz05x2r7d70u428v2ff3rtyj49z65a380gr'' \<rparr>,
      \<lparr> wo_id = ''sprx-mobile'', wo_name = ''SPRX Mobile Wallet'',
        wo_description = ''Scan QR code with iOS / Android mobile wallet app'', wo_badge = ''Mobile'',
        wo_sampleAddress = ''sprax1q8x9y7w6e5r4t3y2u1i0o9p8a7s6d5f4g3h2j1'' \<rparr>,
      \<lparr> wo_id = ''cosmos-ext'', wo_name = ''Keplr / Cosmos Extension'',
        wo_description = ''Connect using compatible CometBFT / Cosmos browser extension'', wo_badge = ''Extension'',
        wo_sampleAddress = ''sprax1a2s3d4f5g6h7j8k9l0z1x2c3v4b5n6m7q8w9e0'' \<rparr>,
      \<lparr> wo_id = ''hardware'', wo_name = ''Hardware Security Key'',
        wo_description = ''Direct Ledger / Trezor USB connection via WebHID'', wo_badge = ''Cold Storage'',
        wo_sampleAddress = ''sprax1z9y8x7w6v5u4t3s2r1q0p9o8n7m6l5k4j3h2g1'' \<rparr>]"

definition handleConnect :: "string \<Rightarrow> string \<Rightarrow> ExApp \<Rightarrow> ExApp" where
  "handleConnect optionId address a =
     a \<lparr> ea_wallet := (ea_wallet a) \<lparr> cw_connectingId := Some optionId, cw_timers := cw_timers (ea_wallet a) @ [address] \<rparr> \<rparr>"

text \<open>The oldest timer fires: the dialog and the application take the address, and the dialog closes.\<close>

definition connect_timeout :: "ExApp \<Rightarrow> ExApp" where
  "connect_timeout a =
     (case cw_timers (ea_wallet a) of
        [] \<Rightarrow> a
      | address # rest \<Rightarrow>
          a \<lparr> ea_wallet := \<lparr> cw_connectingId = None, cw_connectedAddress = Some address, cw_timers = rest \<rparr>,
              ea_storage := setItem ''sprx_connected_wallet'' address (ea_storage a),
              ea_connectedWallet := Some address, ea_walletOpen := False \<rparr>)"

definition handleDisconnect :: "ExApp \<Rightarrow> ExApp" where
  "handleDisconnect a =
     a \<lparr> ea_wallet := (ea_wallet a) \<lparr> cw_connectedAddress := None \<rparr>,
         ea_storage := removeItem ''sprx_connected_wallet'' (ea_storage a) \<rparr>"

text \<open>The header's button: the address when a wallet is connected, else the start dialog.\<close>

definition header_wallet_text :: "ExApp \<Rightarrow> string" where
  "header_wallet_text a =
     (case ea_connectedWallet a of
        Some w \<Rightarrow> (if w = [] then ''Get Started'' else slice w 0 7 @ ''...'' @ slice_from w (- 4))
      | None \<Rightarrow> ''Get Started'')"

section \<open>Events\<close>

datatype HeaderEvent = Mouse_enter string | Mouse_leave | Dropdown_timeout | Toggle_mobile

fun header_handle :: "HeaderEvent \<Rightarrow> AppHeader \<Rightarrow> AppHeader" where
  "header_handle (Mouse_enter k) h = handleMouseEnter k h"
| "header_handle Mouse_leave h = handleMouseLeave h"
| "header_handle Dropdown_timeout h = dropdown_timeout h"
| "header_handle Toggle_mobile h = toggle_mobile h"

datatype nav_source = From_header | From_dialog | From_page

datatype ExEvent =
    Load fetch_fn host bool
  | Poll fetch_fn host bool
  | Nav nav_source string
  | Header HeaderEvent
  | Toggle_theme bool
  | Set_currency Currency
  | Set_network Network
  | Blocks_page int
  | Txs_page int
  | Select_block fetch_fn host jsval
  | Select_tx fetch_fn host string
  | Select_address fetch_fn host string
  | Select_validator string
  | Select_contract string
  | Search_bar fetch_fn host string
  | Palette fetch_fn host PaletteEvent
  | Key key_press
  | Open_search
  | Open_getStarted bool
  | Open_wallet bool
  | Connect_wallet wallet_option
  | Connect_timeout
  | Disconnect_wallet

definition app_loaded :: "ExApp \<Rightarrow> loaded" where
  "app_loaded a =
     \<lparr> ld_stats = truthy (ea_stats a), ld_block = truthy (ea_currentBlock a), ld_tx = truthy (ea_currentTx a),
       ld_account = truthy (ea_currentAccount a), ld_validator = truthy (ea_currentValidator a),
       ld_contract = truthy (ea_currentContract a) \<rparr>"

definition app_pages :: "ExApp \<Rightarrow> ExPage list" where
  "app_pages a = rendered (app_loaded a) (ea_route a)"

text \<open>The query a palette event runs, if any.\<close>

fun palette_query :: "PaletteEvent \<Rightarrow> SearchModal \<times> storage \<Rightarrow> string option" where
  "palette_query (Enter_key full) ms = snd (handleExecute full (sm_query (fst ms)) ms)"
| "palette_query (Execute full q) ms = snd (handleExecute full q ms)"
| "palette_query _ _ = None"

definition set_palette :: "SearchModal \<times> storage \<Rightarrow> ExApp \<Rightarrow> ExApp" where
  "set_palette ms a = a \<lparr> ea_palette := fst ms, ea_storage := snd ms \<rparr>"

definition open_search :: "bool \<Rightarrow> ExApp \<Rightarrow> ExApp" where
  "open_search b a =
     (if ea_searchOpen a = b then a
      else a \<lparr> ea_searchOpen := b, ea_palette := load_recents (ea_storage a) (ea_palette a) \<rparr>)"

definition palette_event :: "fetch_fn \<Rightarrow> host \<Rightarrow> PaletteEvent \<Rightarrow> ExApp \<Rightarrow> ExApp" where
  "palette_event fetch h e a =
     (let ms = (ea_palette a, ea_storage a);
          a = set_palette (palette_handle e ms) a
      in case palette_query e ms of
           Some q \<Rightarrow> handleUniversalSearch fetch h q (open_search False a)
         | None \<Rightarrow> a)"

text \<open>
  The application's listener toggles the palette on the shortcut; the palette's listener, installed
  again on every render and hence called second, closes it if it was open.
\<close>

definition key_event :: "key_press \<Rightarrow> ExApp \<Rightarrow> ExApp" where
  "key_event k a =
     (let was_open = ea_searchOpen a;
          now_open = (if k = Shortcut_K then \<not> was_open else was_open)
      in open_search (now_open \<and> \<not> modal_key_closes was_open k) a)"

fun ex_offers :: "ExEvent \<Rightarrow> ExApp \<Rightarrow> bool" where
  "ex_offers (Nav src r) a =
     (r \<in> set (offered_routes (ea_header a) (ea_getStartedOpen a) (app_loaded a) (ea_route a)))"
| "ex_offers (Palette _ _ e) a = (ea_searchOpen a \<and> e \<noteq> Toggle_open \<and> e \<noteq> Reload \<and> palette_offers e (ea_palette a, ea_storage a))"
| "ex_offers (Connect_wallet opt) a = (ea_walletOpen a \<and> opt \<in> set walletOptions)"
| "ex_offers Disconnect_wallet a = (ea_walletOpen a \<and> cw_connectedAddress (ea_wallet a) \<noteq> None)"
| "ex_offers Connect_timeout a = (cw_timers (ea_wallet a) \<noteq> [])"
| "ex_offers _ _ = True"

fun ex_handle :: "ExEvent \<Rightarrow> ExApp \<Rightarrow> ExApp" where
  "ex_handle (Load fetch h l) a = loadAllData fetch h l a"
| "ex_handle (Poll fetch h l) a = poll fetch h l a"
| "ex_handle (Nav src r) a =
     navigateTo r
       (case src of
          From_header \<Rightarrow> a \<lparr> ea_header := header_handleNav (ea_header a) \<rparr>
        | From_dialog \<Rightarrow> a \<lparr> ea_getStartedOpen := False \<rparr>
        | From_page \<Rightarrow> a)"
| "ex_handle (Header e) a = a \<lparr> ea_header := header_handle e (ea_header a) \<rparr>"
| "ex_handle (Toggle_theme d) a = toggleTheme d a"
| "ex_handle (Set_currency c) a = handleCurrencyChange (Currency_text c) a"
| "ex_handle (Set_network n) a = handleNetworkChange (Network_text n) a"
| "ex_handle (Blocks_page p) a = a \<lparr> ea_blocksPage := p \<rparr>"
| "ex_handle (Txs_page p) a = a \<lparr> ea_txsPage := p \<rparr>"
| "ex_handle (Select_block fetch h v) a = handleSelectBlock fetch h v a"
| "ex_handle (Select_tx fetch h t) a = handleSelectTx fetch h t a"
| "ex_handle (Select_address fetch h t) a = handleSelectAddress fetch h t a"
| "ex_handle (Select_validator t) a = handleSelectValidator t a"
| "ex_handle (Select_contract t) a = handleSelectContract t a"
| "ex_handle (Search_bar fetch h q) a = (if trim q = [] then a else handleUniversalSearch fetch h (trim q) a)"
| "ex_handle (Palette fetch h e) a = palette_event fetch h e a"
| "ex_handle (Key k) a = key_event k a"
| "ex_handle Open_search a = open_search True a"
| "ex_handle (Open_getStarted b) a = a \<lparr> ea_getStartedOpen := b \<rparr>"
| "ex_handle (Open_wallet b) a = a \<lparr> ea_walletOpen := b \<rparr>"
| "ex_handle (Connect_wallet opt) a = handleConnect (wo_id opt) (wo_sampleAddress opt) a"
| "ex_handle Connect_timeout a = connect_timeout a"
| "ex_handle Disconnect_wallet a = handleDisconnect a"

end
