(* ===== verification/Explorer_App_Inv.thy ===== *)
theory Explorer_App_Inv
  imports Explorer_App
begin

text \<open>
  Invariants of the explorer application over all sequences of events: the detail page on the screen
  names its record, and the preferences survive a reload; and the three places where the
  application departs from what it shows.
\<close>

section \<open>The page names its record\<close>

text \<open>
  What the backend's interface promises of its answers: a page is a list of objects, and a found
  address comes with its text.
\<close>

definition is_obj :: "jsval \<Rightarrow> bool" where
  "is_obj v = (case v of JObj _ \<Rightarrow> True | _ \<Rightarrow> False)"

definition obj_list :: "jsval \<Rightarrow> bool" where
  "obj_list v = (case v of JArr xs \<Rightarrow> list_all is_obj xs | _ \<Rightarrow> False)"

definition has_address :: "jsval \<Rightarrow> bool" where
  "has_address v = (case own v ''address'' of JStr _ \<Rightarrow> True | _ \<Rightarrow> False)"

definition wf_network :: "fetch_fn \<Rightarrow> bool" where
  "wf_network fetch \<longleftrightarrow>
     (\<forall>s e. has_items (fetchJson fetch s e) \<longrightarrow> obj_list (own (fetchJson fetch s e) ''items'')) \<and>
     (\<forall>s q. own (fetchJson fetch s (''/search?q='' @ q)) ''type'' = JStr ''Address'' \<longrightarrow>
             has_address (own (fetchJson fetch s (''/search?q='' @ q)) ''data'')) \<and>
     (\<forall>s a. truthy (fetchJson fetch s (''/blockchain/accounts/'' @ a)) \<longrightarrow>
             has_address (fetchJson fetch s (''/blockchain/accounts/'' @ a)))"

lemma silent_wf: "silent fetch \<Longrightarrow> wf_network fetch"
  by (simp add: wf_network_def silent_simps)

fun ex_wf :: "ExEvent \<Rightarrow> bool" where
  "ex_wf (Load fetch _ _) = wf_network fetch"
| "ex_wf (Poll fetch _ _) = wf_network fetch"
| "ex_wf (Select_block fetch _ _) = wf_network fetch"
| "ex_wf (Select_tx fetch _ _) = wf_network fetch"
| "ex_wf (Select_address fetch _ _) = wf_network fetch"
| "ex_wf (Search_bar fetch _ _) = wf_network fetch"
| "ex_wf (Palette fetch _ _) = wf_network fetch"
| "ex_wf _ = True"

definition ex_enabled :: "ExEvent \<Rightarrow> ExApp \<Rightarrow> bool" where
  "ex_enabled e a \<longleftrightarrow> ex_offers e a \<and> ex_wf e"

text \<open>A route below a base names the record shown there.\<close>

definition names_record :: "string \<Rightarrow> string \<Rightarrow> jsval \<Rightarrow> string \<Rightarrow> bool" where
  "names_record base key rec route \<longleftrightarrow>
     (startsWith route base \<and> truthy rec \<longrightarrow> route = base @ to_str (own rec key))"

definition detail_inv :: "ExApp \<Rightarrow> bool" where
  "detail_inv a \<longleftrightarrow>
     obj_list (ea_transactions a) \<and>
     names_record ''/block/'' ''height'' (ea_currentBlock a) (ea_route a) \<and>
     names_record ''/tx/'' ''tx_hash'' (ea_currentTx a) (ea_route a) \<and>
     names_record ''/address/'' ''address'' (ea_currentAccount a) (ea_route a) \<and>
     names_record ''/validator/'' ''operator_address'' (ea_currentValidator a) (ea_route a) \<and>
     names_record ''/contract/'' ''address'' (ea_currentContract a) (ea_route a)"

text \<open>A handler keeps the invariant if it leaves records and route alone, or goes to a page without one.\<close>

definition same_records :: "ExApp \<Rightarrow> ExApp \<Rightarrow> bool" where
  "same_records a b \<longleftrightarrow>
     ea_currentBlock b = ea_currentBlock a \<and> ea_currentTx b = ea_currentTx a \<and>
     ea_currentAccount b = ea_currentAccount a \<and> ea_currentValidator b = ea_currentValidator a \<and>
     ea_currentContract b = ea_currentContract a"

definition detail_bases :: "string list" where
  "detail_bases = [''/block/'', ''/tx/'', ''/address/'', ''/validator/'', ''/contract/'']"

definition plain_route :: "string \<Rightarrow> bool" where
  "plain_route r = list_all (\<lambda>b. \<not> startsWith r b) detail_bases"

lemma detail_inv_same:
  "detail_inv a \<Longrightarrow> same_records a b \<Longrightarrow> ea_route b = ea_route a \<Longrightarrow> obj_list (ea_transactions b) \<Longrightarrow> detail_inv b"
  by (simp add: detail_inv_def same_records_def)

lemma detail_inv_plain:
  "obj_list (ea_transactions a) \<Longrightarrow> plain_route (ea_route a) \<Longrightarrow> detail_inv a"
  by (simp add: detail_inv_def plain_route_def detail_bases_def names_record_def)

lemma link_plain:
  assumes "link_covered t"
  shows "plain_route t"
proof -
  let ?ld = "\<lparr> ld_stats = True, ld_block = True, ld_tx = True, ld_account = True, ld_validator = True, ld_contract = True \<rparr>"
  have "\<not> startsWith t b" if "([Prefix b], needs, p) \<in> set route_table" "\<not> needs only_stats" "needs ?ld" for b needs p
    using link_not_detail [OF assms that] by simp
  then show ?thesis
    by (simp add: plain_route_def detail_bases_def) (force simp: routes_defs only_stats_def)
qed

subsection \<open>Lists of transactions\<close>

lemma obj_list_vals: "obj_list (JArr (map tx_val ts))"
  by (induction ts) (simp_all add: obj_list_def is_obj_def tx_val_def)

lemma getTransactions_objs:
  assumes "wf_network fetch" "getTransactions fetch h l off s = (Inr v, s')"
  shows "obj_list (own v ''items'')"
proof (cases "has_items (fetchJson fetch s (''/txs?limit='' @ int_str l @ ''&offset='' @ int_str off))")
  case True
  with assms show ?thesis by (auto simp: getTransactions_def Let_def wf_network_def)
next
  case False
  with assms(2) have "own v ''items'' = JArr (map tx_val (pr_items (page_of (MOCK_GENESIS_TXS (h_loaded h)) l off)))"
    by (auto simp: getTransactions_def Let_def page_val_def own_def)
  then show ?thesis by (simp add: obj_list_vals)
qed

lemma is_obj_get: "is_obj v \<Longrightarrow> get v k = Inr (own v k)"
  by (cases v) (simp_all add: is_obj_def)

lemma filter_res_ok: "(\<And>x. x \<in> set xs \<Longrightarrow> \<exists>b. P x = Inr b) \<Longrightarrow> \<exists>ys. filter_res P xs = Inr ys"
  by (induction xs) (fastforce simp: ebind_def split: sum.splits)+

lemma block_txs_ok:
  assumes "obj_list txs"
  shows "\<exists>v. block_txs txs (Inr ht) = Inr v"
proof -
  obtain xs where xs: "txs = JArr xs" "list_all is_obj xs"
    using assms by (auto simp: obj_list_def split: jsval.splits)
  have "\<exists>b. ebind (get t ''block_height'') (\<lambda>bh. Inr (strict_eq bh ht)) = Inr b" if "t \<in> set xs" for t
    using that xs(2) is_obj_get by (fastforce simp: list_all_iff)
  then obtain ys where "filter_res (\<lambda>t. ebind (get t ''block_height'') (\<lambda>bh. Inr (strict_eq bh ht))) xs = Inr ys"
    using filter_res_ok [of xs "\<lambda>t. ebind (get t ''block_height'') (\<lambda>bh. Inr (strict_eq bh ht))"] by blast
  then show ?thesis by (simp add: block_txs_def elements_def xs(1))
qed

lemma get_cases:
  obtains e where "get v k = Inl e" "\<not> truthy v" | "get v k = Inr (own v k)"
  by (cases "nullish v") (auto simp: get_def nullish_def)

subsection \<open>Every step keeps the invariant\<close>

lemmas detail_simps = Let_def detail_inv_def names_record_def navigateTo_def

lemma show_block_inv:
  assumes "detail_inv a"
  shows "detail_inv (show_block b a)"
proof (cases rule: get_cases [of b "''height''"])
  case (1 e)
  with assms show ?thesis
    by (cases "block_txs (ea_transactions a) (Inl e)") (simp_all add: show_block_def detail_simps)
next
  case 2
  obtain v where "block_txs (ea_transactions a) (Inr (own b ''height'')) = Inr v"
    using block_txs_ok assms detail_inv_def by blast
  with 2 assms show ?thesis
    by (simp add: show_block_def detail_simps)
qed

lemma show_tx_inv:
  assumes "detail_inv a"
  shows "detail_inv (show_record ''/tx/'' ''tx_hash'' (\<lambda>d a. a \<lparr> ea_currentTx := d \<rparr>) data a)"
  using assms by (cases rule: get_cases [of data "''tx_hash''"]) (simp_all add: show_record_def detail_simps)

lemma show_validator_inv:
  assumes "detail_inv a"
  shows "detail_inv (show_record ''/validator/'' ''operator_address'' (\<lambda>d a. a \<lparr> ea_currentValidator := d \<rparr>) data a)"
  using assms by (cases rule: get_cases [of data "''operator_address''"]) (simp_all add: show_record_def detail_simps)

lemma show_contract_inv:
  assumes "detail_inv a"
  shows "detail_inv (show_record ''/contract/'' ''address'' (\<lambda>d a. a \<lparr> ea_currentContract := d \<rparr>) data a)"
  using assms by (cases rule: get_cases [of data "''address''"]) (simp_all add: show_record_def detail_simps)

lemma getAddressTransactions_ok: "\<exists>v. getAddressTransactions fetch h a l off s = (Inr v, s)"
  unfolding getAddressTransactions_def Let_def by auto

lemma show_address_inv:
  assumes "detail_inv a" "has_address data"
  shows "detail_inv (show_address fetch h data a)"
proof -
  obtain addr where addr: "own data ''address'' = JStr addr"
    using assms(2) by (auto simp: has_address_def split: jsval.splits)
  then have g: "get data ''address'' = Inr (JStr addr)"
    by (cases data) (auto simp: own_def get_def nullish_def)
  obtain v where "getAddressTransactions fetch h addr 20 0 (ea_service a) = (Inr v, ea_service a)"
    using getAddressTransactions_ok by blast
  with assms(1) addr g show ?thesis by (simp add: show_address_def detail_simps)
qed

lemma navigate_404_inv: "detail_inv a \<Longrightarrow> detail_inv (navigateTo ''/404'' a)"
  by (rule detail_inv_plain) (simp_all add: detail_simps plain_route_def detail_bases_def)

text \<open>A result of the search that claims to be an address has one.\<close>

definition address_result :: "jsval \<Rightarrow> bool" where
  "address_result r \<longleftrightarrow> (own r ''type'' = JStr ''Address'' \<longrightarrow> has_address (own r ''data''))"

lemma address_result_found [simp]:
  "address_result (found ty v) \<longleftrightarrow> (ty = ''Address'' \<longrightarrow> has_address v)" "address_result JNull"
  by (simp_all add: address_result_def found_def own_def)

lemma getAddress_has_address:
  assumes "wf_network fetch" "getAddress fetch h a s = (Inr acc, s')" "truthy acc"
  shows "has_address acc"
proof -
  have mock: "has_address (account_val (mock_account t))" for t
    by (simp add: has_address_def account_val_def own_def mock_account_def)
  have rpc: "has_address acc" if "rpc_account h t b n = Inr acc" for t b n
    using that by (auto simp: rpc_account_def Let_def has_address_def own_def ebind_Inr_iff)
  show ?thesis
    using assms mock rpc by (auto simp: getAddress_def Let_def wf_network_def split: if_splits)
qed

lemma or_else_result:
  assumes "or_else m ty k s = (Inr r, s')"
    and "\<And>s r s'. k s = (Inr r, s') \<Longrightarrow> address_result r"
    and "\<And>v s''. m s = (Inr v, s'') \<Longrightarrow> truthy v \<Longrightarrow> ty = ''Address'' \<Longrightarrow> has_address v"
  shows "address_result r"
  using assms by (auto simp: or_else_def api_bind_def split: prod.splits sum.splits if_splits)

lemma validator_named_result: "address_result (validator_named clean)"
  by (simp add: validator_named_def split: option.split)

lemma search_address_result:
  assumes "wf_network fetch" "search_address fetch h clean s = (Inr r, s')"
  shows "address_result r"
  using assms(2)
  by (auto simp: search_address_def Let_def validator_named_result split: if_splits
      elim!: or_else_result dest: getAddress_has_address [OF assms(1)])

lemma search_chain_result:
  assumes "wf_network fetch"
  shows "search_contract fetch h clean s = (Inr r, s') \<Longrightarrow> address_result r"
    and "search_validator fetch h clean s = (Inr r, s') \<Longrightarrow> address_result r"
proof -
  have c: "address_result r" if "search_contract fetch h clean s = (Inr r, s')" for r s s'
    using that search_address_result [OF assms]
    by (auto simp: search_contract_def split: if_splits option.splits)
  then show "search_contract fetch h clean s = (Inr r, s') \<Longrightarrow> address_result r" .
  show "search_validator fetch h clean s = (Inr r, s') \<Longrightarrow> address_result r"
    using c by (auto simp: search_validator_def split: if_splits option.splits)
qed

lemma search_hash_result:
  assumes "wf_network fetch" "search_hash fetch h clean s = (Inr r, s')"
  shows "address_result r"
proof -
  have "address_result r" if "or_else (getBlock fetch h (JStr clean)) ''Block'' (search_validator fetch h clean) s = (Inr r, s')"
    for r s s'
    using that search_chain_result(2) [OF assms(1)] by (rule or_else_result) simp_all
  then show ?thesis
    using assms(2) search_chain_result(2) [OF assms(1)]
    by (auto simp: search_hash_def Let_def split: if_splits elim!: or_else_result)
qed

lemma search_result:
  assumes "wf_network fetch" "search fetch h q s = (Inr r, s')"
  shows "address_result r"
proof -
  have remote: "address_result (fetchJson fetch s (''/search?q='' @ t))" for t
    using assms(1) by (simp add: wf_network_def address_result_def)
  show ?thesis
    using assms(2) remote search_hash_result [OF assms(1)]
    by (auto simp: search_def Let_def split: if_splits elim!: or_else_result)
qed

lemma service_inv: "detail_inv a \<Longrightarrow> detail_inv (a \<lparr> ea_service := s \<rparr>)"
  by (simp add: detail_inv_def)

lemma handleSelectBlock_inv: "detail_inv a \<Longrightarrow> detail_inv (handleSelectBlock fetch h v a)"
  by (simp add: handleSelectBlock_def Let_def service_inv show_block_inv navigate_404_inv split: prod.split sum.split)

lemma handleSelectTx_inv: "detail_inv a \<Longrightarrow> detail_inv (handleSelectTx fetch h t a)"
  by (simp add: handleSelectTx_def Let_def service_inv navigate_404_inv split: prod.split sum.split)
    (simp add: detail_simps)

lemma handleSelectAddress_inv: "detail_inv a \<Longrightarrow> detail_inv (handleSelectAddress fetch h t a)"
  by (simp add: handleSelectAddress_def Let_def service_inv navigate_404_inv split: prod.split sum.split)
    (simp add: detail_simps)

lemma handleSelectValidator_inv: "detail_inv a \<Longrightarrow> detail_inv (handleSelectValidator t a)"
  by (simp add: handleSelectValidator_def navigate_404_inv split: sum.split option.split)
    (simp add: detail_simps)

lemma handleSelectContract_inv: "detail_inv a \<Longrightarrow> detail_inv (handleSelectContract t a)"
  by (simp add: handleSelectContract_def navigate_404_inv split: option.split)
    (simp add: detail_simps contract_val_def own_def)

lemma handleUniversalSearch_inv:
  assumes "wf_network fetch" "detail_inv a"
  shows "detail_inv (handleUniversalSearch fetch h q a)"
proof -
  obtain r s where rs: "search fetch h q (ea_service a) = (r, s)" by force
  show ?thesis
  proof (cases r)
    case (Inl e)
    with rs assms(2) show ?thesis by (simp add: handleUniversalSearch_def service_inv)
  next
    case (Inr result)
    have "address_result result" using search_result [OF assms(1)] rs Inr by blast
    with rs Inr assms(2) show ?thesis
      by (simp add: handleUniversalSearch_def Let_def service_inv navigate_404_inv show_block_inv show_tx_inv
          show_address_inv show_validator_inv show_contract_inv address_result_def)
  qed
qed

lemma loadAllData_inv:
  assumes "wf_network fetch" "detail_inv a"
  shows "detail_inv (loadAllData fetch h l a)"
proof -
  have txs: "obj_list (own tx ''items'')" if "getTransactions fetch h lim off s = (Inr tx, s')" for lim off s tx s'
    using getTransactions_objs [OF assms(1) that] .
  show ?thesis
    using assms(2) by (auto simp: loadAllData_def Let_def detail_inv_def dest: txs split: prod.splits sum.splits)
qed

lemma poll_inv:
  assumes "wf_network fetch" "detail_inv a"
  shows "detail_inv (poll fetch h l a)"
proof -
  have txs: "obj_list (own tx ''items'')" if "getTransactions fetch h lim off s = (Inr tx, s')" for lim off s tx s'
    using getTransactions_objs [OF assms(1) that] .
  show ?thesis
    using assms(2) by (auto simp: poll_def Let_def detail_inv_def dest: txs split: prod.splits sum.splits)
qed

lemma quiet_inv:
  assumes "detail_inv a"
  shows "detail_inv (open_search b a)" "detail_inv (set_palette ms a)" "detail_inv (sync_theme d a)"
    "detail_inv (toggleTheme d a)" "detail_inv (handleCurrencyChange c a)" "detail_inv (handleNetworkChange n a)"
    "detail_inv (handleConnect i t a)" "detail_inv (connect_timeout a)" "detail_inv (handleDisconnect a)"
    "detail_inv (key_event k a)" "detail_inv (a \<lparr> ea_header := hd' \<rparr>)" "detail_inv (a \<lparr> ea_blocksPage := n' \<rparr>)"
    "detail_inv (a \<lparr> ea_txsPage := n' \<rparr>)" "detail_inv (a \<lparr> ea_getStartedOpen := b \<rparr>)"
    "detail_inv (a \<lparr> ea_walletOpen := b \<rparr>)"
  using assms
  by (simp_all add: detail_inv_def open_search_def set_palette_def sync_theme_def toggleTheme_def Let_def
      handleCurrencyChange_def handleNetworkChange_def handleConnect_def connect_timeout_def handleDisconnect_def
      key_event_def split: list.split)

lemma palette_event_inv:
  "wf_network fetch \<Longrightarrow> detail_inv a \<Longrightarrow> detail_inv (palette_event fetch h e a)"
  by (simp add: palette_event_def Let_def quiet_inv handleUniversalSearch_inv split: option.split)

lemma nav_inv:
  assumes "detail_inv a" "link_covered r"
  shows "detail_inv (navigateTo r a)"
  using assms link_plain by (intro detail_inv_plain) (simp_all add: navigateTo_def detail_inv_def)

lemma ex_step:
  assumes "detail_inv a" "ex_enabled e a"
  shows "detail_inv (ex_handle e a)"
proof (cases e)
  case (Nav src r)
  with assms have "link_covered r" by (auto simp: ex_enabled_def intro: offered_covered)
  with Nav assms(1) show ?thesis by (cases src) (simp_all add: nav_inv quiet_inv)
qed (use assms in \<open>simp_all add: ex_enabled_def loadAllData_inv poll_inv quiet_inv handleSelectBlock_inv handleSelectTx_inv
      handleSelectAddress_inv handleSelectValidator_inv handleSelectContract_inv handleUniversalSearch_inv
      palette_event_inv\<close>)

lemma ex_init_inv: "detail_inv (ex_init st path d)"
  unfolding ex_init_def
  by (rule quiet_inv) (simp add: ex_mount_def detail_inv_def names_record_def obj_list_def)

interpretation exm: invariant_system "ex_init st path d" ex_enabled ex_handle detail_inv for st path d
  by unfold_locales (rule ex_init_inv, rule ex_step)

lemma page_guard:
  assumes "p \<in> set (rendered ld r)"
  shows "p = BlockDetailsPage \<Longrightarrow> startsWith r ''/block/'' \<and> ld_block ld"
    and "p = TxDetailsPage \<Longrightarrow> startsWith r ''/tx/'' \<and> ld_tx ld"
    and "p = AddressPage \<Longrightarrow> startsWith r ''/address/'' \<and> ld_account ld"
    and "p = ValidatorDetailsPage \<Longrightarrow> startsWith r ''/validator/'' \<and> ld_validator ld"
    and "p = ContractDetailsPage \<Longrightarrow> startsWith r ''/contract/'' \<and> ld_contract ld"
proof -
  obtain tests needs where e: "(tests, needs, p) \<in> set route_table" "list_ex (test_route r) tests" "needs ld"
    using assms by (auto simp: rendered_def entry_shown_def)
  show "p = BlockDetailsPage \<Longrightarrow> startsWith r ''/block/'' \<and> ld_block ld"
    "p = TxDetailsPage \<Longrightarrow> startsWith r ''/tx/'' \<and> ld_tx ld"
    "p = AddressPage \<Longrightarrow> startsWith r ''/address/'' \<and> ld_account ld"
    "p = ValidatorDetailsPage \<Longrightarrow> startsWith r ''/validator/'' \<and> ld_validator ld"
    "p = ContractDetailsPage \<Longrightarrow> startsWith r ''/contract/'' \<and> ld_contract ld"
    using e by (simp_all add: routes_defs)
qed


definition sample_app :: ExApp where
  "sample_app = ex_handle (Select_contract ''contract'') (ex_init (\<lambda>_. None) ''/'' True)"


section \<open>Preferences survive a reload\<close>

definition prefs_inv :: "ExApp \<Rightarrow> bool" where
  "prefs_inv a \<longleftrightarrow>
     pref (ea_storage a) ''sprx_theme'' ''dark'' = ea_theme a \<and>
     pref (ea_storage a) ''sprx_currency'' ''USD'' = ea_currency a \<and>
     pref (ea_storage a) ''sprx_network'' ''mainnet'' = ea_network a"

text \<open>Handlers that touch neither the preferences nor their keys.\<close>

definition prefs_kept :: "ExApp \<Rightarrow> ExApp \<Rightarrow> bool" where
  "prefs_kept a b \<longleftrightarrow>
     ea_theme b = ea_theme a \<and> ea_currency b = ea_currency a \<and> ea_network b = ea_network a \<and>
     (\<forall>k \<in> {''sprx_theme'', ''sprx_currency'', ''sprx_network''}. ea_storage b k = ea_storage a k)"

lemma prefs_keptD: "prefs_kept a b \<Longrightarrow> prefs_inv a \<Longrightarrow> prefs_inv b"
  by (simp add: prefs_kept_def prefs_inv_def pref_def getItem_def)

lemma prefs_kept_refl [simp]: "prefs_kept a a"
  by (simp add: prefs_kept_def)

lemma prefs_kept_trans: "prefs_kept a b \<Longrightarrow> prefs_kept b c \<Longrightarrow> prefs_kept a c"
  by (simp add: prefs_kept_def)

named_theorems kept \<open>handlers that keep the preferences\<close>

lemma kept_navigate [kept]: "prefs_kept a b \<Longrightarrow> prefs_kept a (navigateTo r b)"
  by (simp add: prefs_kept_def navigateTo_def)

lemma kept_show_block [kept]: "prefs_kept a b \<Longrightarrow> prefs_kept a (show_block v b)"
  by (simp add: show_block_def Let_def prefs_kept_def navigateTo_def split: sum.split)

lemma kept_show_address [kept]: "prefs_kept a b \<Longrightarrow> prefs_kept a (show_address fetch h v b)"
  by (simp add: show_address_def Let_def prefs_kept_def navigateTo_def split: sum.split jsval.split prod.split)

lemma kept_show_record [kept]:
  "prefs_kept a b \<Longrightarrow> (\<And>v. prefs_kept a (f v b)) \<Longrightarrow> prefs_kept a (show_record base k f v b)"
  by (simp add: show_record_def Let_def kept_navigate split: sum.split)

lemma kept_service [kept]: "prefs_kept a b \<Longrightarrow> prefs_kept a (b \<lparr> ea_service := s \<rparr>)"
  by (simp add: prefs_kept_def)

lemma kept_records [kept]:
  "prefs_kept a b \<Longrightarrow> prefs_kept a (b \<lparr> ea_currentTx := v \<rparr>)"
  "prefs_kept a b \<Longrightarrow> prefs_kept a (b \<lparr> ea_currentValidator := v \<rparr>)"
  "prefs_kept a b \<Longrightarrow> prefs_kept a (b \<lparr> ea_currentContract := v \<rparr>)"
  "prefs_kept a b \<Longrightarrow> prefs_kept a (b \<lparr> ea_currentAccount := v, ea_currentAccountTxs := w \<rparr>)"
  by (simp_all add: prefs_kept_def)

lemma kept_selections [kept]:
  "prefs_kept a (handleSelectBlock fetch h v a)" "prefs_kept a (handleSelectTx fetch h t a)"
  "prefs_kept a (handleSelectAddress fetch h t a)" "prefs_kept a (handleSelectValidator t a)"
  "prefs_kept a (handleSelectContract t a)"
  by (simp_all add: handleSelectBlock_def handleSelectTx_def handleSelectAddress_def handleSelectValidator_def
      handleSelectContract_def Let_def kept split: prod.split sum.split option.split)

lemma kept_search [kept]: "prefs_kept a b \<Longrightarrow> prefs_kept a (handleUniversalSearch fetch h q b)"
  by (simp add: handleUniversalSearch_def Let_def kept split: prod.split sum.split)

lemma kept_loads [kept]: "prefs_kept a (loadAllData fetch h l a)" "prefs_kept a (poll fetch h l a)"
  by (simp_all add: loadAllData_def poll_def Let_def prefs_kept_def split: prod.split sum.split)

lemma kept_open_search [kept]: "prefs_kept a b \<Longrightarrow> prefs_kept a (open_search o' b)"
  by (simp add: open_search_def prefs_kept_def)

lemma palette_storage: "k \<noteq> recents_key \<Longrightarrow> snd (palette_handle e (m, st)) k = st k"
  by (cases e) (simp_all add: handleExecute_def clear_recents_def removeItem_def setItem_def Let_def
      split: sum.split prod.split)

lemma kept_palette [kept]: "prefs_kept a (palette_event fetch h e a)"
proof -
  have "prefs_kept a (set_palette (palette_handle e (ea_palette a, ea_storage a)) a)"
    by (simp add: prefs_kept_def set_palette_def palette_storage recents_key_def)
  then show ?thesis by (simp add: palette_event_def Let_def kept split: option.split)
qed

lemma kept_wallet [kept]:
  "prefs_kept a (handleConnect i t a)" "prefs_kept a (connect_timeout a)" "prefs_kept a (handleDisconnect a)"
  by (simp_all add: handleConnect_def connect_timeout_def handleDisconnect_def prefs_kept_def setItem_def removeItem_def
      split: list.split)

lemma kept_key [kept]: "prefs_kept a (key_event k a)"
  by (simp add: key_event_def Let_def kept)

lemma kept_nav [kept]: "prefs_kept a (ex_handle (Nav src r) a)"
  by (cases src) (simp_all add: prefs_kept_def navigateTo_def)

lemma kept_flags [kept]:
  "prefs_kept a (a \<lparr> ea_header := hd' \<rparr>)" "prefs_kept a (a \<lparr> ea_blocksPage := n' \<rparr>)"
  "prefs_kept a (a \<lparr> ea_txsPage := n' \<rparr>)" "prefs_kept a (a \<lparr> ea_getStartedOpen := b \<rparr>)"
  "prefs_kept a (a \<lparr> ea_walletOpen := b \<rparr>)"
  by (simp_all add: prefs_kept_def)

lemma prefs_changed:
  assumes "prefs_inv a"
  shows "prefs_inv (toggleTheme d a)" "prefs_inv (handleCurrencyChange (Currency_text c) a)"
    "prefs_inv (handleNetworkChange (Network_text n) a)"
proof -
  have "Currency_text c \<noteq> []" by (cases c) simp_all
  moreover have "Network_text n \<noteq> []" by (cases n) simp_all
  ultimately show "prefs_inv (toggleTheme d a)" "prefs_inv (handleCurrencyChange (Currency_text c) a)"
    "prefs_inv (handleNetworkChange (Network_text n) a)"
    using assms by (simp_all add: prefs_inv_def pref_def getItem_def toggleTheme_def sync_theme_def
        handleCurrencyChange_def handleNetworkChange_def setItem_def Let_def)
qed

lemma prefs_step:
  assumes "prefs_inv a"
  shows "prefs_inv (ex_handle e a)"
proof (cases e)
  case (Nav src r)
  then show ?thesis using prefs_keptD [OF kept_nav assms] by simp
qed (use assms prefs_changed in \<open>auto intro: prefs_keptD [OF _ assms] simp: kept\<close>)

lemma prefs_init: "prefs_inv (ex_init st path d)"
  by (simp add: ex_init_def ex_mount_def sync_theme_def prefs_inv_def Let_def pref_def getItem_def setItem_def
      split: option.split)

interpretation exp: invariant_system "ex_init st path d" ex_offers ex_handle prefs_inv for st path d
  by unfold_locales (rule prefs_init, rule prefs_step)

text \<open>C28: Reloading the explorer in any state it can reach keeps the theme, the currency and the network
  that were on the screen.\<close>

theorem reload_keeps_preferences:
  assumes "reach (ex_init st path d) ex_offers ex_handle a"
  shows "ea_theme (ex_init (ea_storage a) path' d') = ea_theme a \<and>
         ea_currency (ex_init (ea_storage a) path' d') = ea_currency a \<and>
         ea_network (ex_init (ea_storage a) path' d') = ea_network a"
  using exp.reach_inv [OF assms]
  by (simp add: prefs_inv_def ex_init_def ex_mount_def sync_theme_def Let_def)

theorem reload_keeps_preferences_witness:
  "ea_network (ex_init (ea_storage (ex_handle (Set_network testnet) (ex_init (\<lambda>_. None) ''/'' True))) ''/'' True)
     = ''testnet''"
proof -
  have "reach (ex_init (\<lambda>_. None) ''/'' True) ex_offers ex_handle
      (ex_handle (Set_network testnet) (ex_init (\<lambda>_. None) ''/'' True))"
    by (rule reach.step [OF reach.init]) simp
  from reload_keeps_preferences [OF this, of "''/''" True] show ?thesis
    by (simp add: handleNetworkChange_def)
qed

section \<open>Where the application departs from what it shows\<close>

lemma silent_loads:
  assumes "silent fetch"
  shows "getStats fetch s = (Inr (stats_val MOCK_GENESIS_STATS), online False s)"
    and "getValidators fetch s = (Inr (JArr (map validator_val MOCK_GENESIS_VALIDATORS)), s)"
  using assms by (simp_all add: getStats_def getValidators_def silent_simps Let_def)

text \<open>On a first visit the explorer shows the main network, but its service asks the local devnet, and
  it keeps asking it until the user picks a network.\<close>

theorem first_visit_network_mismatch:
  "ea_network (ex_init (\<lambda>_. None) path d) = ''mainnet'' \<and>
   getNetworkConfig (ea_service (ex_init (\<lambda>_. None) path d)) = map_of NETWORK_CONFIG ''local'' \<and>
   map_of NETWORK_CONFIG ''local'' \<noteq> map_of NETWORK_CONFIG ''mainnet''"
  by (simp add: ex_init_def ex_mount_def sync_theme_def Let_def pref_def getItem_def new_ExplorerApiService_def
      getNetworkConfig_def NETWORK_CONFIG_def)

text \<open>The periodic refresh always fetches the first page: on the second page of blocks it replaces the
  entries by those of page one, while the page number stays two.\<close>

theorem polling_leaves_page:
  assumes "silent fetch" "ea_blocksPage a = 2"
  shows "ea_blocks (loadAllData fetch h l a) = JArr (map block_val (drop 15 (MOCK_GENESIS_BLOCKS (h_loaded h)))) \<and>
         ea_blocks (poll fetch h l (loadAllData fetch h l a)) =
           JArr (map block_val (take 15 (MOCK_GENESIS_BLOCKS (h_loaded h)))) \<and>
         ea_blocksPage (poll fetch h l (loadAllData fetch h l a)) = 2"
proof -
  have page: "pr_items (page_of xs 15 15) = take 15 (drop 15 xs)" "pr_items (page_of xs 15 0) = take 15 xs"
    for xs :: "IndexedBlock list"
    using po.items [of 15 15 xs] po.items [of 15 0 xs] by simp_all
  have len: "take 15 (drop 15 (MOCK_GENESIS_BLOCKS (h_loaded h))) = drop 15 (MOCK_GENESIS_BLOCKS (h_loaded h))"
    by (simp add: mock_lengths)
  have load: "ea_blocks (loadAllData fetch h l b) =
        JArr (map block_val (pr_items (page_of (MOCK_GENESIS_BLOCKS (h_loaded h)) 15 ((ea_blocksPage b - 1) * 15)))) \<and>
      ea_blocksPage (loadAllData fetch h l b) = ea_blocksPage b" for b
    by (simp add: loadAllData_def Let_def silent_loads [OF assms(1)] silent_pages [OF assms(1)] getContracts_def pageSize_def
        page_val_def own_def)
  have polled: "ea_blocks (poll fetch h l b) =
        JArr (map block_val (pr_items (page_of (MOCK_GENESIS_BLOCKS (h_loaded h)) 15 0))) \<and>
      ea_blocksPage (poll fetch h l b) = ea_blocksPage b" for b
    by (simp add: poll_def Let_def silent_loads [OF assms(1)] silent_pages [OF assms(1)] pageSize_def page_val_def own_def)
  show ?thesis
    using load [of a] polled [of "loadAllData fetch h l a"] assms(2) by (simp add: page len)
qed

theorem polling_leaves_page_witness:
  "ea_blocks (poll net_down (sample_host 0) True (loadAllData net_down (sample_host 0) True
     ((ex_init (\<lambda>_. None) ''/blocks'' True) \<lparr> ea_blocksPage := 2 \<rparr>)))
     = JArr (map block_val (take 15 (MOCK_GENESIS_BLOCKS 0)))"
  using polling_leaves_page [of net_down "(ex_init (\<lambda>_. None) ''/blocks'' True) \<lparr> ea_blocksPage := 2 \<rparr>"
      "sample_host 0" True]
  by (simp add: silent_net_down sample_host_def)

text \<open>Disconnecting the wallet clears the dialog and the storage, but the header keeps showing the
  address until the page is reloaded.\<close>

theorem disconnect_keeps_header:
  assumes "ea_connectedWallet a = Some w" "w \<noteq> []"
  shows "header_wallet_text (handleDisconnect a) = slice w 0 7 @ ''...'' @ slice_from w (- 4) \<and>
         cw_connectedAddress (ea_wallet (handleDisconnect a)) = None \<and>
         header_wallet_text (ex_init (ea_storage (handleDisconnect a)) path d) = ''Get Started''"
  using assms by (simp add: header_wallet_text_def handleDisconnect_def ex_init_def ex_mount_def sync_theme_def Let_def
      stored_wallet_def getItem_def removeItem_def)

theorem disconnect_keeps_header_witness:
  "header_wallet_text (handleDisconnect (connect_timeout (handleConnect ''sprx-web'' ''sprax1sdtpz05x''
     (ex_init (\<lambda>_. None) ''/'' True)))) = slice ''sprax1sdtpz05x'' 0 7 @ ''...'' @ slice_from ''sprax1sdtpz05x'' (- 4)"
  using disconnect_keeps_header [of "connect_timeout (handleConnect ''sprx-web'' ''sprax1sdtpz05x''
     (ex_init (\<lambda>_. None) ''/'' True))" "''sprax1sdtpz05x''"]
  by (simp add: connect_timeout_def handleConnect_def ex_init_def ex_mount_def sync_theme_def Let_def)

end
