(* ===== verification/Explorer_Guides_Data.thy ===== *)
theory Explorer_Guides_Data
  imports Js_Value
begin

text \<open>
  The tables of the explorer's guides: the tracks of \<^verbatim>\<open>pages/LearnPage.tsx\<close>, the methods of the RPC
  playground of \<^verbatim>\<open>pages/DevelopersPortalPage.tsx\<close>, the snippets of \<^verbatim>\<open>components/CodePlayground.tsx\<close> and the
  layers of \<^verbatim>\<open>components/ProtocolVisualizer.tsx\<close>, all under \<^verbatim>\<open>src/apps/explorer-ui/src\<close>.  Colours and icons
  are left out.
\<close>

text \<open>The characters a literal cannot hold, and a text of several lines.\<close>

abbreviation c_sq :: char where
  "c_sq \<equiv> char_of (39 :: nat)"

abbreviation c_dq :: char where
  "c_dq \<equiv> char_of (34 :: nat)"

abbreviation c_bs :: char where
  "c_bs \<equiv> char_of (92 :: nat)"

abbreviation c_ht :: char where
  "c_ht \<equiv> char_of (9 :: nat)"

definition text_lines :: "string list \<Rightarrow> string" where
  "text_lines ls = join [char_of (10 :: nat)] ls"

record LearnTrack =
  lt_id :: string
  lt_title :: string
  lt_subtitle :: string
  lt_readTime :: string
  lt_summary :: string

definition learnTracks :: "LearnTrack list" where
  "learnTracks =
    [\<lparr> lt_id = ''what-is-sprx'',
       lt_title = ''What is SPRX Protocol?'',
       lt_subtitle = ''Scalable Protocol for Real-world X Explained'',
       lt_readTime = ''5 min read'',
       lt_summary = ''Understand the core mission of SPRX: connecting cryptographic BFT consensus with tangible real-world economic utility.'' \<rparr>,
     \<lparr> lt_id = ''real-world-x'',
       lt_title = ''Real-World X Rails'',
       lt_subtitle = ''Payments, RWAs, Identity & DePIN'',
       lt_readTime = ''8 min read'',
       lt_summary = ''Explore how SPRX processes high-volume payments, manages tokenized asset title deeds, and secures IoT sensor data.'' \<rparr>,
     \<lparr> lt_id = ''tokenomics'',
       lt_title = ''Native Tokenomics & Precision'',
       lt_subtitle = ''1 Billion Supply & 18 Decimals'',
       lt_readTime = ''6 min read'',
       lt_summary = ''Genesis allocation breakdown, EIP-1559 base fee burning curve, staking reward mathematics, and multi-currency display.'' \<rparr>,
     \<lparr> lt_id = ''consensus'',
       lt_title = ''CometBFT & Fast Finality'',
       lt_subtitle = ''BFT-PoS, 1.5s Settlement & Slashing'',
       lt_readTime = ''7 min read'',
       lt_summary = ''Deterministic Weighted Round-Robin proposer election, 2/3+ cryptographic voting rounds, and Byzantine defense.'' \<rparr>,
     \<lparr> lt_id = ''wallets'',
       lt_title = ''Wallets & Self-Custody'',
       lt_subtitle = ''Keys, Seed Phrases & Transaction Safety'',
       lt_readTime = ''6 min read'',
       lt_summary = ''Master non-custodial security, BIP-39 mnemonic recovery, hardware signing, and scam prevention.'' \<rparr>,
     \<lparr> lt_id = ''security'',
       lt_title = ''Protocol Security Architecture'',
       lt_subtitle = ''Sandboxing, Audits & Threat Model'',
       lt_readTime = ''9 min read'',
       lt_summary = ''CosmWasm memory safety, non-reentrancy call stack invariants, validator HSM key hygiene, and bug bounty rewards.'' \<rparr>]"

record CodeSnippet =
  cs_language :: string
  cs_name :: string
  cs_code :: string
  cs_description :: string
  cs_output :: string

definition SNIPPETS :: "(string \<times> CodeSnippet) list" where
  "SNIPPETS =
    [(''typescript'',
      \<lparr> cs_language = ''typescript'',
        cs_name = ''TypeScript SDK'',
        cs_code = text_lines
           [''import { SpraxClient, HDWallet } from '' @ [c_dq] @ ''@sprax/wallet-core'' @ [c_dq] @ '';'',
            [],
            ''// 1. Initialize high-throughput JSON-RPC client'',
            ''const client = new SpraxClient('' @ [c_dq] @ ''https://rpc.sprax.network:26657'' @ [c_dq] @ '');'',
            [],
            ''// 2. Query account state & balance (18 decimals precision)'',
            ''const address = '' @ [c_dq] @ ''sprax1sdtpz05x2r7d70u428v2ff3rtyj49z65a380gr'' @ [c_dq] @ '';'',
            ''const account = await client.getAccount(address);'',
            [],
            ''console.log('' @ [c_dq] @ ''SPRX Balance:'' @ [c_dq] @ '', account.balanceSprx, '' @ [c_dq] @ ''SPRX'' @ [c_dq] @ '');'',
            ''console.log('' @ [c_dq] @ ''Atomic Atto:'' @ [c_dq] @ '', account.balanceAtto, '' @ [c_dq] @ ''atto-SPRX'' @ [c_dq] @ '');'',
            ''console.log('' @ [c_dq] @ ''Account Nonce:'' @ [c_dq] @ '', account.nonce);''],
        cs_description = ''Connect to SPRX Node and query account balance using @sprax/wallet-core'',
        cs_output = text_lines
           [''[SPRX Client Connected: sprax-mainnet-1]'',
            ''> Querying address: sprax1sdtpz05x2r7d70u428v2ff3rtyj49z65a380gr'',
            ''> SPRX Balance: 154,250.00 SPRX'',
            ''> Atomic Atto: 154250000000000000000000 atto-SPRX'',
            ''> Account Nonce: 42'',
            ''> Finality Verification: Deterministic (Block #8245920)''] \<rparr>),
     (''rust'',
      \<lparr> cs_language = ''rust'',
        cs_name = ''Rust / CosmWasm'',
        cs_code = text_lines
           [''use cosmwasm_std::{entry_point, DepsMut, Env, MessageInfo, Response, StdResult};'',
            ''use cw20_base::msg::ExecuteMsg;'',
            [],
            ''#[entry_point]'',
            ''pub fn execute('',
            ''    deps: DepsMut,'',
            ''    env: Env,'',
            ''    info: MessageInfo,'',
            ''    msg: ExecuteMsg,'',
            '') -> StdResult<Response> {'',
            ''    match msg {'',
            ''        ExecuteMsg::Transfer { recipient, amount } => {'',
            ''            // Sandboxed non-reentrant state transition'',
            ''            cw20_base::contract::execute_transfer(deps, env, info, recipient, amount)'',
            ''        }'',
            ''        ExecuteMsg::Burn { amount } => {'',
            ''            cw20_base::contract::execute_burn(deps, env, info, amount)'',
            ''        }'',
            ''        _ => Ok(Response::default()),'',
            ''    }'',
            ''}''],
        cs_description = ''Deterministic CosmWasm WASM contract execution handler in sprax-wasm'',
        cs_output = text_lines
           [''Compiling sprax_wasm_contract v0.1.0 (wasm32-unknown-unknown)'',
            ''   Compiling cosmwasm-std v1.5.0'',
            ''   Compiling cw20-base v0.16.0'',
            ''    Finished release [optimized] target(s) in 1.42s'',
            ''Bytecode Blake3 Hash: 0x4a8f9c1b3e2d5a7f8091a2b3c4d5e6f708192a3b4c5d6e7f8091a2b3c4d5e6f7'',
            ''Gas Metering Target: 21,000 base + 500/storage write''] \<rparr>),
     (''curl'',
      \<lparr> cs_language = ''bash'',
        cs_name = ''cURL / JSON-RPC'',
        cs_code = text_lines
           [''curl -X POST https://rpc.sprax.network:26657 '' @ [c_bs],
            ''  -H '' @ [c_dq] @ ''Content-Type: application/json'' @ [c_dq] @ '' '' @ [c_bs],
            ''  -d '' @ [c_sq] @ ''{'',
            ''    '' @ [c_dq] @ ''jsonrpc'' @ [c_dq] @ '': '' @ [c_dq] @ ''2.0'' @ [c_dq] @ '','',
            ''    '' @ [c_dq] @ ''id'' @ [c_dq] @ '': 1,'',
            ''    '' @ [c_dq] @ ''method'' @ [c_dq] @ '': '' @ [c_dq] @ ''sprax_getStatus'' @ [c_dq] @ '','',
            ''    '' @ [c_dq] @ ''params'' @ [c_dq] @ '': []'',
            ''  }'' @ [c_sq]],
        cs_description = ''Raw JSON-RPC 2.0 sprax_getStatus query to consensus node'',
        cs_output = text_lines
           [''{'',
            ''  '' @ [c_dq] @ ''jsonrpc'' @ [c_dq] @ '': '' @ [c_dq] @ ''2.0'' @ [c_dq] @ '','',
            ''  '' @ [c_dq] @ ''id'' @ [c_dq] @ '': 1,'',
            ''  '' @ [c_dq] @ ''result'' @ [c_dq] @ '': {'',
            ''    '' @ [c_dq] @ ''chainId'' @ [c_dq] @ '': '' @ [c_dq] @ ''sprax-mainnet-1'' @ [c_dq] @ '','',
            ''    '' @ [c_dq] @ ''latestBlockHeight'' @ [c_dq] @ '': 8245920,'',
            ''    '' @ [c_dq] @ ''latestBlockHash'' @ [c_dq] @ '': '' @ [c_dq] @ ''0x7f8a9b2c3d4e5f60718293a4b5c6d7e8f901a2b3c4d5e6f708192a3b4c5d6e70'' @ [c_dq] @ '','',
            ''    '' @ [c_dq] @ ''connectedPeers'' @ [c_dq] @ '': 48,'',
            ''    '' @ [c_dq] @ ''validatorCount'' @ [c_dq] @ '': 100,'',
            ''    '' @ [c_dq] @ ''syncStatus'' @ [c_dq] @ '': '' @ [c_dq] @ ''synced'' @ [c_dq] @ '','',
            ''    '' @ [c_dq] @ ''mempoolPending'' @ [c_dq] @ '': 12'',
            ''  }'',
            ''}''] \<rparr>),
     (''python'',
      \<lparr> cs_language = ''python'',
        cs_name = ''Python'',
        cs_code = text_lines
           [''import requests'',
            ''import json'',
            [],
            ''RPC_URL = '' @ [c_dq] @ ''https://rpc.sprax.network:26657'' @ [c_dq],
            [],
            ''payload = {'',
            ''    '' @ [c_dq] @ ''jsonrpc'' @ [c_dq] @ '': '' @ [c_dq] @ ''2.0'' @ [c_dq] @ '','',
            ''    '' @ [c_dq] @ ''id'' @ [c_dq] @ '': 1,'',
            ''    '' @ [c_dq] @ ''method'' @ [c_dq] @ '': '' @ [c_dq] @ ''sprax_getBlock'' @ [c_dq] @ '','',
            ''    '' @ [c_dq] @ ''params'' @ [c_dq] @ '': ['' @ [c_dq] @ ''latest'' @ [c_dq] @ '']'',
            ''}'',
            [],
            ''response = requests.post(RPC_URL, json=payload).json()'',
            ''block = response['' @ [c_dq] @ ''result'' @ [c_dq] @ '']'',
            ''print(f'' @ [c_dq] @ ''Latest Block #{block['' @ [c_sq] @ ''header'' @ [c_sq] @ '']['' @ [c_sq] @ ''height'' @ [c_sq] @ '']} | Proposer: {block['' @ [c_sq] @ ''header'' @ [c_sq] @ '']['' @ [c_sq] @ ''proposer'' @ [c_sq] @ '']}'' @ [c_dq] @ '')''],
        cs_description = ''Broadcast signed transaction using Python JSON-RPC adapter'',
        cs_output = text_lines
           [''Connected to SPRX Python Client'',
            ''Latest Block #8245920 | Proposer: spraxvaloper1q8x9y7w6e5r4t3y2u1i0o9p8a7s6d5f4g3h2j1'',
            ''State Root: 0xabcdef0123456789abcdef0123456789...'',
            ''Transactions in Block: 14''] \<rparr>),
     (''go'',
      \<lparr> cs_language = ''go'',
        cs_name = ''Go (Golang)'',
        cs_code = text_lines
           [''package main'',
            [],
            ''import ('',
            [c_ht] @ [c_dq] @ ''context'' @ [c_dq],
            [c_ht] @ [c_dq] @ ''fmt'' @ [c_dq],
            [c_ht] @ [c_dq] @ ''github.com/sprax-chain/sprax-sdk-go/client'' @ [c_dq],
            '')'',
            [],
            ''func main() {'',
            [c_ht] @ ''cli := client.NewClient('' @ [c_dq] @ ''https://rpc.sprax.network:26657'' @ [c_dq] @ '')'',
            [c_ht] @ ''validators, err := cli.GetValidators(context.Background())'',
            [c_ht] @ ''if err != nil {'',
            [c_ht] @ [c_ht] @ ''panic(err)'',
            [c_ht] @ ''}'',
            [],
            [c_ht] @ ''fmt.Printf('' @ [c_dq] @ ''Active Validators Count: %d'' @ [c_bs] @ ''n'' @ [c_dq] @ '', len(validators))'',
            [c_ht] @ ''for _, val := range validators[:3] {'',
            [c_ht] @ [c_ht] @ ''fmt.Printf('' @ [c_dq] @ ''Moniker: %s | Voting Power: %d'' @ [c_bs] @ ''n'' @ [c_dq] @ '', val.Moniker, val.VotingPower)'',
            [c_ht] @ ''}'',
            ''}''],
        cs_description = ''Query CometBFT consensus engine validator set in Go'',
        cs_output = text_lines
           [''Active Validators Count: 100'',
            ''Moniker: SPRX Core Genesis Alpha | Voting Power: 3500000'',
            ''Moniker: Global Real-World X Node | Voting Power: 2800000'',
            ''Moniker: Nexus Staking Labs | Voting Power: 1900000''] \<rparr>)]"

record LayerDetail =
  la_id :: string
  la_name :: string
  la_shortName :: string
  la_tier :: string
  la_tagline :: string
  la_summary :: string
  la_keyComponents :: "string list"
  la_specs :: "(string \<times> string) list"
  la_docLink :: string

definition PROTOCOL_LAYERS :: "LayerDetail list" where
  "PROTOCOL_LAYERS =
    [\<lparr> la_id = ''application'',
       la_name = ''Layer 4: Application & Real-World X'',
       la_shortName = ''Application & RWA'',
       la_tier = ''Layer 4'',
       la_tagline = ''End-user dApps, Institutional Tokenization & Multi-Currency Interfaces'',
       la_summary = ''Direct interface for real-world economic interactions. Decoupled presentation abstraction allows balances to display in local currencies (USD, INR, EUR, GBP, JPY) while consensus executes natively in 18-decimal atto-SPRX.'',
       la_keyComponents = [''Non-custodial Multi-Currency Wallets (Web / Mobile)'', ''Real-World Asset (RWA) Tokenization & Legal Escrow'', ''High-Frequency AMM & Perps DEX (SpraxSwap, SpraxPerp)'', ''DePIN Sensor Mesh & IoT Telemetry Ingestion''],
       la_specs = [(''Precision'', ''18 Decimals (10^-18 atto-SPRX)''), (''Currencies'', ''USD, INR, EUR, GBP, JPY''), (''Interfaces'', ''Web, Mobile, CLI, REST'')],
       la_docLink = ''/learn/real-world-x'' \<rparr>,
     \<lparr> la_id = ''indexing'',
       la_name = ''Layer 3: Query & Indexing Engine'',
       la_shortName = ''Query & Indexing'',
       la_tier = ''Layer 3'',
       la_tagline = ''Sub-10ms GraphQL, REST & Real-Time Oracle Feed Ingestion'',
       la_summary = ''High-throughput caching and state extraction pipeline. Feeds off-chain consumers, wallets, and block explorers without putting computational query overhead on consensus validator nodes.'',
       la_keyComponents = [''Real-time Pipeline (crates/sprax-indexer)'', ''Universal Omni-Search Query Classifier'', ''Decentralized Oracle Price Aggregation Layer'', ''Paginated Explorer REST APIs & WebSocket Streams''],
       la_specs = [(''Query Latency'', ''< 10ms P99''), (''Protocols'', ''REST, JSON-RPC, WebSocket''), (''Index Rate'', ''Zero Block Lag'')],
       la_docLink = ''/developers/rpc'' \<rparr>,
     \<lparr> la_id = ''execution'',
       la_name = ''Layer 2: WASM Execution & State Machine'',
       la_shortName = ''WASM Smart Contracts'',
       la_tier = ''Layer 2'',
       la_tagline = ''Deterministic WebAssembly Runtime with CosmWasm Actor Model'',
       la_summary = ''Sandboxed, gas-metered execution environment (crates/sprax-wasm). Eliminates EVM reentrancy vulnerabilities through the actor-model paradigm while providing native Rust compile-time memory safety.'',
       la_keyComponents = [''WebAssembly VM Engine (sprax-wasm)'', ''SXS-20 Fungible & SXS-721 Asset Standards'', ''Step-wise Compute & Storage Gas Metering'', ''Atomic Transaction Router & Non-Reentrancy Guard''],
       la_specs = [(''VM Runtime'', ''WASM (CosmWasm Actor Model)''), (''Language'', ''Rust (wasm32-unknown-unknown)''), (''Base Fee Gas'', ''21,000 gas units'')],
       la_docLink = ''/developers/smart-contracts'' \<rparr>,
     \<lparr> la_id = ''consensus'',
       la_name = ''Layer 1: CometBFT Consensus & Staking'',
       la_shortName = ''CometBFT Consensus'',
       la_tier = ''Layer 1'',
       la_tagline = ''1.5s Deterministic Fast Finality with BFT-PoS Safety Bounds'',
       la_summary = ''Byzantine Fault Tolerant state-machine replication (crates/sprax-consensus). Employs 2/3+ voting rounds (Prevote, Precommit) with Deterministic Weighted Round-Robin (DWRR) proposer rotation and anti-equivocation slashing.'',
       la_keyComponents = [''CometBFT BFT-PoS Consensus State Machine'', ''Dynamic Top-100 Active Validator Set'', ''DWRR Proposer Priority Rotation Algorithm'', ''Slashing Module (Downtime Jailing & Double-Sign Tombstone)''],
       la_specs = [(''Block Finality'', ''1.5s (Single Block Deterministic)''), (''Byzantine Threshold'', ''33.4% Fault Tolerance''), (''Active Set'', ''Top 100 Validators'')],
       la_docLink = ''/learn/consensus'' \<rparr>,
     \<lparr> la_id = ''storage'',
       la_name = ''Layer 0: P2P Network & Dual-Tier Storage'',
       la_shortName = ''P2P & Storage Core'',
       la_tier = ''Layer 0'',
       la_tagline = ''Noise Protocol Transport & Pure-Rust Redb Persistent Store'',
       la_summary = ''Encrypted GossipSub v1.1 peer-to-peer transport coupled with dual-tier state persistence (crates/sprax-storage & crates/sprax-network). Features append-only raw block logs and crash-consistent WAL commits.'',
       la_keyComponents = [''libp2p GossipSub v1.1 & Noise Handshake Transport'', ''Compact Block Relay & Catch-Up Sync Pipeline'', ''Pure-Rust Redb Embedded Key-Value Storage'', ''Jellyfish Sparse Merkle State Root Commitments''],
       la_specs = [(''Transport Encryption'', ''Noise Protocol (ChaCha20-Poly1305)''), (''Storage Engine'', ''Redb + Memory-Mapped Log''), (''Supply Invariant'', ''Strict 1 Billion SPRX Conservation'')],
       la_docLink = ''/developers/nodes'' \<rparr>]"

record RpcMethod =
  rm_method :: string
  rm_category :: string
  rm_description :: string
  rm_sampleParams :: string
  rm_sampleResult :: jsval

definition rpcMethods :: "RpcMethod list" where
  "rpcMethods =
    [\<lparr> rm_method = ''sprax_getStatus'',
       rm_category = ''Chain & Consensus'',
       rm_description = ''Returns active chain ID, latest block height, state root, and validator counts.'',
       rm_sampleParams = ''[]'',
       rm_sampleResult =
          JObj [(''chainId'', JStr ''sprax-mainnet-1''), (''latestBlockHeight'', JInt 8245920), (''latestBlockHash'', JStr ''0x7f8a9b2c3d4e5f60718293a4b5c6d7e8f901a2b3c4d5e6f708192a3b4c5d6e70''), (''stateRoot'', JStr ''0xabcdef0123456789abcdef0123456789abcdef0123456789abcdef0123456789''), (''connectedPeers'', JInt 48), (''validatorCount'', JInt 100), (''syncStatus'', JStr ''synced''), (''mempoolPending'', JInt 12)] \<rparr>,
     \<lparr> rm_method = ''sprax_getBlock'',
       rm_category = ''Block Ledger'',
       rm_description = ''Fetches block header, state root commitments, and transactions list by height or hash.'',
       rm_sampleParams = (''['' @ [c_dq] @ ''latest'' @ [c_dq] @ '']''),
       rm_sampleResult =
          JObj [(''hash'', JStr ''0x7f8a9b2c3d4e5f60718293a4b5c6d7e8f901a2b3c4d5e6f708192a3b4c5d6e70''), (''header'', JObj [(''height'', JInt 8245920), (''timestampUnixSecs'', JInt 1774000000), (''proposer'', JStr ''spraxvaloper1q8x9y7w6e5r4t3y2u1i0o9p8a7s6d5f4g3h2j1''), (''txsCount'', JInt 14), (''gasUsed'', JInt 145000)])] \<rparr>,
     \<lparr> rm_method = ''sprax_getAccount'',
       rm_category = ''State Query'',
       rm_description = ''Retrieves 18-decimal balance in atto-SPRX and account sequence nonce.'',
       rm_sampleParams = (''['' @ [c_dq] @ ''sprax1sdtpz05x2r7d70u428v2ff3rtyj49z65a380gr'' @ [c_dq] @ '']''),
       rm_sampleResult =
          JObj [(''address'', JStr ''sprax1sdtpz05x2r7d70u428v2ff3rtyj49z65a380gr''), (''balance'', JStr ''154250000000000000000000''), (''balanceSprx'', JStr ''154250.00''), (''nonce'', JInt 42)] \<rparr>,
     \<lparr> rm_method = ''sprax_estimateFee'',
       rm_category = ''Execution'',
       rm_description = ''Estimates base gas fee and recommended gas limit for a proposed transaction payload.'',
       rm_sampleParams = ''[]'',
       rm_sampleResult =
          JObj [(''fee'', JStr ''500000000000000''), (''feeSprx'', JStr ''0.0005''), (''gasLimit'', JInt 200000)] \<rparr>,
     \<lparr> rm_method = ''sprax_getValidators'',
       rm_category = ''Staking'',
       rm_description = ''Returns active validator set with voting power and consensus public keys.'',
       rm_sampleParams = ''[]'',
       rm_sampleResult =
          JArr [JObj [(''address'', JStr ''spraxvaloper1q8x9y7w6e5r4t3y2u1i0o9p8a7s6d5f4g3h2j1''), (''votingPower'', JInt 3500000), (''moniker'', JStr ''SPRX Core Genesis Alpha'')], JObj [(''address'', JStr ''spraxvaloper1a2s3d4f5g6h7j8k9l0z1x2c3v4b5n6m7q8w9e0''), (''votingPower'', JInt 2800000), (''moniker'', JStr ''Global Real-World X Node'')]] \<rparr>]"

end
