(* ===== verification/Explorer_Views.thy ===== *)
theory Explorer_Views
  imports Explorer_Api Explorer_Formatters
begin

text \<open>
  The small components that the explorer's pages share (\<^verbatim>\<open>src/apps/explorer-ui/src/components\<close>): links,
  status badges, tabs, the copy button, the empty state and the error boundary.  A component is the text
  it shows and the state it keeps; colours are kept where they carry meaning, layout is not.  The pages
  take records of the declared types, not unvalidated answers.
\<close>

text \<open>What the host decides: the service's host, the text of a date and \<^verbatim>\<open>Math.log\<close>.\<close>

record view_env =
  ve_host :: host
  ve_date :: "js_number \<Rightarrow> string"
  ve_log :: "js_number \<Rightarrow> js_number"

definition locale_int :: "view_env \<Rightarrow> int \<Rightarrow> string" where
  "locale_int e n = h_toLocaleString (ve_host e) (NInt n) 0 3"

definition ago_text :: "view_env \<Rightarrow> int \<Rightarrow> string" where
  "ago_text e secs = formatTimeAgo (h_now (ve_host e)) (NInt secs)"

definition date_title :: "view_env \<Rightarrow> int \<Rightarrow> string" where
  "date_title e secs = formatTimestamp (ve_date e) (NInt secs)"

definition size_text :: "view_env \<Rightarrow> int \<Rightarrow> string" where
  "size_text e n = formatBytes (ve_log e) (NInt n)"

section \<open>Links\<close>

definition HashLink :: "string \<Rightarrow> bool \<Rightarrow> int \<Rightarrow> int \<Rightarrow> string" where
  "HashLink hash trunc start end = (if trunc then truncateHash (Some hash) start end else hash)"

definition TxLink :: "string \<Rightarrow> int \<Rightarrow> int \<Rightarrow> string" where
  "TxLink hash start end = HashLink hash True start end"

definition AddressLink :: "string \<Rightarrow> bool \<Rightarrow> int \<Rightarrow> int \<Rightarrow> string option \<Rightarrow> string" where
  "AddressLink address trunc start end label =
     (case label of
        Some l \<Rightarrow> if l \<noteq> [] then l else if trunc then truncateAddress (Some address) start end else address
      | None \<Rightarrow> if trunc then truncateAddress (Some address) start end else address)"

definition BlockLink :: "view_env \<Rightarrow> int \<Rightarrow> string" where
  "BlockLink e height = ''#'' @ locale_int e height"

definition ValidatorLink :: "string \<Rightarrow> string option \<Rightarrow> string" where
  "ValidatorLink address moniker =
     (case moniker of Some m \<Rightarrow> m | None \<Rightarrow> []) @ truncateAddress (Some address) 8 6"

section \<open>Badges, tabs and headers\<close>

datatype badge_tone = Tone_neutral | Tone_good | Tone_pending | Tone_bad | Tone_live | Tone_testnet

definition StatusBadge :: "string \<Rightarrow> badge_tone \<times> string" where
  "StatusBadge status =
     (let norm = toLowerCase status in
      if norm = ''success'' \<or> norm = ''confirmed'' \<or> norm = ''active''
      then (Tone_good, if norm = ''success'' then ''Success'' else if norm = ''confirmed'' then ''Confirmed'' else ''Active'')
      else if norm = ''pending'' then (Tone_pending, ''Pending'')
      else if norm = ''failed'' \<or> norm = ''jailed'' \<or> norm = ''inactive''
      then (Tone_bad, if norm = ''failed'' then ''Failed'' else if norm = ''jailed'' then ''Jailed'' else ''Inactive'')
      else if norm = ''live'' then (Tone_live, ''LIVE'')
      else if norm = ''testnet'' then (Tone_testnet, ''SPRX TESTNET'')
      else (Tone_neutral, status))"

record TabItem =
  tb_id :: string
  tb_label :: string
  tb_count :: "int option"

definition tab :: "string \<Rightarrow> string \<Rightarrow> int option \<Rightarrow> TabItem" where
  "tab i label count = \<lparr> tb_id = i, tb_label = label, tb_count = count \<rparr>"

text \<open>A tab's text, with its count when there is one, and whether it is the active one.\<close>

definition Tabs :: "TabItem list \<Rightarrow> string \<Rightarrow> (string \<times> bool) list" where
  "Tabs tabs activeTab =
     map (\<lambda>t. (tb_label t @ (case tb_count t of Some n \<Rightarrow> int_str n | None \<Rightarrow> []), activeTab = tb_id t)) tabs"

text \<open>A page's header: its back button, title, badge and subtitle, those that are given.\<close>

definition given :: "string option \<Rightarrow> string list" where
  "given t = (case t of Some s \<Rightarrow> (if s = [] then [] else [s]) | None \<Rightarrow> [])"

definition PageHeader :: "string option \<Rightarrow> string \<Rightarrow> string option \<Rightarrow> string option \<Rightarrow> string list" where
  "PageHeader back title badge subtitle = given back @ [title] @ given badge @ given subtitle"

text \<open>What a list shows: a placeholder while it loads, a note with an action, or its rows.\<close>

datatype page_link =
    To_block int
  | To_tx string
  | To_address string
  | To_validator string
  | To_contract string

record table_row =
  rw_cells :: "string list"
  rw_links :: "page_link list"

datatype listing =
    Loading_rows nat nat
  | EmptyState (es_title: string) (es_description: string) (es_action: "string option")
  | Rows (rw_headers: "string list") (rw_rows: "table_row list")

section \<open>The copy button\<close>

text \<open>Every successful copy starts a timer of its own; the first that fires takes the mark away.\<close>

record CopyButton =
  cb_copied :: bool
  cb_timers :: nat

definition copy_init :: CopyButton where
  "copy_init = \<lparr> cb_copied = False, cb_timers = 0 \<rparr>"

definition handleCopy :: "bool \<Rightarrow> CopyButton \<Rightarrow> CopyButton" where
  "handleCopy ok b = (if ok then \<lparr> cb_copied = True, cb_timers = Suc (cb_timers b) \<rparr> else b)"

definition copy_timeout :: "CopyButton \<Rightarrow> CopyButton" where
  "copy_timeout b = (if 0 < cb_timers b then \<lparr> cb_copied = False, cb_timers = cb_timers b - 1 \<rparr> else b)"

definition copy_title :: "CopyButton \<Rightarrow> string" where
  "copy_title b = (if cb_copied b then ''Copied!'' else ''Copy to clipboard'')"

fun copy_click :: "(string \<Rightarrow> unit res) option \<Rightarrow> (string \<Rightarrow> bool res) \<Rightarrow> string \<Rightarrow> CopyButton \<Rightarrow> CopyButton" where
  "copy_click clipboard execCopy t b = handleCopy (copyToClipboard clipboard execCopy t) b"

text \<open>The mark never stays: whenever it is shown, a timer is running that takes it away.\<close>

inductive copy_reach :: "CopyButton \<Rightarrow> bool" where
  start: "copy_reach copy_init"
| copy: "copy_reach b \<Longrightarrow> copy_reach (handleCopy ok b)"
| timeout: "copy_reach b \<Longrightarrow> copy_reach (copy_timeout b)"

lemma copy_mark_ends: "copy_reach b \<Longrightarrow> cb_copied b \<Longrightarrow> 0 < cb_timers b \<and> \<not> cb_copied (copy_timeout b)"
proof -
  assume "copy_reach b" "cb_copied b"
  then have "0 < cb_timers b"
    by (induction rule: copy_reach.induct) (auto simp: copy_init_def handleCopy_def copy_timeout_def split: if_splits)
  then show ?thesis by (simp add: copy_timeout_def)
qed

section \<open>The error boundary\<close>

text \<open>An exception while rendering replaces the whole application until it is reloaded.\<close>

record 'a boundary =
  bd_error :: "js_error option"
  bd_view :: "'a option"

definition boundary_render :: "'a res \<Rightarrow> 'a boundary \<Rightarrow> 'a boundary" where
  "boundary_render children b =
     (case bd_error b of
        Some _ \<Rightarrow> b
      | None \<Rightarrow>
          (case children of
             Inr v \<Rightarrow> \<lparr> bd_error = None, bd_view = Some v \<rparr>
           | Inl e \<Rightarrow> \<lparr> bd_error = Some e, bd_view = None \<rparr>))"

definition boundary_text :: "'a boundary \<Rightarrow> string option" where
  "boundary_text b =
     map_option (\<lambda>e. if message e \<noteq> [] then message e else ''An unexpected error occurred in the application.'')
       (bd_error b)"

lemma boundary_sticks: "bd_error b \<noteq> None \<Longrightarrow> boundary_render children b = b"
  by (auto simp: boundary_render_def)

lemma boundary_shows:
  "boundary_text (boundary_render (Inl e) \<lparr> bd_error = None, bd_view = v \<rparr>) \<noteq> None"
  by (simp add: boundary_render_def boundary_text_def)

end
