(* ===== verification/Explorer_Lists.thy ===== *)
theory Explorer_Lists
  imports Explorer_Views Paging
begin

text \<open>
  The four list pages of the explorer: \<^verbatim>\<open>BlocksPage\<close>, \<^verbatim>\<open>TransactionsPage\<close>, \<^verbatim>\<open>ValidatorsPage\<close> and
  \<^verbatim>\<open>ContractsPage\<close> under \<^verbatim>\<open>src/apps/explorer-ui/src/pages\<close>.  Each holds the page of records that the
  application gives it, a query and perhaps other filters, and shows the rows that pass.
\<close>

section \<open>Filtering by a query\<close>

text \<open>
  What the pages share: a query without a visible character lets everything pass, any other is
  searched, in lower case and as typed, in some fields of the record.
\<close>

locale query_filter =
  fixes passes :: "string \<Rightarrow> 'a \<Rightarrow> bool"
    and fields :: "'a \<Rightarrow> string list"
  assumes blank_passes: "trim q = [] \<Longrightarrow> passes q x"
    and query_passes: "trim q \<noteq> [] \<Longrightarrow> passes q x \<longleftrightarrow> (\<exists>f \<in> set (fields x). js_includes f (toLowerCase q))"
begin

lemma blank_shows_all: "trim q = [] \<Longrightarrow> filter (passes q) xs = xs"
  by (simp add: blank_passes)

lemma longer_query_shows_less:
  assumes "trim q \<noteq> []" "trim (a @ q @ b) \<noteq> []"
  shows "set (filter (passes (a @ q @ b)) xs) \<subseteq> set (filter (passes q) xs)"
proof
  fix x
  assume "x \<in> set (filter (passes (a @ q @ b)) xs)"
  then obtain f where "x \<in> set xs" "f \<in> set (fields x)" "js_includes f (toLowerCase (a @ q @ b))"
    using assms(2) by (auto simp: query_passes)
  moreover from this(3) obtain u v where "f = u @ toLowerCase (a @ q @ b) @ v" by (auto simp: js_includes_iff)
  then have "f = (u @ toLowerCase a) @ toLowerCase q @ (toLowerCase b @ v)" by (simp add: toLowerCase_def)
  then have "js_includes f (toLowerCase q)" unfolding js_includes_iff by blast
  ultimately show "x \<in> set (filter (passes q) xs)"
    using assms(1) by (auto simp: query_passes)
qed

text \<open>The query is tested without its blanks but searched with them.\<close>

lemma padded_hides:
  assumes "trim q \<noteq> []" "c \<in> set q" "\<And>x f. x \<in> set xs \<Longrightarrow> f \<in> set (fields x) \<Longrightarrow> lower_char c \<notin> set f"
  shows "filter (passes q) xs = []"
proof -
  have "\<not> passes q x" if "x \<in> set xs" for x
  proof
    assume "passes q x"
    then obtain f where f: "f \<in> set (fields x)" "js_includes f (toLowerCase q)"
      using assms(1) by (auto simp: query_passes)
    have "lower_char c \<in> set (toLowerCase q)" using assms(2) by (auto simp: toLowerCase_def)
    moreover from f(2) obtain u v where "f = u @ toLowerCase q @ v" by (auto simp: js_includes_iff)
    ultimately have "lower_char c \<in> set f" by simp
    with assms(3) [OF that f(1)] show False by simp
  qed
  then show ?thesis by (simp add: filter_empty_conv)
qed

end

section \<open>BlocksPage\<close>

record BlocksPage =
  bp_blocks :: "IndexedBlock list"
  bp_isLoading :: bool
  bp_filterQuery :: string

definition block_passes :: "string \<Rightarrow> IndexedBlock \<Rightarrow> bool" where
  "block_passes filterQuery b =
     (if trim filterQuery = [] then True
      else let q = toLowerCase filterQuery in
           js_includes (int_str (bk_height b)) q \<or> js_includes (toLowerCase (bk_hash b)) q \<or>
           js_includes (toLowerCase (bk_proposer b)) q)"

definition block_row :: "view_env \<Rightarrow> IndexedBlock \<Rightarrow> table_row" where
  "block_row e block =
     \<lparr> rw_cells =
         [BlockLink e (bk_height block), ago_text e (bk_timestamp_unix_secs block),
          AddressLink (bk_proposer block) True 8 6 None, int_str (bk_txs_count block),
          locale_int e (bk_gas_used block), size_text e (bk_block_size_bytes block)],
       rw_links = [To_block (bk_height block), To_address (bk_proposer block)] \<rparr>"

definition blocks_filtered :: "BlocksPage \<Rightarrow> IndexedBlock list" where
  "blocks_filtered p = filter (block_passes (bp_filterQuery p)) (bp_blocks p)"

definition blocks_listing :: "view_env \<Rightarrow> BlocksPage \<Rightarrow> listing" where
  "blocks_listing e p =
     (if bp_isLoading p then Loading_rows 8 6
      else if blocks_filtered p = []
      then EmptyState ''No Blocks Found'' ''No blocks match your current filter query.'' (Some ''Clear Filter'')
      else Rows [''Block'', ''Age'', ''Validator / Proposer'', ''Txns'', ''Gas Used'', ''Size'']
             (map (block_row e) (blocks_filtered p)))"

definition blocks_setFilterQuery :: "string \<Rightarrow> BlocksPage \<Rightarrow> BlocksPage" where
  "blocks_setFilterQuery q p = p \<lparr> bp_filterQuery := q \<rparr>"

definition blocks_clear :: "BlocksPage \<Rightarrow> BlocksPage" where
  "blocks_clear p = p \<lparr> bp_filterQuery := [] \<rparr>"

section \<open>TransactionsPage\<close>

record TransactionsPage =
  tp_transactions :: "IndexedTx list"
  tp_isLoading :: bool
  tp_filterType :: string
  tp_statusFilter :: string
  tp_searchQuery :: string

definition transactions_page :: "IndexedTx list \<Rightarrow> TransactionsPage" where
  "transactions_page txs =
     \<lparr> tp_transactions = txs, tp_isLoading = False, tp_filterType = ''all'', tp_statusFilter = ''all'', tp_searchQuery = [] \<rparr>"

definition tx_query_passes :: "string \<Rightarrow> IndexedTx \<Rightarrow> bool" where
  "tx_query_passes searchQuery tx =
     (if trim searchQuery = [] then True
      else let q = toLowerCase searchQuery in
           js_includes (toLowerCase (ix_tx_hash tx)) q \<or> js_includes (toLowerCase (ix_sender tx)) q \<or>
           (case ix_recipient tx of Some r \<Rightarrow> r \<noteq> [] \<and> js_includes (toLowerCase r) q | None \<Rightarrow> False))"

definition tx_passes :: "TransactionsPage \<Rightarrow> IndexedTx \<Rightarrow> bool" where
  "tx_passes p tx =
     (if tp_filterType p \<noteq> ''all'' \<and> ix_message_type tx \<noteq> tp_filterType p then False
      else if tp_statusFilter p = ''success'' \<and> \<not> ix_success tx then False
      else if tp_statusFilter p = ''failed'' \<and> ix_success tx then False
      else tx_query_passes (tp_searchQuery p) tx)"

definition recipient_cell :: "IndexedTx \<Rightarrow> string \<Rightarrow> int \<Rightarrow> int \<Rightarrow> string" where
  "recipient_cell tx other start end =
     (case ix_recipient tx of
        Some r \<Rightarrow> if r \<noteq> [] then AddressLink r True start end None else other
      | None \<Rightarrow> other)"

definition recipient_link :: "IndexedTx \<Rightarrow> page_link list" where
  "recipient_link tx = (case ix_recipient tx of Some r \<Rightarrow> (if r \<noteq> [] then [To_address r] else []) | None \<Rightarrow> [])"

definition tx_row :: "view_env \<Rightarrow> IndexedTx \<Rightarrow> table_row" where
  "tx_row e tx =
     \<lparr> rw_cells =
         [TxLink (ix_tx_hash tx) 8 6, ix_message_type tx, BlockLink e (ix_block_height tx),
          ago_text e (ix_timestamp_unix_secs tx), AddressLink (ix_sender tx) True 6 4 None,
          recipient_cell tx ''(Contract)'' 6 4, ix_amount tx, ix_fee_amount tx,
          snd (StatusBadge (if ix_success tx then ''confirmed'' else ''failed''))],
       rw_links =
         [To_tx (ix_tx_hash tx), To_block (ix_block_height tx), To_address (ix_sender tx)] @ recipient_link tx \<rparr>"

definition txs_filtered :: "TransactionsPage \<Rightarrow> IndexedTx list" where
  "txs_filtered p = filter (tx_passes p) (tp_transactions p)"

definition txs_listing :: "view_env \<Rightarrow> TransactionsPage \<Rightarrow> listing" where
  "txs_listing e p =
     (if tp_isLoading p then Loading_rows 8 7
      else if txs_filtered p = []
      then EmptyState ''No Transactions Found'' ''No transactions match your current filters.'' (Some ''Reset Filters'')
      else Rows [''Tx Hash'', ''Method / Type'', ''Block'', ''Age'', ''From'', ''To'', ''Amount'', ''Fee'', ''Status'']
             (map (tx_row e) (txs_filtered p)))"

definition status_options :: "string list" where
  "status_options = [''all'', ''success'', ''failed'']"

definition type_options :: "(string \<times> string) list" where
  "type_options =
     [(''all'', ''All Message Types''), (''Transfer'', ''Transfer''), (''Delegate'', ''Delegate''),
      (''Undelegate'', ''Undelegate''), (''ContractCall'', ''ContractCall'')]"

datatype TxsEvent = Set_statusFilter string | Set_filterType string | Set_searchQuery string | Reset_filters

fun txs_offers :: "TxsEvent \<Rightarrow> TransactionsPage \<Rightarrow> bool" where
  "txs_offers (Set_statusFilter st) p = (st \<in> set status_options)"
| "txs_offers (Set_filterType t) p = (t \<in> set (map fst type_options))"
| "txs_offers (Set_searchQuery q) p = True"
| "txs_offers Reset_filters p = (\<not> tp_isLoading p \<and> txs_filtered p = [])"

fun txs_handle :: "TxsEvent \<Rightarrow> TransactionsPage \<Rightarrow> TransactionsPage" where
  "txs_handle (Set_statusFilter st) p = p \<lparr> tp_statusFilter := st \<rparr>"
| "txs_handle (Set_filterType t) p = p \<lparr> tp_filterType := t \<rparr>"
| "txs_handle (Set_searchQuery q) p = p \<lparr> tp_searchQuery := q \<rparr>"
| "txs_handle Reset_filters p = p \<lparr> tp_filterType := ''all'', tp_statusFilter := ''all'', tp_searchQuery := [] \<rparr>"

section \<open>ValidatorsPage\<close>

record ValidatorsPage =
  vp_validators :: "IndexedValidator list"
  vp_isLoading :: bool
  vp_filterQuery :: string
  vp_statusFilter :: string

definition validator_query_passes :: "string \<Rightarrow> IndexedValidator \<Rightarrow> bool" where
  "validator_query_passes filterQuery v =
     (if trim filterQuery \<noteq> []
      then let q = toLowerCase filterQuery in
           js_includes (toLowerCase (iv_moniker v)) q \<or> js_includes (toLowerCase (iv_operator_address v)) q
      else True)"

definition validator_passes :: "ValidatorsPage \<Rightarrow> IndexedValidator \<Rightarrow> bool" where
  "validator_passes p v =
     (if vp_statusFilter p \<noteq> ''all'' \<and> toLowerCase (ValidatorStatus_text (iv_status v)) \<noteq> vp_statusFilter p then False
      else validator_query_passes (vp_filterQuery p) v)"

definition validator_row :: "view_env \<Rightarrow> nat \<Rightarrow> IndexedValidator \<Rightarrow> table_row" where
  "validator_row e idx val =
     \<lparr> rw_cells =
         [int_str (int idx + 1),
          toUpperCase (slice (iv_moniker val) 0 2), iv_moniker val, truncateAddress (Some (iv_operator_address val)) 8 6,
          locale_int e (iv_voting_power val), toFixed (iv_voting_power_percentage val) 1 @ ''% share'',
          iv_tokens val, toFixed (n_mul (iv_commission_rate val) (Fin 100)) 1 @ ''%'',
          toFixed (iv_uptime_percentage val) 2 @ ''%'', locale_int e (iv_blocks_proposed_count val),
          snd (StatusBadge (ValidatorStatus_text (iv_status val)))],
       rw_links = [To_validator (iv_operator_address val)] \<rparr>"

definition validators_filtered :: "ValidatorsPage \<Rightarrow> IndexedValidator list" where
  "validators_filtered p = filter (validator_passes p) (vp_validators p)"

definition validators_listing :: "view_env \<Rightarrow> ValidatorsPage \<Rightarrow> listing" where
  "validators_listing e p =
     (if vp_isLoading p then Loading_rows 6 7
      else if validators_filtered p = []
      then EmptyState ''No Validators Found'' ''No validator nodes match your filter criteria.'' (Some ''Reset Filters'')
      else Rows [''#'', ''Validator / Moniker'', ''Voting Power'', ''Bonded Stake'', ''Commission'', ''Uptime'',
                 ''Blocks Produced'', ''Status'']
             (map (\<lambda>(idx, val). validator_row e idx val) (enumerate 0 (validators_filtered p))))"

definition validator_status_options :: "string list" where
  "validator_status_options = [''all'', ''active'', ''jailed'']"

definition validators_reset :: "ValidatorsPage \<Rightarrow> ValidatorsPage" where
  "validators_reset p = p \<lparr> vp_statusFilter := ''all'', vp_filterQuery := [] \<rparr>"

section \<open>ContractsPage\<close>

record ContractsPage =
  cp_contracts :: "SmartContract list"
  cp_filterQuery :: string

definition contract_passes :: "string \<Rightarrow> SmartContract \<Rightarrow> bool" where
  "contract_passes filterQuery c =
     (if trim filterQuery = [] then True
      else let q = toLowerCase filterQuery in
           js_includes (toLowerCase (ct_address c)) q \<or> js_includes (toLowerCase (ct_creator c)) q \<or>
           (case ct_compiler_version c of Some v \<Rightarrow> v \<noteq> [] \<and> js_includes (toLowerCase v) q | None \<Rightarrow> False))"

text \<open>
  A click on one of the links inside a row bubbles up to the row, so the first link of the list is
  followed as well.
\<close>

definition contract_row :: "view_env \<Rightarrow> SmartContract \<Rightarrow> table_row" where
  "contract_row e c =
     \<lparr> rw_cells =
         [truncateAddress (Some (ct_address c)) 10 6, AddressLink (ct_creator c) True 6 4 None,
          BlockLink e (ct_created_height c), locale_int e (ct_tx_count c), size_text e (ct_bytecode_size c),
          (if ct_verified c then ''Verified'' else ''Unverified'')],
       rw_links = [To_contract (ct_address c), To_address (ct_creator c), To_block (ct_created_height c)] \<rparr>"

definition contracts_filtered :: "ContractsPage \<Rightarrow> SmartContract list" where
  "contracts_filtered p = filter (contract_passes (cp_filterQuery p)) (cp_contracts p)"

definition contracts_listing :: "view_env \<Rightarrow> ContractsPage \<Rightarrow> listing" where
  "contracts_listing e p =
     (if contracts_filtered p = []
      then EmptyState ''No Contracts Found'' ''No smart contracts match your query.'' (Some ''Clear Filter'')
      else Rows [''Contract Address'', ''Creator'', ''Created Block'', ''Transactions'', ''Size'', ''Status'']
             (map (contract_row e) (contracts_filtered p)))"

definition contracts_clear :: "ContractsPage \<Rightarrow> ContractsPage" where
  "contracts_clear p = p \<lparr> cp_filterQuery := [] \<rparr>"

section \<open>Correctness\<close>

definition block_fields :: "IndexedBlock \<Rightarrow> string list" where
  "block_fields b = [int_str (bk_height b), toLowerCase (bk_hash b), toLowerCase (bk_proposer b)]"

definition tx_fields :: "IndexedTx \<Rightarrow> string list" where
  "tx_fields tx = map toLowerCase ([ix_tx_hash tx, ix_sender tx] @ given (ix_recipient tx))"

definition validator_fields :: "IndexedValidator \<Rightarrow> string list" where
  "validator_fields v = [toLowerCase (iv_moniker v), toLowerCase (iv_operator_address v)]"

definition contract_fields :: "SmartContract \<Rightarrow> string list" where
  "contract_fields c = map toLowerCase ([ct_address c, ct_creator c] @ given (ct_compiler_version c))"

interpretation bq: query_filter block_passes block_fields
  by unfold_locales (simp_all add: block_passes_def block_fields_def Let_def)

interpretation tq: query_filter tx_query_passes tx_fields
  by unfold_locales (auto simp: tx_query_passes_def tx_fields_def given_def Let_def split: option.splits)

interpretation vq: query_filter validator_query_passes validator_fields
  by unfold_locales (simp_all add: validator_query_passes_def validator_fields_def Let_def)

interpretation cq: query_filter contract_passes contract_fields
  by unfold_locales (auto simp: contract_passes_def contract_fields_def given_def Let_def split: option.splits)

lemma txs_reset_all: "txs_filtered (txs_handle Reset_filters p) = tp_transactions p"
  by (simp add: txs_filtered_def tx_passes_def tq.blank_passes filter_id_conv)

lemma blocks_clear_all: "blocks_filtered (blocks_clear p) = bp_blocks p"
  by (simp add: blocks_filtered_def blocks_clear_def bq.blank_shows_all)

lemma validators_reset_all: "validators_filtered (validators_reset p) = vp_validators p"
  by (simp add: validators_filtered_def validators_reset_def validator_passes_def vq.blank_passes filter_id_conv)

lemma contracts_clear_all: "contracts_filtered (contracts_clear p) = cp_contracts p"
  by (simp add: contracts_filtered_def contracts_clear_def cq.blank_shows_all)

lemma txs_filtered_split:
  "txs_filtered p =
     filter (\<lambda>tx. (tp_filterType p = ''all'' \<or> ix_message_type tx = tp_filterType p) \<and>
                  (tp_statusFilter p = ''success'' \<longrightarrow> ix_success tx) \<and>
                  (tp_statusFilter p = ''failed'' \<longrightarrow> \<not> ix_success tx))
       (filter (tx_query_passes (tp_searchQuery p)) (tp_transactions p))"
  by (auto simp: txs_filtered_def tx_passes_def intro!: filter_cong split: if_splits)

text \<open>On the transactions page a query that contains a character no field of the listed transactions
  contains, for example the blank a pasted hash ends with, hides every row, whatever the other
  filters are: the query is tested without its surrounding blanks but searched with them.  The note
  that is shown instead offers to reset the filters, and that shows every transaction again.
\<close>

theorem padded_query_hides:
  assumes "trim (tp_searchQuery p) \<noteq> []" "c \<in> set (tp_searchQuery p)" "\<not> tp_isLoading p"
    and "\<And>tx f. tx \<in> set (tp_transactions p) \<Longrightarrow> f \<in> set (tx_fields tx) \<Longrightarrow> lower_char c \<notin> set f"
  shows "txs_listing e p =
           EmptyState ''No Transactions Found'' ''No transactions match your current filters.'' (Some ''Reset Filters'') \<and>
         txs_offers Reset_filters p \<and>
         txs_filtered (txs_handle Reset_filters p) = tp_transactions p"
proof -
  have "filter (tx_query_passes (tp_searchQuery p)) (tp_transactions p) = []"
    by (rule tq.padded_hides [OF assms(1,2)]) (rule assms(4))
  then have "txs_filtered p = []" by (simp add: txs_filtered_split)
  with assms(3) show ?thesis by (simp add: txs_listing_def txs_reset_all del: txs_handle.simps)
qed

definition sample_indexed_tx :: IndexedTx where
  "sample_indexed_tx =
     \<lparr> ix_tx_hash = ''0xAB'', ix_block_height = 7, ix_block_hash = ''0x07'', ix_sender = ''sprax1a'',
       ix_recipient = Some ''sprax1b'', ix_message_type = ''Transfer'', ix_amount = ''5 SPRX'', ix_fee_amount = ''0.01 SPRX'',
       ix_nonce = 1, ix_memo = [], ix_success = True, ix_gas_used = 21000, ix_timestamp_unix_secs = 0, ix_raw_messages = None \<rparr>"

theorem padded_query_hides_witness:
  "txs_filtered (transactions_page [sample_indexed_tx] \<lparr> tp_searchQuery := ''0xab'' \<rparr>) = [sample_indexed_tx] \<and>
   txs_offers Reset_filters (transactions_page [sample_indexed_tx] \<lparr> tp_searchQuery := ''0xab '' \<rparr>)"
proof -
  let ?p = "transactions_page [sample_indexed_tx] \<lparr> tp_searchQuery := ''0xab '' \<rparr>"
  have "txs_filtered (transactions_page [sample_indexed_tx] \<lparr> tp_searchQuery := ''0xab'' \<rparr>) = [sample_indexed_tx]"
    by code_simp
  moreover have lower: "lower_char (CHR '' '') = CHR '' ''" by code_simp
  have fields: "tx_fields sample_indexed_tx = [''0xab'', ''sprax1a'', ''sprax1b'']" by code_simp
  have shown: "trim (tp_searchQuery ?p) \<noteq> []" by code_simp
  have "txs_offers Reset_filters ?p"
    using padded_query_hides [of ?p "CHR '' ''", OF shown]
    by (fastforce simp: transactions_page_def lower fields)
  ultimately show ?thesis ..
qed

end
