(* ===== verification/Js_Pretty.thy ===== *)
theory Js_Pretty
  imports Js_Value
begin

text \<open>
  \<^verbatim>\<open>JSON.stringify(v, null, 2)\<close>: the text with line breaks and an indentation of two blanks for each
  level.  Parsing it gives the value back, as for the compact text.
\<close>

definition new_line :: "nat \<Rightarrow> string" where
  "new_line d = char_of (10 :: nat) # replicate d (CHR '' '')"

fun pretty :: "nat \<Rightarrow> jsval \<Rightarrow> string option"
  and arr_lines :: "nat \<Rightarrow> jsval list \<Rightarrow> string list"
  and obj_lines :: "nat \<Rightarrow> (string \<times> jsval) list \<Rightarrow> string list" where
  "pretty d JUndefined = None"
| "pretty d JNull = Some ''null''"
| "pretty d (JBool b) = Some (if b then ''true'' else ''false'')"
| "pretty d (JNum n) = Some (case n of Fin r \<Rightarrow> num_str n | _ \<Rightarrow> ''null'')"
| "pretty d (JStr s) = Some (quote s)"
| "pretty d (JArr xs) =
     Some (if xs = [] then ''[]''
           else ''['' @ new_line (d + 2) @ join ('','' @ new_line (d + 2)) (arr_lines (d + 2) xs) @ new_line d @ '']'')"
| "pretty d (JObj kvs) =
     Some (if obj_lines (d + 2) kvs = [] then ''{}''
           else ''{'' @ new_line (d + 2) @ join ('','' @ new_line (d + 2)) (obj_lines (d + 2) kvs) @ new_line d @ ''}'')"
| "arr_lines d [] = []"
| "arr_lines d (v # vs) = (case pretty d v of Some t \<Rightarrow> t | None \<Rightarrow> ''null'') # arr_lines d vs"
| "obj_lines d [] = []"
| "obj_lines d ((k, v) # kvs) =
     (case pretty d v of Some t \<Rightarrow> [quote k @ '': '' @ t] | None \<Rightarrow> []) @ obj_lines d kvs"

definition JSON_stringify_2 :: "jsval \<Rightarrow> string option" where
  "JSON_stringify_2 v = pretty 0 v"

section \<open>White space\<close>

lemma skip_ws_new_line [simp]: "skip_ws (new_line d @ s) = skip_ws s"
proof -
  have "dropWhile json_ws (replicate d (CHR '' '') @ s) = dropWhile json_ws s"
    by (induction d) (simp_all add: json_ws_def)
  then show ?thesis by (simp add: skip_ws_def new_line_def json_ws_def)
qed

lemma skip_ws_blank [simp]: "skip_ws (CHR '' '' # s) = skip_ws s"
  by (simp add: skip_ws_def json_ws_def)

lemma parse_value_skip: "skip_ws s = skip_ws s' \<Longrightarrow> parse_value n s = parse_value n s'"
  by (cases n) simp_all

lemma parse_elems_skip: "skip_ws s = skip_ws s' \<Longrightarrow> parse_elems n s = parse_elems n s'"
  by (cases n) (simp_all add: parse_value_skip [of s s'])

lemma parse_members_skip: "skip_ws s = skip_ws s' \<Longrightarrow> parse_members n s = parse_members n s'"
  by (cases n) simp_all

lemmas skip_new_line =
  parse_value_skip [OF skip_ws_new_line] parse_elems_skip [OF skip_ws_new_line] parse_members_skip [OF skip_ws_new_line]

lemma delim_new_line [simp]: "delim (new_line d @ s)"
  by (simp add: delim_def new_line_def json_ws_def)

section \<open>Parsing the indented text\<close>

lemma pretty_text:
  assumes "plain v"
  obtains c u where "pretty d v = Some (c # u)" "\<not> json_ws c" "c \<noteq> CHR '']''" "c \<noteq> CHR ''}''"
proof (cases "\<exists>xs kvs. v = JArr xs \<or> v = JObj kvs")
  case True
  then have "(\<exists>u. pretty d v = Some (CHR ''['' # u)) \<or> (\<exists>u. pretty d v = Some (CHR ''{'' # u))"
    by (elim exE disjE) (simp_all split: if_split)
  then show ?thesis using that [of "CHR ''[''"] that [of "CHR ''{''"] by (auto simp: json_ws_def)
next
  case False
  then have "pretty d v = stringify v" by (cases v) auto
  with plain_text [OF assms] that show ?thesis by metis
qed

lemma arr_lines_ne [simp]: "arr_lines d xs = [] \<longleftrightarrow> xs = []"
  by (cases xs) simp_all

lemma obj_lines_ne: "plain_obj kvs \<Longrightarrow> obj_lines d kvs = [] \<longleftrightarrow> kvs = []"
  by (cases kvs) (auto elim!: pretty_text [of _ d])

lemma join_Cons: "join s (x # xs) = (if xs = [] then x else x @ s @ join s xs)"
  by (cases xs) simp_all

lemma parse_pretty:
  "plain v \<Longrightarrow> pretty d v = Some t \<Longrightarrow> delim r \<Longrightarrow> 2 * length t + 1 \<le> n \<Longrightarrow>
     parse_value n (t @ r) = Some (v, r)"
  "plain_arr xs \<Longrightarrow> xs \<noteq> [] \<Longrightarrow> 2 * length (join ('','' @ new_line d) (arr_lines d xs)) + 2 \<le> n \<Longrightarrow>
     parse_elems n (join ('','' @ new_line d) (arr_lines d xs) @ new_line e @ '']'' @ r) = Some (xs, r)"
  "plain_obj kvs \<Longrightarrow> kvs \<noteq> [] \<Longrightarrow> 2 * length (join ('','' @ new_line d) (obj_lines d kvs)) + 2 \<le> n \<Longrightarrow>
     parse_members n (join ('','' @ new_line d) (obj_lines d kvs) @ new_line e @ ''}'' @ r) = Some (kvs, r)"
proof (induction v and xs and kvs arbitrary: d t n r and d n e r and d n e r rule: plain_plain_arr_plain_obj.induct)
  case (4 m)
  then have "stringify (JNum m) = Some t" by simp
  with 4 show ?case by (intro parse_stringified(1)) auto
next
  case (6 xs)
  then obtain k where n: "n = Suc k" by (cases n) auto
  show ?case
  proof (cases "xs = []")
    case True
    with 6 have "t = ''[]''" by simp
    with True n show ?thesis by simp
  next
    case False
    then obtain v vs where xs: "xs = v # vs" by (cases xs) auto
    with 6 obtain c u where cu: "pretty (d + 2) v = Some (c # u)" "\<not> json_ws c" "c \<noteq> CHR '']''"
      by (auto elim!: pretty_text [of v "d + 2"])
    let ?j = "join ('','' @ new_line (d + 2)) (arr_lines (d + 2) xs)"
    have t: "t = CHR ''['' # new_line (d + 2) @ ?j @ new_line d @ '']''" using 6(3) False by simp
    have "parse_elems k (?j @ new_line d @ '']'' @ r) = Some (xs, r)"
      using False 6 t n by (intro 6(1)) auto
    moreover have "\<exists>w. ?j = c # w" using xs cu by (simp add: join_Cons)
    ultimately show ?thesis
      using t cu n by (auto simp: skip_ws_id skip_new_line)
  qed
next
  case (7 kvs)
  then obtain k where n: "n = Suc k" by (cases n) auto
  show ?case
  proof (cases "kvs = []")
    case True
    with 7 have "t = ''{}''" by simp
    with True n show ?thesis by simp
  next
    case False
    then obtain a v rest where kvs: "kvs = (a, v) # rest" by (cases kvs) auto
    with 7 obtain t' where t': "pretty (d + 2) v = Some t'" by (auto elim!: pretty_text [of v "d + 2"])
    let ?j = "join ('','' @ new_line (d + 2)) (obj_lines (d + 2) kvs)"
    have t: "t = CHR ''{'' # new_line (d + 2) @ ?j @ new_line d @ ''}''"
      using 7(2,3) False by (auto simp: obj_lines_ne)
    have "parse_members k (?j @ new_line d @ ''}'' @ r) = Some (kvs, r)"
      using False 7 t n by (intro 7(1)) auto
    moreover have "\<exists>w. ?j = char_of (34 :: nat) # w" using kvs t' by (simp add: join_Cons quote_def)
    ultimately show ?thesis
      using t n 7(2) by (auto simp: skip_new_line obj_of_distinct char_of_eq_iff)
  qed
next
  case (9 v vs)
  then obtain k where n: "n = Suc k" by (cases n) auto
  from 9 obtain t where t: "pretty d v = Some t" by (auto elim!: pretty_text [of v d])
  show ?case
  proof (cases "vs = []")
    case True
    then have "parse_value k (t @ new_line e @ CHR '']'' # r) = Some (v, new_line e @ CHR '']'' # r)"
      using 9 n t by (intro 9(1)) auto
    with True t n show ?thesis by simp
  next
    case False
    let ?w = "join ('','' @ new_line d) (arr_lines d vs) @ new_line e @ CHR '']'' # r"
    have "parse_value k (t @ CHR '','' # new_line d @ ?w) = Some (v, CHR '','' # new_line d @ ?w)"
      using 9 n t False by (intro 9(1)) (auto simp: join_Cons)
    moreover have "parse_elems k ?w = Some (vs, r)"
      using 9(2) [of d k e r] 9 n t False by (auto simp: join_Cons)
    ultimately show ?thesis using False t n by (simp add: join_Cons skip_new_line)
  qed
next
  case (11 a v kvs)
  then obtain k where n: "n = Suc k" by (cases n) auto
  from 11 obtain t where t: "pretty d v = Some t" by (auto elim!: pretty_text [of v d])
  have ne: "obj_lines d kvs = [] \<longleftrightarrow> kvs = []" using 11 by (simp add: obj_lines_ne)
  have blank: "parse_value m (CHR '' '' # s) = parse_value m s" for m s by (rule parse_value_skip) simp
  show ?case
  proof (cases "kvs = []")
    case True
    then have "parse_value k (t @ new_line e @ CHR ''}'' # r) = Some (v, new_line e @ CHR ''}'' # r)"
      using 11 n t by (intro 11(1)) auto
    with True t n show ?thesis by (simp add: quote_def parse_str_quote blank)
  next
    case False
    let ?w = "join ('','' @ new_line d) (obj_lines d kvs) @ new_line e @ CHR ''}'' # r"
    have "parse_value k (t @ CHR '','' # new_line d @ ?w) = Some (v, CHR '','' # new_line d @ ?w)"
      using 11 n t ne False by (intro 11(1)) (auto simp: join_Cons)
    moreover have "parse_members k ?w = Some (kvs, r)"
      using 11(2) [of d k e r] 11 n t ne False by (auto simp: join_Cons)
    ultimately show ?thesis using False t n ne by (simp add: join_Cons quote_def parse_str_quote blank skip_new_line)
  qed
next
  case 2
  then show ?case by (intro parse_stringified(1)) auto
next
  case (3 b)
  then show ?case by (intro parse_stringified(1)) auto
next
  case (5 x)
  then show ?case by (intro parse_stringified(1)) auto
qed simp_all

lemma JSON_parse_pretty:
  assumes "plain v"
  obtains t where "JSON_stringify_2 v = Some t" "JSON_parse t = Inr v"
proof -
  obtain c u where t: "pretty 0 v = Some (c # u)" using pretty_text [OF assms] by metis
  with parse_pretty(1) [OF assms t, of "[]" "2 * length (c # u) + 2"] that [of "c # u"] show ?thesis
    by (simp add: JSON_parse_def JSON_stringify_2_def del: parse_value.simps)
qed

end
