(* ===== verification/Explorer_Details.thy ===== *)
theory Explorer_Details
  imports Explorer_Lists Js_Pretty
begin

text \<open>
  The detail pages of the explorer: \<^verbatim>\<open>AddressPage\<close>, \<^verbatim>\<open>BlockDetailsPage\<close>, \<^verbatim>\<open>TxDetailsPage\<close>,
  \<^verbatim>\<open>ValidatorDetailsPage\<close> and \<^verbatim>\<open>ContractDetailsPage\<close> under \<^verbatim>\<open>src/apps/explorer-ui/src/pages\<close>.  Each shows
  one record: its cards and labelled lines, and the contents of the selected tab.
\<close>

section \<open>Cards and lines\<close>

record card =
  cd_label :: string
  cd_value :: string
  cd_sub :: string

definition MetricCard :: "string \<Rightarrow> string \<Rightarrow> string \<Rightarrow> card" where
  "MetricCard label value subValue = \<lparr> cd_label = label, cd_value = value, cd_sub = subValue \<rparr>"

definition approx :: string where
  "approx = ''<U+2248> ''"

definition percent :: "js_number \<Rightarrow> nat \<Rightarrow> string" where
  "percent n digits = toFixed n digits @ ''%''"

text \<open>\<^verbatim>\<open>x || d\<close> for an optional text.\<close>

definition or_text :: "string option \<Rightarrow> string \<Rightarrow> string" where
  "or_text x d = (case x of Some s \<Rightarrow> (if s = [] then d else s) | None \<Rightarrow> d)"

definition confirmed_badge :: "bool \<Rightarrow> string" where
  "confirmed_badge ok = snd (StatusBadge (if ok then ''confirmed'' else ''failed''))"

text \<open>What the body of a page shows below the tabs.\<close>

datatype tab_body =
    Listing listing
  | Lines "(string \<times> string) list"
  | Paragraphs "string list"
  | Raw "string option"
  | No_body

section \<open>AddressPage\<close>

record AddressPage =
  ap_account :: IndexedAccount
  ap_txs :: "IndexedTx list"
  ap_currency :: string
  ap_filter :: string
  ap_activeTab :: string
  ap_qrOpen :: bool

definition address_page :: "IndexedAccount \<Rightarrow> IndexedTx list \<Rightarrow> string \<Rightarrow> AddressPage" where
  "address_page account txs currency =
     \<lparr> ap_account = account, ap_txs = txs, ap_currency = currency, ap_filter = ''all'', ap_activeTab = ''txs'',
       ap_qrOpen = False \<rparr>"

definition isOut :: "IndexedAccount \<Rightarrow> IndexedTx \<Rightarrow> bool" where
  "isOut account tx \<longleftrightarrow> toLowerCase (ix_sender tx) = toLowerCase (ia_address account)"

definition isIn :: "IndexedAccount \<Rightarrow> IndexedTx \<Rightarrow> bool" where
  "isIn account tx \<longleftrightarrow> map_option toLowerCase (ix_recipient tx) = Some (toLowerCase (ia_address account))"

definition filteredTxs :: "AddressPage \<Rightarrow> IndexedTx list" where
  "filteredTxs p =
     filter (\<lambda>tx. if ap_filter p = ''in'' then isIn (ap_account p) tx
                  else if ap_filter p = ''out'' then isOut (ap_account p) tx
                  else True) (ap_txs p)"

definition address_cards :: "view_env \<Rightarrow> AddressPage \<Rightarrow> card list" where
  "address_cards e p =
     (let account = ap_account p in
      [MetricCard ''Native Balance'' (ia_balance_sprx account)
         (approx @ formatFiat (JStr (ia_balance_sprx account)) (ap_currency p)),
       MetricCard ''Total Transactions'' (locale_int e (ia_tx_count account)) ''Executed on-chain'',
       MetricCard ''Account Nonce'' (int_str (ia_nonce account)) ''State sequence'',
       MetricCard ''First Seen'' (''#'' @ locale_int e (ia_first_seen_height account))
         (''Last: #'' @ locale_int e (ia_last_active_height account))])"

definition address_tabs :: "AddressPage \<Rightarrow> TabItem list" where
  "address_tabs p =
     [tab ''txs'' ''Transactions'' (Some (int (length (ap_txs p)))), tab ''staking'' ''Delegations'' (Some 1),
      tab ''raw'' ''Account State'' None]"

definition filter_options :: "(string \<times> string) list" where
  "filter_options = [(''all'', ''All''), (''in'', ''Inbound (IN)''), (''out'', ''Outbound (OUT)'')]"

definition direction_text :: "bool \<Rightarrow> string" where
  "direction_text out = (if out then ''OUT'' else ''IN'')"

definition signed_amount :: "bool \<Rightarrow> IndexedTx \<Rightarrow> string" where
  "signed_amount out tx = (if out then ''-'' else ''+'') @ ix_amount tx"

definition address_row :: "view_env \<Rightarrow> IndexedAccount \<Rightarrow> IndexedTx \<Rightarrow> table_row" where
  "address_row e account tx =
     (let out = isOut account tx in
      \<lparr> rw_cells =
          [TxLink (ix_tx_hash tx) 8 6, direction_text out, BlockLink e (ix_block_height tx),
           (if out then AddressLink (or_text (ix_recipient tx) ''Contract'') True 6 4 None
            else AddressLink (ix_sender tx) True 6 4 None),
           ago_text e (ix_timestamp_unix_secs tx), signed_amount out tx],
        rw_links =
          [To_tx (ix_tx_hash tx), To_block (ix_block_height tx)] @
          (if out then recipient_link tx else [To_address (ix_sender tx)]) \<rparr>)"

definition staking_lines :: "string list" where
  "staking_lines =
     [''Delegated Staking Position'', ''SPRX Core Genesis Alpha Node'',
      ''spraxvaloper1q8x9y7w6e5r4t3y2u1i0o9p8a7s6d5f4g3h2j1'', ''500.00 SPRX'', ''Pending Rewards: 12.45 SPRX'']"

definition address_body :: "view_env \<Rightarrow> AddressPage \<Rightarrow> tab_body" where
  "address_body e p =
     (if ap_activeTab p = ''txs''
      then Listing
             (if filteredTxs p = []
              then EmptyState ''No Transactions'' ''No transactions found matching your address filter.'' None
              else Rows [''Tx Hash'', ''Direction'', ''Block'', ''From / To'', ''Age'', ''Amount'']
                     (map (address_row e (ap_account p)) (filteredTxs p)))
      else if ap_activeTab p = ''staking'' then Paragraphs staking_lines
      else if ap_activeTab p = ''raw'' then Raw (JSON_stringify_2 (account_val (ap_account p)))
      else No_body)"

datatype AddressEvent = Address_tab string | Address_filter string | Show_qr bool

fun address_offers :: "AddressEvent \<Rightarrow> AddressPage \<Rightarrow> bool" where
  "address_offers (Address_tab t) p = (t \<in> tb_id ` set (address_tabs p))"
| "address_offers (Address_filter f) p = (ap_activeTab p = ''txs'' \<and> f \<in> fst ` set filter_options)"
| "address_offers (Show_qr b) p = (b \<noteq> ap_qrOpen p)"

fun address_handle :: "AddressEvent \<Rightarrow> AddressPage \<Rightarrow> AddressPage" where
  "address_handle (Address_tab t) p = p \<lparr> ap_activeTab := t \<rparr>"
| "address_handle (Address_filter f) p = p \<lparr> ap_filter := f \<rparr>"
| "address_handle (Show_qr b) p = p \<lparr> ap_qrOpen := b \<rparr>"

section \<open>BlockDetailsPage\<close>

record BlockDetails =
  bd_block :: IndexedBlock
  bd_txs :: "IndexedTx list"
  bd_activeTab :: string

definition block_header :: "view_env \<Rightarrow> BlockDetails \<Rightarrow> string list" where
  "block_header e p =
     PageHeader (Some ''Back to Blocks'') (''Block #'' @ locale_int e (bk_height (bd_block p)))
       (Some (snd (StatusBadge ''confirmed''))) (Some (''Finalized block on chain '' @ bk_chain_id (bd_block p)))"

definition block_neighbours :: "BlockDetails \<Rightarrow> page_link list" where
  "block_neighbours p =
     (if bk_height (bd_block p) \<le> 1 then [] else [To_block (bk_height (bd_block p) - 1)]) @
     [To_block (bk_height (bd_block p) + 1)]"

definition time_line :: "view_env \<Rightarrow> int \<Rightarrow> string" where
  "time_line e secs = date_title e secs @ ''('' @ ago_text e secs @ '')''"

definition block_lines :: "view_env \<Rightarrow> IndexedBlock \<Rightarrow> (string \<times> string) list" where
  "block_lines e block =
     [(''Block Height'', ''#'' @ locale_int e (bk_height block)), (''Block Hash'', bk_hash block),
      (''Parent Hash'', bk_parent_hash block), (''Timestamp'', time_line e (bk_timestamp_unix_secs block)),
      (''Validator / Proposer'', AddressLink (bk_proposer block) False 8 6 None),
      (''Transactions'', int_str (bk_txs_count block) @ '' transactions included''),
      (''Gas Used'', locale_int e (bk_gas_used block) @ '' gas''),
      (''Block Size'', size_text e (bk_block_size_bytes block)), (''State Root'', bk_state_root block),
      (''Transactions Root'', bk_txs_root block)]"

definition block_tabs :: "BlockDetails \<Rightarrow> TabItem list" where
  "block_tabs p =
     [tab ''txs'' ''Included Transactions'' (Some (int (length (bd_txs p)))), tab ''raw'' ''Raw JSON'' None]"

definition included_row :: "IndexedTx \<Rightarrow> table_row" where
  "included_row tx =
     \<lparr> rw_cells =
         [TxLink (ix_tx_hash tx) 8 6, ix_message_type tx, AddressLink (ix_sender tx) True 6 4 None,
          recipient_cell tx ''(Contract)'' 6 4, ix_amount tx, confirmed_badge (ix_success tx)],
       rw_links = [To_tx (ix_tx_hash tx), To_address (ix_sender tx)] @ recipient_link tx \<rparr>"

definition block_body :: "BlockDetails \<Rightarrow> tab_body" where
  "block_body p =
     (if bd_activeTab p = ''txs''
      then Listing
             (if bd_txs p = [] then EmptyState ''No Transactions'' ''This block contains no user state transactions.'' None
              else Rows [''Tx Hash'', ''Type'', ''From'', ''To'', ''Amount'', ''Status''] (map included_row (bd_txs p)))
      else Raw (JSON_stringify_2 (block_val (bd_block p))))"

section \<open>TxDetailsPage\<close>

record TxDetails =
  td_tx :: IndexedTx
  td_currency :: string
  td_activeTab :: string

definition tx_flow :: "TxDetails \<Rightarrow> (string \<times> string) list" where
  "tx_flow p =
     (let tx = td_tx p in
      [(''FROM (Sender)'', AddressLink (ix_sender tx) False 8 6 None), ([], ix_amount tx),
       ([], approx @ formatFiat (JStr (ix_amount tx)) (td_currency p)),
       (''TO (Recipient)'', or_text (ix_recipient tx) ''(Contract Creation / Internal)'')])"

definition tx_lines :: "view_env \<Rightarrow> IndexedTx \<Rightarrow> (string \<times> string) list" where
  "tx_lines e tx =
     [(''Transaction Hash'', ix_tx_hash tx),
      (''Execution Status'',
       confirmed_badge (ix_success tx) @ (if ix_success tx then ''(1-block CometBFT Finality)'' else ''(Execution Reverted)'')),
      (''Block Height'', BlockLink e (ix_block_height tx)), (''Timestamp'', time_line e (ix_timestamp_unix_secs tx)),
      (''Message Type'', ix_message_type tx), (''Transferred Value'', ix_amount tx), (''Transaction Fee'', ix_fee_amount tx),
      (''Gas Used'', locale_int e (ix_gas_used tx) @ '' gas''), (''Sender Nonce'', int_str (ix_nonce tx)),
      (''Memo'', if ix_memo tx \<noteq> [] then ix_memo tx else ''(None)'')]"

definition tx_tabs :: "TabItem list" where
  "tx_tabs = [tab ''overview'' ''Overview'' None, tab ''raw'' ''Raw JSON'' None, tab ''logs'' ''Event Logs'' (Some 1)]"

definition tx_log :: "IndexedTx \<Rightarrow> (string \<times> string) list" where
  "tx_log tx =
     [(''Event #0: sprx.protocol.v1.EventTransfer'', ''EMITTED''), (''sender:'', ix_sender tx),
      (''recipient:'', or_text (ix_recipient tx) ''0x0''), (''amount:'', ix_amount tx)]"

definition tx_body :: "view_env \<Rightarrow> TxDetails \<Rightarrow> tab_body" where
  "tx_body e p =
     (if td_activeTab p = ''overview'' then Lines (tx_lines e (td_tx p))
      else if td_activeTab p = ''raw'' then Raw (JSON_stringify_2 (tx_val (td_tx p)))
      else if td_activeTab p = ''logs'' then Lines (tx_log (td_tx p))
      else No_body)"

section \<open>ValidatorDetailsPage\<close>

record ValidatorDetails =
  vd_validator :: IndexedValidator
  vd_activeTab :: string

definition validator_header :: "IndexedValidator \<Rightarrow> string list" where
  "validator_header v =
     PageHeader (Some ''Back to Validators'') (iv_moniker v) (Some (snd (StatusBadge (ValidatorStatus_text (iv_status v)))))
       (Some ''Consensus Validator Node on Sprax Chain'')"

definition validator_cards :: "view_env \<Rightarrow> IndexedValidator \<Rightarrow> card list" where
  "validator_cards e v =
     [MetricCard ''Total Stake'' (iv_tokens v) (toFixed (iv_voting_power_percentage v) 1 @ ''% voting power''),
      MetricCard ''Uptime Rating'' (percent (iv_uptime_percentage v) 2) ''Consensus signatures'',
      MetricCard ''Commission Rate'' (percent (n_mul (iv_commission_rate v) (Fin 100)) 1) ''Delegator fee'',
      MetricCard ''Blocks Proposed'' (locale_int e (iv_blocks_proposed_count v))
        (''Missed: '' @ int_str (iv_missed_blocks_count v))]"

definition validator_tabs :: "TabItem list" where
  "validator_tabs = [tab ''overview'' ''Node Information'' None, tab ''delegations'' ''Delegations Breakdown'' (Some 3)]"

definition validator_lines :: "view_env \<Rightarrow> IndexedValidator \<Rightarrow> (string \<times> string) list" where
  "validator_lines e v =
     [(''Moniker / Node Name'', iv_moniker v), (''Operator Address'', AddressLink (iv_operator_address v) False 8 6 None),
      (''Consensus Voting Power'',
       locale_int e (iv_voting_power v) @ '' ('' @ toFixed (iv_voting_power_percentage v) 2 @ ''%)''),
      (''Commission Rate'', percent (n_mul (iv_commission_rate v) (Fin 100)) 2),
      (''Uptime Rating'', percent (iv_uptime_percentage v) 2),
      (''Jailed / Tombstoned'', if iv_is_tombstoned v then ''YES (Tombstoned)'' else ''NO (In Active Good Standing)''),
      (''Lifetime Blocks Proposed'', locale_int e (iv_blocks_proposed_count v) @ '' blocks'')]"

definition delegation_row :: "string \<Rightarrow> string \<Rightarrow> string \<Rightarrow> table_row" where
  "delegation_row a amount share =
     \<lparr> rw_cells = [AddressLink a True 8 6 None, amount, share], rw_links = [To_address a] \<rparr>"

definition delegation_rows :: "table_row list" where
  "delegation_rows =
     [delegation_row ''sprax1qpzry9x8gf2tvdw0s3jn54khce6mua7l4w3e2r'' ''2,000,000 SPRX'' ''57.1%'',
      delegation_row ''sprax1234567890abcdef1234567890abcdef12345678'' ''1,000,000 SPRX'' ''28.6%'',
      delegation_row ''sprax1987654321fedcba987654321fedcba987654321'' ''500,000 SPRX'' ''14.3%'']"

definition validator_body :: "view_env \<Rightarrow> ValidatorDetails \<Rightarrow> tab_body" where
  "validator_body e p =
     (if vd_activeTab p = ''overview'' then Lines (validator_lines e (vd_validator p))
      else if vd_activeTab p = ''delegations''
      then Listing (Rows [''Delegator Address'', ''Delegated Amount'', ''Share of Node''] delegation_rows)
      else No_body)"

section \<open>ContractDetailsPage\<close>

record ContractDetails =
  kd_contract :: SmartContract
  kd_activeTab :: string

definition contract_header :: "SmartContract \<Rightarrow> string list" where
  "contract_header c =
     PageHeader (Some ''Back to Contracts'') ''Contract Details'' (if ct_verified c then Some ''Verified Contract'' else None)
       (Some ''Wasm Smart Contract on Sprax Chain'')"

definition contract_lines :: "view_env \<Rightarrow> SmartContract \<Rightarrow> (string \<times> string) list" where
  "contract_lines e c =
     [(''Contract Creator'', AddressLink (ct_creator c) False 8 6 None),
      (''Deployed at Block'', BlockLink e (ct_created_height c)),
      (''Transactions Executed'', locale_int e (ct_tx_count c) @ '' transactions''),
      (''Bytecode Size'', size_text e (ct_bytecode_size c))] @
     map (\<lambda>v. (''Compiler / Toolchain'', v)) (given (ct_compiler_version c))"

definition contract_tabs :: "TabItem list" where
  "contract_tabs =
     [tab ''overview'' ''Overview'' None, tab ''code'' ''Contract Source Code'' None, tab ''abi'' ''Contract ABI / Methods'' None]"

text \<open>The tab's text, and the text its copy button copies.\<close>

definition contract_body :: "ContractDetails \<Rightarrow> tab_body \<times> string option" where
  "contract_body p =
     (let c = kd_contract p in
      if kd_activeTab p = ''overview''
      then (Paragraphs [''This contract is compiled into safe WebAssembly bytecode and executed with strict gas limits on Sprax Chain VM. State updates are committed with CometBFT deterministic consensus.''], None)
      else if kd_activeTab p = ''code''
      then (Paragraphs [''src/lib.rs (Rust Sprax Wasm)'', or_text (ct_source_code c) ''// No verified source code provided.''],
            Some (or_text (ct_source_code c) []))
      else if kd_activeTab p = ''abi''
      then (Paragraphs [''Contract Interface Specification'', or_text (ct_abi c) ''[]''], Some (or_text (ct_abi c) ''[]''))
      else (No_body, None))"

section \<open>The raw tabs\<close>

definition exact_int :: "int \<Rightarrow> bool" where
  "exact_int i \<longleftrightarrow> \<bar>i\<bar> < 2 ^ 53"

definition exact_block :: "IndexedBlock \<Rightarrow> bool" where
  "exact_block b \<longleftrightarrow>
     list_all exact_int [bk_height b, bk_timestamp_unix_secs b, bk_txs_count b, bk_gas_used b, bk_block_size_bytes b]"

definition exact_tx :: "IndexedTx \<Rightarrow> bool" where
  "exact_tx t \<longleftrightarrow> list_all exact_int [ix_block_height t, ix_nonce t, ix_gas_used t, ix_timestamp_unix_secs t]"

definition exact_account :: "IndexedAccount \<Rightarrow> bool" where
  "exact_account a \<longleftrightarrow>
     list_all exact_int [ia_nonce a, ia_tx_count a, ia_first_seen_height a, ia_last_active_height a]"

lemma plain_JInt: "plain (JInt i) \<longleftrightarrow> exact_int i"
  by (simp add: exact_int_def)

lemma plain_block: "exact_block b \<Longrightarrow> plain (block_val b)"
  by (simp add: block_val_def exact_block_def plain_JInt del: plain.simps(4))

lemma plain_account: "exact_account a \<Longrightarrow> plain (account_val a)"
  by (simp add: account_val_def exact_account_def plain_JInt del: plain.simps(4))

lemma plain_obj_append: "plain_obj (xs @ ys) \<longleftrightarrow> plain_obj xs \<and> plain_obj ys"
  by (induction xs) auto

lemma plain_message: "plain (message_val m)"
  by (simp add: message_val_def plain_obj_append opt_field_def split: option.split)

lemma plain_messages: "plain_arr (map message_val ms)"
  by (induction ms) (simp_all add: plain_message)

lemma plain_tx: "exact_tx t \<Longrightarrow> plain (tx_val t)"
  by (simp add: tx_val_def exact_tx_def plain_obj_append plain_messages plain_JInt opt_val_def del: plain.simps(4)
      split: option.split)


definition sample_block :: IndexedBlock where
  "sample_block =
     \<lparr> bk_height = 7, bk_hash = ''0x07'', bk_parent_hash = ''0x06'', bk_chain_id = ''sprax-1'', bk_timestamp_unix_secs = 0,
       bk_proposer = ''sprax1p'', bk_txs_count = 0, bk_txs_root = ''0x00'', bk_state_root = ''0x01'', bk_gas_used = 0,
       bk_block_size_bytes = 512 \<rparr>"

definition sample_account :: "string \<Rightarrow> IndexedAccount" where
  "sample_account a =
     \<lparr> ia_address = a, ia_address_hex = ''0x'', ia_balance = ''0'', ia_balance_sprx = ''0 SPRX'', ia_nonce = 0,
       ia_tx_count = 0, ia_first_seen_height = 1, ia_last_active_height = 1 \<rparr>"


section \<open>Addresses without transactions\<close>

lemma not_involved:
  assumes "\<not> tx_involves a tx" "toLowerCase (ia_address acc) = toLowerCase a"
  shows "\<not> isOut acc tx" "a \<noteq> [] \<Longrightarrow> \<not> isIn acc tx"
  using assms by (auto simp: tx_involves_def isOut_def isIn_def toLowerCase_def split: option.splits)

text \<open>When no server answers, the page of an address that takes part in no fallback transaction
  shows ten of them nevertheless, each as an inbound payment with a plus sign before its amount,
  although the address receives none of them: the inbound filter of the same page finds nothing.
\<close>

theorem stranger_shown_receiving:
  assumes "silent fetch" and "a = trim address" "a \<noteq> []" "toLowerCase (ia_address acc) = toLowerCase a"
    and "\<And>tx. tx \<in> set (MOCK_GENESIS_TXS (h_loaded h)) \<Longrightarrow> \<not> tx_involves a tx"
  defines "txs \<equiv> take 10 (MOCK_GENESIS_TXS (h_loaded h))"
  shows "page_items (getAddressTransactions fetch h address 20 0 s) = map tx_val txs \<and>
         length txs = 10 \<and>
         filteredTxs (address_page acc txs c) = txs \<and>
         (\<forall>tx. tx \<in> set txs \<longrightarrow>
            rw_cells (address_row e acc tx) ! 1 = ''IN'' \<and> rw_cells (address_row e acc tx) ! 5 = ''+'' @ ix_amount tx) \<and>
         filteredTxs (address_handle (Address_filter ''in'') (address_page acc txs c)) = []"
proof -
  let ?mock = "MOCK_GENESIS_TXS (h_loaded h)"
  have "filter (tx_involves a) ?mock = []" using assms(5) by (simp add: filter_empty_conv)
  then have src: "address_source ?mock a = txs"
    by (simp add: address_source_def Let_def slice_def rel_index_def mock_lengths txs_def)
  have len: "length txs = 10" by (simp add: txs_def mock_lengths)
  then have page: "pr_items (page_of txs 20 0) = txs" by (simp add: page_of_def slice_def rel_index_def)
  have sub: "tx \<in> set ?mock" if "tx \<in> set txs" for tx using that set_take_subset by (fastforce simp: txs_def)
  have out: "\<not> isOut acc tx" "\<not> isIn acc tx" if "tx \<in> set txs" for tx
    using not_involved [OF assms(5) [OF sub [OF that]] assms(4)] assms(3) by auto
  then show ?thesis
    using len src page assms(2)
    by (auto simp: silent_pages [OF assms(1)] filteredTxs_def address_page_def address_row_def direction_text_def
        signed_amount_def filter_empty_conv Let_def)
qed

lemma mock_parties:
  assumes "tx \<in> set (MOCK_GENESIS_TXS now)" and "tx_involves a tx"
  shows "toLowerCase a \<in> toLowerCase ` set (mock_senders @ mock_recipients)"
proof -
  from assms(1) obtain i where tx: "tx = mock_tx now i" by (auto simp: MOCK_GENESIS_TXS_def)
  have "mock_senders ! (i mod length mock_senders) \<in> set mock_senders"
    "mock_recipients ! (i mod length mock_recipients) \<in> set mock_recipients"
    by (intro nth_mem mod_less_divisor; simp add: mock_senders_def mock_recipients_def)+
  with assms(2) tx show ?thesis
    by (auto simp: tx_involves_def mock_tx_def Let_def split: if_splits intro: rev_image_eqI)
qed

definition sample_view :: view_env where
  "sample_view = \<lparr> ve_host = sample_host 0, ve_date = num_str, ve_log = (\<lambda>_. Fin 0) \<rparr>"

theorem stranger_shown_receiving_witness:
  "rw_cells (address_row sample_view (sample_account ''sprax1zz'') (MOCK_GENESIS_TXS 0 ! 0)) ! 1 = ''IN''"
proof -
  have "\<not> toLowerCase ''sprax1zz'' \<in> toLowerCase ` set (mock_senders @ mock_recipients)" by code_simp
  then have none: "\<not> tx_involves ''sprax1zz'' tx" if "tx \<in> set (MOCK_GENESIS_TXS 0)" for tx
    using mock_parties [OF that] by blast
  have t: "''sprax1zz'' = trim ''sprax1zz''" by code_simp
  have all: "tx \<in> set (take 10 (MOCK_GENESIS_TXS 0)) \<Longrightarrow>
      rw_cells (address_row sample_view (sample_account ''sprax1zz'') tx) ! 1 = ''IN''" for tx
    using stranger_shown_receiving [OF silent_net_down t, of "sample_account ''sprax1zz''" "sample_host 0"
      new_ExplorerApiService "''USD''" sample_view] none
    by (simp add: sample_account_def sample_host_def)
  have "MOCK_GENESIS_TXS 0 ! 0 \<in> set (take 10 (MOCK_GENESIS_TXS 0))"
    unfolding in_set_conv_nth by (rule exI [of _ 0]) (simp add: mock_lengths)
  then show ?thesis by (rule all)
qed

end
