(* ===== verification/Js_Dyadic.thy ===== *)
theory Js_Dyadic
  imports Js_Round
begin

text \<open>
  Which quotients a double holds exactly: those whose denominator is a power of two and whose
  numerator has at most 53 bits.
\<close>

lemma to_double_dyadic:
  assumes "(1 :: rat) / 2 ^ 53 \<le> r" "r < 2 ^ 53" and r_eq: "r = of_int m / 2 ^ j" and m: "m < 2 ^ 53"
  shows "to_double r = Fin r"
proof -
  have r: "0 < r" using assms(1) by (rule less_le_trans [rotated]) simp
  define e where "e = log2_floor r"
  note b = log2_floor_bounds [OF r, folded e_def]
  have "(2 :: rat) powi (- 53) < 2 powi (e + 1)"
    using assms(1) b(2) by (simp add: power_int_minus inverse_eq_divide)
  then have e: "- 54 < e"
    using power_int_increasing [of "e + 1" "- 53" "2 :: rat"] by linarith
  have "(of_int m :: rat) < 2 ^ 53" using m of_int_less_iff [of m "2 ^ 53", where 'a = rat] by simp
  then have "r < 2 ^ 53 / 2 ^ j" by (simp add: r_eq divide_strict_right_mono)
  also have "\<dots> = 2 powi (53 - int j)" by (simp add: power_int_diff)
  finally have "(2 :: rat) powi e < 2 powi (53 - int j)" using b(1) by simp
  then have ej: "e < 53 - int j"
    using power_int_increasing [of "53 - int j" e "2 :: rat"] by linarith
  define p where "p = (2 :: rat) powi (e - 52)"
  have p: "0 < p" by (simp add: p_def)
  define k where "k = nat (52 - e - int j)"
  have "1 / p = 2 powi (52 - e)" by (simp add: p_def power_int_diff)
  also have "\<dots> = 2 powi (int j + int k)" using ej by (simp add: k_def)
  also have "\<dots> = 2 ^ j * 2 ^ k" by (simp add: power_int_add)
  finally have inv: "1 / p = 2 ^ j * 2 ^ k" .
  have "r / p = r * (1 / p)" by simp
  also have "\<dots> = of_int m * 2 ^ k" unfolding inv r_eq by simp
  also have "\<dots> = of_int (m * 2 ^ k)" by simp
  finally have "r / p = of_int (m * 2 ^ k)" .
  then have v: "of_int (round_even (r / p)) * p = r"
    using p by (simp only: round_even_int) (simp add: field_simps)
  have "r < pow_int 2 1024"
  proof -
    have "(2 :: rat) ^ 53 \<le> pow_int 2 1024"
      unfolding pow_int_def by (simp only: zero_le_numeral if_True nat_numeral) (rule power_increasing, simp_all)
    with assms(2) show ?thesis by simp
  qed
  moreover have q: "max (log2_floor r - 52) (- 1074) = e - 52" using e by (simp add: e_def)
  ultimately show ?thesis
    using r v by (simp add: to_double_def q pow_int_powi p_def [symmetric] Let_def)
qed

lemma to_double_not_NaN [simp]: "to_double r \<noteq> NaN"
  by (simp add: to_double_def Let_def)

end
