(* ===== verification/Explorer_Portal.thy ===== *)
theory Explorer_Portal
  imports Explorer_Details Explorer_Nav State_Machine Js_Dyadic
begin

text \<open>
  The governance and ecosystem pages of the explorer (\<^verbatim>\<open>GovernancePage\<close> and \<^verbatim>\<open>EcosystemPage\<close> under
  \<^verbatim>\<open>src/apps/explorer-ui/src/pages\<close>): the tab taken from the route when the page is mounted, the data
  the service hands out, the filters, the votes and the market table.
\<close>

section \<open>Texts of the declared unions\<close>

fun ProjectCategory_text :: "ProjectCategory \<Rightarrow> string" where
  "ProjectCategory_text DeFi_project = ''DeFi''"
| "ProjectCategory_text RWA_Payments = ''RWA & Payments''"
| "ProjectCategory_text Wallets = ''Wallets''"
| "ProjectCategory_text Infrastructure = ''Infrastructure''"
| "ProjectCategory_text Enterprise = ''Enterprise''"
| "ProjectCategory_text Gaming_Identity = ''Gaming & Identity''"

fun ProjectStage_text :: "ProjectStage \<Rightarrow> string" where
  "ProjectStage_text Mainnet_stage = ''Mainnet''"
| "ProjectStage_text Testnet_stage = ''Testnet''"
| "ProjectStage_text In_Development = ''In Development''"

fun SIPStatus_text :: "SIPStatus \<Rightarrow> string" where
  "SIPStatus_text SIP_Draft = ''Draft''"
| "SIPStatus_text SIP_Review = ''Review''"
| "SIPStatus_text SIP_Accepted = ''Accepted''"
| "SIPStatus_text SIP_Final = ''Final''"
| "SIPStatus_text SIP_Rejected = ''Rejected''"

fun SIPCategory_text :: "SIPCategory \<Rightarrow> string" where
  "SIPCategory_text SIP_Core = ''Core''"
| "SIPCategory_text SIP_Networking = ''Networking''"
| "SIPCategory_text SIP_Execution = ''Execution''"
| "SIPCategory_text SIP_Standards = ''Standards''"
| "SIPCategory_text SIP_Meta = ''Meta''"
| "SIPCategory_text SIP_Consensus = ''Consensus''"

fun ProposalStatus_text :: "ProposalStatus \<Rightarrow> string" where
  "ProposalStatus_text Voting = ''Voting''"
| "ProposalStatus_text Deposit = ''Deposit''"
| "ProposalStatus_text Passed = ''Passed''"
| "ProposalStatus_text Prop_Rejected = ''Rejected''"
| "ProposalStatus_text Executed = ''Executed''"

section \<open>GovernancePage\<close>

record GovernancePage =
  gv_activeTab :: string
  gv_proposals :: "GovernanceProposal list"
  gv_sips :: "SIPItem list"
  gv_selectedSip :: "SIPItem option"
  gv_sipFilterCategory :: string
  gv_sipFilterStatus :: string
  gv_votedProposals :: "int \<rightharpoonup> string"

definition gov_initial_tab :: "string \<Rightarrow> string" where
  "gov_initial_tab initialTab =
     (if js_includes initialTab ''sips'' then ''sips''
      else if js_includes initialTab ''grants'' then ''grants''
      else if js_includes initialTab ''bug-bounty'' then ''bug-bounty''
      else ''voting'')"

definition gov_mount :: "string \<Rightarrow> GovernancePage" where
  "gov_mount initialTab =
     \<lparr> gv_activeTab = gov_initial_tab initialTab, gv_proposals = [], gv_sips = [], gv_selectedSip = None,
       gv_sipFilterCategory = ''All'', gv_sipFilterStatus = ''All'', gv_votedProposals = Map.empty \<rparr>"

definition gov_loadData :: "GovernancePage \<Rightarrow> GovernancePage" where
  "gov_loadData g = g \<lparr> gv_proposals := getGovernanceProposals, gv_sips := getSIPs \<rparr>"

definition handleVote :: "int \<Rightarrow> string \<Rightarrow> GovernancePage \<Rightarrow> GovernancePage" where
  "handleVote proposalId option g = g \<lparr> gv_votedProposals := (gv_votedProposals g)(proposalId \<mapsto> option) \<rparr>"

definition filteredSips :: "GovernancePage \<Rightarrow> SIPItem list" where
  "filteredSips g =
     filter (\<lambda>s. let matchesCat = (gv_sipFilterCategory g = ''All'' \<or> SIPCategory_text (si_category s) = gv_sipFilterCategory g);
                     matchesStatus = (gv_sipFilterStatus g = ''All'' \<or> SIPStatus_text (si_status s) = gv_sipFilterStatus g)
                 in matchesCat \<and> matchesStatus) (gv_sips g)"

definition gov_tabs :: "(string \<times> string) list" where
  "gov_tabs =
     [(''voting'', ''Voting Proposals''), (''sips'', ''SIP Proposals Registry''), (''grants'', ''Foundation Grants''),
      (''bug-bounty'', ''Bug Bounty Program'')]"

definition vote_options :: "(string \<times> string) list" where
  "vote_options = [(''Yes'', ''Vote Yes''), (''No'', ''Vote No''), (''NoWithVeto'', ''No With Veto''), (''Abstain'', ''Abstain'')]"

record proposal_view =
  pc_heading :: "string list"
  pc_tally :: "string list"
  pc_closes :: string
  pc_voted :: "string option"
  pc_buttons :: "string list"

definition user_vote :: "GovernancePage \<Rightarrow> GovernanceProposal \<Rightarrow> string option" where
  "user_vote g p = (case gv_votedProposals g (gp_id p) of Some v \<Rightarrow> (if v = [] then None else Some v) | None \<Rightarrow> None)"

definition proposal_card :: "GovernancePage \<Rightarrow> GovernanceProposal \<Rightarrow> proposal_view" where
  "proposal_card g p =
     \<lparr> pc_heading = [''#'' @ int_str (gp_id p), gp_title p, ProposalStatus_text (gp_status p), gp_description p],
       pc_tally = [''Yes: '' @ num_str (pv_yes (gp_votes p)) @ ''%'', ''No: '' @ num_str (pv_no (gp_votes p)) @ ''%'',
                   ''Veto: '' @ num_str (pv_noWithVeto (gp_votes p)) @ ''%'',
                   ''Abstain: '' @ num_str (pv_abstain (gp_votes p)) @ ''%''],
       pc_closes = ''Voting Closes: '' @ gp_votingEndTime p,
       pc_voted = map_option (\<lambda>v. ''You voted: '' @ v) (user_vote g p),
       pc_buttons = (if user_vote g p = None then map snd vote_options else []) \<rparr>"

definition sip_categories :: "string list" where
  "sip_categories = [''All'', ''Consensus'', ''Execution'', ''Standards'', ''Core'']"

definition sip_statuses :: "string list" where
  "sip_statuses = [''All'', ''Final'', ''Accepted'', ''Review'', ''Draft'']"

definition sip_card :: "SIPItem \<Rightarrow> string list" where
  "sip_card s =
     [si_sipNumber s, SIPCategory_text (si_category s), SIPStatus_text (si_status s), si_title s, si_summary s,
      ''Author: '' @ si_author s, ''Inspect Specification'']"

definition sip_modal :: "SIPItem \<Rightarrow> (string \<times> string) list" where
  "sip_modal s =
     [([], si_sipNumber s @ '' <U+2022> '' @ SIPCategory_text (si_category s)), ([], si_title s),
      ([], ''Author: '' @ si_author s @ '' | Created: '' @ si_createdDate s),
      (''Summary:'', si_summary s), (''Motivation:'', si_motivation s), (''Specification:'', si_specification s),
      (''Rationale:'', si_rationale s)]"

datatype GovEvent =
    Gov_loaded
  | Gov_tab string
  | Vote int string
  | Sip_category string
  | Sip_status string
  | Open_sip SIPItem
  | Close_sip

fun gov_offers :: "GovEvent \<Rightarrow> GovernancePage \<Rightarrow> bool" where
  "gov_offers Gov_loaded g = True"
| "gov_offers (Gov_tab t) g = (t \<in> fst ` set gov_tabs)"
| "gov_offers (Vote i opt) g =
     (gv_activeTab g = ''voting'' \<and> opt \<in> fst ` set vote_options \<and>
      list_ex (\<lambda>p. gp_id p = i \<and> user_vote g p = None) (gv_proposals g))"
| "gov_offers (Sip_category c) g = (gv_activeTab g = ''sips'' \<and> c \<in> set sip_categories)"
| "gov_offers (Sip_status st) g = (gv_activeTab g = ''sips'' \<and> st \<in> set sip_statuses)"
| "gov_offers (Open_sip s) g = (gv_activeTab g = ''sips'' \<and> s \<in> set (filteredSips g))"
| "gov_offers Close_sip g = (gv_selectedSip g \<noteq> None)"

fun gov_handle :: "GovEvent \<Rightarrow> GovernancePage \<Rightarrow> GovernancePage" where
  "gov_handle Gov_loaded g = gov_loadData g"
| "gov_handle (Gov_tab t) g = g \<lparr> gv_activeTab := t \<rparr>"
| "gov_handle (Vote i opt) g = handleVote i opt g"
| "gov_handle (Sip_category c) g = g \<lparr> gv_sipFilterCategory := c \<rparr>"
| "gov_handle (Sip_status st) g = g \<lparr> gv_sipFilterStatus := st \<rparr>"
| "gov_handle (Open_sip s) g = g \<lparr> gv_selectedSip := Some s \<rparr>"
| "gov_handle Close_sip g = g \<lparr> gv_selectedSip := None \<rparr>"

section \<open>EcosystemPage\<close>

record EcosystemPage =
  ec_activeTab :: string
  ec_projects :: "EcosystemProject list"
  ec_marketAssets :: "MarketAsset list"
  ec_searchQuery :: string
  ec_selectedCategory :: string
  ec_submitModalOpen :: bool

definition eco_initial_tab :: "string \<Rightarrow> string" where
  "eco_initial_tab initialTab =
     (if js_includes initialTab ''discover'' then ''discover''
      else if js_includes initialTab ''markets'' then ''markets''
      else ''directory'')"

definition eco_mount :: "string \<Rightarrow> EcosystemPage" where
  "eco_mount initialTab =
     \<lparr> ec_activeTab = eco_initial_tab initialTab, ec_projects = [], ec_marketAssets = [], ec_searchQuery = [],
       ec_selectedCategory = ''All'', ec_submitModalOpen = False \<rparr>"

definition eco_loadData :: "EcosystemPage \<Rightarrow> EcosystemPage" where
  "eco_loadData c = c \<lparr> ec_projects := getEcosystemProjects, ec_marketAssets := getMarketAssets \<rparr>"

definition eco_categories :: "string list" where
  "eco_categories =
     [''All'', ''DeFi'', ''RWA & Payments'', ''Wallets'', ''Infrastructure'', ''Enterprise'', ''Gaming & Identity'']"

definition filteredProjects :: "EcosystemPage \<Rightarrow> EcosystemProject list" where
  "filteredProjects c =
     filter (\<lambda>p. let matchesCategory = (ec_selectedCategory c = ''All'' \<or> ProjectCategory_text (ep_category p) = ec_selectedCategory c);
                     q = toLowerCase (ec_searchQuery c);
                     matchesSearch = (js_includes (toLowerCase (ep_name p)) q \<or> js_includes (toLowerCase (ep_tagline p)) q \<or>
                                      js_includes (toLowerCase (ep_description p)) q)
                 in matchesCategory \<and> matchesSearch) (ec_projects c)"

definition eco_tabs :: "(string \<times> string) list" where
  "eco_tabs = [(''directory'', ''dApp Directory''), (''discover'', ''Discover Showcase''), (''markets'', ''Live Markets & Tickers'')]"

definition project_card :: "EcosystemProject \<Rightarrow> string list" where
  "project_card p =
     [ProjectCategory_text (ep_category p)] @ (if ep_verified p then [''Verified''] else []) @
     [ProjectStage_text (ep_stage p), ep_name p, ep_tagline p, ep_description p] @
     (case ep_metrics p of Some (label, value) \<Rightarrow> [label @ '': '', value] | None \<Rightarrow> []) @ [''Launch'']"

definition project_hrefs :: "EcosystemProject \<Rightarrow> string list" where
  "project_hrefs p = given (ep_github p) @ [ep_website p]"

definition change_text :: "js_number \<Rightarrow> string" where
  "change_text change24h =
     (let isPositive = n_le (Fin 0) change24h in
      if isPositive then ''+'' @ num_str change24h @ ''%'' else num_str change24h @ ''%'')"

definition market_headers :: "string \<Rightarrow> string list" where
  "market_headers currency =
     [''Asset'', ''Price ('' @ currency @ '')'', ''24h Change'', ''24h High / Low'', ''24h Volume'', ''Market Cap'']"

definition market_row :: "string \<Rightarrow> MarketAsset \<Rightarrow> string list" where
  "market_row currency a =
     [slice (ma_symbol a) 0 2, ma_name a, ma_symbol a, formatFiat (JNum (ma_priceUsd a)) currency,
      change_text (ma_change24h a),
      formatFiat (JNum (ma_high24h a)) currency @ '' / '' @ formatFiat (JNum (ma_low24h a)) currency,
      formatFiat (JNum (ma_volume24hUsd a)) currency, formatFiat (JNum (ma_marketCapUsd a)) currency]"

text \<open>The submission dialog shows an alert and closes; the fields are not read.\<close>

definition submit_application :: "EcosystemPage \<Rightarrow> string \<times> EcosystemPage" where
  "submit_application c =
     (''Project application received. The SPRX Ecosystem Guild will review your submission.'', c \<lparr> ec_submitModalOpen := False \<rparr>)"

datatype EcoEvent =
    Eco_loaded
  | Eco_tab string
  | Eco_search string
  | Eco_category string
  | Open_submit
  | Close_submit
  | Submit_project

fun eco_offers :: "EcoEvent \<Rightarrow> EcosystemPage \<Rightarrow> bool" where
  "eco_offers Eco_loaded c = True"
| "eco_offers (Eco_tab t) c = (t \<in> fst ` set eco_tabs)"
| "eco_offers (Eco_search q) c = (ec_activeTab c = ''directory'')"
| "eco_offers (Eco_category k) c = (ec_activeTab c = ''directory'' \<and> k \<in> set eco_categories)"
| "eco_offers Open_submit c = True"
| "eco_offers Close_submit c = ec_submitModalOpen c"
| "eco_offers Submit_project c = ec_submitModalOpen c"

fun eco_handle :: "EcoEvent \<Rightarrow> EcosystemPage \<Rightarrow> EcosystemPage" where
  "eco_handle Eco_loaded c = eco_loadData c"
| "eco_handle (Eco_tab t) c = c \<lparr> ec_activeTab := t \<rparr>"
| "eco_handle (Eco_search q) c = c \<lparr> ec_searchQuery := q \<rparr>"
| "eco_handle (Eco_category k) c = c \<lparr> ec_selectedCategory := k \<rparr>"
| "eco_handle Open_submit c = c \<lparr> ec_submitModalOpen := True \<rparr>"
| "eco_handle Close_submit c = c \<lparr> ec_submitModalOpen := False \<rparr>"
| "eco_handle Submit_project c = snd (submit_application c)"

section \<open>Votes\<close>

definition votes_ok :: "GovernancePage \<Rightarrow> bool" where
  "votes_ok g \<longleftrightarrow> ran (gv_votedProposals g) \<subseteq> fst ` set vote_options"

interpretation gv: invariant_system "gov_mount r" gov_offers gov_handle votes_ok for r
proof
  show "votes_ok (gov_mount r)" by (simp add: votes_ok_def gov_mount_def)
  fix g e
  assume inv: "votes_ok g" and "gov_offers e g"
  then show "votes_ok (gov_handle e g)"
    using ran_map_upd_Some [of "gv_votedProposals g"]
    by (cases e) (auto simp: votes_ok_def gov_loadData_def handleVote_def ran_def split: if_splits)
qed

lemma vote_kept:
  assumes "votes_ok g" "gov_offers e g" "gv_votedProposals g i = Some v"
  shows "gv_votedProposals (gov_handle e g) i = Some v"
proof (cases e)
  case (Vote j opt)
  have "v \<in> ran (gv_votedProposals g)" using assms(3) by (rule ranI)
  then have "v \<noteq> []" using assms(1) by (auto simp: votes_ok_def vote_options_def)
  then have "i \<noteq> j"
    using assms(2,3) Vote by (auto simp: list_ex_iff user_vote_def)
  then show ?thesis using Vote assms(3) by (simp add: handleVote_def)
qed (use assms in \<open>simp_all add: gov_loadData_def\<close>)

lemma vote_kept_run:
  "votes_ok g \<Longrightarrow> gv_votedProposals g i = Some v \<Longrightarrow> run gov_offers gov_handle es g = Some g' \<Longrightarrow>
     gv_votedProposals g' i = Some v"
proof (induction es arbitrary: g)
  case (Cons e es)
  then have "gov_offers e g" "run gov_offers gov_handle es (gov_handle e g) = Some g'" by (auto split: if_splits)
  with Cons show ?case using gv.inv_step vote_kept by blast
qed simp

text \<open>C38: A vote on the governance page is one of the four options and cannot be changed: in whatever
  order the page's controls are used, it stays as it was given, and the proposal shows it instead of
  the vote buttons.
\<close>

theorem vote_final:
  assumes "reach (gov_mount r) gov_offers gov_handle g" "gv_votedProposals g i = Some v"
    and "run gov_offers gov_handle es g = Some g'" "gp_id p = i"
  shows "v \<in> {''Yes'', ''No'', ''NoWithVeto'', ''Abstain''} \<and> gv_votedProposals g' i = Some v \<and>
         pc_voted (proposal_card g' p) = Some (''You voted: '' @ v) \<and> pc_buttons (proposal_card g' p) = []"
proof -
  have ok: "votes_ok g" using assms(1) by (rule gv.reach_inv)
  have "v \<in> ran (gv_votedProposals g)" using assms(2) by (rule ranI)
  with ok have v: "v \<in> {''Yes'', ''No'', ''NoWithVeto'', ''Abstain''}" by (auto simp: votes_ok_def vote_options_def)
  have "gv_votedProposals g' i = Some v" using vote_kept_run [OF ok assms(2,3)] .
  with v assms(4) show ?thesis by (auto simp: proposal_card_def user_vote_def)
qed

definition voted_page :: GovernancePage where
  "voted_page = gov_handle (Vote 12 ''No'') (gov_handle Gov_loaded (gov_mount ''/governance''))"

text \<open>A proposal whose voting has ended offers the buttons as well.\<close>

lemma closed_votable:
  "gov_offers (Vote 11 ''Yes'') (gov_loadData (gov_mount ''/governance'')) \<and>
   list_ex (\<lambda>p. gp_id p = 11 \<and> gp_status p = Passed) getGovernanceProposals"
  by (simp add: gov_loadData_def gov_mount_def gov_initial_tab_def getGovernanceProposals_def startsWith_def
      MOCK_GOVERNANCE_PROPOSALS_def user_vote_def vote_options_def)

theorem vote_final_witness:
  "gv_votedProposals voted_page 12 = Some ''No'' \<and>
   gv_votedProposals (gov_handle (Gov_tab ''sips'') voted_page) 12 = Some ''No''"
proof -
  let ?m = "gov_mount ''/governance''"
  have loaded: "reach ?m gov_offers gov_handle (gov_handle Gov_loaded ?m)"
    by (rule reach.step [OF reach.init]) simp
  have "gov_offers (Vote 12 ''No'') (gov_handle Gov_loaded ?m)"
    by (simp add: gov_loadData_def gov_mount_def gov_initial_tab_def getGovernanceProposals_def startsWith_def
        MOCK_GOVERNANCE_PROPOSALS_def user_vote_def vote_options_def)
  with loaded have r: "reach ?m gov_offers gov_handle voted_page" unfolding voted_page_def by (rule reach.step)
  have v: "gv_votedProposals voted_page 12 = Some ''No''" by (simp add: voted_page_def handleVote_def)
  have run: "run gov_offers gov_handle [Gov_tab ''sips''] voted_page = Some (gov_handle (Gov_tab ''sips'') voted_page)"
    by (simp add: gov_tabs_def)
  have "gp_id (hd MOCK_GOVERNANCE_PROPOSALS) = 12" by (simp add: MOCK_GOVERNANCE_PROPOSALS_def)
  from vote_final [OF r v run this] v show ?thesis by blast
qed

section \<open>Market prices\<close>

lemma formatFiat_USD: "x \<noteq> NaN \<Longrightarrow> formatFiat (JNum x) ''USD'' = ''$'' @ toLocaleString (n_mul x (Fin (5 / 4))) 2 2"
  by (cases x) (simp_all add: formatFiat_def FIAT_RATES_def fiat_USD_def nullish_def Let_def)

text \<open>The market table multiplies prices that are already in dollars by the dollar price of one
  SPRX: in the column headed Price (USD) every price appears as five quarters of its value, and so
  do the extremes of the day, the volume and the market capitalisation.
\<close>

theorem market_price_scaled:
  assumes "ma_priceUsd a \<noteq> NaN" "ma_high24h a \<noteq> NaN" "ma_low24h a \<noteq> NaN"
    and "ma_volume24hUsd a \<noteq> NaN" "ma_marketCapUsd a \<noteq> NaN"
  defines "shown \<equiv> \<lambda>x. ''$'' @ toLocaleString (n_mul x (Fin (5 / 4))) 2 2"
  shows "market_headers ''USD'' ! 1 = ''Price (USD)'' \<and>
         market_row ''USD'' a ! 3 = shown (ma_priceUsd a) \<and>
         market_row ''USD'' a ! 5 = shown (ma_high24h a) @ '' / '' @ shown (ma_low24h a) \<and>
         market_row ''USD'' a ! 6 = shown (ma_volume24hUsd a) \<and> market_row ''USD'' a ! 7 = shown (ma_marketCapUsd a)"
  using assms by (simp add: market_headers_def market_row_def formatFiat_USD)

text \<open>The stable asset, whose price is one dollar, is listed at \<open>$1.25\<close>.\<close>

theorem market_price_scaled_witness:
  "ma_category (MOCK_MARKET_ASSETS ! 1) = Stable_Asset \<and> ma_priceUsd (MOCK_MARKET_ASSETS ! 1) = Fin 1 \<and>
   market_row ''USD'' (MOCK_MARKET_ASSETS ! 1) ! 3 = ''$1.25''"
proof -
  let ?a = "MOCK_MARKET_ASSETS ! 1"
  have price: "ma_priceUsd ?a = Fin 1" "ma_category ?a = Stable_Asset" by (simp_all add: MOCK_MARKET_ASSETS_def)
  have numbers: "ma_priceUsd ?a \<noteq> NaN" "ma_high24h ?a \<noteq> NaN" "ma_low24h ?a \<noteq> NaN" "ma_volume24hUsd ?a \<noteq> NaN"
    "ma_marketCapUsd ?a \<noteq> NaN"
    by (simp_all add: MOCK_MARKET_ASSETS_def dbl_def)
  have "to_double (5 / 4) = Fin (5 / 4)" by (rule to_double_dyadic [where m = 5 and j = 2]) simp_all
  moreover have "\<lfloor>251 / 2 :: rat\<rfloor> = 125" by (simp add: floor_eq_iff)
  then have "round_half_up (5 / 4) 2 = 125" by (simp add: round_half_up_def)
  then have "toLocaleString (Fin (5 / 4)) 2 2 = group3 (nat_str 1) @ fraction_text 2 (padStart 2 (CHR ''0'') (nat_str 25))"
    by (simp add: Let_def)
  moreover have "group3 (nat_str 1) @ fraction_text 2 (padStart 2 (CHR ''0'') (nat_str 25)) = ''1.25''" by code_simp
  ultimately show ?thesis using market_price_scaled [OF numbers] price by simp
qed

end
