(* ===== verification/Explorer_Guides.thy ===== *)
theory Explorer_Guides
  imports Explorer_Guides_Data Explorer_Portal
begin

text \<open>
  \<^verbatim>\<open>LearnPage\<close>, \<^verbatim>\<open>DevelopersPortalPage\<close> with \<^verbatim>\<open>CodePlayground\<close>, \<^verbatim>\<open>StakingPage\<close>, \<^verbatim>\<open>FaucetPage\<close> and the
  \<^verbatim>\<open>ProtocolVisualizer\<close> of the home page, under \<^verbatim>\<open>src/apps/explorer-ui/src\<close>: the tab taken from the route,
  the handlers with their timers, and the texts that are computed.  A timer keeps what its closure
  captured.
\<close>

section \<open>LearnPage\<close>

definition learn_initial_tab :: "string \<Rightarrow> string" where
  "learn_initial_tab initialSubpage =
     (if js_includes initialSubpage ''what-is-sprx'' then ''what-is-sprx''
      else if js_includes initialSubpage ''real-world-x'' then ''real-world-x''
      else if js_includes initialSubpage ''tokenomics'' then ''tokenomics''
      else if js_includes initialSubpage ''consensus'' then ''consensus''
      else if js_includes initialSubpage ''wallets'' then ''wallets''
      else if js_includes initialSubpage ''security'' then ''security''
      else ''hub'')"

definition learn_tabs :: "(string \<times> string) list" where
  "learn_tabs = (''hub'', ''Overview Hub'') # map (\<lambda>t. (lt_id t, lt_title t)) learnTracks"

definition hub_cards :: "string list list" where
  "hub_cards = map (\<lambda>t. [lt_readTime t, lt_title t, lt_subtitle t, lt_summary t, ''Start Reading'']) learnTracks"

text \<open>The table of the genesis allocation on the tokenomics tab.\<close>

record allocation =
  al_category :: string
  al_percentage :: string
  al_amount :: string
  al_schedule :: string

definition allocation_row :: "string \<Rightarrow> string \<Rightarrow> string \<Rightarrow> string \<Rightarrow> allocation" where
  "allocation_row c p a s = \<lparr> al_category = c, al_percentage = p, al_amount = a, al_schedule = s \<rparr>"

definition genesis_supply :: string where
  "genesis_supply = ''1,000,000,000''"

definition genesis_allocation :: "allocation list" where
  "genesis_allocation =
     [allocation_row ''Community Pool'' ''40%'' ''400,000,000 SPRX'' ''Governed by on-chain SIP voting'',
      allocation_row ''Ecosystem & Grants'' ''25%'' ''250,000,000 SPRX'' ''4-year linear release for builder grants'',
      allocation_row ''Treasury Reserve'' ''15%'' ''150,000,000 SPRX'' ''Multi-sig foundation emergency buffer'',
      allocation_row ''Validator Incentives'' ''10%'' ''100,000,000 SPRX'' ''Staking rewards block emission'',
      allocation_row ''Core Contributors'' ''10%'' ''100,000,000 SPRX'' ''1-year cliff + 36-month linear vesting'']"

section \<open>The RPC playground of DevelopersPortalPage\<close>

record DevPortal =
  dv_activeTab :: string
  dv_selectedMethod :: string
  dv_rpcParamInput :: string
  dv_rpcResponse :: "string option"
  dv_isExecutingRpc :: bool
  dv_timers :: "string list"

definition dev_initial_tab :: "string \<Rightarrow> string" where
  "dev_initial_tab initialTab =
     (if js_includes initialTab ''rpc'' then ''rpc''
      else if js_includes initialTab ''smart-contracts'' then ''smart-contracts''
      else if js_includes initialTab ''nodes'' then ''nodes''
      else if js_includes initialTab ''standards'' then ''standards''
      else ''overview'')"

definition dev_mount :: "string \<Rightarrow> DevPortal" where
  "dev_mount initialTab =
     \<lparr> dv_activeTab = dev_initial_tab initialTab, dv_selectedMethod = ''sprax_getStatus'', dv_rpcParamInput = ''[]'',
       dv_rpcResponse = None, dv_isExecutingRpc = False, dv_timers = [] \<rparr>"

definition find_method :: "string \<Rightarrow> RpcMethod option" where
  "find_method m = find (\<lambda>x. rm_method x = m) rpcMethods"

definition handleSelectMethod :: "string \<Rightarrow> DevPortal \<Rightarrow> DevPortal" where
  "handleSelectMethod m d =
     (let d = d \<lparr> dv_selectedMethod := m \<rparr> in
      case find_method m of
        Some x \<Rightarrow> d \<lparr> dv_rpcParamInput := rm_sampleParams x, dv_rpcResponse := None \<rparr>
      | None \<Rightarrow> d)"

definition rpc_answer :: "string \<Rightarrow> jsval" where
  "rpc_answer m =
     JObj [(''jsonrpc'', JStr ''2.0''), (''id'', JInt 1),
           (''result'', case find_method m of Some x \<Rightarrow> js_or (rm_sampleResult x) (JObj []) | None \<Rightarrow> JObj [])]"

definition handleRunRpc :: "DevPortal \<Rightarrow> DevPortal" where
  "handleRunRpc d = d \<lparr> dv_isExecutingRpc := True, dv_timers := dv_timers d @ [dv_selectedMethod d] \<rparr>"

definition rpc_timeout :: "DevPortal \<Rightarrow> DevPortal" where
  "rpc_timeout d =
     (case dv_timers d of
        [] \<Rightarrow> d
      | m # rest \<Rightarrow>
          d \<lparr> dv_rpcResponse := JSON_stringify_2 (rpc_answer m), dv_isExecutingRpc := False, dv_timers := rest \<rparr>)"

definition dev_tabs :: "(string \<times> string) list" where
  "dev_tabs =
     [(''overview'', ''Developer Overview''), (''rpc'', ''JSON-RPC & REST Playground''),
      (''smart-contracts'', ''CosmWasm Smart Contracts''), (''nodes'', ''Run a Node & Sentry''),
      (''standards'', ''SXS Protocol Standards'')]"

text \<open>What the playground shows: the method, its description, the button and the response box.\<close>

record rpc_panel =
  rv_heading :: string
  rv_description :: "string option"
  rv_button :: string
  rv_response :: "string option"

definition rpc_view :: "DevPortal \<Rightarrow> rpc_panel" where
  "rpc_view d =
     \<lparr> rv_heading = dv_selectedMethod d, rv_description = map_option rm_description (find_method (dv_selectedMethod d)),
       rv_button = (if dv_isExecutingRpc d then ''Calling...'' else ''Execute Call''),
       rv_response = (case dv_rpcResponse d of
                        Some t \<Rightarrow> if t \<noteq> [] then Some t else JSON_stringify_2 (rpc_answer (dv_selectedMethod d))
                      | None \<Rightarrow> JSON_stringify_2 (rpc_answer (dv_selectedMethod d))) \<rparr>"

datatype DevEvent = Dev_tab string | Select_method string | Type_params string | Run_rpc | Rpc_timeout

fun dev_offers :: "DevEvent \<Rightarrow> DevPortal \<Rightarrow> bool" where
  "dev_offers (Dev_tab t) d = (t \<in> fst ` set dev_tabs)"
| "dev_offers (Select_method m) d = (dv_activeTab d = ''rpc'' \<and> m \<in> rm_method ` set rpcMethods)"
| "dev_offers (Type_params p) d = (dv_activeTab d = ''rpc'')"
| "dev_offers Run_rpc d = (dv_activeTab d = ''rpc'' \<and> \<not> dv_isExecutingRpc d)"
| "dev_offers Rpc_timeout d = (dv_timers d \<noteq> [])"

fun dev_handle :: "DevEvent \<Rightarrow> DevPortal \<Rightarrow> DevPortal" where
  "dev_handle (Dev_tab t) d = d \<lparr> dv_activeTab := t \<rparr>"
| "dev_handle (Select_method m) d = handleSelectMethod m d"
| "dev_handle (Type_params p) d = d \<lparr> dv_rpcParamInput := p \<rparr>"
| "dev_handle Run_rpc d = handleRunRpc d"
| "dev_handle Rpc_timeout d = rpc_timeout d"

section \<open>CodePlayground\<close>

record CodePlayground =
  pg_activeTab :: string
  pg_copied :: bool
  pg_isExecuting :: bool
  pg_showOutput :: bool
  pg_copy_timers :: nat
  pg_run_timers :: nat

definition playground_init :: CodePlayground where
  "playground_init =
     \<lparr> pg_activeTab = ''typescript'', pg_copied = False, pg_isExecuting = False, pg_showOutput = True,
       pg_copy_timers = 0, pg_run_timers = 0 \<rparr>"

definition currentSnippet :: "CodePlayground \<Rightarrow> CodeSnippet option" where
  "currentSnippet p = (case map_of SNIPPETS (pg_activeTab p) of Some s \<Rightarrow> Some s | None \<Rightarrow> map_of SNIPPETS ''typescript'')"

text \<open>Without a clipboard the call throws; the outcome of the writing is not awaited.\<close>

definition playground_copy :: "bool \<Rightarrow> CodePlayground \<Rightarrow> CodePlayground" where
  "playground_copy has_clipboard p =
     (if has_clipboard then p \<lparr> pg_copied := True, pg_copy_timers := Suc (pg_copy_timers p) \<rparr> else p)"

definition playground_copy_timeout :: "CodePlayground \<Rightarrow> CodePlayground" where
  "playground_copy_timeout p =
     (if 0 < pg_copy_timers p then p \<lparr> pg_copied := False, pg_copy_timers := pg_copy_timers p - 1 \<rparr> else p)"

definition handleRun :: "CodePlayground \<Rightarrow> CodePlayground" where
  "handleRun p = p \<lparr> pg_isExecuting := True, pg_showOutput := True, pg_run_timers := Suc (pg_run_timers p) \<rparr>"

definition run_timeout :: "CodePlayground \<Rightarrow> CodePlayground" where
  "run_timeout p =
     (if 0 < pg_run_timers p then p \<lparr> pg_isExecuting := False, pg_run_timers := pg_run_timers p - 1 \<rparr> else p)"

definition console_text :: "CodePlayground \<Rightarrow> string option" where
  "console_text p =
     (if \<not> pg_showOutput p then None
      else if pg_isExecuting p then Some ''Executing transaction request on SPRX consensus plane...''
      else map_option cs_output (currentSnippet p))"

section \<open>StakingPage\<close>

definition estimatedAnnualRate :: js_number where
  "estimatedAnnualRate = to_double (94 / 1000)"

definition parsedCalc :: "string \<Rightarrow> js_number" where
  "parsedCalc calcAmount =
     (let x = parseFloat (without_commas calcAmount) in if n_truthy x then x else Fin 0)"

definition estAnnualRewards :: "string \<Rightarrow> js_number" where
  "estAnnualRewards calcAmount = n_mul (parsedCalc calcAmount) estimatedAnnualRate"

definition estMonthlyRewards :: "string \<Rightarrow> js_number" where
  "estMonthlyRewards calcAmount = n_div (estAnnualRewards calcAmount) (Fin 12)"

definition staking_results :: "string \<Rightarrow> string \<Rightarrow> (string \<times> string \<times> string) list" where
  "staking_results currency calcAmount =
     [(''Est. Monthly Return'', toFixed (estMonthlyRewards calcAmount) 2 @ '' SPRX'',
       approx @ formatFiat (JNum (estMonthlyRewards calcAmount)) currency),
      (''Est. Annual Return'', toFixed (estAnnualRewards calcAmount) 2 @ '' SPRX'',
       approx @ formatFiat (JNum (estAnnualRewards calcAmount)) currency)]"

definition quick_amounts :: "int list" where
  "quick_amounts = [500, 1000, 5000, 10000]"

definition staking_cards :: "IndexedValidator list \<Rightarrow> card list" where
  "staking_cards validators =
     [MetricCard ''Total SPRX Bonded'' ''10,000,000 SPRX'' ''Consensus security stake'',
      MetricCard ''Staking Ratio'' ''64.8%'' ''Of circulating supply'',
      MetricCard ''Active Validators'' (int_str (int (length validators)) @ '' Nodes'') ''100% network quorum'',
      MetricCard ''Est. Network Metric'' ''~9.4% APR'' ''Network-derived estimate'']"

definition stake_distribution :: "IndexedValidator list \<Rightarrow> (string \<times> string \<times> string \<times> page_link) list" where
  "stake_distribution validators =
     map (\<lambda>v. (iv_moniker v, percent (iv_voting_power_percentage v) 1, num_str (iv_voting_power_percentage v) @ ''%'',
               To_validator (iv_operator_address v))) validators"

section \<open>FaucetPage\<close>

record FaucetPage =
  fc_targetAddress :: string
  fc_isSubmitting :: bool
  fc_successTx :: "string option"
  fc_errorMsg :: "string option"
  fc_timers :: nat

definition faucet_init :: FaucetPage where
  "faucet_init =
     \<lparr> fc_targetAddress = [], fc_isSubmitting = False, fc_successTx = None, fc_errorMsg = None, fc_timers = 0 \<rparr>"

definition handleClaim :: "FaucetPage \<Rightarrow> FaucetPage" where
  "handleClaim f =
     (let clean = trim (fc_targetAddress f) in
      if clean = [] then f \<lparr> fc_errorMsg := Some ''Please enter a valid SPRX recipient address.'' \<rparr>
      else if \<not> startsWith clean ''sprax1'' \<and> \<not> hex_address clean
      then f \<lparr> fc_errorMsg := Some ''Invalid address format. Expected Bech32 address (sprax1...) or 20-byte Hex address.'' \<rparr>
      else f \<lparr> fc_errorMsg := None, fc_isSubmitting := True, fc_successTx := None, fc_timers := Suc (fc_timers f) \<rparr>)"

definition faucet_tx :: string where
  "faucet_tx = ''0x4a9b2c3d4e5f60718293a4b5c6d7e8f901a2b3c4d5e6f708192a3b4c5d6e7f80''"

definition claim_timeout :: "FaucetPage \<Rightarrow> FaucetPage" where
  "claim_timeout f =
     (case fc_timers f of
        0 \<Rightarrow> f
      | Suc n \<Rightarrow> f \<lparr> fc_isSubmitting := False, fc_successTx := Some faucet_tx, fc_timers := n \<rparr>)"

definition faucet_type :: "string \<Rightarrow> FaucetPage \<Rightarrow> FaucetPage" where
  "faucet_type t f = f \<lparr> fc_targetAddress := t, fc_errorMsg := None \<rparr>"

definition faucet_texts :: "FaucetPage \<Rightarrow> string list" where
  "faucet_texts f =
     given (fc_errorMsg f) @
     (case fc_successTx f of Some t \<Rightarrow> [''Successfully dispensed 10.0 SPRX!'', ''Tx Hash: '' @ t] | None \<Rightarrow> []) @
     [if fc_isSubmitting f then ''Broadcasting Faucet Transaction...'' else ''Request 10.0 SPRX Testnet Tokens'']"

datatype FaucetEvent = Faucet_type string | Claim | Claim_timeout

fun faucet_offers :: "FaucetEvent \<Rightarrow> FaucetPage \<Rightarrow> bool" where
  "faucet_offers (Faucet_type t) f = True"
| "faucet_offers Claim f = (\<not> fc_isSubmitting f)"
| "faucet_offers Claim_timeout f = (0 < fc_timers f)"

fun faucet_handle :: "FaucetEvent \<Rightarrow> FaucetPage \<Rightarrow> FaucetPage" where
  "faucet_handle (Faucet_type t) f = faucet_type t f"
| "faucet_handle Claim f = handleClaim f"
| "faucet_handle Claim_timeout f = claim_timeout f"

section \<open>ProtocolVisualizer\<close>

definition selectedLayer :: "string \<Rightarrow> LayerDetail" where
  "selectedLayer selectedLayerId =
     (case find (\<lambda>l. la_id l = selectedLayerId) PROTOCOL_LAYERS of Some l \<Rightarrow> l | None \<Rightarrow> PROTOCOL_LAYERS ! 0)"

definition layer_button :: "LayerDetail \<Rightarrow> string list" where
  "layer_button l = [la_tier l, la_shortName l, la_tagline l, snd (la_specs l ! 0)]"

definition layer_panel :: "LayerDetail \<Rightarrow> string list" where
  "layer_panel l =
     [la_tier l @ '' DEEP INSPECT'', la_name l, la_summary l, ''Core Subsystems & Modules''] @ la_keyComponents l @
     concat (map (\<lambda>(label, value). [label, value]) (la_specs l)) @ [''Explore Technical Specifications'']"

section \<open>The playground answers from its table\<close>

definition dev_ok :: "DevPortal \<Rightarrow> bool" where
  "dev_ok d \<longleftrightarrow>
     dv_selectedMethod d \<in> rm_method ` set rpcMethods \<and> set (dv_timers d) \<subseteq> rm_method ` set rpcMethods \<and>
     length (dv_timers d) = (if dv_isExecutingRpc d then 1 else 0) \<and>
     (\<forall>t. dv_rpcResponse d = Some t \<longrightarrow> (\<exists>x \<in> set rpcMethods. JSON_stringify_2 (rpc_answer (rm_method x)) = Some t))"

lemma find_method_some: "m \<in> rm_method ` set rpcMethods \<Longrightarrow> \<exists>x. find_method m = Some x"
  by (cases "find_method m") (auto simp: find_method_def find_None_iff)

lemma status_method: "''sprax_getStatus'' \<in> rm_method ` set rpcMethods"
  by (simp add: rpcMethods_def)

interpretation dv: invariant_system "dev_mount r" dev_offers dev_handle dev_ok for r
proof
  show "dev_ok (dev_mount r)" using status_method by (simp add: dev_ok_def dev_mount_def)
  fix d e
  assume inv: "dev_ok d" and off: "dev_offers e d"
  show "dev_ok (dev_handle e d)"
  proof (cases e)
    case (Select_method m)
    with off find_method_some [of m] inv show ?thesis
      by (auto simp: dev_ok_def handleSelectMethod_def)
  next
    case Run_rpc
    with off inv show ?thesis by (auto simp: dev_ok_def handleRunRpc_def)
  next
    case Rpc_timeout
    with off obtain m rest where t: "dv_timers d = m # rest" by (cases "dv_timers d") auto
    with inv have "m \<in> rm_method ` set rpcMethods" "rest = []" by (auto simp: dev_ok_def split: if_splits)
    with Rpc_timeout t inv show ?thesis by (auto simp: dev_ok_def rpc_timeout_def)
  qed (use inv in \<open>simp_all add: dev_ok_def\<close>)
qed

lemma rpc_answer_text: "\<exists>c u. JSON_stringify_2 (rpc_answer m) = Some (c # u)"
  by (simp add: JSON_stringify_2_def rpc_answer_def)

text \<open>In the RPC playground, choosing another method while a call is being executed shows the
  answer of the first method under the name of the second: the timer has captured the method, and
  its answer arrives after the response box was cleared.  This holds in every state the page can
  reach, for every two methods of the list.
\<close>

theorem rpc_response_stale:
  assumes "reach (dev_mount r) dev_offers dev_handle d" "dv_activeTab d = ''rpc''" "\<not> dv_isExecutingRpc d"
    and "m' \<in> rm_method ` set rpcMethods"
  shows "\<exists>d'. run dev_offers dev_handle [Run_rpc, Select_method m', Rpc_timeout] d = Some d' \<and>
              rv_heading (rpc_view d') = m' \<and> rv_response (rpc_view d') = JSON_stringify_2 (rpc_answer (dv_selectedMethod d))"
proof -
  have ok: "dev_ok d" using assms(1) by (rule dv.reach_inv)
  then have "dv_timers d = []" using assms(3) by (simp add: dev_ok_def)
  moreover obtain x where "find_method m' = Some x" using find_method_some [OF assms(4)] by blast
  moreover obtain c u where "JSON_stringify_2 (rpc_answer (dv_selectedMethod d)) = Some (c # u)"
    using rpc_answer_text by blast
  ultimately show ?thesis
    using assms(2-4) by (simp add: handleRunRpc_def handleSelectMethod_def rpc_timeout_def rpc_view_def Let_def)
qed

theorem rpc_response_stale_witness:
  "\<exists>d'. run dev_offers dev_handle [Run_rpc, Select_method ''sprax_getBlock'', Rpc_timeout] (dev_mount ''/rpc'') = Some d' \<and>
        rv_heading (rpc_view d') = ''sprax_getBlock'' \<and>
        rv_response (rpc_view d') = JSON_stringify_2 (rpc_answer ''sprax_getStatus'')"
proof -
  have "''sprax_getBlock'' \<in> rm_method ` set rpcMethods" by (simp add: rpcMethods_def)
  moreover have "dv_activeTab (dev_mount ''/rpc'') = ''rpc''"
    by (simp add: dev_mount_def dev_initial_tab_def startsWith_def)
  ultimately show ?thesis
    using rpc_response_stale [OF reach.init, of "''/rpc''" "''sprax_getBlock''"] by (simp add: dev_mount_def)
qed

section \<open>The faucet\<close>

definition faucet_ok :: "FaucetPage \<Rightarrow> bool" where
  "faucet_ok f \<longleftrightarrow> fc_timers f = (if fc_isSubmitting f then 1 else 0) \<and> (\<forall>t. fc_successTx f = Some t \<longrightarrow> t = faucet_tx)"

interpretation fc: invariant_system faucet_init faucet_offers faucet_handle faucet_ok
proof
  show "faucet_ok faucet_init" by (simp add: faucet_ok_def faucet_init_def)
  fix f e
  assume "faucet_ok f" "faucet_offers e f"
  then show "faucet_ok (faucet_handle e f)"
    by (cases e) (auto simp: faucet_ok_def faucet_type_def handleClaim_def claim_timeout_def Let_def split: if_splits nat.splits)
qed

text \<open>The faucet page reports ten dispensed SPRX, under one and the same transaction hash, for
  every text that begins with \<open>sprax1\<close>, a valid address or not: the claim sends no request, and the
  message appears when its timer fires, whatever the page was used for before.
\<close>

theorem faucet_confirms_anything:
  assumes "reach faucet_init faucet_offers faucet_handle f" "\<not> fc_isSubmitting f" "startsWith (trim t) ''sprax1''"
  shows "\<exists>f'. run faucet_offers faucet_handle [Faucet_type t, Claim, Claim_timeout] f = Some f' \<and>
              faucet_texts f' = [''Successfully dispensed 10.0 SPRX!'', ''Tx Hash: '' @ faucet_tx, ''Request 10.0 SPRX Testnet Tokens'']"
proof -
  have "faucet_ok f" using assms(1) by (rule fc.reach_inv)
  then have "fc_timers f = 0" using assms(2) by (simp add: faucet_ok_def)
  moreover have "trim t \<noteq> []" using assms(3) by (auto simp: startsWith_def)
  ultimately show ?thesis
    using assms(2,3) by (simp add: faucet_type_def handleClaim_def claim_timeout_def faucet_texts_def given_def Let_def)
qed

theorem faucet_confirms_anything_witness:
  "\<exists>f'. run faucet_offers faucet_handle [Faucet_type ''sprax1 is no address'', Claim, Claim_timeout] faucet_init = Some f' \<and>
        ''Successfully dispensed 10.0 SPRX!'' \<in> set (faucet_texts f')"
proof -
  have "startsWith (trim ''sprax1 is no address'') ''sprax1''" by code_simp
  from faucet_confirms_anything [OF reach.init _ this] obtain f' where
    "run faucet_offers faucet_handle [Faucet_type ''sprax1 is no address'', Claim, Claim_timeout] faucet_init = Some f'"
    "faucet_texts f' = [''Successfully dispensed 10.0 SPRX!'', ''Tx Hash: '' @ faucet_tx, ''Request 10.0 SPRX Testnet Tokens'']"
    by (auto simp: faucet_init_def)
  then show ?thesis by (intro exI [of _ f']) (simp del: run.simps)
qed

section \<open>Tables\<close>

text \<open>The tab buttons of the guide, and the documents of the layers, all lead somewhere.\<close>

lemma learn_tabs_distinct: "distinct (map fst learn_tabs)"
  by (simp add: learn_tabs_def learnTracks_def)

lemma layer_documents:
  "l \<in> set PROTOCOL_LAYERS \<Longrightarrow> startsWith (la_docLink l) ''/learn'' \<or> startsWith (la_docLink l) ''/developers''"
  by (auto simp: PROTOCOL_LAYERS_def startsWith_def)

text \<open>The amount a text like \<open>400,000,000 SPRX\<close> starts with.\<close>

definition leading_amount :: "string \<Rightarrow> nat" where
  "leading_amount s = dec_nat (takeWhile is_dec (without_commas s))"

text \<open>The allocation is complete: the shares add up to the whole and the amounts to the supply.\<close>

lemma allocation_complete:
  "sum_list (map (leading_amount \<circ> al_percentage) genesis_allocation) = 100"
  "sum_list (map (leading_amount \<circ> al_amount) genesis_allocation) = leading_amount genesis_supply"
  by (simp_all add: genesis_allocation_def allocation_row_def genesis_supply_def leading_amount_def without_commas_def
      is_dec_def dec_nat_def radix_val_def digit_val_def)

end
