(* ===== verification/Explorer_Mounts.thy ===== *)
theory Explorer_Mounts
  imports Explorer_Guides
begin

text \<open>
  How long the state of a page lives: \<^verbatim>\<open>src/apps/explorer-ui/src/App.tsx\<close> renders a page while the route passes
  its test; its state is created when it appears, from the route at that time, kept while it stays,
  and dropped when it disappears.  Here for the four pages that choose a tab from the route.
\<close>

text \<open>\<^verbatim>\<open>s.replace(p, "")\<close> for a text p.\<close>

fun remove_first :: "string \<Rightarrow> string \<Rightarrow> string" where
  "remove_first p [] = []"
| "remove_first p (c # s) = (if startsWith (c # s) p then drop (length p) (c # s) else c # remove_first p s)"

record Mounts =
  mt_route :: string
  mt_learn :: "string option"
  mt_dev :: "DevPortal option"
  mt_eco :: "EcosystemPage option"
  mt_gov :: "GovernancePage option"

definition nothing_loaded :: loaded where
  "nothing_loaded =
     \<lparr> ld_stats = False, ld_block = False, ld_tx = False, ld_account = False, ld_validator = False, ld_contract = False \<rparr>"

definition displays :: "ExPage \<Rightarrow> string \<Rightarrow> bool" where
  "displays p r \<longleftrightarrow> p \<in> set (rendered nothing_loaded r)"

definition keep_page :: "bool \<Rightarrow> 'a \<Rightarrow> 'a option \<Rightarrow> 'a option" where
  "keep_page shown fresh old = (if shown then (case old of Some s \<Rightarrow> Some s | None \<Rightarrow> Some fresh) else None)"

definition navigate_mounts :: "string \<Rightarrow> Mounts \<Rightarrow> Mounts" where
  "navigate_mounts r m =
     \<lparr> mt_route = r,
       mt_learn = keep_page (displays LearnPage r) (learn_initial_tab r) (mt_learn m),
       mt_dev = keep_page (displays DevelopersPortalPage r) (dev_mount (remove_first ''/developers'' r)) (mt_dev m),
       mt_eco = keep_page (displays EcosystemPage r) (eco_mount r) (mt_eco m),
       mt_gov = keep_page (displays GovernancePage r) (gov_mount r) (mt_gov m) \<rparr>"

definition no_mounts :: Mounts where
  "no_mounts = \<lparr> mt_route = [], mt_learn = None, mt_dev = None, mt_eco = None, mt_gov = None \<rparr>"

fun active_tab :: "ExPage \<Rightarrow> Mounts \<Rightarrow> string option" where
  "active_tab LearnPage m = mt_learn m"
| "active_tab DevelopersPortalPage m = map_option dv_activeTab (mt_dev m)"
| "active_tab EcosystemPage m = map_option ec_activeTab (mt_eco m)"
| "active_tab GovernancePage m = map_option gv_activeTab (mt_gov m)"
| "active_tab _ m = None"

fun initial_tab :: "ExPage \<Rightarrow> string \<Rightarrow> string" where
  "initial_tab LearnPage r = learn_initial_tab r"
| "initial_tab DevelopersPortalPage r = dev_initial_tab (remove_first ''/developers'' r)"
| "initial_tab EcosystemPage r = eco_initial_tab r"
| "initial_tab GovernancePage r = gov_initial_tab r"
| "initial_tab _ r = []"

definition tabbed :: "ExPage set" where
  "tabbed = {LearnPage, DevelopersPortalPage, EcosystemPage, GovernancePage}"

lemma tabbed_always: "e \<in> set route_table \<Longrightarrow> snd (snd e) \<in> tabbed \<Longrightarrow> fst (snd e) = always"
  unfolding route_table_def core_routes_def portal_routes_def tabbed_def set_append list.set(2) list.set(1)
  by (elim UnE insertE) simp_all

text \<open>These pages need no record, so the records that are loaded make no difference.\<close>

lemma displays_any:
  assumes "p \<in> tabbed"
  shows "displays p r \<longleftrightarrow> p \<in> set (rendered ld r)"
proof -
  have "entry_shown ld r e = entry_shown nothing_loaded r e" if "e \<in> set route_table" "snd (snd e) = p" for e
    using tabbed_always [OF that(1)] that(2) assms by (cases e) (simp add: entry_shown_def always_def)
  then show ?thesis by (force simp: displays_def rendered_def)
qed

lemma active_tab_navigate:
  assumes "p \<in> tabbed"
  shows "active_tab p (navigate_mounts r m) =
           (if displays p r then (case active_tab p m of Some t \<Rightarrow> Some t | None \<Rightarrow> Some (initial_tab p r)) else None)"
  using assms unfolding tabbed_def
  by (elim insertE emptyE)
    (simp_all add: navigate_mounts_def keep_page_def dev_mount_def eco_mount_def gov_mount_def split: option.split)

text \<open>A link to a tab of a page does nothing while that page is shown: the pages for learning,
  developers, the ecosystem and governance read the route only when they appear, so navigating to
  another of their routes keeps the tab that was open.  The same link opens its tab when any other
  page was shown in between.
\<close>

theorem portal_tab_stale:
  assumes "p \<in> tabbed" "displays p r" "displays p r'" "\<not> displays p r''"
  shows "active_tab p (navigate_mounts r' (navigate_mounts r m)) = active_tab p (navigate_mounts r m) \<and>
         active_tab p (navigate_mounts r' (navigate_mounts r'' (navigate_mounts r m))) = Some (initial_tab p r')"
  using assms by (simp add: active_tab_navigate split: option.split)

theorem portal_tab_stale_witness:
  "active_tab LearnPage (navigate_mounts ''/learn/tokenomics'' (navigate_mounts ''/learn'' no_mounts)) = Some ''hub'' \<and>
   active_tab LearnPage (navigate_mounts ''/learn/tokenomics'' (navigate_mounts ''/faucet'' (navigate_mounts ''/learn'' no_mounts)))
     = Some ''tokenomics''"
proof -
  have s: "displays LearnPage ''/learn''" "displays LearnPage ''/learn/tokenomics''" "\<not> displays LearnPage ''/faucet''"
    by code_simp+
  have t: "learn_initial_tab ''/learn'' = ''hub''" "learn_initial_tab ''/learn/tokenomics'' = ''tokenomics''" by code_simp+
  have "active_tab LearnPage (navigate_mounts ''/learn'' no_mounts) = Some ''hub''"
    using s(1) t(1) by (simp add: navigate_mounts_def keep_page_def no_mounts_def)
  with portal_tab_stale [of LearnPage, OF _ s, of no_mounts] t show ?thesis by (simp add: tabbed_def)
qed

text \<open>A vote lives as long as the page: after leaving it and coming back none is remembered.\<close>

lemma votes_forgotten:
  "\<not> displays GovernancePage r'' \<Longrightarrow> displays GovernancePage r' \<Longrightarrow>
     map_option gv_votedProposals (mt_gov (navigate_mounts r' (navigate_mounts r'' m))) = Some Map.empty"
  by (simp add: navigate_mounts_def keep_page_def gov_mount_def)

text \<open>On the first visit every entry of the header's menus opens the tab it names.\<close>

lemma menu_tabs:
  "map (initial_tab LearnPage \<circ> mi_route) learn_menu = [''hub'', ''what-is-sprx'', ''real-world-x'', ''tokenomics'', ''wallets'']"
  "map (initial_tab DevelopersPortalPage \<circ> mi_route) (take 4 devs_menu) = [''overview'', ''rpc'', ''smart-contracts'', ''nodes'']"
  "map (initial_tab EcosystemPage \<circ> mi_route) ecosystem_menu = [''directory'', ''discover'', ''markets'']"
  "map (initial_tab GovernancePage \<circ> mi_route) gov_menu = [''voting'', ''sips'', ''grants'']"
  by code_simp+

end
