(* ===== verification/Explorer_Qr.thy ===== *)
theory Explorer_Qr
  imports Js_Dyadic Js_Prelude
begin

text \<open>
  \<^verbatim>\<open>src/apps/explorer-ui/src/components/QrCodeModal.tsx\<close>: the picture that the address page offers as a QR code.
  The loops are translated as loops, so that their ending is a theorem and not an assumption; a
  reference description of the picture follows.  The numbers are integers: all of them stay far
  below \<open>2 ^ 53\<close>, where doubles are exact.
\<close>

section \<open>The drawing\<close>

datatype fill = White | Dark

text \<open>A call of \<^verbatim>\<open>fillRect\<close>: the colour, the corner, the width and the height.\<close>

record rect =
  rc_fill :: fill
  rc_x :: int
  rc_y :: int
  rc_w :: int
  rc_h :: int

definition fillRect :: "fill \<Rightarrow> int \<Rightarrow> int \<Rightarrow> int \<Rightarrow> int \<Rightarrow> rect" where
  "fillRect c x y w h = \<lparr> rc_fill = c, rc_x = x, rc_y = y, rc_w = w, rc_h = h \<rparr>"

definition qr_size :: int where
  "qr_size = 200"

definition blockSize :: int where
  "blockSize = 8"

definition count :: int where
  "count = qr_size div blockSize"

text \<open>The loop over the address.\<close>

definition seed_step :: "int \<Rightarrow> char \<Rightarrow> nat \<Rightarrow> int" where
  "seed_step seed c i = (seed + int (code_unit c) * (int i + 1)) mod 1000000007"

partial_function (option) seed_loop :: "string \<Rightarrow> nat \<Rightarrow> int \<Rightarrow> int option" where
  "seed_loop address i seed =
     (if i < length address then seed_loop address (i + 1) (seed_step seed (address ! i) i) else Some seed)"

definition next_seed :: "int \<Rightarrow> int" where
  "next_seed seed = (seed * 9301 + 49297) mod 233280"

text \<open>\<^verbatim>\<open>pseudoRandom() > 0.55\<close> in doubles, after the seed was advanced.\<close>

definition above_threshold :: "int \<Rightarrow> bool" where
  "above_threshold seed = n_less (to_double (55 / 100)) (n_div (NInt seed) (NInt 233280))"

definition drawFinder :: "int \<Rightarrow> int \<Rightarrow> rect list" where
  "drawFinder startX startY =
     [fillRect Dark (startX * blockSize) (startY * blockSize) (7 * blockSize) (7 * blockSize),
      fillRect White ((startX + 1) * blockSize) ((startY + 1) * blockSize) (5 * blockSize) (5 * blockSize),
      fillRect Dark ((startX + 2) * blockSize) ((startY + 2) * blockSize) (3 * blockSize) (3 * blockSize)]"

definition finder_zone :: "int \<Rightarrow> int \<Rightarrow> bool" where
  "finder_zone x y \<longleftrightarrow> x < 10 \<and> y < 10 \<or> count - 11 < x \<and> y < 10 \<or> x < 10 \<and> count - 11 < y"

definition block :: "int \<Rightarrow> int \<Rightarrow> rect" where
  "block x y = fillRect Dark (x * blockSize) (y * blockSize) blockSize blockSize"

text \<open>The body of the inner loop: the seed and what was drawn so far.\<close>

definition data_step :: "int \<Rightarrow> int \<Rightarrow> int \<times> rect list \<Rightarrow> int \<times> rect list" where
  "data_step x y s =
     (if finder_zone x y then s
      else let seed = next_seed (fst s) in
           (seed, if above_threshold seed then snd s @ [block x y] else snd s))"

partial_function (option) y_loop :: "int \<Rightarrow> int \<Rightarrow> int \<times> rect list \<Rightarrow> (int \<times> rect list) option" where
  "y_loop x y s = (if y < count then y_loop x (y + 1) (data_step x y s) else Some s)"

partial_function (option) x_loop :: "int \<Rightarrow> int \<times> rect list \<Rightarrow> (int \<times> rect list) option" where
  "x_loop x s =
     (if x < count then (case y_loop x 0 s of Some s' \<Rightarrow> x_loop (x + 1) s' | None \<Rightarrow> None) else Some s)"

definition draw_qr :: "string \<Rightarrow> rect list option" where
  "draw_qr address =
     (case seed_loop address 0 0 of
        Some seed \<Rightarrow>
          map_option
            (\<lambda>s. [fillRect White 0 0 qr_size qr_size] @ drawFinder 2 2 @ drawFinder (count - 9) 2 @
                 drawFinder 2 (count - 9) @ snd s)
            (x_loop 0 (seed, []))
      | None \<Rightarrow> None)"

text \<open>The effect draws when the dialog is open and the canvas has a context.\<close>

definition qr_effect :: "bool \<Rightarrow> bool \<Rightarrow> string \<Rightarrow> rect list option \<Rightarrow> rect list option" where
  "qr_effect isOpen has_context address old = (if isOpen \<and> has_context then draw_qr address else old)"

text \<open>For addresses of any practical length no sum or product leaves the exact range of doubles.\<close>

lemma seeds_exact:
  assumes "0 \<le> seed" "seed < 1000000007" "i < 2 ^ 40"
  shows "seed + int (code_unit c) * (int i + 1) < 2 ^ 53" "seed * 9301 + 49297 < 2 ^ 53"
proof -
  have c: "int (code_unit c) \<le> 255" using char_code_lt [of c] by linarith
  have "int i < int (2 ^ 40)" using assms(3) by (simp only: of_nat_less_iff)
  then have "int i + 1 \<le> 2 ^ 40" by simp
  then have "int (code_unit c) * (int i + 1) \<le> 255 * 2 ^ 40" using c by (intro mult_mono) simp_all
  then show "seed + int (code_unit c) * (int i + 1) < 2 ^ 53" using assms(2) by simp
  show "seed * 9301 + 49297 < 2 ^ 53" using assms(2) by simp
qed

section \<open>The loops end\<close>

definition checksum :: "string \<Rightarrow> int" where
  "checksum address = (\<Sum>i < length address. int (code_unit (address ! i)) * (int i + 1)) mod 1000000007"

lemma seed_loop_ends:
  "i \<le> length address \<Longrightarrow> seed = (\<Sum>j < i. int (code_unit (address ! j)) * (int j + 1)) mod 1000000007 \<Longrightarrow>
     seed_loop address i seed = Some (checksum address)"
proof (induction "length address - i" arbitrary: i seed)
  case 0
  then show ?case by (simp add: seed_loop.simps [of _ i] checksum_def)
next
  case (Suc n)
  then have i: "i < length address" by simp
  have "seed_step seed (address ! i) i = (\<Sum>j < Suc i. int (code_unit (address ! j)) * (int j + 1)) mod 1000000007"
    using Suc.prems(2) by (simp add: seed_step_def mod_simps)
  then have "seed_loop address (Suc i) (seed_step seed (address ! i) i) = Some (checksum address)"
    using Suc i by (intro Suc.hyps(1)) auto
  with i show ?case by (simp add: seed_loop.simps [of _ i])
qed

fun walk :: "(int \<times> int) list \<Rightarrow> int \<times> rect list \<Rightarrow> int \<times> rect list" where
  "walk [] s = s"
| "walk ((x, y) # cells) s = walk cells (data_step x y s)"

lemma walk_append: "walk (as @ bs) s = walk bs (walk as s)"
  by (induction as s rule: walk.induct) simp_all

definition column :: "int \<Rightarrow> (int \<times> int) list" where
  "column x = map (Pair x) [0 .. count - 1]"

lemma y_loop_ends: "0 \<le> y \<Longrightarrow> y \<le> count \<Longrightarrow> y_loop x y s = Some (walk (map (Pair x) [y .. count - 1]) s)"
proof (induction "nat (count - y)" arbitrary: y s)
  case 0
  then show ?case by (subst y_loop.simps) simp
next
  case (Suc n)
  then have y: "y < count" by simp
  then have "[y .. count - 1] = y # [y + 1 .. count - 1]" by (simp add: upto_rec1)
  with Suc y show ?case by (simp add: y_loop.simps [of _ y])
qed

lemma x_loop_ends: "0 \<le> x \<Longrightarrow> x \<le> count \<Longrightarrow> x_loop x s = Some (walk (concat (map column [x .. count - 1])) s)"
proof (induction "nat (count - x)" arbitrary: x s)
  case 0
  then show ?case by (subst x_loop.simps) simp
next
  case (Suc n)
  then have x: "x < count" by simp
  then have "[x .. count - 1] = x # [x + 1 .. count - 1]" by (simp add: upto_rec1)
  moreover have "y_loop x 0 s = Some (walk (column x) s)"
    using y_loop_ends [of 0 x s] by (simp add: column_def count_def qr_size_def blockSize_def)
  ultimately show ?case using Suc x by (simp add: x_loop.simps [of x] walk_append)
qed

section \<open>The picture without loops\<close>

definition free_cells :: "(int \<times> int) list" where
  "free_cells = filter (\<lambda>(x, y). \<not> finder_zone x y) (concat (map column [0 .. count - 1]))"

fun seeds :: "nat \<Rightarrow> int \<Rightarrow> int list" where
  "seeds 0 s = []"
| "seeds (Suc n) s = next_seed s # seeds n (next_seed s)"

definition dark_blocks :: "((int \<times> int) \<times> int) list \<Rightarrow> rect list" where
  "dark_blocks cs = map (\<lambda>((x, y), k). block x y) (filter (\<lambda>(_, k). 128304 < k) cs)"

definition qr_picture :: "int \<Rightarrow> rect list" where
  "qr_picture seed =
     [fillRect White 0 0 qr_size qr_size] @ drawFinder 2 2 @ drawFinder (count - 9) 2 @ drawFinder 2 (count - 9) @
     dark_blocks (zip free_cells (seeds (length free_cells) seed))"

text \<open>
  The threshold: \<open>0.55 * 233280\<close> is the integer 128304, whose quotient rounds to the same double as
  \<open>0.55\<close>; the quotients of larger seeds are further away than rounding can move them.
\<close>

lemma to_double_Fin_le:
  assumes "(1 :: rat) / 2 ^ 53 \<le> r" "r < 2 ^ 53" "(1 :: rat) / 2 ^ 53 \<le> r'" "r' < 2 ^ 53"
    and gap: "r + (r + r') / 2 ^ 53 < r'"
  shows "n_less (to_double r) (to_double r')"
proof -
  obtain v where v: "to_double r = Fin v" "\<bar>v - r\<bar> \<le> r / 2 ^ 53" using to_double_error [OF assms(1,2)] .
  obtain w where w: "to_double r' = Fin w" "\<bar>w - r'\<bar> \<le> r' / 2 ^ 53" using to_double_error [OF assms(3,4)] .
  have "v \<le> r + r / 2 ^ 53" "r' - r' / 2 ^ 53 \<le> w" using v(2) w(2) by linarith+
  with gap have "v < w" by (simp add: add_divide_distrib)
  then show ?thesis using v(1) w(1) by simp
qed

lemma n_less_asym: "n_less a b \<Longrightarrow> \<not> n_less b a"
  by (cases "(a, b)" rule: n_less.cases) auto

lemma above_threshold_iff:
  assumes "0 \<le> seed" "seed < 233280"
  shows "above_threshold seed \<longleftrightarrow> 128304 < seed"
proof -
  define r where "r = (of_int seed / 233280 :: rat)"
  have q: "n_div (NInt seed) (NInt 233280) = to_double r" by (simp add: r_def)
  have r: "0 \<le> r" "r < 1" using assms by (simp_all add: r_def)
  consider "seed = 0" | "0 < seed" "seed < 128304" | "seed = 128304" | "128304 < seed" using assms(1) by linarith
  then show ?thesis
  proof cases
    case 1
    obtain v :: rat where v: "to_double (55 / 100) = Fin v" "\<bar>v - 55 / 100\<bar> \<le> 55 / 100 / 2 ^ 53"
      by (rule to_double_error [of "55 / 100"]) simp_all
    moreover have "(55 / 100 / 2 ^ 53 :: rat) \<le> 1 / 4" by simp
    ultimately have "0 < v" by linarith
    with 1 v(1) show ?thesis by (simp add: above_threshold_def to_double_def [of 0])
  next
    case 3
    then show ?thesis using n_less_asym by (auto simp: above_threshold_def)
  next
    case 2
    then have "of_int seed + 1 \<le> (128304 :: rat)" using of_int_le_iff [of "seed + 1" 128304, where 'a = rat] by simp
    then have lt: "r + 1 / 233280 \<le> 55 / 100" by (simp add: r_def field_simps)
    have "(1 :: rat) \<le> of_int seed" using 2 of_int_le_iff [of 1 seed, where 'a = rat] by simp
    then have "1 / 233280 \<le> r" by (simp add: r_def divide_right_mono)
    then have "n_less (to_double r) (to_double (55 / 100))"
      using r lt by (intro to_double_Fin_le) (auto simp: field_simps)
    then show ?thesis using 2 q by (auto simp: above_threshold_def dest: n_less_asym)
  next
    case 4
    then have "(128305 :: rat) \<le> of_int seed" using of_int_le_iff [of 128305 seed, where 'a = rat] by simp
    then have "55 / 100 + 1 / 233280 \<le> r" by (simp add: r_def field_simps)
    then have "n_less (to_double (55 / 100)) (to_double r)"
      using r by (intro to_double_Fin_le) (auto simp: field_simps)
    then show ?thesis using 4 q by (simp add: above_threshold_def)
  qed
qed

lemma next_seed_range: "0 \<le> next_seed s" "next_seed s < 233280"
  by (simp_all add: next_seed_def)

lemma walk_blocks:
  "snd (walk cells s) =
     snd s @ dark_blocks (zip (filter (\<lambda>(x, y). \<not> finder_zone x y) cells)
                            (seeds (length (filter (\<lambda>(x, y). \<not> finder_zone x y) cells)) (fst s)))"
  by (induction cells s rule: walk.induct)
    (simp_all add: data_step_def dark_blocks_def Let_def above_threshold_iff next_seed_range)

lemma draw_qr_eq: "draw_qr address = Some (qr_picture (checksum address))"
proof -
  have "seed_loop address 0 0 = Some (checksum address)" by (rule seed_loop_ends) simp_all
  moreover have "x_loop 0 (checksum address, []) = Some (walk (concat (map column [0 .. count - 1])) (checksum address, []))"
    by (rule x_loop_ends) (simp_all add: count_def qr_size_def blockSize_def)
  ultimately show ?thesis by (simp add: draw_qr_def qr_picture_def walk_blocks free_cells_def)
qed

lemma seeds_length [simp]: "length (seeds n s) = n"
  by (induction n arbitrary: s) simp_all

lemma seeds_nth: "i < n \<Longrightarrow> seeds n s ! i = (next_seed ^^ Suc i) s"
proof (induction n arbitrary: s i)
  case (Suc n)
  then show ?case by (cases i) (simp_all add: funpow_swap1)
qed simp

text \<open>C34: Drawing the picture of an address always ends: the loop over the address and the two nested
  loops over the cells return for every text, and what they have drawn is the background, the three
  corner patterns and a dark block for each of the remaining cells, in order, whose number in the
  generator's sequence, started from the weighted sum of the characters, exceeds 128304.
\<close>

theorem qr_drawing_ends:
  "\<exists>blocks. draw_qr address =
     Some ([fillRect White 0 0 200 200] @ drawFinder 2 2 @ drawFinder 16 2 @ drawFinder 2 16 @ blocks) \<and>
     blocks = map (\<lambda>i. case free_cells ! i of (x, y) \<Rightarrow> fillRect Dark (x * 8) (y * 8) 8 8)
                (filter (\<lambda>i. 128304 < (next_seed ^^ Suc i) (checksum address)) [0 ..< length free_cells])"
proof -
  let ?n = "length free_cells" and ?s = "checksum address"
  have zip: "zip free_cells (seeds ?n ?s) = map (\<lambda>i. (free_cells ! i, (next_seed ^^ Suc i) ?s)) [0 ..< ?n]"
    by (rule nth_equalityI) (simp_all add: seeds_nth del: funpow.simps)
  have "dark_blocks (zip free_cells (seeds ?n ?s)) =
      map (\<lambda>i. case free_cells ! i of (x, y) \<Rightarrow> fillRect Dark (x * 8) (y * 8) 8 8)
        (filter (\<lambda>i. 128304 < (next_seed ^^ Suc i) ?s) [0 ..< ?n])"
    unfolding zip dark_blocks_def filter_map
    by (simp add: block_def blockSize_def comp_def split_def del: funpow.simps)
  then show ?thesis by (simp add: draw_qr_eq qr_picture_def count_def qr_size_def blockSize_def del: funpow.simps)
qed

section \<open>Few pictures\<close>

lemma next_seed_mod: "next_seed (s mod 233280) = next_seed s"
  unfolding next_seed_def by (intro mod_add_cong mod_mult_cong) simp_all

lemma seeds_mod: "seeds n (s mod 233280) = seeds n s"
  by (cases n) (simp_all add: next_seed_mod)

lemma qr_picture_mod: "qr_picture (s mod 233280) = qr_picture s"
  by (simp add: qr_picture_def seeds_mod)

text \<open>The picture does not determine the address: all addresses together have at most 233280
  pictures, the number of states of the generator, and two addresses whose weighted sums leave the
  same remainder have the same one.
\<close>

theorem qr_pictures_collide:
  "finite (range draw_qr) \<and> card (range draw_qr) \<le> 233280 \<and>
   (\<exists>a b. a \<noteq> b \<and> draw_qr a = draw_qr b)"
proof -
  have sub: "range draw_qr \<subseteq> (Some \<circ> qr_picture) ` {0 ..< 233280}"
  proof
    fix p
    assume "p \<in> range draw_qr"
    then obtain a where "p = (Some \<circ> qr_picture) (checksum a mod 233280)"
      by (auto simp: draw_qr_eq qr_picture_mod)
    then show "p \<in> (Some \<circ> qr_picture) ` {0 ..< 233280}" by (rule image_eqI) simp
  qed
  have fin: "finite ((Some \<circ> qr_picture) ` {0 ..< 233280 :: int})" by simp
  have "card (range draw_qr) \<le> card ((Some \<circ> qr_picture) ` {0 ..< 233280 :: int})" by (rule card_mono [OF fin sub])
  also have "\<dots> \<le> card {0 ..< 233280 :: int}" by (rule card_image_le) simp
  finally have "card (range draw_qr) \<le> 233280" by simp
  moreover have "checksum ''sprax1aj'' = checksum ''sprax1ic''" by (simp add: checksum_def)
  then have "\<exists>a b. a \<noteq> b \<and> draw_qr a = draw_qr b"
    by (intro exI [of _ "''sprax1aj''"] exI [of _ "''sprax1ic''"]) (simp add: draw_qr_eq)
  ultimately show ?thesis using finite_subset [OF sub fin] by blast
qed

end
