(* ===== verification/Explorer_Conform.thy ===== *)
theory Explorer_Conform
  imports Explorer_App State_Machine
begin

text \<open>
  The declared types of \<^verbatim>\<open>src/apps/explorer-ui/src/types/index.ts\<close> as predicates on values, and what of them
  holds at run time.  The service hands answers of a server on without looking at them; what it
  makes up itself conforms to its declared types, and so does everything that the application passes to
  its pages while no server answers.
\<close>

section \<open>Types\<close>

datatype ts_type =
    TStr
  | TNum
  | TBool
  | TLit "string list"
  | TOrNull ts_type
  | TArr ts_type
  | TObj "(string \<times> bool \<times> ts_type) list"
  | TUnion "ts_type list"

text \<open>A field is a name, whether it is optional, and its type.\<close>

fun conforms :: "ts_type \<Rightarrow> jsval \<Rightarrow> bool"
  and fields_conform :: "(string \<times> bool \<times> ts_type) list \<Rightarrow> jsval \<Rightarrow> bool"
  and one_conforms :: "ts_type list \<Rightarrow> jsval \<Rightarrow> bool" where
  "conforms TStr v = (case v of JStr _ \<Rightarrow> True | _ \<Rightarrow> False)"
| "conforms TNum v = (case v of JNum _ \<Rightarrow> True | _ \<Rightarrow> False)"
| "conforms TBool v = (case v of JBool _ \<Rightarrow> True | _ \<Rightarrow> False)"
| "conforms (TLit ss) v = (case v of JStr s \<Rightarrow> s \<in> set ss | _ \<Rightarrow> False)"
| "conforms (TOrNull t) v = (v = JNull \<or> conforms t v)"
| "conforms (TArr t) v = (case v of JArr xs \<Rightarrow> list_all (conforms t) xs | _ \<Rightarrow> False)"
| "conforms (TObj fs) v = (case v of JObj _ \<Rightarrow> fields_conform fs v | _ \<Rightarrow> False)"
| "conforms (TUnion ts) v = one_conforms ts v"
| "fields_conform [] v = True"
| "fields_conform ((k, opt, t) # fs) v = ((opt \<and> own v k = JUndefined \<or> conforms t (own v k)) \<and> fields_conform fs v)"
| "one_conforms [] v = False"
| "one_conforms (t # ts) v = (conforms t v \<or> one_conforms ts v)"

definition req :: "string \<Rightarrow> ts_type \<Rightarrow> string \<times> bool \<times> ts_type" where
  "req k t = (k, False, t)"

definition opt :: "string \<Rightarrow> ts_type \<Rightarrow> string \<times> bool \<times> ts_type" where
  "opt k t = (k, True, t)"

definition PaginatedResponse_t :: "ts_type \<Rightarrow> ts_type" where
  "PaginatedResponse_t t =
     TObj [req ''items'' (TArr t), req ''total'' TNum, req ''limit'' TNum, req ''offset'' TNum, req ''has_more'' TBool]"

definition IndexedBlock_t :: ts_type where
  "IndexedBlock_t =
     TObj [req ''height'' TNum, req ''hash'' TStr, req ''parent_hash'' TStr, req ''chain_id'' TStr,
           req ''timestamp_unix_secs'' TNum, req ''proposer'' TStr, req ''txs_count'' TNum, req ''txs_root'' TStr,
           req ''state_root'' TStr, req ''gas_used'' TNum, req ''block_size_bytes'' TNum]"

definition TxMessage_t :: ts_type where
  "TxMessage_t =
     TObj [req ''type'' TStr, req ''sender'' TStr, opt ''recipient'' TStr, opt ''amount'' TStr, opt ''data'' TStr]"

definition IndexedTx_t :: ts_type where
  "IndexedTx_t =
     TObj [req ''tx_hash'' TStr, req ''block_height'' TNum, req ''block_hash'' TStr, req ''sender'' TStr,
           opt ''recipient'' (TOrNull TStr), req ''message_type'' TStr, req ''amount'' TStr, req ''fee_amount'' TStr,
           req ''nonce'' TNum, req ''memo'' TStr, req ''success'' TBool, req ''gas_used'' TNum,
           req ''timestamp_unix_secs'' TNum, opt ''raw_messages'' (TArr TxMessage_t)]"

definition IndexedAccount_t :: ts_type where
  "IndexedAccount_t =
     TObj [req ''address'' TStr, req ''address_hex'' TStr, req ''balance'' TStr, req ''balance_sprx'' TStr,
           req ''nonce'' TNum, req ''tx_count'' TNum, req ''first_seen_height'' TNum, req ''last_active_height'' TNum]"

definition IndexedValidator_t :: ts_type where
  "IndexedValidator_t =
     TObj [req ''operator_address'' TStr, req ''moniker'' TStr, req ''voting_power'' TNum,
           req ''voting_power_percentage'' TNum, req ''tokens'' TStr, req ''commission_rate'' TNum,
           req ''status'' (TLit [''Active'', ''Inactive'', ''Jailed'']), req ''is_tombstoned'' TBool,
           req ''missed_blocks_count'' TNum, req ''uptime_percentage'' TNum, req ''blocks_proposed_count'' TNum]"

definition NetworkStats_t :: ts_type where
  "NetworkStats_t =
     TObj [req ''chain_id'' TStr, req ''latest_height'' TNum, req ''latest_block_hash'' TStr,
           req ''total_transactions'' TNum, req ''total_accounts'' TNum, req ''active_validators_count'' TNum,
           req ''total_bonded_tokens'' TStr, req ''avg_block_time_seconds'' TNum, req ''current_tps'' TNum,
           req ''latest_state_root'' TStr]"

definition SmartContract_t :: ts_type where
  "SmartContract_t =
     TObj [req ''address'' TStr, req ''creator'' TStr, req ''created_height'' TNum, req ''bytecode_size'' TNum,
           req ''tx_count'' TNum, req ''verified'' TBool, opt ''compiler_version'' TStr, opt ''source_code'' TStr,
           opt ''abi'' TStr]"

definition SearchResult_t :: ts_type where
  "SearchResult_t =
     TUnion [TObj [req ''type'' (TLit [''Block'']), req ''data'' IndexedBlock_t],
             TObj [req ''type'' (TLit [''Transaction'']), req ''data'' IndexedTx_t],
             TObj [req ''type'' (TLit [''Address'']), req ''data'' IndexedAccount_t],
             TObj [req ''type'' (TLit [''Validator'']), req ''data'' IndexedValidator_t],
             TObj [req ''type'' (TLit [''Contract'']), req ''data'' SmartContract_t]]"

lemmas type_defs = req_def opt_def PaginatedResponse_t_def IndexedBlock_t_def TxMessage_t_def IndexedTx_t_def
  IndexedAccount_t_def IndexedValidator_t_def NetworkStats_t_def SmartContract_t_def SearchResult_t_def

section \<open>Values of the records conform\<close>

named_theorems conform_intros \<open>values of the declared types\<close>

lemma block_conforms [conform_intros]: "conforms IndexedBlock_t (block_val b)"
  by (simp add: block_val_def type_defs own_def)

lemma generated_conforms [conform_intros]: "conforms IndexedBlock_t (generated_block h c n)"
  by (simp add: generated_block_def type_defs own_def)

lemma message_conforms: "conforms TxMessage_t (message_val m)"
  by (simp add: message_val_def opt_field_def type_defs own_def split: option.split)

lemma tx_conforms [conform_intros]: "conforms IndexedTx_t (tx_val t)"
  using message_conforms
  by (cases "ix_raw_messages t")
    (simp_all add: tx_val_def opt_val_def IndexedTx_t_def req_def opt_def own_def list_all_iff split: option.split)

lemma account_conforms [conform_intros]: "conforms IndexedAccount_t (account_val a)"
  by (simp add: account_val_def type_defs own_def)

lemma validator_conforms [conform_intros]: "conforms IndexedValidator_t (validator_val v)"
  by (cases "iv_status v") (simp_all add: validator_val_def type_defs own_def)

lemma stats_conforms [conform_intros]: "conforms NetworkStats_t (stats_val s)"
  by (simp add: stats_val_def type_defs own_def)

lemma contract_conforms [conform_intros]: "conforms SmartContract_t (contract_val c)"
  by (simp add: contract_val_def opt_field_def type_defs own_def split: option.split)

lemma array_conforms [conform_intros]: "(\<And>x. conforms t (f x)) \<Longrightarrow> conforms (TArr t) (JArr (map f xs))"
  by (simp add: list_all_iff)

lemma page_conforms [conform_intros]: "(\<And>x. conforms t (f x)) \<Longrightarrow> conforms (PaginatedResponse_t t) (page_val f p)"
  by (simp add: page_val_def PaginatedResponse_t_def req_def own_def list_all_iff)

section \<open>The service without a server\<close>

text \<open>A request of the service answers with a value of the type, or throws.\<close>

definition typed :: "ts_type \<Rightarrow> jsval api \<Rightarrow> bool" where
  "typed t m \<longleftrightarrow> (\<forall>s v s'. m s = (Inr v, s') \<longrightarrow> conforms t v)"

lemma conforms_null [conform_intros]: "conforms (TOrNull t) JNull"
  by simp

lemma conforms_or_null [conform_intros]: "conforms t v \<Longrightarrow> conforms (TOrNull t) v"
  by simp

lemma found_conforms [conform_intros]:
  "conforms IndexedBlock_t v \<Longrightarrow> conforms SearchResult_t (found ''Block'' v)"
  "conforms IndexedTx_t v \<Longrightarrow> conforms SearchResult_t (found ''Transaction'' v)"
  "conforms IndexedAccount_t v \<Longrightarrow> conforms SearchResult_t (found ''Address'' v)"
  "conforms IndexedValidator_t v \<Longrightarrow> conforms SearchResult_t (found ''Validator'' v)"
  "conforms SmartContract_t v \<Longrightarrow> conforms SearchResult_t (found ''Contract'' v)"
  by (simp_all add: found_def SearchResult_t_def req_def own_def)

lemma typed_return: "conforms t v \<Longrightarrow> typed t (\<lambda>s. (Inr v, s))"
  by (simp add: typed_def)

lemma typed_getBlock: "silent fetch \<Longrightarrow> typed (TOrNull IndexedBlock_t) (getBlock fetch h v)"
  unfolding typed_def
  by (auto simp: silent_getBlock Let_def ebind_def simp del: conforms.simps intro!: conform_intros
      split: option.splits if_splits sum.splits)

lemma typed_getTransaction: "silent fetch \<Longrightarrow> typed (TOrNull IndexedTx_t) (getTransaction fetch h t)"
  unfolding typed_def
  by (auto simp: silent_getTransaction simp del: conforms.simps intro!: conform_intros split: option.splits)

lemma typed_getAddress: "silent fetch \<Longrightarrow> typed (TOrNull IndexedAccount_t) (getAddress fetch h a)"
  unfolding typed_def
  by (auto simp: silent_getAddress simp del: conforms.simps intro!: conform_intros split: if_splits)

lemma typed_lists:
  assumes "silent fetch"
  shows "typed NetworkStats_t (getStats fetch)"
    and "typed (PaginatedResponse_t IndexedBlock_t) (getBlocks fetch h l off)"
    and "typed (PaginatedResponse_t IndexedTx_t) (getTransactions fetch h l off)"
    and "typed (PaginatedResponse_t IndexedTx_t) (getAddressTransactions fetch h a l off)"
    and "typed (TArr IndexedValidator_t) (getValidators fetch)"
    and "typed (TArr SmartContract_t) getContracts"
  using assms unfolding typed_def
  by (simp_all add: getStats_def getValidators_def getContracts_def silent_simps conform_intros del: conforms.simps)

lemma typed_or_else:
  assumes "typed (TOrNull t) m" "\<And>v. conforms t v \<Longrightarrow> conforms u (found ty v)" "typed u k"
  shows "typed u (or_else m ty k)"
  unfolding typed_def
proof (intro allI impI)
  fix s v s'
  assume eq: "or_else m ty k s = (Inr v, s')"
  obtain r s1 where m: "m s = (r, s1)" by force
  with eq obtain w where w: "r = Inr w" by (cases r) (auto simp: or_else_def api_bind_def)
  show "conforms u v"
  proof (cases "truthy w")
    case True
    have "conforms (TOrNull t) w" using assms(1) m w unfolding typed_def by blast
    then have "conforms t w" using True by auto
    with eq m w True show ?thesis by (auto simp: or_else_def api_bind_def intro: assms(2))
  next
    case False
    with eq m w have "k s1 = (Inr v, s')" by (simp add: or_else_def api_bind_def)
    with assms(3) show ?thesis by (auto simp: typed_def)
  qed
qed

lemma typed_search:
  assumes "silent fetch"
  shows "typed (TOrNull SearchResult_t) (search fetch h q)"
proof -
  let ?R = "TOrNull SearchResult_t"
  note parts = typed_or_else [OF typed_getBlock [OF assms]] typed_or_else [OF typed_getTransaction [OF assms]]
    typed_or_else [OF typed_getAddress [OF assms]]
  have name: "typed ?R (\<lambda>s. (Inr (validator_named c), s))" for c
    by (rule typed_return) (auto simp: validator_named_def simp del: conforms.simps intro!: conform_intros split: option.split)
  have address: "typed ?R (search_address fetch h c)" for c
    using name by (auto simp: search_address_def Let_def simp del: conforms.simps intro!: parts conform_intros)
  have contract: "typed ?R (search_contract fetch h c)" for c
    using address by (auto simp: search_contract_def simp del: conforms.simps intro!: typed_return conform_intros split: option.split)
  have validator: "typed ?R (search_validator fetch h c)" for c
    using contract by (auto simp: search_validator_def simp del: conforms.simps intro!: typed_return conform_intros split: option.split)
  have hash: "typed ?R (search_hash fetch h c)" for c
    using validator by (auto simp: search_hash_def Let_def simp del: conforms.simps intro!: parts conform_intros)
  have block: "typed ?R (or_else (getBlock fetch h (JStr c)) ''Block'' (search_hash fetch h c))" for c
    using hash by (auto simp del: conforms.simps intro!: parts conform_intros)
  show ?thesis
    using hash block assms unfolding typed_def search_def
    by (auto simp: silent_simps Let_def simp del: conforms.simps intro!: conform_intros split: if_splits)
qed

section \<open>The application without a server\<close>

fun offline :: "ExEvent \<Rightarrow> bool" where
  "offline (Load fetch _ _) = silent fetch"
| "offline (Poll fetch _ _) = silent fetch"
| "offline (Select_block fetch _ _) = silent fetch"
| "offline (Select_tx fetch _ _) = silent fetch"
| "offline (Select_address fetch _ _) = silent fetch"
| "offline (Search_bar fetch _ _) = silent fetch"
| "offline (Palette fetch _ _) = silent fetch"
| "offline _ = True"

text \<open>The types of the state's hooks, which are those of the pages' properties.\<close>

definition app_typed :: "ExApp \<Rightarrow> bool" where
  "app_typed a \<longleftrightarrow>
     conforms (TOrNull NetworkStats_t) (ea_stats a) \<and> conforms (TArr IndexedBlock_t) (ea_blocks a) \<and>
     conforms (TArr IndexedTx_t) (ea_transactions a) \<and> conforms (TArr IndexedValidator_t) (ea_validators a) \<and>
     conforms (TArr SmartContract_t) (ea_contracts a) \<and>
     conforms (TOrNull IndexedBlock_t) (ea_currentBlock a) \<and> conforms (TArr IndexedTx_t) (ea_currentBlockTxs a) \<and>
     conforms (TOrNull IndexedTx_t) (ea_currentTx a) \<and> conforms (TOrNull IndexedAccount_t) (ea_currentAccount a) \<and>
     conforms (TArr IndexedTx_t) (ea_currentAccountTxs a) \<and>
     conforms (TOrNull IndexedValidator_t) (ea_currentValidator a) \<and>
     conforms (TOrNull SmartContract_t) (ea_currentContract a)"

definition data_of :: "ExApp \<Rightarrow> jsval list" where
  "data_of a =
     [ea_stats a, ea_blocks a, ea_transactions a, ea_validators a, ea_contracts a, ea_currentBlock a, ea_currentBlockTxs a,
      ea_currentTx a, ea_currentAccount a, ea_currentAccountTxs a, ea_currentValidator a, ea_currentContract a]"

lemma typed_frame: "app_typed a \<Longrightarrow> data_of b = data_of a \<Longrightarrow> app_typed b"
  by (simp add: app_typed_def data_of_def del: conforms.simps)

lemma page_items_conform: "conforms (PaginatedResponse_t t) v \<Longrightarrow> conforms (TArr t) (own v ''items'')"
  by (simp add: PaginatedResponse_t_def req_def split: jsval.splits)

lemma typedD: "typed t m \<Longrightarrow> m s = (Inr v, s') \<Longrightarrow> conforms t v"
  unfolding typed_def by blast

lemma filter_res_subset: "filter_res P xs = Inr ys \<Longrightarrow> set ys \<subseteq> set xs"
  by (induction xs arbitrary: ys) (fastforce simp: err_simps split: if_splits)+

lemma find_res_member: "find_res P xs = Inr (Some x) \<Longrightarrow> x \<in> set xs"
  by (induction xs) (auto simp: err_simps split: if_splits)

lemma slice_subset: "set (slice xs i j) \<subseteq> set xs"
  by (auto simp: slice_def dest!: in_set_takeD in_set_dropD)

lemma block_txs_conform:
  assumes "conforms (TArr t) txs" "block_txs txs height = Inr v"
  shows "conforms (TArr t) v"
proof -
  obtain xs where xs: "txs = JArr xs" "list_all (conforms t) xs" using assms(1) by (cases txs) auto
  with assms(2) obtain ys where ys: "set ys \<subseteq> set xs" "v = JArr (if ys \<noteq> [] then ys else slice xs 0 3)"
    by (auto simp: block_txs_def elements_def err_simps dest!: filter_res_subset)
  with xs(2) slice_subset [of xs 0 3] show ?thesis by (auto simp: list_all_iff)
qed

lemma show_block_typed: "app_typed a \<Longrightarrow> conforms IndexedBlock_t b \<Longrightarrow> app_typed (show_block b a)"
  by (auto simp: show_block_def Let_def app_typed_def navigateTo_def simp del: conforms.simps
      intro: block_txs_conform conforms_or_null split: sum.split)

lemma loadAllData_typed:
  assumes "app_typed a" "silent fetch"
  shows "app_typed (loadAllData fetch h l a)"
proof -
  note t = typed_lists [OF assms(2), THEN typedD]
  have items: "conforms (TArr IndexedBlock_t) (own v ''items'')"
    if "getBlocks fetch h pageSize off (ea_service a) = (Inr v, s')" for off v s'
    using t(2) [OF that] by (rule page_items_conform)
  have txs: "conforms (TArr IndexedTx_t) (own v ''items'')"
    if "getTransactions fetch h pageSize off (ea_service a) = (Inr v, s')" for off v s'
    using t(3) [OF that] by (rule page_items_conform)
  show ?thesis
    using assms(1) t(1,5,6) items txs
    by (auto simp: loadAllData_def Let_def app_typed_def simp del: conforms.simps intro: conforms_or_null
        split: prod.split sum.split)
qed

lemma poll_typed:
  assumes "app_typed a" "silent fetch"
  shows "app_typed (poll fetch h l a)"
proof -
  note t = typed_lists [OF assms(2), THEN typedD]
  show ?thesis
    using assms(1) t(1) t(2,3) [THEN page_items_conform]
    by (auto simp: poll_def Let_def app_typed_def simp del: conforms.simps intro: conforms_or_null split: prod.split sum.split)
qed

lemma select_typed:
  assumes "app_typed a" "silent fetch"
  shows "app_typed (handleSelectBlock fetch h v a)" "app_typed (handleSelectTx fetch h t a)"
    and "app_typed (handleSelectAddress fetch h t a)"
proof -
  have frame: "app_typed (a \<lparr> ea_service := s \<rparr>)" for s using assms(1) by (rule typed_frame) (simp add: data_of_def)
  have go: "app_typed (navigateTo r b) = app_typed b" for r b by (simp add: navigateTo_def app_typed_def del: conforms.simps)
  have block: "truthy b \<Longrightarrow> conforms IndexedBlock_t b" if "getBlock fetch h v (ea_service a) = (Inr b, s')" for b s'
    using typedD [OF typed_getBlock [OF assms(2)] that] by auto
  show "app_typed (handleSelectBlock fetch h v a)"
    using frame block
    by (auto simp: handleSelectBlock_def Let_def go simp del: conforms.simps intro: show_block_typed split: prod.split sum.split)
  have tx: "conforms (TOrNull IndexedTx_t) b" if "getTransaction fetch h t (ea_service a) = (Inr b, s')" for b s'
    by (rule typedD [OF typed_getTransaction [OF assms(2)] that])
  show "app_typed (handleSelectTx fetch h t a)"
    using frame tx
    by (auto simp: handleSelectTx_def Let_def navigateTo_def app_typed_def simp del: conforms.simps split: prod.split sum.split)
  have acc: "conforms (TOrNull IndexedAccount_t) b" if "getAddress fetch h t (ea_service a) = (Inr b, s')" for b s'
    by (rule typedD [OF typed_getAddress [OF assms(2)] that])
  have txs: "conforms (TArr IndexedTx_t) (own b ''items'')"
    if "getAddressTransactions fetch h t 20 0 (ea_service a) = (Inr b, s')" for b s'
    by (rule page_items_conform [OF typedD [OF typed_lists(4) [OF assms(2)] that]])
  show "app_typed (handleSelectAddress fetch h t a)"
    using frame acc txs
    by (auto simp: handleSelectAddress_def Let_def navigateTo_def app_typed_def simp del: conforms.simps split: prod.split sum.split)
qed

lemma select_local_typed:
  assumes "app_typed a"
  shows "app_typed (handleSelectValidator t a)" "app_typed (handleSelectContract t a)"
proof -
  have "conforms IndexedValidator_t v"
    if "ebind (elements (ea_validators a)) (find_res P) = Inr (Some v)" for P v
    using assms that by (cases "ea_validators a") (auto simp: app_typed_def elements_def list_all_iff dest!: find_res_member)
  then show "app_typed (handleSelectValidator t a)"
    using assms
    by (auto simp: handleSelectValidator_def navigateTo_def app_typed_def simp del: conforms.simps intro: conforms_or_null
        split: sum.split option.split)
  show "app_typed (handleSelectContract t a)"
    using assms
    by (auto simp: handleSelectContract_def navigateTo_def app_typed_def simp del: conforms.simps
        intro: conforms_or_null contract_conforms split: option.split)
qed

lemma SearchResult_cases:
  assumes "conforms SearchResult_t v"
  shows "own v ''type'' = JStr ''Block'' \<Longrightarrow> conforms IndexedBlock_t (own v ''data'')"
    and "own v ''type'' = JStr ''Transaction'' \<Longrightarrow> conforms IndexedTx_t (own v ''data'')"
    and "own v ''type'' = JStr ''Address'' \<Longrightarrow> conforms IndexedAccount_t (own v ''data'')"
    and "own v ''type'' = JStr ''Validator'' \<Longrightarrow> conforms IndexedValidator_t (own v ''data'')"
    and "own v ''type'' = JStr ''Contract'' \<Longrightarrow> conforms SmartContract_t (own v ''data'')"
  using assms by (auto simp: SearchResult_t_def req_def simp del: conforms.simps(1-3,5,6) split: jsval.splits)

lemma search_typed:
  assumes "app_typed a" "silent fetch"
  shows "app_typed (handleUniversalSearch fetch h q a)"
proof -
  obtain r s where rs: "search fetch h q (ea_service a) = (r, s)" by force
  define b where "b = a \<lparr> ea_service := s \<rparr>"
  have b: "app_typed b" using assms(1) by (rule typed_frame) (simp add: data_of_def b_def)
  show ?thesis
  proof (cases r)
    case (Inl e)
    with rs b show ?thesis by (simp add: handleUniversalSearch_def Let_def b_def)
  next
    case (Inr v)
    have c: "conforms (TOrNull SearchResult_t) v" using typedD [OF typed_search [OF assms(2)] rs [unfolded Inr]] .
    show ?thesis
    proof (cases "truthy v")
      case False
      with rs Inr b show ?thesis
        by (simp add: handleUniversalSearch_def Let_def b_def navigateTo_def app_typed_def del: conforms.simps)
    next
      case True
      with c have "conforms SearchResult_t v" by auto
      note d = SearchResult_cases [OF this]
      have txs: "conforms (TArr IndexedTx_t) (own w ''items'')"
        if "getAddressTransactions fetch h t 20 0 s' = (Inr w, s'')" for t s' w s''
        by (rule page_items_conform [OF typedD [OF typed_lists(4) [OF assms(2)] that]])
      have address: "app_typed (show_address fetch h w b)" if "conforms IndexedAccount_t w" for w
        using b that txs
        by (auto simp: show_address_def Let_def navigateTo_def app_typed_def simp del: conforms.simps intro: conforms_or_null
            split: sum.split jsval.split prod.split)
      have rec: "app_typed (show_record base key f w b)" if "\<And>r. app_typed (navigateTo r (f w b))" "app_typed (f w b)" for base key f w
        using that by (auto simp: show_record_def Let_def split: sum.split)
      show ?thesis
        using True rs Inr b d
        by (auto simp: handleUniversalSearch_def Let_def b_def [symmetric] simp del: conforms.simps
            intro!: show_block_typed address rec)
          (simp_all add: app_typed_def navigateTo_def conforms_or_null del: conforms.simps)
    qed
  qed
qed

text \<open>The events that may change the data.\<close>

fun touches_data :: "ExEvent \<Rightarrow> bool" where
  "touches_data (Load _ _ _) = True"
| "touches_data (Poll _ _ _) = True"
| "touches_data (Select_block _ _ _) = True"
| "touches_data (Select_tx _ _ _) = True"
| "touches_data (Select_address _ _ _) = True"
| "touches_data (Select_validator _) = True"
| "touches_data (Select_contract _) = True"
| "touches_data (Search_bar _ _ _) = True"
| "touches_data (Palette _ _ _) = True"
| "touches_data _ = False"

lemma step_data: "\<not> touches_data e \<Longrightarrow> data_of (ex_handle e a) = data_of a"
  by (cases e)
    (simp_all add: data_of_def navigateTo_def toggleTheme_def sync_theme_def handleCurrencyChange_def handleNetworkChange_def
      key_event_def open_search_def handleConnect_def connect_timeout_def handleDisconnect_def Let_def
      split: nav_source.split list.split)

lemma palette_typed:
  assumes "app_typed a" "silent fetch"
  shows "app_typed (palette_event fetch h e a)"
proof -
  have "app_typed (set_palette ms a)" "app_typed (open_search False (set_palette ms a))" for ms
    by (rule typed_frame [OF assms(1)]; simp add: set_palette_def open_search_def data_of_def)+
  then show ?thesis
    using search_typed [OF _ assms(2)] by (simp add: palette_event_def Let_def split: option.split)
qed

lemma step_typed:
  assumes "app_typed a" "offline e"
  shows "app_typed (ex_handle e a)"
proof (cases "touches_data e")
  case True
  with assms show ?thesis
    by (cases e)
      (simp_all add: loadAllData_typed poll_typed select_typed select_local_typed search_typed palette_typed)
next
  case False
  then show ?thesis by (rule typed_frame [OF assms(1) step_data])
qed

definition typed_offers :: "ExEvent \<Rightarrow> ExApp \<Rightarrow> bool" where
  "typed_offers e a \<longleftrightarrow> ex_offers e a \<and> offline e"

interpretation ty: invariant_system "ex_init st path dark" typed_offers ex_handle app_typed for st path dark
proof
  show "app_typed (ex_init st path dark)"
    by (simp add: app_typed_def ex_init_def ex_mount_def sync_theme_def Let_def)
  show "app_typed a \<Longrightarrow> typed_offers e a \<Longrightarrow> app_typed (ex_handle e a)" for a e
    by (simp add: typed_offers_def step_typed)
qed

text \<open>C33: While no server answers, the explorer is well typed at run time: in every state that its
  controls can reach, the values it passes to its pages conform to the declared property types, the
  lists of blocks, transactions, validators and contracts as well as the record and the
  transactions of each detail page.
\<close>

theorem offline_well_typed:
  assumes "reach (ex_init st path dark) typed_offers ex_handle a"
  shows "conforms (TOrNull NetworkStats_t) (ea_stats a) \<and>
         conforms (TArr IndexedBlock_t) (ea_blocks a) \<and> conforms (TArr IndexedTx_t) (ea_transactions a) \<and>
         conforms (TArr IndexedValidator_t) (ea_validators a) \<and> conforms (TArr SmartContract_t) (ea_contracts a) \<and>
         conforms (TOrNull IndexedBlock_t) (ea_currentBlock a) \<and> conforms (TArr IndexedTx_t) (ea_currentBlockTxs a) \<and>
         conforms (TOrNull IndexedTx_t) (ea_currentTx a) \<and>
         conforms (TOrNull IndexedAccount_t) (ea_currentAccount a) \<and> conforms (TArr IndexedTx_t) (ea_currentAccountTxs a) \<and>
         conforms (TOrNull IndexedValidator_t) (ea_currentValidator a) \<and>
         conforms (TOrNull SmartContract_t) (ea_currentContract a)"
  using ty.reach_inv [OF assms] unfolding app_typed_def .

theorem offline_well_typed_witness:
  "conforms (TArr IndexedBlock_t) (ea_blocks (ex_handle (Load net_down (sample_host 0) True) (ex_init Map.empty ''/blocks'' False)))"
proof -
  have "reach (ex_init Map.empty ''/blocks'' False) typed_offers ex_handle
      (ex_handle (Load net_down (sample_host 0) True) (ex_init Map.empty ''/blocks'' False))"
    by (rule reach.step [OF reach.init]) (simp add: typed_offers_def silent_net_down)
  from offline_well_typed [OF this] show ?thesis by blast
qed

text \<open>An answer of a server is handed on whatever it is.\<close>

lemma server_untyped:
  assumes "truthy v" "fetchJson fetch s (''/blocks/'' @ trim t) = v"
  shows "getBlock fetch h (JStr t) s = (Inr v, online True s)"
  using assms by (simp add: getBlock_def Let_def)

end
