(* ===== verification/Js_Mono.thy ===== *)
theory Js_Mono
  imports Js_Round
begin

text \<open>
  Rounding to doubles respects the order, so bounds that are doubles survive every operation.
\<close>

definition quantum :: "rat \<Rightarrow> int" where
  "quantum r = max (log2_floor r - 52) (- 1074)"

definition rounded :: "rat \<Rightarrow> rat" where
  "rounded r = of_int (round_even (r / 2 powi quantum r)) * 2 powi quantum r"

lemma to_double_rounded:
  "0 < r \<Longrightarrow> to_double r = (if 2 ^ 1024 \<le> rounded r then Infinity False else Fin (rounded r))"
  by (simp add: to_double_def rounded_def quantum_def pow_int_powi Let_def)

lemma to_double_neg: "to_double (- r) = n_neg (to_double r)"
  by (auto simp: to_double_def Let_def sgn_if)

lemma round_even_mono: "a \<le> b \<Longrightarrow> round_even a \<le> round_even b"
proof -
  assume "a \<le> b"
  then have "\<lfloor>a\<rfloor> \<le> \<lfloor>b\<rfloor>" by (rule floor_mono)
  then consider "\<lfloor>a\<rfloor> = \<lfloor>b\<rfloor>" | "\<lfloor>a\<rfloor> + 1 \<le> \<lfloor>b\<rfloor>" by linarith
  then show ?thesis
  proof cases
    case 1
    with \<open>a \<le> b\<close> show ?thesis by (auto simp: round_even_def Let_def)
  next
    case 2
    have "round_even a \<le> \<lfloor>a\<rfloor> + 1" "\<lfloor>b\<rfloor> \<le> round_even b" by (auto simp: round_even_def Let_def)
    with 2 show ?thesis by linarith
  qed
qed

lemma round_even_le_int: "a \<le> of_int k \<Longrightarrow> round_even a \<le> k"
  using round_even_mono [of a "of_int k"] by (simp add: round_even_int)

lemma round_even_ge_int: "of_int k \<le> a \<Longrightarrow> k \<le> round_even a"
  using round_even_mono [of "of_int k" a] by (simp add: round_even_int)

lemma log2_floor_mono:
  assumes "0 < x" "x \<le> y"
  shows "log2_floor x \<le> log2_floor y"
proof -
  have "(2 :: rat) powi log2_floor x < 2 powi (log2_floor y + 1)"
    using log2_floor_bounds(1) [of x] log2_floor_bounds(2) [of y] assms by linarith
  then show ?thesis
    using power_int_increasing [of "log2_floor y + 1" "log2_floor x" "2 :: rat"] by linarith
qed

lemma rounded_mono:
  assumes "0 < x" "x \<le> y"
  shows "rounded x \<le> rounded y"
proof -
  have "quantum x \<le> quantum y" using log2_floor_mono [OF assms] by (simp add: quantum_def)
  then consider "quantum x = quantum y" | "quantum x + 1 \<le> quantum y" by linarith
  then show ?thesis
  proof cases
    case 1
    then show ?thesis
      using assms by (simp add: rounded_def round_even_mono divide_right_mono)
  next
    case 2
    define p where "p = (2 :: rat) powi quantum x"
    define q where "q = (2 :: rat) powi quantum y"
    have pos: "0 < p" "0 < q" by (simp_all add: p_def q_def)
    have "x < 2 powi (log2_floor x + 1)" using log2_floor_bounds(2) assms(1) .
    also have "\<dots> \<le> 2 powi (quantum x + 53)" by (rule power_int_increasing) (simp_all add: quantum_def)
    also have "\<dots> = of_int (2 ^ 53) * p" by (simp add: p_def power_int_add)
    finally have "x / p \<le> of_int (2 ^ 53)" using pos by (simp add: field_simps)
    then have "rounded x \<le> of_int (2 ^ 53) * p"
      unfolding rounded_def p_def [symmetric] using pos by (simp only: mult_right_mono of_int_le_iff round_even_le_int less_imp_le)
    also have "\<dots> = 2 powi (quantum x + 53)" by (simp add: p_def power_int_add)
    also have "\<dots> \<le> 2 powi (quantum y + 52)" by (rule power_int_increasing) (use 2 in simp_all)
    also have "\<dots> = of_int (2 ^ 52) * q" by (simp add: q_def power_int_add)
    also have "\<dots> \<le> rounded y"
    proof -
      have "quantum y = log2_floor y - 52" using 2 by (simp add: quantum_def)
      then have "of_int (2 ^ 52) * q = 2 powi log2_floor y" by (simp add: q_def power_int_diff)
      also have "\<dots> \<le> y" using log2_floor_bounds(1) assms by simp
      finally have "of_int (2 ^ 52) \<le> y / q" using pos by (simp add: field_simps)
      then show ?thesis
        unfolding rounded_def q_def [symmetric] using pos by (simp only: mult_right_mono of_int_le_iff round_even_ge_int less_imp_le)
    qed
    finally show ?thesis .
  qed
qed

lemma rounded_nonneg: "0 < r \<Longrightarrow> 0 \<le> rounded r"
  using round_even_ge_int [of 0 "r / 2 powi quantum r"] by (simp add: rounded_def)

lemma to_double_zero [simp]: "to_double 0 = Fin 0"
  by (simp add: to_double_def)

lemma n_le_pos:
  assumes "0 \<le> x" "x \<le> y"
  shows "n_le (to_double x) (to_double y)"
proof (cases "x = 0")
  case True
  then show ?thesis
    using assms rounded_nonneg [of y] by (cases "y = 0") (auto simp: to_double_rounded n_le_def n_eq_def)
next
  case False
  with assms rounded_mono [of x y] show ?thesis
    by (auto simp: to_double_rounded n_le_def n_eq_def)
qed

lemma n_le_neg: "n_le (n_neg a) (n_neg b) = n_le b a"
  by (cases a; cases b) (auto simp: n_le_def n_eq_def)

text \<open>Rounding is monotone.\<close>

lemma to_double_mono:
  assumes "x \<le> y"
  shows "n_le (to_double x) (to_double y)"
proof -
  consider "0 \<le> x" | "x < 0" "y < 0" | "x < 0" "0 \<le> y" by linarith
  then show ?thesis
  proof cases
    case 2
    with n_le_pos [of "- y" "- x"] assms show ?thesis by (simp add: to_double_neg n_le_neg)
  next
    case 3
    have "n_le (to_double x) (Fin 0)"
      using n_le_pos [of 0 "- x"] n_le_neg [of "Fin 0" "to_double x"] 3 by (simp add: to_double_neg)
    moreover have "n_le (Fin 0) (to_double y)" using n_le_pos [of 0 y] 3 by simp
    ultimately show ?thesis by (cases "to_double x"; cases "to_double y") (auto simp: n_le_def n_eq_def)
  qed (use n_le_pos assms in simp)
qed

text \<open>A result between two integers that doubles hold is finite and stays between them.\<close>

lemma to_double_between:
  assumes "of_int a \<le> r" "r \<le> of_int b" "\<bar>a\<bar> < 2 ^ 53" "\<bar>b\<bar> < 2 ^ 53"
  obtains v where "to_double r = Fin v" "of_int a \<le> v" "v \<le> of_int b"
proof -
  have "n_le (NInt a) (to_double r)" "n_le (to_double r) (NInt b)"
    using to_double_mono [OF assms(1)] to_double_mono [OF assms(2)] assms(3,4) by (simp_all add: to_double_int)
  then show ?thesis by (cases "to_double r") (auto simp: n_le_def n_eq_def intro: that)
qed

end
