(* ===== verification/Explorer_Charts.thy ===== *)
theory Explorer_Charts
  imports Explorer_Details Js_Mono
begin

text \<open>
  The line chart (\<^verbatim>\<open>src/apps/explorer-ui/src/components/ChartCard.tsx\<close>) and the analytics page that shows four of
  them (\<^verbatim>\<open>pages/AnalyticsPage.tsx\<close>).  The coordinates are computed with the code's own doubles; the colours
  are left out.
\<close>

section \<open>ChartCard\<close>

record DataPoint =
  dp_label :: string
  dp_value :: js_number
  dp_secondaryValue :: "js_number option"

record chart_point = DataPoint +
  pt_x :: js_number
  pt_y :: js_number

definition minVal :: "DataPoint list \<Rightarrow> js_number" where
  "minVal data = foldl Math_min (Infinity False) (map dp_value data)"

definition maxVal :: "DataPoint list \<Rightarrow> js_number" where
  "maxVal data = foldl Math_max (Infinity True) (map dp_value data)"

definition value_range :: "DataPoint list \<Rightarrow> js_number" where
  "value_range data = (let r = n_sub (maxVal data) (minVal data) in if n_truthy r then r else NInt 1)"

definition chart_width :: int where "chart_width = 500"
definition chart_height :: int where "chart_height = 150"
definition chart_padding :: int where "chart_padding = 20"

lemmas chart_frame = chart_width_def chart_height_def chart_padding_def

definition chart_x :: "DataPoint list \<Rightarrow> nat \<Rightarrow> js_number" where
  "chart_x data i =
     n_add (NInt chart_padding)
       (n_mul (n_div (NInt (int i)) (NInt (int (length data) - 1))) (NInt (chart_width - chart_padding * 2)))"

definition chart_y :: "DataPoint list \<Rightarrow> js_number \<Rightarrow> js_number" where
  "chart_y data v =
     n_sub (NInt (chart_height - chart_padding))
       (n_mul (n_div (n_sub v (minVal data)) (value_range data)) (NInt (chart_height - chart_padding * 2)))"

definition chart_points :: "DataPoint list \<Rightarrow> chart_point list" where
  "chart_points data =
     map (\<lambda>(i, d). \<lparr> dp_label = dp_label d, dp_value = dp_value d, dp_secondaryValue = dp_secondaryValue d,
        pt_x = chart_x data i, pt_y = chart_y data (dp_value d) \<rparr>)
       (enumerate 0 data)"

definition pathD :: "chart_point list \<Rightarrow> string" where
  "pathD points =
     foldl (\<lambda>acc (i, p). acc @ '' '' @ (if i = 0 then ''M'' else ''L'') @ '' '' @ num_str (pt_x p) @ '','' @ num_str (pt_y p))
       [] (enumerate (0 :: nat) points)"

definition areaD :: "chart_point list \<Rightarrow> string" where
  "areaD points =
     pathD points @ '' L '' @ num_str (pt_x (last points)) @ '','' @ num_str (NInt chart_height)
       @ '' L '' @ num_str (pt_x (hd points)) @ '','' @ num_str (NInt chart_height) @ '' Z''"

text \<open>The hovered point, if any, is what the heading shows.  An index beyond the data, left over from a
  longer series, makes the rendering fail.\<close>

definition activePoint :: "nat option \<Rightarrow> chart_point list \<Rightarrow> chart_point res" where
  "activePoint hoverIndex points =
     (case hoverIndex of
        Some i \<Rightarrow> (if i < length points then Inr (points ! i)
                  else Inl (TypeError (''Cannot read properties of undefined (reading '' @ [char_of (39 :: nat)] @ ''value'' @ [char_of (39 :: nat)] @ '')'')))
      | None \<Rightarrow> Inr (last points))"

datatype chart =
    No_data (ch_title: string)
  | Chart (ch_title: string) (ch_value: string) (ch_label: string) (ch_ranges: "string list") (ch_path: string)
      (ch_area: string) (ch_circles: "(js_number \<times> js_number \<times> int) list") (ch_subtitle: string)

definition chart_ranges :: "string list" where
  "chart_ranges = [''24H'', ''7D'', ''30D'', ''90D'']"

definition ChartCard ::
    "view_env \<Rightarrow> string \<Rightarrow> string \<Rightarrow> DataPoint list \<Rightarrow> string \<Rightarrow> string \<Rightarrow> nat option \<Rightarrow> chart res" where
  "ChartCard e title subtitle data valuePrefix valueSuffix hoverIndex =
     (if data = [] then Inr (No_data title)
      else let points = chart_points data in
        ebind (activePoint hoverIndex points) (\<lambda>p.
          Inr (Chart title (valuePrefix @ h_toLocaleString (ve_host e) (dp_value p) 0 2 @ valueSuffix) (dp_label p)
                 chart_ranges (pathD points) (areaD points)
                 (map (\<lambda>(i, q). (pt_x q, pt_y q, if hoverIndex = Some i then 5 else 3)) (enumerate 0 points))
                 subtitle)))"

datatype ChartEvent = Hover nat | Leave

fun chart_offers :: "DataPoint list \<Rightarrow> ChartEvent \<Rightarrow> nat option \<Rightarrow> bool" where
  "chart_offers data (Hover i) h = (i < length data)"
| "chart_offers data Leave h = (data \<noteq> [])"

fun chart_handle :: "ChartEvent \<Rightarrow> nat option \<Rightarrow> nat option" where
  "chart_handle (Hover i) h = Some i"
| "chart_handle Leave h = None"

section \<open>AnalyticsPage\<close>

definition point :: "string \<Rightarrow> rat \<Rightarrow> DataPoint" where
  "point label v = \<lparr> dp_label = label, dp_value = to_double v, dp_secondaryValue = None \<rparr>"

definition txGrowthData :: "DataPoint list" where
  "txGrowthData =
     [point ''Day 1'' 120000, point ''Day 5'' 185000, point ''Day 10'' 290000, point ''Day 15'' 410000,
      point ''Day 20'' 680000, point ''Day 25'' 920000, point ''Day 30'' 1489200]"

definition tpsTrendData :: "DataPoint list" where
  "tpsTrendData =
     [point ''Week 1'' 280, point ''Week 2'' 450, point ''Week 3'' 720, point ''Week 4'' (8425 / 10)]"

definition blockTimeData :: "DataPoint list" where
  "blockTimeData =
     [point ''T-6h'' (212 / 100), point ''T-5h'' (208 / 100), point ''T-4h'' (215 / 100), point ''T-3h'' (205 / 100),
      point ''T-2h'' (210 / 100), point ''T-1h'' (209 / 100), point ''Now'' (210 / 100)]"

definition gasConsumptionData :: "DataPoint list" where
  "gasConsumptionData =
     [point ''00:00'' 4200000, point ''06:00'' 6800000, point ''12:00'' 12400000, point ''18:00'' 15800000,
      point ''Now'' 18200000]"

definition analytics_cards :: "card list" where
  "analytics_cards =
     [MetricCard ''Nakamoto Coefficient'' ''3 Nodes'' ''Minimum to stall consensus (>33%)'',
      MetricCard ''Peak Observed TPS'' ''2,500 TPS'' ''Stress tested round'',
      MetricCard ''Block Commitment Rate'' ''99.98%'' ''Zero fork occurrence'',
      MetricCard ''Average Gas / Tx'' ''21,450 gas'' ''Sub-penny transaction cost'']"

text \<open>The selected range is passed to the charts, which only mark the button.\<close>

definition analytics_charts :: "view_env \<Rightarrow> string \<Rightarrow> (nat \<Rightarrow> nat option) \<Rightarrow> chart res list" where
  "analytics_charts e selectedRange hover =
     [ChartCard e ''Cumulative Transaction Growth'' ''Cumulative verified state transitions committed across all blocks''
        txGrowthData [] [] (hover 0),
      ChartCard e ''Throughput Dynamics (Average TPS)'' ''Sustained transaction throughput per second'' tpsTrendData [] '' TPS'' (hover 1),
      ChartCard e ''Block Time Consistency (Seconds)'' ''Deviation from 2.0 second target block duration'' blockTimeData [] ''s'' (hover 2),
      ChartCard e ''Consensus Gas Consumption'' ''Total gas units executed in WASM runtime'' gasConsumptionData [] '' gas'' (hover 3)]"

section \<open>The curve stays in its frame\<close>

definition finite_points :: "DataPoint list \<Rightarrow> bool" where
  "finite_points data \<longleftrightarrow> list_all (\<lambda>d. case dp_value d of Fin _ \<Rightarrow> True | _ \<Rightarrow> False) data"

definition rat_of :: "js_number \<Rightarrow> rat" where
  "rat_of n = (case n of Fin r \<Rightarrow> r | _ \<Rightarrow> 0)"

lemma finite_values: "finite_points data \<Longrightarrow> map dp_value data = map Fin (map (rat_of \<circ> dp_value) data)"
  by (induction data) (auto simp: finite_points_def rat_of_def split: js_number.splits)

lemma foldl_Math_min: "foldl Math_min (Fin a) (map Fin vs) = Fin (foldl min a vs)"
  by (induction vs arbitrary: a) (auto simp: Math_min_def min_def)

lemma foldl_Math_max: "foldl Math_max (Fin a) (map Fin vs) = Fin (foldl max a vs)"
  by (induction vs arbitrary: a) (auto simp: Math_max_def max_def)

lemma foldl_min_le: "(foldl min a vs :: rat) \<le> a" "v \<in> set vs \<Longrightarrow> foldl min a vs \<le> v"
proof -
  have le: "foldl min a vs \<le> a" for a :: rat and vs
  proof (induction vs arbitrary: a)
    case (Cons v vs)
    show ?case using Cons.IH [of "min a v"] by simp
  qed simp
  then show "foldl min a vs \<le> a" .
  show "v \<in> set vs \<Longrightarrow> foldl min a vs \<le> v"
    by (induction vs arbitrary: a) (auto intro: order_trans [OF le])
qed

lemma foldl_max_ge: "a \<le> (foldl max a vs :: rat)" "v \<in> set vs \<Longrightarrow> v \<le> foldl max a vs"
proof -
  have ge: "a \<le> foldl max a vs" for a :: rat and vs
  proof (induction vs arbitrary: a)
    case (Cons v vs)
    show ?case using Cons.IH [of "max a v"] by simp
  qed simp
  then show "a \<le> foldl max a vs" .
  show "v \<in> set vs \<Longrightarrow> v \<le> foldl max a vs"
    by (induction vs arbitrary: a) (auto intro: order_trans [OF _ ge])
qed

lemma extreme_values:
  assumes "finite_points data" "data \<noteq> []"
  obtains m M where "minVal data = Fin m" "maxVal data = Fin M"
    "\<And>d. d \<in> set data \<Longrightarrow> \<exists>v. dp_value d = Fin v \<and> m \<le> v \<and> v \<le> M"
proof -
  obtain a vs where vs: "map (rat_of \<circ> dp_value) data = a # vs" using assms(2) by (cases data) simp_all
  let ?m = "foldl min a vs" and ?M = "foldl max a vs"
  have eq: "map dp_value data = map Fin (a # vs)" using finite_values [OF assms(1)] vs by simp
  show thesis
  proof (rule that [of ?m ?M])
    show "minVal data = Fin ?m" unfolding minVal_def eq by (simp add: Math_min_def foldl_Math_min)
    show "maxVal data = Fin ?M" unfolding maxVal_def eq by (simp add: Math_max_def foldl_Math_max)
    fix d assume "d \<in> set data"
    then have "dp_value d \<in> set (map Fin (a # vs))" unfolding eq [symmetric] by simp
    then show "\<exists>v. dp_value d = Fin v \<and> ?m \<le> v \<and> v \<le> ?M"
      by (auto intro: foldl_min_le foldl_max_ge)
  qed
qed

text \<open>A fraction of the range scaled to the frame.\<close>

lemma scaled_between:
  assumes "0 \<le> q" "q \<le> (1 :: rat)" "0 \<le> k" "k < 2 ^ 53"
  obtains v t where "to_double q = Fin v" "to_double (v * of_int k) = Fin t" "0 \<le> t" "t \<le> of_int k"
proof -
  obtain v where v: "to_double q = Fin v" "0 \<le> v" "v \<le> 1"
    using to_double_between [of 0 q 1] assms(1,2) by auto
  have "v * of_int k \<le> 1 * of_int k" using v assms(3) by (intro mult_right_mono) simp_all
  then obtain t where "to_double (v * of_int k) = Fin t" "0 \<le> t" "t \<le> of_int k"
    using to_double_between [of 0 "v * of_int k" k] v assms(3,4) by auto
  with v(1) show thesis by (rule that)
qed

lemma n_le_Fin [simp]: "n_le (Fin a) (Fin b) = (a \<le> b)"
  by (auto simp: n_le_def n_eq_def)

lemma rounded_order: "to_double a = Fin x \<Longrightarrow> to_double b = Fin y \<Longrightarrow> a \<le> b \<Longrightarrow> x \<le> y"
  using to_double_mono [of a b] by simp


lemma n_sub_Fin: "n_sub (Fin a) (Fin b) = to_double (a - b)"
  by (simp add: n_sub_def)

lemma range_value:
  assumes "minVal data = Fin m" "maxVal data = Fin M" "m \<le> M" "n_sub (maxVal data) (minVal data) \<noteq> Infinity False"
  obtains r where "to_double (M - m) = Fin r" "0 \<le> r" "value_range data = Fin (if r = 0 then 1 else r)"
proof -
  have "n_le (Fin 0) (to_double (M - m))" using to_double_mono [of 0 "M - m"] assms(3) by simp
  with assms(4) obtain r where r: "to_double (M - m) = Fin r" "0 \<le> r"
    by (cases "to_double (M - m)") (auto simp: assms(1,2) n_sub_Fin n_le_def n_eq_def)
  then have "value_range data = Fin (if r = 0 then 1 else r)"
    by (simp add: value_range_def assms(1,2) n_sub_Fin n_truthy_def Let_def)
  with r show thesis by (rule that)
qed

lemma chart_y_order:
  assumes ex: "minVal data = Fin m" "maxVal data = Fin M" "n_sub (maxVal data) (minVal data) \<noteq> Infinity False"
    and v: "m \<le> v" "v \<le> w" "w \<le> M"
  obtains y y' where "chart_y data (Fin v) = Fin y" "chart_y data (Fin w) = Fin y'" "20 \<le> y'" "y' \<le> y" "y \<le> 130"
proof -
  obtain r where r: "to_double (M - m) = Fin r" "0 \<le> r" "value_range data = Fin (if r = 0 then 1 else r)"
    by (rule range_value [OF ex(1,2) _ ex(3)]) (use v in linarith)
  define \<rho> where "\<rho> = (if r = 0 then 1 else r)"
  have \<rho>: "0 < \<rho>" using r(2) by (simp add: \<rho>_def)
  have below: "\<exists>a. to_double (u - m) = Fin a \<and> 0 \<le> a \<and> a \<le> r \<and> a / \<rho> \<le> 1" if u: "m \<le> u" "u \<le> M" for u
  proof -
    have "n_le (Fin 0) (to_double (u - m))" "n_le (to_double (u - m)) (Fin r)"
      using to_double_mono [of 0 "u - m"] to_double_mono [of "u - m" "M - m"] u r(1) by simp_all
    then obtain a where "to_double (u - m) = Fin a" "0 \<le> a" "a \<le> r"
      by (cases "to_double (u - m)") (auto simp: n_le_def n_eq_def)
    then show ?thesis using \<rho> by (auto simp: \<rho>_def)
  qed
  obtain a where a: "to_double (v - m) = Fin a" "0 \<le> a" "a / \<rho> \<le> 1" using below [of v] v by auto
  obtain b where b: "to_double (w - m) = Fin b" "0 \<le> b" "b / \<rho> \<le> 1" using below [of w] v by auto
  have "a \<le> b" using rounded_order [OF a(1) b(1)] v(2) by simp
  obtain p s where p: "to_double (a / \<rho>) = Fin p" "to_double (p * of_int 110) = Fin s" "0 \<le> s" "s \<le> of_int 110"
    using scaled_between [of "a / \<rho>" 110] a \<rho> by auto
  obtain q t where q: "to_double (b / \<rho>) = Fin q" "to_double (q * of_int 110) = Fin t" "0 \<le> t" "t \<le> of_int 110"
    using scaled_between [of "b / \<rho>" 110] b \<rho> by auto
  have "p \<le> q" using rounded_order [OF p(1) q(1)] \<open>a \<le> b\<close> \<rho> by (simp add: divide_right_mono)
  then have "s \<le> t" using rounded_order [OF p(2) q(2)] by simp
  obtain y where y: "to_double (130 - s) = Fin y" "20 \<le> y" "y \<le> 130"
    using to_double_between [of 20 "130 - s" 130] p(3,4) by auto
  obtain y' where y': "to_double (130 - t) = Fin y'" "20 \<le> y'" "y' \<le> 130"
    using to_double_between [of 20 "130 - t" 130] q(3,4) by auto
  have "y' \<le> y" using rounded_order [OF y'(1) y(1)] \<open>s \<le> t\<close> by simp
  moreover have "chart_y data (Fin v) = Fin y" "chart_y data (Fin w) = Fin y'"
    using \<rho> a b p q y y' by (simp_all add: chart_y_def ex(1) r(3) \<rho>_def [symmetric] n_sub_Fin chart_frame)
  ultimately show thesis using y' y by (intro that [of y y']) simp_all
qed

lemma chart_x_order:
  assumes "i \<le> j" "j < length data" "2 \<le> length data"
  obtains x x' where "chart_x data i = Fin x" "chart_x data j = Fin x'" "20 \<le> x" "x \<le> x'" "x' \<le> 480"
proof -
  define n where "n = (of_int (int (length data) - 1) :: rat)"
  have n: "0 < n" "of_int (int j) \<le> n" using assms by (simp_all add: n_def)
  have ij: "(of_int (int i) :: rat) \<le> of_int (int j)" using assms(1) by simp
  have le: "of_int (int i) / n \<le> of_int (int j) / n" "of_int (int j) / n \<le> 1" "0 \<le> of_int (int i) / n"
    using n ij by (simp_all add: divide_right_mono)
  obtain p s where p: "to_double (of_int (int i) / n) = Fin p" "to_double (p * of_int 460) = Fin s" "0 \<le> s" "s \<le> of_int 460"
    using scaled_between [of "of_int (int i) / n" 460] le by auto
  obtain q t where q: "to_double (of_int (int j) / n) = Fin q" "to_double (q * of_int 460) = Fin t" "0 \<le> t" "t \<le> of_int 460"
    using scaled_between [of "of_int (int j) / n" 460] le by auto
  have "p \<le> q" using rounded_order [OF p(1) q(1)] le(1) by simp
  then have "s \<le> t" using rounded_order [OF p(2) q(2)] by simp
  obtain x where x: "to_double (20 + s) = Fin x" "20 \<le> x" "x \<le> 480"
    using to_double_between [of 20 "20 + s" 480] p(3,4) by auto
  obtain x' where x': "to_double (20 + t) = Fin x'" "20 \<le> x'" "x' \<le> 480"
    using to_double_between [of 20 "20 + t" 480] q(3,4) by auto
  have "x \<le> x'" using rounded_order [OF x(1) x'(1)] \<open>s \<le> t\<close> by simp
  moreover have "chart_x data k = n_add (Fin 20) (n_mul (to_double (of_int (int k) / n)) (Fin 460))" for k
    using n(1) assms(3) by (auto simp: chart_x_def n_def chart_frame)
  then have "chart_x data i = Fin x" "chart_x data j = Fin x'" using p q x x' by simp_all
  ultimately show thesis using x x' by (intro that [of x x']) simp_all
qed

lemma length_chart_points [simp]: "length (chart_points data) = length data"
  by (simp add: chart_points_def)

lemma nth_chart_points:
  "i < length data \<Longrightarrow>
     pt_x (chart_points data ! i) = chart_x data i \<and> pt_y (chart_points data ! i) = chart_y data (dp_value (data ! i))
     \<and> dp_value (chart_points data ! i) = dp_value (data ! i)"
  by (simp add: chart_points_def nth_enumerate_eq)

text \<open>C40: For at least two finite values whose spread does not overflow, the chart draws every point inside
  the padded frame of its 500 by 150 view, computed in doubles: the abscissas run from left to right in the
  order of the data, and a value that is not smaller is not drawn lower.
\<close>

theorem chart_in_frame:
  assumes "2 \<le> length data" "finite_points data" "n_sub (maxVal data) (minVal data) \<noteq> Infinity False"
    and "i \<le> j" "j < length data"
  shows "\<exists>x y x' y'.
      pt_x (chart_points data ! i) = Fin x \<and> pt_y (chart_points data ! i) = Fin y \<and>
      pt_x (chart_points data ! j) = Fin x' \<and> pt_y (chart_points data ! j) = Fin y' \<and>
      20 \<le> x \<and> x \<le> x' \<and> x' \<le> 480 \<and> 20 \<le> y \<and> y \<le> 130 \<and> 20 \<le> y' \<and> y' \<le> 130 \<and>
      (if n_le (dp_value (data ! i)) (dp_value (data ! j)) then y' \<le> y else y \<le> y')"
proof -
  have ne: "data \<noteq> []" using assms(1) by auto
  obtain m M where ex: "minVal data = Fin m" "maxVal data = Fin M"
    and all: "\<And>d. d \<in> set data \<Longrightarrow> \<exists>v. dp_value d = Fin v \<and> m \<le> v \<and> v \<le> M"
    using extreme_values [OF assms(2) ne] by metis
  obtain v where v: "dp_value (data ! i) = Fin v" "m \<le> v" "v \<le> M" using all [of "data ! i"] assms(4,5) by auto
  obtain w where w: "dp_value (data ! j) = Fin w" "m \<le> w" "w \<le> M" using all [of "data ! j"] assms(5) by auto
  obtain x x' where x: "chart_x data i = Fin x" "chart_x data j = Fin x'" "20 \<le> x" "x \<le> x'" "x' \<le> 480"
    using chart_x_order [OF assms(4,5,1)] .
  have "\<exists>y y'. chart_y data (Fin v) = Fin y \<and> chart_y data (Fin w) = Fin y' \<and> 20 \<le> y \<and> y \<le> 130 \<and> 20 \<le> y' \<and> y' \<le> 130
      \<and> (if v \<le> w then y' \<le> y else y \<le> y')"
  proof (cases "v \<le> w")
    case True
    obtain y y' where "chart_y data (Fin v) = Fin y" "chart_y data (Fin w) = Fin y'" "20 \<le> y'" "y' \<le> y" "y \<le> 130"
      using chart_y_order [OF ex assms(3) v(2) True w(3)] .
    with True show ?thesis by auto
  next
    case False
    then have "w \<le> v" by simp
    then obtain y y' where "chart_y data (Fin w) = Fin y" "chart_y data (Fin v) = Fin y'" "20 \<le> y'" "y' \<le> y" "y \<le> 130"
      using chart_y_order [OF ex assms(3) w(2) _ v(3)] by metis
    with False show ?thesis by auto
  qed
  then show ?thesis using x assms(4,5) v(1) w(1) by (auto simp: nth_chart_points)
qed

definition two_weeks :: "DataPoint list" where
  "two_weeks = [\<lparr> dp_label = ''Week 1'', dp_value = NInt 280, dp_secondaryValue = None \<rparr>, \<lparr> dp_label = ''Week 2'', dp_value = NInt 450, dp_secondaryValue = None \<rparr>]"

theorem chart_in_frame_witness:
  "\<exists>x y x' y'. pt_x (chart_points two_weeks ! 0) = Fin x \<and> pt_y (chart_points two_weeks ! 0) = Fin y \<and>
     pt_x (chart_points two_weeks ! 1) = Fin x' \<and> pt_y (chart_points two_weeks ! 1) = Fin y' \<and>
     20 \<le> x \<and> x \<le> x' \<and> x' \<le> 480 \<and> y' \<le> y \<and> y \<le> 130 \<and> 20 \<le> y'"
proof -
  have "minVal two_weeks = NInt 280" "maxVal two_weeks = NInt 450"
    by (simp_all add: minVal_def maxVal_def two_weeks_def Math_min_def Math_max_def)
  moreover have "to_double 170 = NInt 170" using to_double_int [of 170] by simp
  ultimately have "n_sub (maxVal two_weeks) (minVal two_weeks) \<noteq> Infinity False" by (simp add: n_sub_Fin)
  moreover have "2 \<le> length two_weeks" "finite_points two_weeks" "0 \<le> (1 :: nat)" "1 < length two_weeks"
    by (simp_all add: two_weeks_def finite_points_def)
  moreover have "n_le (dp_value (two_weeks ! 0)) (dp_value (two_weeks ! 1))" by (simp add: two_weeks_def)
  ultimately show ?thesis using chart_in_frame [of two_weeks 0 1] by auto
qed

text \<open>A single point has no abscissa.\<close>

lemma single_point: "pt_x (chart_points [d] ! 0) = NaN"
  by (simp add: chart_points_def chart_x_def)

end
