(* ===== verification/Explorer_Home.thy ===== *)
theory Explorer_Home
  imports Explorer_App
begin

text \<open>
  What the explorer writes about the network: the strip of
  \<^verbatim>\<open>src/apps/explorer-ui/src/components/LiveNetworkStrip.tsx\<close>, the metric cards of
  \<^verbatim>\<open>pages/HomePage.tsx\<close>, the banner for simulated data and the totals that \<^verbatim>\<open>App.tsx\<close> hands to the
  list pages.  The statistics are values of the service, so a text may fail to be made: a method that
  a value does not have throws, and so does an object in a text position.
\<close>

section \<open>Texts of values\<close>

text \<open>\<^verbatim>\<open>{v}\<close> in JSX.\<close>

fun jsx_text :: "jsval \<Rightarrow> string res"
  and jsx_texts :: "jsval list \<Rightarrow> string res" where
  "jsx_text JUndefined = Inr []"
| "jsx_text JNull = Inr []"
| "jsx_text (JBool _) = Inr []"
| "jsx_text (JNum n) = Inr (num_str n)"
| "jsx_text (JStr s) = Inr s"
| "jsx_text (JArr xs) = jsx_texts xs"
| "jsx_text (JObj _) = Inl (Error ''Objects are not valid as a React child'')"
| "jsx_texts [] = Inr []"
| "jsx_texts (x # xs) = ebind (jsx_text x) (\<lambda>s. ebind (jsx_texts xs) (\<lambda>t. Inr (s @ t)))"

text \<open>\<^verbatim>\<open>v.toLocaleString()\<close> and \<^verbatim>\<open>v.toFixed(1)\<close>.\<close>

fun locale_text :: "host \<Rightarrow> jsval \<Rightarrow> string res"
  and locale_texts :: "host \<Rightarrow> jsval list \<Rightarrow> string list res" where
  "locale_text h JUndefined = Inl (TypeError ''Cannot read properties of undefined'')"
| "locale_text h JNull = Inl (TypeError ''Cannot read properties of null'')"
| "locale_text h (JBool b) = Inr (if b then ''true'' else ''false'')"
| "locale_text h (JNum n) = Inr (h_toLocaleString h n 0 3)"
| "locale_text h (JStr s) = Inr s"
| "locale_text h (JArr xs) = ebind (locale_texts h xs) (\<lambda>ss. Inr (join '','' ss))"
| "locale_text h (JObj kvs) =
     (if own (JObj kvs) ''toLocaleString'' = JUndefined then Inr ''[object Object]''
      else Inl (TypeError ''toLocaleString is not a function''))"
| "locale_texts h [] = Inr []"
| "locale_texts h (x # xs) =
     ebind (if nullish x then Inr [] else locale_text h x) (\<lambda>s. ebind (locale_texts h xs) (\<lambda>ss. Inr (s # ss)))"

definition fixed1 :: "jsval \<Rightarrow> string res" where
  "fixed1 v = (case v of JNum n \<Rightarrow> Inr (toFixed n 1) | _ \<Rightarrow> Inl (TypeError ''toFixed is not a function''))"

section \<open>The strip\<close>

record metric =
  mc_label :: string
  mc_value :: string
  mc_sub :: string
  mc_route :: "string option"

definition metric_of :: "string \<Rightarrow> string \<Rightarrow> string option \<Rightarrow> string res \<Rightarrow> metric res" where
  "metric_of label sub route value =
     ebind value (\<lambda>v. Inr \<lparr> mc_label = label, mc_value = v, mc_sub = sub, mc_route = route \<rparr>)"

fun all_res :: "'a res list \<Rightarrow> 'a list res" where
  "all_res [] = Inr []"
| "all_res (r # rs) = ebind r (\<lambda>x. ebind (all_res rs) (\<lambda>xs. Inr (x # xs)))"

definition strip_chain :: "jsval \<Rightarrow> string \<Rightarrow> string res" where
  "strip_chain stats network =
     jsx_text (js_or (opt_get stats ''chain_id'')
       (JStr (if network \<noteq> ''mainnet'' then ''sprax-testnet-1'' else ''sprax-mainnet-1'')))"

definition strip_height :: "host \<Rightarrow> jsval \<Rightarrow> string res" where
  "strip_height h stats =
     ebind (if truthy (opt_get stats ''latest_height'') then locale_text h (opt_get stats ''latest_height'')
            else Inr ''8,245,920'') (\<lambda>s. Inr (''#'' @ s))"

definition throughput :: "jsval \<Rightarrow> string res" where
  "throughput stats =
     (if truthy (opt_get stats ''current_tps'') then fixed1 (opt_get stats ''current_tps'') else Inr ''1,240.5'')"

definition strip_metrics :: "host \<Rightarrow> jsval \<Rightarrow> metric list res" where
  "strip_metrics h stats =
     all_res
       [metric_of ''Height:'' [] (Some ''/blocks'') (strip_height h stats),
        metric_of ''Finality:'' [] None
          (ebind (jsx_text (js_or (opt_get stats ''avg_block_time_seconds'') (JNum (Fin (3 / 2))))) (\<lambda>s. Inr (s @ ''s''))),
        metric_of ''Throughput:'' [] None (ebind (throughput stats) (\<lambda>s. Inr (s @ '' TPS''))),
        metric_of ''Validators:'' [] (Some ''/validators'')
          (ebind (jsx_text (js_or (opt_get stats ''active_validators_count'') (JInt 100))) (\<lambda>s. Inr (s @ '' Active''))),
        metric_of ''Staked:'' [] (Some ''/staking'')
          (jsx_text (js_or (opt_get stats ''total_bonded_tokens'') (JStr ''420,000,000 SPRX'')))]"

section \<open>The metric cards\<close>

definition home_metrics :: "host \<Rightarrow> jsval \<Rightarrow> metric list res" where
  "home_metrics h stats =
     all_res
       [metric_of ''Block Height'' ''1.5s Avg Block Time'' (Some ''/blocks'')
          (ebind (get stats ''latest_height'') (\<lambda>v. ebind (locale_text h v) (\<lambda>s. Inr (''#'' @ s)))),
        metric_of ''Deterministic Finality'' ''Single-Block BFT-PoS'' (Some ''/learn/consensus'')
          (ebind (get stats ''avg_block_time_seconds'') (\<lambda>v. Inr (to_str (js_or v (JNum (Fin (3 / 2)))) @ ''s''))),
        metric_of ''Network Throughput'' ''Peak TPS Capacity'' (Some ''/analytics'')
          (ebind (get stats ''current_tps'') (\<lambda>v. if truthy v then fixed1 v else Inr ''1,240.5'')),
        metric_of ''Active Validators'' ''Top-100 Dynamic Set'' (Some ''/validators'')
          (ebind (get stats ''active_validators_count'') (\<lambda>v. Inr (to_str (js_or v (JInt 100))))),
        metric_of ''Total Staked'' ''42.0% Staking Ratio'' (Some ''/staking'')
          (ebind (get stats ''total_bonded_tokens'') (\<lambda>v. jsx_text (js_or v (JStr ''420,000,000'')))),
        metric_of ''Total Transactions'' ''100% Success Rate'' (Some ''/transactions'')
          (ebind (get stats ''total_transactions'') (locale_text h))]"

section \<open>The application's banner and totals\<close>

definition offline_banner :: "ExApp \<Rightarrow> string option" where
  "offline_banner a =
     (if isUsingOfflineFallback (ea_service a)
      then Some (''Connected to '' @ toUpperCase (ea_network a)
             @ '' Simulated Genesis Node. All telemetry and smart contracts active.'')
      else None)"

definition totalBlocks :: "ExApp \<Rightarrow> jsval" where
  "totalBlocks a = js_or (opt_get (ea_stats a) ''latest_height'') (JInt 100)"

definition totalTxs :: "ExApp \<Rightarrow> jsval" where
  "totalTxs a = js_or (opt_get (ea_stats a) ''total_transactions'') (JInt 500)"

section \<open>Links and defaults\<close>

lemma metric_of_Inr:
  "metric_of l s r v = Inr m \<longleftrightarrow> (\<exists>t. v = Inr t \<and> m = \<lparr> mc_label = l, mc_value = t, mc_sub = s, mc_route = r \<rparr>)"
  by (cases v) (auto simp: metric_of_def)

lemma all_res_Cons_Inr: "all_res (r # rs) = Inr zs \<longleftrightarrow> (\<exists>x xs. r = Inr x \<and> all_res rs = Inr xs \<and> zs = x # xs)"
  by (cases r; cases "all_res rs") auto

lemma all_res_Nil_Inr: "all_res [] = Inr zs \<longleftrightarrow> zs = []"
  by auto

lemmas metric_lists = all_res_Cons_Inr all_res_Nil_Inr metric_of_Inr

text \<open>The strip's metrics that react to a click, with the button beside them, are its links.\<close>

lemma strip_metrics_routes:
  "strip_metrics h stats = Inr ms \<Longrightarrow> List.map_filter mc_route ms @ [''/network''] = strip_links"
  unfolding strip_metrics_def metric_lists by (elim exE conjE) (simp add: strip_links_def)

lemma home_metrics_routes:
  "home_metrics h stats = Inr ms \<Longrightarrow> set (List.map_filter mc_route ms) \<subseteq> set home_links"
  unfolding home_metrics_def metric_lists by (elim exE conjE) (simp add: home_links_def)

text \<open>Before the first answer the strip shows its defaults; the cards are not rendered then.\<close>

lemma strip_before_answer:
  "strip_metrics h JNull = Inr ms \<Longrightarrow> mc_value (hd ms) = ''#8,245,920''"
  unfolding strip_metrics_def metric_lists
  by (elim exE conjE) (simp add: strip_height_def opt_get_def nullish_def)

lemma home_metrics_null: "\<exists>e. home_metrics h JNull = Inl e"
  by (simp add: home_metrics_def metric_of_def get_def nullish_def)

end
