(* ===== verification/Explorer_Info.thy ===== *)
theory Explorer_Info
  imports Explorer_Portal Explorer_Guides_Data Explorer_Home
begin

text \<open>
  The remaining pages of the explorer that compute what they show: the sections of
  \<^verbatim>\<open>src/apps/explorer-ui/src/pages/HomePage.tsx\<close> besides its metric cards, \<^verbatim>\<open>NetworkStatusPage.tsx\<close>,
  \<^verbatim>\<open>ResearchPage.tsx\<close>, \<^verbatim>\<open>DevelopersPage.tsx\<close>, \<^verbatim>\<open>NotFoundPage.tsx\<close> and the view of
  \<^verbatim>\<open>components/ConnectWalletModal.tsx\<close>.  Icons, colours and running text are left out.
\<close>

section \<open>HomePage\<close>

definition rwaCategories :: "(string \<times> string \<times> string \<times> string \<times> string) list" where
  "rwaCategories =
     [(''payments'', ''Global Payments & Settlement'', ''Sub-second deterministic settlement with multi-currency fee abstraction (USD, INR, EUR, GBP, JPY).'', ''1.5s Finality'', ''/learn/real-world-x''),
      (''rwa'', ''Tokenized Real-World Assets'', ''Institutional digital bonds, real estate title deeds, and automated dividend distribution via SXS-721.'', ''$18.5M+ Tokenized'', ''/learn/real-world-x''),
      (''identity'', ''Digital Identity & KYC Assertions'', ''Zero-knowledge verifiable credentials enabling compliant enterprise access without privacy leakage.'', ''ZKP Enabled'', ''/learn/real-world-x''),
      (''commerce'', ''Supply Chain & Trade Commerce'', ''Multi-party cryptographic escrow anchors for international freight, invoices, and letter-of-credit.'', ''Automated Escrow'', ''/learn/real-world-x''),
      (''depin'', ''DePIN & Sensor Infrastructure'', ''High-frequency cryptographic attestation rails for energy grids, telecom nodes, and IoT fleets.'', ''1,420+ Nodes'', ''/learn/real-world-x''),
      (''defi'', ''High-Velocity Institutional DeFi'', ''Concentrated liquidity AMMs and synthetic perpetuals with sub-10ms oracle updates.'', ''Zero Reentrancy'', ''/ecosystem'')]"

definition corePrinciples :: "(string \<times> string) list" where
  "corePrinciples =
     [(''Scalable by Architecture'', ''Pipelined CometBFT consensus with decoupled execution and dual-tier state storage.''),
      (''Real-World Ready'', ''Multi-currency presentation layer mapping native atto-SPRX into USD, INR, EUR, GBP, and JPY.''),
      (''Deterministic WASM'', ''CosmWasm Rust actor-model virtual machine eliminating EVM reentrancy vulnerabilities.''),
      (''1.5s Fast Finality'', ''Single-block deterministic finality with 2/3+ BFT-PoS mathematical safety bounds.''),
      (''Pure-Rust Storage'', ''Memory-efficient Redb embedded KV persistence combined with Jellyfish Sparse Merkle Tries.''),
      (''Decentralized Governance'', ''Transparent on-chain voting, community grants, and SPRX Improvement Proposals (SIPs).'')]"

definition roadmapMilestones :: "(string \<times> string \<times> string \<times> string \<times> string) list" where
  "roadmapMilestones =
     [(''Phase 01'', ''Architecture & Framework Selection'', ''Completed'', ''Q1 2026'', ''CometBFT consensus selection, CosmWasm VM specification, 1B SPRX tokenomics design.''),
      (''Phase 02'', ''Sovereign Rust Workspace & Local Engine'', ''Completed'', ''Q2 2026'', ''10 core crates implemented with 58 verified automated tests and zero warnings.''),
      (''Phase 03'', ''Public Testnet & Validator Rehearsal'', ''Active'', ''Q3 2026'', ''Multi-node testnet-1 launch, testnet faucet, explorer UI, and validator onboarding.''),
      (''Phase 04'', ''Mainnet Genesis & Real-World X Rails'', ''Upcoming'', ''Q4 2026'', ''Decentralized genesis ceremony, institutional RWA asset settlement, and multi-currency dApps.'')]"

text \<open>The cards of the two sections: a vertical with the route its card leads to, a principle.\<close>

definition vertical_cards :: "(string list \<times> string) list" where
  "vertical_cards =
     map (\<lambda>(_, title, description, stat, route). ([stat, title, description, ''Learn more''], route)) rwaCategories"

definition principle_cards :: "string list list" where
  "principle_cards = map (\<lambda>(title, description). [title, description]) corePrinciples"

definition block_feed :: "view_env \<Rightarrow> IndexedBlock list \<Rightarrow> table_row list" where
  "block_feed e recentBlocks =
     map (\<lambda>b. \<lparr> rw_cells =
                 [''Bk'', ''#'' @ locale_int e (bk_height b), ago_text e (bk_timestamp_unix_secs b),
                  num_str (NInt (bk_txs_count b)) @ '' '' @ (if bk_txs_count b = 1 then ''Tx'' else ''Txs''),
                  ''Proposer: '' @ truncateAddress (Some (bk_proposer b)) 8 6],
               rw_links = [To_block (bk_height b)] \<rparr>)
       (slice recentBlocks 0 5)"

definition tx_feed :: "IndexedTx list \<Rightarrow> table_row list" where
  "tx_feed recentTxs =
     map (\<lambda>tx. \<lparr> rw_cells =
                  [''Tx'', truncateHash (Some (ix_tx_hash tx)) 6 6, ''From: '' @ truncateAddress (Some (ix_sender tx)) 8 6,
                   ix_amount tx, ix_message_type tx],
                rw_links = [To_tx (ix_tx_hash tx)] \<rparr>)
       (slice recentTxs 0 5)"

datatype milestone_tone = Done | Pulsing | Muted

definition tone_of :: "string \<Rightarrow> milestone_tone" where
  "tone_of status = (if status = ''Completed'' then Done else if status = ''Active'' then Pulsing else Muted)"

definition milestone_cards :: "(string list \<times> milestone_tone) list" where
  "milestone_cards =
     map (\<lambda>(phase, title, status, period, desc). ([phase, status, title, desc, period], tone_of status)) roadmapMilestones"

section \<open>NetworkStatusPage\<close>

definition network_header :: "string list" where
  "network_header =
     PageHeader None ''Network & Node Telemetry'' (Some ''ALL SYSTEMS OPERATIONAL'')
       (Some ''Live consensus engine health, peer connectivity, and indexer storage pipeline status.'')"

definition network_cards :: "card list" where
  "network_cards =
     [MetricCard ''Consensus Engine'' ''CometBFT v0.38'' ''Deterministic 1-block finality'',
      MetricCard ''P2P Peers'' ''48 Connected'' ''Gossip mesh active'',
      MetricCard ''State Root Sync'' ''0 ms Delay'' ''Ledger fully audited'',
      MetricCard ''Indexer Pipeline'' ''Active (Real-time)'' ''100% Ingestion parity'']"

definition consensus_lines :: "NetworkStats \<Rightarrow> (string \<times> string) list" where
  "consensus_lines stats =
     [(''Consensus Round'', ''Round #0 (Commit)''),
      (''Block Commitment Interval'', toFixed (ns_avg_block_time_seconds stats) 2 @ ''s''),
      (''Quorum Threshold'', ''> 66.7% Voting Power''),
      (''Slashing Monitor'', ''Enabled (Double-sign & Downtime)'')]"

definition indexer_lines :: "view_env \<Rightarrow> NetworkStats \<Rightarrow> (string \<times> string) list" where
  "indexer_lines e stats =
     [(''Indexed Block Height'', ''#'' @ locale_int e (ns_latest_height stats)),
      (''Indexed Accounts'', locale_int e (ns_total_accounts stats)),
      (''Indexed Transactions'', locale_int e (ns_total_transactions stats)),
      (''Consistency Auditor'', ''Passing (100% Hash Match)'')]"

section \<open>ResearchPage\<close>

record ResearchPage =
  rs_papers :: "ResearchPaper list"
  rs_selectedCategory :: string

definition research_mount :: ResearchPage where
  "research_mount = \<lparr> rs_papers = [], rs_selectedCategory = ''All'' \<rparr>"

definition research_load :: "ResearchPage \<Rightarrow> ResearchPage" where
  "research_load p = p \<lparr> rs_papers := getResearchPapers \<rparr>"

fun PaperCategory_text :: "PaperCategory \<Rightarrow> string" where
  "PaperCategory_text Paper_Consensus = ''Consensus''"
| "PaperCategory_text Cryptography = ''Cryptography''"
| "PaperCategory_text RWA_Legal_Rails = ''RWA Legal Rails''"
| "PaperCategory_text State_Storage = ''State Storage''"
| "PaperCategory_text MEV_Defense = ''MEV Defense''"

definition paper_categories :: "string list" where
  "paper_categories = [''All'', ''Consensus'', ''Cryptography'', ''RWA Legal Rails'', ''State Storage'']"

definition papers_filtered :: "ResearchPage \<Rightarrow> ResearchPaper list" where
  "papers_filtered p =
     filter (\<lambda>q. rs_selectedCategory p = ''All'' \<or> PaperCategory_text (rp_category q) = rs_selectedCategory p) (rs_papers p)"

text \<open>A paper's card; its button leads to the whitepaper, whatever the paper is.\<close>

definition paper_card :: "ResearchPaper \<Rightarrow> string list \<times> string" where
  "paper_card q =
     ([PaperCategory_text (rp_category q), num_str (NInt (rp_readingMinutes q)) @ '' min read'', rp_date q, rp_title q,
       rp_abstract q, ''Authors: '' @ join '', '' (rp_authors q), ''Read Full Paper''], ''/whitepaper'')"

datatype ResearchEvent = Papers_loaded | Paper_category string

fun research_offers :: "ResearchEvent \<Rightarrow> ResearchPage \<Rightarrow> bool" where
  "research_offers Papers_loaded p = True"
| "research_offers (Paper_category c) p = (c \<in> set paper_categories)"

fun research_handle :: "ResearchEvent \<Rightarrow> ResearchPage \<Rightarrow> ResearchPage" where
  "research_handle Papers_loaded p = research_load p"
| "research_handle (Paper_category c) p = p \<lparr> rs_selectedCategory := c \<rparr>"

section \<open>DevelopersPage\<close>

definition rpcUrl :: "string \<Rightarrow> string" where
  "rpcUrl network =
     (if network = ''mainnet'' then ''https://rpc.sprax.network:2657''
      else if network = ''testnet'' then ''https://testnet-rpc.sprax.network:2657''
      else ''http://127.0.0.1:2657'')"

definition dev_apiBase :: "string \<Rightarrow> string" where
  "dev_apiBase network =
     (if network = ''mainnet'' then ''https://mainnet.sprax.network/api/v1''
      else if network = ''testnet'' then ''https://testnet-api.sprax.network/api/v1''
      else ''http://127.0.0.1:8080/api/v1'')"

definition dev_chainId :: "string \<Rightarrow> string" where
  "dev_chainId network = ''sprax-'' @ network @ ''-1''"

definition curlSnippet :: "string \<Rightarrow> string" where
  "curlSnippet n = text_lines
     [''# Check Sprax Chain RPC Status'',
      ''curl -X GET '' @ [c_dq] @ rpcUrl n @ ''/status'' @ [c_dq],
      [],
      ''# Fetch latest indexed blocks via Explorer REST API'',
      ''curl -X GET '' @ [c_dq] @ dev_apiBase n @ ''/blocks?limit=10'' @ [c_dq],
      [],
      ''# Fetch account balance'',
      ''curl -X GET '' @ [c_dq] @ dev_apiBase n @ ''/addresses/sprax1qpzry9x8gf2tvdw0s3jn54khce6mua7l4w3e2r'' @ [c_dq]]"

definition tsSnippet :: "string \<Rightarrow> string" where
  "tsSnippet n = text_lines
     [''import { SpraxClient } from '' @ [c_dq] @ ''@sprax/wallet-core'' @ [c_dq] @ '';'',
      [],
      ''async function main() {'',
      ''  const client = new SpraxClient({'',
      ''    rpcUrl: '' @ [c_dq] @ rpcUrl n @ [c_dq] @ '','',
      ''    chainId: '' @ [c_dq] @ dev_chainId n @ [c_dq] @ '','',
      ''  });'',
      [],
      ''  // Query network status and block height'',
      ''  const status = await client.getNetworkStatus();'',
      ''  console.log('' @ [c_dq] @ ''Current Height:'' @ [c_dq] @ '', status.latest_block_height);'',
      [],
      ''  // Query account balance'',
      ''  const balance = await client.getBalance('' @ [c_dq] @ ''sprax1qpzry9x8gf2tvdw0s3jn54khce6mua7l4w3e2r'' @ [c_dq] @ '');'',
      ''  console.log('' @ [c_dq] @ ''Balance:'' @ [c_dq] @ '', balance.formatted, '' @ [c_dq] @ ''SPRX'' @ [c_dq] @ '');'',
      ''}'',
      [],
      ''main();'']"

definition rustSnippet :: "string \<Rightarrow> string" where
  "rustSnippet n = text_lines
     [''use sprax_types::{Address, Amount};'',
      ''use sprax_node::rpc::RpcClient;'',
      [],
      ''#[tokio::main]'',
      ''async fn main() -> Result<(), Box<dyn std::error::Error>> {'',
      ''    let client = RpcClient::connect('' @ [c_dq] @ rpcUrl n @ [c_dq] @ '').await?;'',
      ''    let stats = client.get_network_stats().await?;'',
      ''    println!('' @ [c_dq] @ ''SPRX Height: #{}'' @ [c_dq] @ '', stats.latest_height);'',
      ''    Ok(())'',
      ''}'']"

definition connection_lines :: "string \<Rightarrow> (string \<times> string) list" where
  "connection_lines network =
     [(''Network Connection Parameters ('' @ toUpperCase network @ '')'', []),
      (''Chain ID'', dev_chainId network),
      (''Native Denomination'', ''SPRX (18 Decimals / 1 atto-SPRX = 10^-18 SPRX)''),
      (''JSON-RPC Endpoint'', rpcUrl network),
      (''Explorer REST API Base'', dev_apiBase network)]"

definition snippet_modes :: "string list" where
  "snippet_modes = [''ts'', ''curl'', ''rust'']"

definition snippet_view :: "string \<Rightarrow> string \<Rightarrow> string \<times> string" where
  "snippet_view selectedSnippet network =
     (if selectedSnippet = ''ts'' then (''TypeScript / Node.js SDK'', tsSnippet network)
      else if selectedSnippet = ''curl'' then (''cURL Shell Commands'', curlSnippet network)
      else (''Rust Tokio Client'', rustSnippet network))"

definition rest_endpoints :: "(string \<times> string) list" where
  "rest_endpoints =
     [(''/api/v1/blocks?limit=20&offset=0'', ''Paginated chronological blocks''),
      (''/api/v1/blocks/{height_or_hash}'', ''Fetch single block details''),
      (''/api/v1/txs?limit=20&offset=0'', ''Paginated transactions''),
      (''/api/v1/txs/{hash}'', ''Fetch cryptographic receipt & status''),
      (''/api/v1/addresses/{address}'', ''Account balance & nonce''),
      (''/api/v1/stats'', ''High-level network health & TPS'')]"

section \<open>NotFoundPage and the wallet dialog\<close>

definition not_found_texts :: "string option \<Rightarrow> string list" where
  "not_found_texts msg =
     [''Record Not Found'',
      (case msg of Some m \<Rightarrow> m
       | None \<Rightarrow> ''The requested block, transaction, address, or page could not be found on Sprax Chain.''),
      ''Back to Home'', ''Universal Search'']"

text \<open>The connected account with its button, and a line per wallet that says which one is connecting.\<close>

definition connected_texts :: "ConnectWallet \<Rightarrow> string list" where
  "connected_texts w =
     (case cw_connectedAddress w of
        Some a \<Rightarrow> (if a = [] then [] else [''Connected Account'', a, ''Disconnect''])
      | None \<Rightarrow> [])"

definition wallet_lines :: "ConnectWallet \<Rightarrow> string list list" where
  "wallet_lines w =
     map (\<lambda>opt. [wo_name opt, wo_badge opt, wo_description opt]
                  @ (if cw_connectingId w = Some (wo_id opt) then [''Connecting...''] else [])) walletOptions"

section \<open>Facts on the pages\<close>

lemma slice5_take: "slice xs 0 5 = take 5 xs"
  by (cases "5 \<le> length xs") (simp_all add: slice_def rel_index_def)

text \<open>The feeds show at most five entries, the first ones, each leading to its own page.\<close>

lemma feeds_first_five:
  "map rw_links (block_feed e bs) = map (\<lambda>b. [To_block (bk_height b)]) (take 5 bs)"
  "map rw_links (tx_feed txs) = map (\<lambda>t. [To_tx (ix_tx_hash t)]) (take 5 txs)"
  by (simp_all add: block_feed_def tx_feed_def slice5_take comp_def)

text \<open>The categories between them show every loaded paper exactly once; one category has no button.\<close>

lemma papers_partition:
  assumes "rs_papers p = getResearchPapers"
  shows "mset (concat (map (\<lambda>c. papers_filtered (p \<lparr> rs_selectedCategory := c \<rparr>)) (tl paper_categories))) = mset getResearchPapers"
  by (simp add: papers_filtered_def paper_categories_def assms getResearchPapers_def MOCK_RESEARCH_PAPERS_def)

lemma mev_unlisted: "PaperCategory_text MEV_Defense \<notin> set paper_categories"
  by (simp add: paper_categories_def)

text \<open>The parameters the page prints are those of the service for the chain name of the two public networks
  only; every RPC endpoint differs, and for the local network all three do.\<close>

lemma printed_parameters:
  assumes "(n, c) \<in> set NETWORK_CONFIG"
  shows "rpcUrl n \<noteq> nc_rpcUrl c" "dev_chainId n = nc_chainId c \<longleftrightarrow> n \<noteq> ''local''"
    "dev_apiBase n = nc_apiBase c \<longleftrightarrow> n = ''testnet''"
proof -
  have "list_all (\<lambda>(n, c). rpcUrl n \<noteq> nc_rpcUrl c \<and> (dev_chainId n = nc_chainId c \<longleftrightarrow> n \<noteq> ''local'')
      \<and> (dev_apiBase n = nc_apiBase c \<longleftrightarrow> n = ''testnet'')) NETWORK_CONFIG"
    by code_simp
  with assms show "rpcUrl n \<noteq> nc_rpcUrl c" "dev_chainId n = nc_chainId c \<longleftrightarrow> n \<noteq> ''local''"
    "dev_apiBase n = nc_apiBase c \<longleftrightarrow> n = ''testnet''"
    unfolding list_all_iff by blast+
qed

text \<open>The verticals lead to pages that exist.\<close>

lemma vertical_routes: "set (map snd vertical_cards) \<subseteq> set home_links"
  by code_simp

end
