(* ===== verification/Admin_Api.thy ===== *)
theory Admin_Api
  imports Http Js_Storage
begin

text \<open>
  The administration panel's client (\<^verbatim>\<open>src/apps/admin-panel/src/services/api.ts\<close>).  \<open>base\<close> is
  \<^verbatim>\<open>API_BASE\<close>, which the build configures.  An operation returns its result, the storage afterwards and
  whether it dispatched the event \<^verbatim>\<open>sprax_auth_changed\<close>.
\<close>

type_synonym 'a admin = "'a res \<times> storage \<times> bool"

definition token_key :: string where
  "token_key = ''sprax_admin_token''"

definition user_key :: string where
  "user_key = ''sprax_admin_user''"

definition getToken :: "storage \<Rightarrow> string option" where
  "getToken st = getItem st token_key"

section \<open>Requests\<close>

text \<open>The options of a call: its method and its body, if any.\<close>

record req_options =
  ro_method :: string
  ro_body :: "string option"

definition no_options :: req_options where
  "no_options = \<lparr> ro_method = ''GET'', ro_body = None \<rparr>"

definition bearer :: "string option \<Rightarrow> (string \<times> string) list" where
  "bearer token = (case token of
       Some t \<Rightarrow> (if t = [] then [] else [(''Authorization'', ''Bearer '' @ t)])
     | None \<Rightarrow> [])"

definition request_for :: "string \<Rightarrow> string \<Rightarrow> req_options \<Rightarrow> storage \<Rightarrow> http_request" where
  "request_for base path options st =
     \<lparr> rq_method = ro_method options, rq_url = base @ path,
       rq_headers = json_header # bearer (getToken st), rq_body = ro_body options \<rparr>"

definition clear_session :: "storage \<Rightarrow> storage" where
  "clear_session st = removeItem user_key (removeItem token_key st)"

text \<open>What is done with the answer to a request.\<close>

definition answer_value :: "http_response \<Rightarrow> jsval res" where
  "answer_value response =
     ebind (rs_json response) (\<lambda>json.
       if \<not> rs_ok response then
         ebind (get json ''error'') (\<lambda>err.
           Inl (Error (to_str (js_or (opt_get err ''message'') (js_or (own json ''detail'') (JStr ''Request failed''))))))
       else ebind (get json ''data'') (\<lambda>d. Inr (if d \<noteq> JUndefined then d else json)))"

definition handle_answer :: "http_response res \<Rightarrow> storage \<Rightarrow> jsval admin" where
  "handle_answer r st =
     (case r of
        Inl e \<Rightarrow> (Inl e, st, False)
      | Inr response \<Rightarrow>
          if rs_status response = 401
          then (Inl (Error ''Unauthorized. Please log in.''), clear_session st, True)
          else (answer_value response, st, False))"

definition request :: "fetch_fn \<Rightarrow> string \<Rightarrow> string \<Rightarrow> req_options \<Rightarrow> storage \<Rightarrow> jsval admin" where
  "request fetch base path options st = handle_answer (fetch (request_for base path options st)) st"

definition json_body :: "(string \<times> jsval) list \<Rightarrow> string option" where
  "json_body kvs = stringify (JObj kvs)"

definition with_body :: "string \<Rightarrow> (string \<times> jsval) list \<Rightarrow> req_options" where
  "with_body m kvs = \<lparr> ro_method = m, ro_body = json_body kvs \<rparr>"

section \<open>Session\<close>

definition login_request :: "string \<Rightarrow> string \<Rightarrow> string \<Rightarrow> http_request" where
  "login_request base username password =
     \<lparr> rq_method = ''POST'', rq_url = base @ ''/admin/login'', rq_headers = [json_header],
       rq_body = json_body [(''username'', JStr username), (''password'', JStr password)] \<rparr>"

definition store_session :: "jsval \<Rightarrow> storage \<Rightarrow> storage" where
  "store_session d st =
     setItem user_key
       (case json_body [(''username'', own d ''username''), (''role'', own d ''role'')] of Some t \<Rightarrow> t | None \<Rightarrow> ''undefined'')
       (setItem token_key (to_str (own d ''access_token'')) st)"

definition login_data :: "http_response \<Rightarrow> jsval res" where
  "login_data res =
     ebind (rs_json res) (\<lambda>json.
       if \<not> rs_ok res
       then ebind (get json ''detail'') (\<lambda>d. Inl (Error (to_str (js_or d (JStr ''Login failed'')))))
       else ebind (get json ''data'') (\<lambda>d. ebind (get d ''access_token'') (\<lambda>_. Inr d)))"

definition login_answer :: "http_response res \<Rightarrow> storage \<Rightarrow> jsval admin" where
  "login_answer r st =
     (case ebind r login_data of
        Inl e \<Rightarrow> (Inl e, st, False)
      | Inr d \<Rightarrow> (Inr d, store_session d st, True))"

definition api_logout :: "storage \<Rightarrow> storage" where
  "api_logout st = clear_session st"

definition getMe :: "fetch_fn \<Rightarrow> string \<Rightarrow> storage \<Rightarrow> jsval admin" where
  "getMe fetch base = request fetch base ''/admin/me'' no_options"

section \<open>Endpoints\<close>

definition getDashboard :: "fetch_fn \<Rightarrow> string \<Rightarrow> storage \<Rightarrow> jsval admin" where
  "getDashboard fetch base = request fetch base ''/admin/dashboard'' no_options"

definition getSystemHealth :: "fetch_fn \<Rightarrow> string \<Rightarrow> storage \<Rightarrow> jsval admin" where
  "getSystemHealth fetch base = request fetch base ''/admin/system/health'' no_options"

definition getAppUsers :: "fetch_fn \<Rightarrow> string \<Rightarrow> int \<Rightarrow> int \<Rightarrow> storage \<Rightarrow> jsval admin" where
  "getAppUsers fetch base limit offset =
     request fetch base (''/admin/app/users?limit='' @ num_str (NInt limit) @ ''&offset='' @ num_str (NInt offset)) no_options"

definition getAppVersions :: "fetch_fn \<Rightarrow> string \<Rightarrow> storage \<Rightarrow> jsval admin" where
  "getAppVersions fetch base = request fetch base ''/admin/app/versions'' no_options"

definition updateAppVersions :: "fetch_fn \<Rightarrow> string \<Rightarrow> (string \<times> jsval) list \<Rightarrow> storage \<Rightarrow> jsval admin" where
  "updateAppVersions fetch base config = request fetch base ''/admin/app/versions'' (with_body ''PATCH'' config)"

definition getBlockchainStats :: "fetch_fn \<Rightarrow> string \<Rightarrow> storage \<Rightarrow> jsval admin" where
  "getBlockchainStats fetch base = request fetch base ''/admin/blockchain/stats'' no_options"

text \<open>\<^verbatim>\<open>res.k || []\<close> of the answer.\<close>

definition list_field :: "string \<Rightarrow> jsval admin \<Rightarrow> jsval admin" where
  "list_field k a = (case a of (r, st, d) \<Rightarrow> (ebind r (\<lambda>v. ebind (get v k) (\<lambda>w. Inr (js_or w (JArr [])))), st, d))"

definition getBlocks_admin :: "fetch_fn \<Rightarrow> string \<Rightarrow> int \<Rightarrow> storage \<Rightarrow> jsval admin" where
  "getBlocks_admin fetch base limit st =
     list_field ''blocks'' (request fetch base (''/explorer/blocks?limit='' @ num_str (NInt limit)) no_options st)"

definition getTransactions_admin :: "fetch_fn \<Rightarrow> string \<Rightarrow> int \<Rightarrow> storage \<Rightarrow> jsval admin" where
  "getTransactions_admin fetch base limit st =
     list_field ''transactions''
       (request fetch base (''/explorer/transactions?limit='' @ num_str (NInt limit)) no_options st)"

definition getIndexerStatus :: "fetch_fn \<Rightarrow> string \<Rightarrow> storage \<Rightarrow> jsval admin" where
  "getIndexerStatus fetch base = request fetch base ''/admin/indexer/status'' no_options"

definition retryIndexer :: "fetch_fn \<Rightarrow> string \<Rightarrow> storage \<Rightarrow> jsval admin" where
  "retryIndexer fetch base = request fetch base ''/admin/indexer/retry'' \<lparr> ro_method = ''POST'', ro_body = None \<rparr>"

definition getMarkets :: "fetch_fn \<Rightarrow> string \<Rightarrow> storage \<Rightarrow> jsval admin" where
  "getMarkets fetch base = request fetch base ''/admin/markets'' no_options"

definition getDiscover :: "fetch_fn \<Rightarrow> string \<Rightarrow> storage \<Rightarrow> jsval admin" where
  "getDiscover fetch base = request fetch base ''/admin/discover'' no_options"

definition updateDiscoverProject ::
    "fetch_fn \<Rightarrow> string \<Rightarrow> string \<Rightarrow> (string \<times> jsval) list \<Rightarrow> storage \<Rightarrow> jsval admin" where
  "updateDiscoverProject fetch base i updates = request fetch base (''/admin/discover/'' @ i) (with_body ''PATCH'' updates)"

definition getValidators_admin :: "fetch_fn \<Rightarrow> string \<Rightarrow> storage \<Rightarrow> jsval admin" where
  "getValidators_admin fetch base = request fetch base ''/admin/validators'' no_options"

definition getPerpsStatus :: "fetch_fn \<Rightarrow> string \<Rightarrow> storage \<Rightarrow> jsval admin" where
  "getPerpsStatus fetch base = request fetch base ''/admin/perps/status'' no_options"

definition getNotifications :: "fetch_fn \<Rightarrow> string \<Rightarrow> storage \<Rightarrow> jsval admin" where
  "getNotifications fetch base = request fetch base ''/admin/notifications'' no_options"

definition broadcastNotification :: "fetch_fn \<Rightarrow> string \<Rightarrow> (string \<times> jsval) list \<Rightarrow> storage \<Rightarrow> jsval admin" where
  "broadcastNotification fetch base d = request fetch base ''/admin/notifications/broadcast'' (with_body ''POST'' d)"

definition getFeatureFlags :: "fetch_fn \<Rightarrow> string \<Rightarrow> storage \<Rightarrow> jsval admin" where
  "getFeatureFlags fetch base = request fetch base ''/admin/feature-flags'' no_options"

definition updateFeatureFlag :: "fetch_fn \<Rightarrow> string \<Rightarrow> string \<Rightarrow> bool \<Rightarrow> storage \<Rightarrow> jsval admin" where
  "updateFeatureFlag fetch base name is_enabled =
     request fetch base (''/admin/feature-flags/'' @ name) (with_body ''PATCH'' [(''is_enabled'', JBool is_enabled)])"

definition getAuditLogs :: "fetch_fn \<Rightarrow> string \<Rightarrow> int \<Rightarrow> storage \<Rightarrow> jsval admin" where
  "getAuditLogs fetch base limit = request fetch base (''/admin/audit-logs?limit='' @ num_str (NInt limit)) no_options"

definition getAdmins :: "fetch_fn \<Rightarrow> string \<Rightarrow> storage \<Rightarrow> jsval admin" where
  "getAdmins fetch base = request fetch base ''/admin/admins'' no_options"

definition createAdmin :: "fetch_fn \<Rightarrow> string \<Rightarrow> (string \<times> jsval) list \<Rightarrow> storage \<Rightarrow> jsval admin" where
  "createAdmin fetch base d = request fetch base ''/admin/admins'' (with_body ''POST'' d)"

section \<open>The session after a request\<close>

lemma clear_session_token [simp]: "getToken (clear_session st) = None"
  by (simp add: getToken_def clear_session_def storage_defs token_key_def user_key_def)

lemma store_session_token [simp]: "getToken (store_session d st) = Some (to_str (own d ''access_token''))"
  by (simp add: getToken_def store_session_def storage_defs token_key_def user_key_def)

text \<open>A request changes the storage only by ending the session, and says so.\<close>

lemma request_storage:
  assumes "handle_answer r st = (v, st', changed)"
  shows "st' = (if changed then clear_session st else st)"
    "changed \<longleftrightarrow> (\<exists>resp. r = Inr resp \<and> rs_status resp = 401)"
  using assms by (auto simp: handle_answer_def split: sum.splits if_splits)

text \<open>The answer to a login is stored, and the next request carries its token.\<close>

lemma login_then_bearer:
  assumes "login_answer r st = (Inr d, st', changed)" "own d ''access_token'' = JStr (c # t)"
  shows "rq_headers (request_for base path opts st') = [json_header, (''Authorization'', ''Bearer '' @ c # t)]"
  using assms by (auto simp: login_answer_def request_for_def bearer_def split: sum.splits)

end
