(* ===== verification/Admin_App.thy ===== *)
theory Admin_App
  imports Admin_Api Js_List State_Machine
begin

text \<open>
  The administration panel around its pages: the session of
  \<^verbatim>\<open>src/apps/admin-panel/src/context/AuthContext.tsx\<close>, the login page, the side bar with its permissions,
  the navigation bar and \<^verbatim>\<open>App.tsx\<close>.  A request that has been sent and not been answered is part of the
  state, so that answers may arrive in any order and after any other event.
\<close>

section \<open>Permissions\<close>

text \<open>\<^verbatim>\<open>v.includes(s)\<close>: membership in an array, occurrence in a string.\<close>

definition includes_js :: "jsval \<Rightarrow> string \<Rightarrow> bool res" where
  "includes_js v s =
     (case v of
        JArr xs \<Rightarrow> Inr (JStr s \<in> set xs)
      | JStr t \<Rightarrow> Inr (js_includes t s)
      | _ \<Rightarrow> Inl (TypeError ''includes is not a function''))"

definition hasPermission :: "jsval \<Rightarrow> string \<Rightarrow> bool res" where
  "hasPermission user perm =
     (if \<not> truthy user then Inr False
      else if own user ''role'' = JStr ''super_admin'' then Inr True
      else ebind (includes_js (own user ''permissions'') ''*'') (\<lambda>b1. if b1 then Inr True
      else ebind (includes_js (own user ''permissions'') perm) (\<lambda>b2. if b2 then Inr True
      else includes_js (own user ''permissions'') (hd (split_on (CHR ''.'') perm) @ ''.*''))))"

section \<open>The side bar\<close>

record NavItem =
  ni_id :: string
  ni_label :: string
  ni_section :: string
  ni_permission :: "string option"
  ni_badge :: "string option"

definition nav :: "string \<Rightarrow> string \<Rightarrow> string \<Rightarrow> string option \<Rightarrow> NavItem" where
  "nav i label sec perm =
     \<lparr> ni_id = i, ni_label = label, ni_section = sec, ni_permission = perm, ni_badge = None \<rparr>"

definition navItems :: "NavItem list" where
  "navItems =
     [nav ''dashboard'' ''Overview'' ''Core'' None,
      nav ''app_users'' ''App Users'' ''App Management'' (Some ''users.read''),
      nav ''app_versions'' ''App Versions'' ''App Management'' (Some ''users.manage''),
      nav ''blockchain'' ''Network & Nodes'' ''Blockchain'' (Some ''blockchain.read''),
      nav ''blocks'' ''Blocks'' ''Blockchain'' (Some ''blockchain.read''),
      nav ''transactions'' ''Transactions'' ''Blockchain'' (Some ''blockchain.read''),
      nav ''indexer'' ''Indexer Monitor'' ''Explorer'' (Some ''explorer.read''),
      nav ''markets'' ''Markets & FX'' ''Ecosystem'' (Some ''markets.read''),
      nav ''discover'' ''Discover & dApps'' ''Ecosystem'' (Some ''discover.read''),
      nav ''search_index'' ''Search Health'' ''Ecosystem'' None,
      nav ''validators'' ''Validators'' ''Consensus'' (Some ''validators.read''),
      nav ''staking'' ''Staking Overview'' ''Consensus'' (Some ''staking.read''),
      (nav ''perps_risk'' ''Perps Risk Monitor'' ''Perps'' (Some ''perps.read'')) \<lparr> ni_badge := Some ''TESTNET'' \<rparr>,
      nav ''notifications'' ''Announcements'' ''Operations'' (Some ''notifications.read''),
      nav ''operations'' ''System Operations'' ''Operations'' (Some ''operations.read''),
      nav ''security_admins'' ''Admin Users & RBAC'' ''Security'' (Some ''admin.manage''),
      nav ''audit_logs'' ''Audit Trail'' ''Security'' (Some ''admin.read''),
      nav ''feature_flags'' ''Feature Flags'' ''Settings'' (Some ''feature_flags.read'')]"

text \<open>\<^verbatim>\<open>Array.from(new Set(...))\<close> keeps first occurrences.\<close>

definition nav_sections :: "string list" where
  "nav_sections = rev (remdups (rev (map ni_section navItems)))"

definition nav_permitted :: "jsval \<Rightarrow> NavItem \<Rightarrow> bool res" where
  "nav_permitted user item =
     (case ni_permission item of None \<Rightarrow> Inr True | Some p \<Rightarrow> if p = [] then Inr True else hasPermission user p)"

definition section_items :: "jsval \<Rightarrow> string \<Rightarrow> NavItem list res" where
  "section_items user sec =
     filter_res (\<lambda>item. if ni_section item = sec then nav_permitted user item else Inr False) navItems"

text \<open>The sections that are shown, each with its entries.\<close>

definition sidebar :: "jsval \<Rightarrow> (string \<times> NavItem list) list res" where
  "sidebar user =
     ebind (map_res (\<lambda>sec. ebind (section_items user sec) (\<lambda>is. Inr (sec, is))) nav_sections)
       (\<lambda>ss. Inr (filter (\<lambda>(_, is). is \<noteq> []) ss))"

section \<open>State\<close>

record LoginForm =
  lf_username :: string
  lf_password :: string
  lf_error :: "string option"
  lf_submitting :: bool

definition login_form_init :: LoginForm where
  "login_form_init = \<lparr> lf_username = [], lf_password = [], lf_error = None, lf_submitting = False \<rparr>"

text \<open>
  \<open>au_checks\<close> are the requests of \<^verbatim>\<open>checkAuth\<close> that wait for an answer, \<open>au_logins\<close> those of
  \<^verbatim>\<open>login\<close>.  The flag tells whether the login form that is on the screen waits for it.
\<close>

record AdminUi =
  au_user :: jsval
  au_isLoading :: bool
  au_storage :: storage
  au_checks :: "(http_request \<times> bool) list"
  au_logins :: "(http_request \<times> bool) list"
  au_form :: LoginForm
  au_activeTab :: string
  au_collapsed :: bool
  au_profileMenu :: bool

datatype AdminScreen = Loading_screen | Login_screen | Shell_screen

definition admin_screen :: "AdminUi \<Rightarrow> AdminScreen" where
  "admin_screen s =
     (if au_isLoading s then Loading_screen else if \<not> truthy (au_user s) then Login_screen else Shell_screen)"

datatype AdminPage =
    DashboardPage | AppUsersPage | AppVersionsPage | BlockchainOverviewPage | Admin_BlocksPage | Admin_TransactionsPage
  | IndexerMonitorPage | MarketsPage | DiscoverPage | SearchIndexPage | Admin_ValidatorsPage | Admin_StakingPage
  | PerpsRiskPage | NotificationsPage | OperationsPage | SecurityAdminsPage | AuditLogsPage | FeatureFlagsPage

definition tab_pages :: "(string \<times> AdminPage) list" where
  "tab_pages =
     [(''dashboard'', DashboardPage), (''app_users'', AppUsersPage), (''app_versions'', AppVersionsPage),
      (''blockchain'', BlockchainOverviewPage), (''blocks'', Admin_BlocksPage), (''transactions'', Admin_TransactionsPage),
      (''indexer'', IndexerMonitorPage), (''markets'', MarketsPage), (''discover'', DiscoverPage),
      (''search_index'', SearchIndexPage), (''validators'', Admin_ValidatorsPage), (''staking'', Admin_StakingPage),
      (''perps_risk'', PerpsRiskPage), (''notifications'', NotificationsPage), (''operations'', OperationsPage),
      (''security_admins'', SecurityAdminsPage), (''audit_logs'', AuditLogsPage), (''feature_flags'', FeatureFlagsPage)]"

definition renderContent :: "string \<Rightarrow> AdminPage" where
  "renderContent activeTab = (case map_of tab_pages activeTab of Some p \<Rightarrow> p | None \<Rightarrow> DashboardPage)"

section \<open>Session handlers\<close>

definition form_done :: "bool \<Rightarrow> AdminUi \<Rightarrow> AdminUi" where
  "form_done live s = (if live then s \<lparr> au_form := (au_form s) \<lparr> lf_submitting := False \<rparr> \<rparr> else s)"

text \<open>\<^verbatim>\<open>checkAuth\<close> up to its request, and from the answer on.\<close>

definition checkAuth :: "string \<Rightarrow> bool \<Rightarrow> AdminUi \<Rightarrow> AdminUi" where
  "checkAuth base live s =
     (if bearer (getToken (au_storage s)) = []
      then form_done live (s \<lparr> au_user := JNull, au_isLoading := False \<rparr>)
      else s \<lparr> au_checks := au_checks s @ [(request_for base ''/admin/me'' no_options (au_storage s), live)] \<rparr>)"

definition check_settle :: "bool \<Rightarrow> http_response res \<Rightarrow> AdminUi \<Rightarrow> AdminUi" where
  "check_settle live r s =
     (let (v, st, _) = handle_answer r (au_storage s) in
      form_done live (s \<lparr> au_storage := st, au_user := (case v of Inr profile \<Rightarrow> profile | Inl _ \<Rightarrow> JNull),
                          au_isLoading := False \<rparr>))"

definition login_settle :: "string \<Rightarrow> bool \<Rightarrow> http_response res \<Rightarrow> AdminUi \<Rightarrow> AdminUi" where
  "login_settle base live r s =
     (case login_answer r (au_storage s) of
        (Inl e, _, _) \<Rightarrow>
          form_done live (if live then s \<lparr> au_form := (au_form s) \<lparr> lf_error := Some (message e) \<rparr> \<rparr> else s)
      | (Inr _, st, _) \<Rightarrow> checkAuth base live (checkAuth base False (s \<lparr> au_storage := st \<rparr>)))"

definition admin_logout :: "string \<Rightarrow> AdminUi \<Rightarrow> AdminUi" where
  "admin_logout base s =
     (checkAuth base False (s \<lparr> au_storage := api_logout (au_storage s) \<rparr>)) \<lparr> au_user := JNull \<rparr>"

text \<open>The answer to a request of a page; only its effect on the session is visible here.\<close>

definition page_settle :: "string \<Rightarrow> http_response res \<Rightarrow> AdminUi \<Rightarrow> AdminUi" where
  "page_settle base r s =
     (let (_, st, changed) = handle_answer r (au_storage s); s = s \<lparr> au_storage := st \<rparr> in
      if changed then checkAuth base False s else s)"

section \<open>The panel\<close>

datatype AdminEvent =
    Login_name string | Login_password string | Login_submit
  | Login_reply nat "http_response res" | Check_reply nat "http_response res" | Page_reply "http_response res"
  | Select_tab string | Toggle_sidebar | Toggle_profile | Sign_out

fun admin_offers :: "AdminEvent \<Rightarrow> AdminUi \<Rightarrow> bool" where
  "admin_offers (Login_name _) s = (admin_screen s = Login_screen)"
| "admin_offers (Login_password _) s = (admin_screen s = Login_screen)"
| "admin_offers Login_submit s =
     (admin_screen s = Login_screen \<and> \<not> lf_submitting (au_form s)
      \<and> lf_username (au_form s) \<noteq> [] \<and> lf_password (au_form s) \<noteq> [])"
| "admin_offers (Login_reply i _) s = (i < length (au_logins s))"
| "admin_offers (Check_reply i _) s = (i < length (au_checks s))"
| "admin_offers (Page_reply _) s = True"
| "admin_offers (Select_tab t) s =
     (admin_screen s = Shell_screen
      \<and> (case sidebar (au_user s) of
           Inr ss \<Rightarrow> t \<in> set (map ni_id (concat (map snd ss)))
         | Inl _ \<Rightarrow> False))"
| "admin_offers Toggle_sidebar s = (admin_screen s = Shell_screen)"
| "admin_offers Toggle_profile s = (admin_screen s = Shell_screen)"
| "admin_offers Sign_out s = (admin_screen s = Shell_screen \<and> au_profileMenu s)"

definition drop_nth :: "nat \<Rightarrow> 'a list \<Rightarrow> 'a list" where
  "drop_nth i xs = take i xs @ drop (Suc i) xs"

fun admin_step :: "string \<Rightarrow> AdminEvent \<Rightarrow> AdminUi \<Rightarrow> AdminUi" where
  "admin_step base (Login_name u) s = s \<lparr> au_form := (au_form s) \<lparr> lf_username := u \<rparr> \<rparr>"
| "admin_step base (Login_password p) s = s \<lparr> au_form := (au_form s) \<lparr> lf_password := p \<rparr> \<rparr>"
| "admin_step base Login_submit s =
     s \<lparr> au_form := (au_form s) \<lparr> lf_error := None, lf_submitting := True \<rparr>,
         au_logins := au_logins s
           @ [(login_request base (lf_username (au_form s)) (lf_password (au_form s)), True)] \<rparr>"
| "admin_step base (Login_reply i r) s =
     login_settle base (snd (au_logins s ! i)) r (s \<lparr> au_logins := drop_nth i (au_logins s) \<rparr>)"
| "admin_step base (Check_reply i r) s =
     check_settle (snd (au_checks s ! i)) r (s \<lparr> au_checks := drop_nth i (au_checks s) \<rparr>)"
| "admin_step base (Page_reply r) s = page_settle base r s"
| "admin_step base (Select_tab t) s = s \<lparr> au_activeTab := t \<rparr>"
| "admin_step base Toggle_sidebar s = s \<lparr> au_collapsed := \<not> au_collapsed s \<rparr>"
| "admin_step base Toggle_profile s = s \<lparr> au_profileMenu := \<not> au_profileMenu s \<rparr>"
| "admin_step base Sign_out s = admin_logout base (s \<lparr> au_profileMenu := False \<rparr>)"

text \<open>
  A component that leaves the screen loses its state: the login page and the shell start afresh when
  they appear, and no answer reaches a form that is gone.  \<^verbatim>\<open>activeTab\<close> belongs to \<^verbatim>\<open>App\<close> and stays.
\<close>

definition forget_form :: "(http_request \<times> bool) list \<Rightarrow> (http_request \<times> bool) list" where
  "forget_form qs = map (\<lambda>(q, _). (q, False)) qs"

definition mount_screen :: "AdminScreen \<Rightarrow> AdminUi \<Rightarrow> AdminUi" where
  "mount_screen old s =
     (if admin_screen s = old then s
      else s \<lparr> au_form := login_form_init, au_checks := forget_form (au_checks s),
               au_logins := forget_form (au_logins s), au_collapsed := False, au_profileMenu := False \<rparr>)"

definition admin_handle :: "string \<Rightarrow> AdminEvent \<Rightarrow> AdminUi \<Rightarrow> AdminUi" where
  "admin_handle base e s = mount_screen (admin_screen s) (admin_step base e s)"

definition admin_init :: "string \<Rightarrow> storage \<Rightarrow> AdminUi" where
  "admin_init base st =
     checkAuth base False
       \<lparr> au_user = JNull, au_isLoading = True, au_storage = st, au_checks = [], au_logins = [],
         au_form = login_form_init, au_activeTab = ''dashboard'', au_collapsed = False, au_profileMenu = False \<rparr>"

end
