(* ===== verification/Admin_Session.thy ===== *)
theory Admin_Session
  imports Admin_App
begin

text \<open>
  Properties of the administration panel's session: what an answer with status 401 does, which entries
  the side bar offers to a profile, and what a late answer does after signing out.
\<close>

section \<open>Permissions\<close>

text \<open>The contract of the side bar: what a role and a list of permissions grant.\<close>

definition grants :: "string \<Rightarrow> string list \<Rightarrow> string \<Rightarrow> bool" where
  "grants role perms p \<longleftrightarrow>
     role = ''super_admin'' \<or> ''*'' \<in> set perms \<or> p \<in> set perms
     \<or> takeWhile (\<lambda>c. c \<noteq> CHR ''.'') p @ ''.*'' \<in> set perms"

definition granted_items :: "string \<Rightarrow> string list \<Rightarrow> NavItem list" where
  "granted_items role perms =
     filter (\<lambda>i. case ni_permission i of None \<Rightarrow> True | Some p \<Rightarrow> grants role perms p) navItems"

definition profile :: "string \<Rightarrow> string list \<Rightarrow> jsval" where
  "profile role perms = JObj [(''role'', JStr role), (''permissions'', JArr (map JStr perms))]"

lemma hd_split_on: "hd (split_on c s) = takeWhile (\<lambda>x. x \<noteq> c) s"
  by (induction s) (auto split: list.splits dest: arg_cong [where f = length])

lemma hasPermission_grants: "hasPermission (profile role perms) p = Inr (grants role perms p)"
  by (auto simp: hasPermission_def profile_def grants_def own_def includes_js_def hd_split_on)

lemma nav_permitted_grants:
  assumes "i \<in> set navItems"
  shows "nav_permitted (profile role perms) i
    = Inr (case ni_permission i of None \<Rightarrow> True | Some p \<Rightarrow> grants role perms p)"
proof -
  have "ni_permission i \<noteq> Some []"
    using assms by (auto simp: navItems_def nav_def)
  then show ?thesis
    by (auto simp: nav_permitted_def hasPermission_grants split: option.splits)
qed

lemma section_items_granted:
  "section_items (profile role perms) sec = Inr (filter (\<lambda>i. ni_section i = sec) (granted_items role perms))"
proof -
  have "section_items (profile role perms) sec = Inr (filter (\<lambda>i. ni_section i = sec
      \<and> (case ni_permission i of None \<Rightarrow> True | Some p \<Rightarrow> grants role perms p)) navItems)"
    unfolding section_items_def by (rule filter_res_total) (simp add: nav_permitted_grants)
  then show ?thesis by (simp add: granted_items_def conj_commute)
qed

lemma sidebar_sections:
  "sidebar (profile role perms)
   = Inr (filter (\<lambda>(_, is). is \<noteq> [])
       (map (\<lambda>sec. (sec, filter (\<lambda>i. ni_section i = sec) (granted_items role perms))) nav_sections))"
  unfolding sidebar_def
  by (subst map_res_total [where g = "\<lambda>sec. (sec, filter (\<lambda>i. ni_section i = sec) (granted_items role perms))"])
    (simp_all add: section_items_granted)

lemma concat_shown: "concat (map snd (filter (\<lambda>(_, is). is \<noteq> []) xs)) = concat (map snd xs)"
  by (induction xs) auto

text \<open>The table is ordered by section, so grouping keeps its order.\<close>

lemma sections_in_order: "concat (map (\<lambda>sec. filter (\<lambda>i. ni_section i = sec) navItems) nav_sections) = navItems"
  by (simp add: navItems_def nav_sections_def nav_def)

lemma granted_in_order:
  "concat (map (\<lambda>sec. filter (\<lambda>i. ni_section i = sec) (granted_items role perms)) nav_sections)
   = granted_items role perms"
proof -
  have "concat (map (\<lambda>sec. filter Q (filter (\<lambda>i. ni_section i = sec) xs)) ys)
      = filter Q (concat (map (\<lambda>sec. filter (\<lambda>i. ni_section i = sec) xs) ys))"
    for Q :: "NavItem \<Rightarrow> bool" and xs ys
    by (induction ys) simp_all
  from this [of "\<lambda>i. case ni_permission i of None \<Rightarrow> True | Some p \<Rightarrow> grants role perms p" navItems nav_sections]
  show ?thesis
    unfolding granted_items_def sections_in_order filter_filter by (simp only: conj_commute)
qed



section \<open>The end of a session\<close>

lemma bearer_None [simp]: "bearer None = []"
  by (simp add: bearer_def)

lemma mount_screen_session [simp]:
  "au_user (mount_screen old s) = au_user s" "au_storage (mount_screen old s) = au_storage s"
  "au_isLoading (mount_screen old s) = au_isLoading s" "admin_screen (mount_screen old s) = admin_screen s"
  by (simp_all add: mount_screen_def admin_screen_def)

lemma form_done_session [simp]:
  "au_user (form_done live s) = au_user s" "au_storage (form_done live s) = au_storage s"
  "au_isLoading (form_done live s) = au_isLoading s"
  by (simp_all add: form_done_def)

text \<open>C30: An answer with status 401, to a page's request or to the check of the session, ends the session in
  one step: the token and the profile are gone, the login page is shown, and the requests that follow
  carry no authorization.\<close>

theorem unauthorized_ends_session:
  assumes "e = Page_reply (Inr resp) \<or> e = Check_reply i (Inr resp)" and "rs_status resp = 401"
    and "s' = admin_handle base e s"
  shows "getToken (au_storage s') = None \<and> au_user s' = JNull \<and> admin_screen s' = Login_screen
    \<and> rq_headers (request_for base path opts (au_storage s')) = [json_header]"
  using assms(1)
proof
  assume "e = Page_reply (Inr resp)"
  then show ?thesis using assms(2,3)
    by (simp add: admin_handle_def page_settle_def handle_answer_def checkAuth_def request_for_def
        form_done_def Let_def) (simp add: admin_screen_def)
next
  assume "e = Check_reply i (Inr resp)"
  then show ?thesis using assms(2,3)
    by (simp add: admin_handle_def check_settle_def handle_answer_def request_for_def Let_def)
      (simp add: admin_screen_def)
qed

text \<open>An answer with a JSON body.\<close>

definition json_response :: "jsval \<Rightarrow> http_response" where
  "json_response v = \<lparr> rs_status = 200, rs_statusText = [], rs_body = (case stringify v of Some t \<Rightarrow> t | None \<Rightarrow> []) \<rparr>"

lemma json_response_json:
  assumes "plain v"
  shows "rs_json (json_response v) = Inr v"
proof -
  obtain c u where t: "stringify v = Some (c # u)" using plain_text [OF assms] by blast
  show ?thesis
    unfolding rs_json_def json_response_def t option.case http_response.simps
    by (rule JSON_parse_stringify [OF assms t])
qed

lemma json_response_ok: "rs_ok (json_response v)" "rs_status (json_response v) = 200"
  by (simp_all add: json_response_def rs_ok_def)

lemmas json_response_simps = json_response_json json_response_ok

text \<open>A server that rejects the token, after a session that had one.\<close>

theorem unauthorized_ends_session_witness:
  "getToken (au_storage (admin_handle ''/api/v1'' (Page_reply (net_const 401 ''{}'' (GET ''/'')))
      (admin_init ''/api/v1'' (setItem token_key ''t'' (\<lambda>_. None))))) = None
   \<and> bearer (getToken (setItem token_key ''t'' (\<lambda>_. None))) \<noteq> []"
  using unauthorized_ends_session [of "Page_reply (net_const 401 ''{}'' (GET ''/''))"
      "\<lparr> rs_status = 401, rs_statusText = [], rs_body = ''{}'' \<rparr>" 0 _ "''/api/v1''"
      "admin_init ''/api/v1'' (setItem token_key ''t'' (\<lambda>_. None))" "''/admin/me''" no_options]
  by (simp add: net_const_def getToken_def storage_defs bearer_def)

section \<open>A late answer\<close>

lemmas session_steps = admin_handle_def mount_screen_def admin_screen_def forget_form_def drop_nth_def
  login_settle_def login_answer_def checkAuth_def check_settle_def handle_answer_def form_done_def
  admin_logout_def api_logout_def

text \<open>C32: A login starts the check of the session twice.  When the first answer brings up the panel and the
  user signs out before the second answer arrives, that answer restores the profile: the panel is shown
  again although no token is stored.\<close>

theorem logout_undone:
  assumes "getToken st = None" "u \<noteq> []" "p \<noteq> []"
    and "login_data granted = Inr d" "own d ''access_token'' = JStr (c # t)"
    and "answer_value me = Inr prof" "truthy prof" "rs_status me \<noteq> 401"
  shows "\<exists>s. run admin_offers (admin_handle base)
      [Login_name u, Login_password p, Login_submit, Login_reply 0 (Inr granted), Check_reply 0 (Inr me),
       Toggle_profile, Sign_out, Check_reply 0 (Inr me)] (admin_init base st) = Some s
    \<and> getToken (au_storage s) = None \<and> au_user s = prof \<and> admin_screen s = Shell_screen"
  using assms by (simp add: session_steps admin_init_def login_form_init_def Let_def bearer_def)

definition granted_answer :: http_response where
  "granted_answer = json_response (JObj [(''data'', JObj [(''access_token'', JStr ''t''), (''role'', JStr ''viewer'')])])"

definition me_answer :: http_response where
  "me_answer = json_response (JObj [(''data'', profile ''viewer'' [])])"

lemma sample_answers:
  "login_data granted_answer = Inr (JObj [(''access_token'', JStr ''t''), (''role'', JStr ''viewer'')])"
  "answer_value me_answer = Inr (profile ''viewer'' [])"
  by (simp_all add: login_data_def answer_value_def granted_answer_def me_answer_def json_response_simps own_def
      profile_def get_def nullish_def)

theorem logout_undone_witness:
  "\<exists>s. run admin_offers (admin_handle ''/api/v1'')
      [Login_name ''root'', Login_password ''pw'', Login_submit, Login_reply 0 (Inr granted_answer),
       Check_reply 0 (Inr me_answer), Toggle_profile, Sign_out, Check_reply 0 (Inr me_answer)]
      (admin_init ''/api/v1'' (\<lambda>_. None)) = Some s
    \<and> getToken (au_storage s) = None \<and> au_user s = profile ''viewer'' [] \<and> admin_screen s = Shell_screen"
  by (rule logout_undone [where d = "JObj [(''access_token'', JStr ''t''), (''role'', JStr ''viewer'')]"
        and c = "CHR ''t''" and t = "[]"])
    (simp_all add: sample_answers own_def getToken_def getItem_def,
     simp_all add: profile_def me_answer_def json_response_ok)

end
