(* ===== verification/Admin_Table.thy ===== *)
theory Admin_Table
  imports Js_Value Paging
begin

text \<open>
  The table of the administration panel (\<^verbatim>\<open>src/apps/admin-panel/src/components/common/DataTable.tsx\<close>): its
  search, its pages and its buttons.  A row is an object, given by its fields.  Lengths of arrays and page numbers
  are far below $2^{53}$ and are integers here; the number of pages goes through a quotient and is
  computed with the code's own arithmetic.
\<close>

section \<open>Rows and pages\<close>

type_synonym row = "(string \<times> jsval) list"

definition row_matches :: "string \<Rightarrow> row \<Rightarrow> bool" where
  "row_matches searchTerm item =
     (searchTerm = [] \<or> list_ex (\<lambda>val. truthy val \<and> js_includes (toLowerCase (to_str val)) (toLowerCase searchTerm))
                          (map snd item))"

definition filteredData :: "row list \<Rightarrow> string \<Rightarrow> row list" where
  "filteredData data searchTerm = filter (row_matches searchTerm) data"

text \<open>\<^verbatim>\<open>Math.ceil(n / pageSize) || 1\<close>; \<^verbatim>\<open>pageSize\<close> is positive.\<close>

definition table_pages :: "int \<Rightarrow> int \<Rightarrow> int" where
  "table_pages n pageSize =
     (case Math_ceil (n_div (NInt n) (NInt pageSize)) of Fin q \<Rightarrow> if q = 0 then 1 else \<lfloor>q\<rfloor> | _ \<Rightarrow> 1)"

record DataTable =
  dt_searchTerm :: string
  dt_currentPage :: int

definition table_init :: DataTable where
  "table_init = \<lparr> dt_searchTerm = [], dt_currentPage = 1 \<rparr>"

definition table_total :: "row list \<Rightarrow> int \<Rightarrow> DataTable \<Rightarrow> int" where
  "table_total data pageSize t = table_pages (int (length (filteredData data (dt_searchTerm t)))) pageSize"

definition paginatedData :: "row list \<Rightarrow> int \<Rightarrow> DataTable \<Rightarrow> row list" where
  "paginatedData data pageSize t =
     slice (filteredData data (dt_searchTerm t)) ((dt_currentPage t - 1) * pageSize) (dt_currentPage t * pageSize)"

datatype TableEvent = Table_search string | Table_previous | Table_next

fun table_offers :: "row list \<Rightarrow> int \<Rightarrow> TableEvent \<Rightarrow> DataTable \<Rightarrow> bool" where
  "table_offers data pageSize (Table_search _) t = True"
| "table_offers data pageSize Table_previous t = (dt_currentPage t \<noteq> 1)"
| "table_offers data pageSize Table_next t = (dt_currentPage t \<noteq> table_total data pageSize t)"

fun table_handle :: "row list \<Rightarrow> int \<Rightarrow> TableEvent \<Rightarrow> DataTable \<Rightarrow> DataTable" where
  "table_handle data pageSize (Table_search s) t = t \<lparr> dt_searchTerm := s, dt_currentPage := 1 \<rparr>"
| "table_handle data pageSize Table_previous t = t \<lparr> dt_currentPage := max 1 (dt_currentPage t - 1) \<rparr>"
| "table_handle data pageSize Table_next t =
     t \<lparr> dt_currentPage := min (table_total data pageSize t) (dt_currentPage t + 1) \<rparr>"

definition cell_text :: "string option \<Rightarrow> row \<Rightarrow> string" where
  "cell_text accessorKey item =
     (case accessorKey of
        Some k \<Rightarrow> (if k = [] then [] else to_str (js_coalesce (own (JObj item) k) (JStr [])))
      | None \<Rightarrow> [])"

section \<open>The page that is shown exists\<close>

lemma table_pages_exact:
  assumes "safe_size n l"
  shows "table_pages n l = page_count n l"
proof -
  define k where "k = \<lceil>of_int n / of_int l :: rat\<rceil>"
  have "Math_ceil (n_div (NInt n) (NInt l)) = NInt k"
    unfolding k_def using assms by (intro ceil_quotient) (simp_all add: safe_size_def)
  then have "table_pages n l = (if k = 0 then 1 else k)"
    unfolding table_pages_def by simp
  moreover have "(0 :: rat) \<le> of_int n / of_int l" using assms by (simp add: safe_size_def)
  then have "0 \<le> k" unfolding k_def by linarith
  ultimately show ?thesis unfolding page_count_def k_def [symmetric] by simp
qed

definition table_inv :: "row list \<Rightarrow> int \<Rightarrow> DataTable \<Rightarrow> bool" where
  "table_inv data pageSize t \<longleftrightarrow>
     (safe_size (int (length data)) pageSize \<longrightarrow> 1 \<le> dt_currentPage t \<and> dt_currentPage t \<le> table_total data pageSize t)"

lemma filtered_safe:
  "safe_size (int (length data)) l \<Longrightarrow> safe_size (int (length (filteredData data s))) l"
  unfolding safe_size_def filteredData_def using length_filter_le [of "row_matches s" data] by linarith

lemma table_total_pos:
  "safe_size (int (length data)) l \<Longrightarrow> 1 \<le> table_total data l t"
  by (simp add: table_total_def table_pages_exact filtered_safe page_count_def)

lemma table_step:
  "table_inv data l t \<Longrightarrow> table_offers data l e t \<Longrightarrow> table_inv data l (table_handle data l e t)"
proof (cases e)
  case (Table_search s)
  then show ?thesis using table_total_pos [of data l] by (simp add: table_inv_def)
qed (auto simp: table_inv_def table_total_def)

interpretation tbl: invariant_system table_init "table_offers data l" "table_handle data l" "table_inv data l"
  for data l
proof
  show "table_inv data l table_init"
    using table_total_pos [of data l table_init] by (simp add: table_inv_def table_init_def)
qed (rule table_step)

lemma slice_inhabited:
  assumes "0 \<le> a" "a < b" "a < int (length xs)"
  shows "slice xs a b \<noteq> []"
  using slice_nat [of xs "nat a" "nat b"] assms by simp

text \<open>A table with matching rows never shows an empty page while its data stays the same.\<close>

lemma table_page_inhabited:
  assumes "reach table_init (table_offers data l) (table_handle data l) t"
    and "safe_size (int (length data)) l" and "filteredData data (dt_searchTerm t) \<noteq> []"
  shows "paginatedData data l t \<noteq> []"
proof -
  let ?xs = "filteredData data (dt_searchTerm t)"
  define p where "p = dt_currentPage t"
  have safe: "safe_size (int (length ?xs)) l" by (rule filtered_safe [OF assms(2)])
  have p: "1 \<le> p" "p \<le> page_count (int (length ?xs)) l"
    using tbl.reach_inv [OF assms(1)] assms(2)
    by (simp_all add: table_inv_def table_total_def table_pages_exact [OF safe] p_def)
  have l: "0 < l" using assms(2) by (simp add: safe_size_def)
  have "(p - 1) * l \<le> (page_count (int (length ?xs)) l - 1) * l" using p l by (intro mult_right_mono) simp_all
  then have low: "(p - 1) * l < int (length ?xs)"
    using page_count_bounds(3) [OF safe] assms(3) by simp
  have "0 \<le> (p - 1) * l" "(p - 1) * l < p * l" using p l by (simp_all add: algebra_simps)
  with low show ?thesis unfolding paginatedData_def p_def [symmetric] by (intro slice_inhabited)
qed

text \<open>Data that shrinks can leave the table on a page that no longer exists.\<close>

lemma table_shrink:
  "paginatedData [[], []] 1 (table_init \<lparr> dt_currentPage := 2 \<rparr>) = [[]]"
  "paginatedData [[]] 1 (table_init \<lparr> dt_currentPage := 2 \<rparr>) = []"
  by (simp_all add: paginatedData_def filteredData_def row_matches_def table_init_def js_defs)

end
