(* ===== verification/Admin_Views.thy ===== *)
theory Admin_Views
  imports Admin_Table
begin

text \<open>
  What the pages of the administration panel show (\<^verbatim>\<open>src/apps/admin-panel/src/pages\<close>): the cards, the columns of
  the tables and the status badges, as texts.  The records are those of \<^verbatim>\<open>types/index.ts\<close>; numbers of
  the interface are integers, amounts are decimal texts that the pages convert with \<^verbatim>\<open>Number\<close>.
\<close>

section \<open>Data\<close>

record AdminUser =
  au_id :: string
  au_username :: string
  au_role :: string
  au_is_active :: bool
  au_created_at :: "string option"
  au_last_login :: "string option"

record DashboardKpis =
  dk_current_block_height :: int
  dk_total_transactions :: int
  dk_active_validators :: int
  dk_total_staked_sprx :: string
  dk_indexer_height :: int
  dk_indexer_lag :: int
  dk_rpc_status :: string
  dk_api_health :: string
  dk_registered_users :: int
  dk_active_sessions :: int

record SystemService =
  ss_name :: string
  ss_type :: string
  ss_status :: string
  ss_uptime :: string
  ss_latency :: "string option"
  ss_lag :: "int option"
  ss_active_clients :: "int option"

record AppUser =
  us_id :: string
  us_address :: string
  us_display_name :: "string option"
  us_is_active :: bool
  us_created_at :: "string option"

record BlockchainStats =
  bs_chain_id :: string
  bs_environment :: string
  bs_latest_height :: int
  bs_latest_block_hash :: string
  bs_total_transactions :: int
  bs_validator_count :: int
  bs_avg_block_time_ms :: int
  bs_gas_limit_per_block :: int
  bs_rpc_endpoint :: string
  bs_consensus :: string

record BlockItem =
  bi_height :: int
  bi_hash :: string
  bi_parent_hash :: "string option"
  bi_proposer :: "string option"
  bi_tx_count :: int
  bi_gas_used :: int
  bi_timestamp :: string

record TransactionItem =
  ti_hash :: string
  ti_block_height :: int
  ti_sender :: string
  ti_recipient :: "string option"
  ti_amount :: string
  ti_fee :: string
  ti_tx_type :: string
  ti_status :: string
  ti_timestamp :: string

record IndexerStatus =
  is_chain_height :: int
  is_indexed_height :: int
  is_lag_blocks :: int
  is_is_syncing :: bool
  is_status :: string
  is_last_error :: "string option"
  is_updated_at :: string

record AdminAsset =
  aa_symbol :: string
  aa_name :: string
  aa_decimals :: int
  aa_price_usd :: string
  aa_change_24h :: string
  aa_is_active :: bool

record MarketPair =
  mp_symbol :: string
  mp_base :: string
  mp_quote :: string
  mp_last_price :: string
  mp_is_active :: bool

record DiscoverProject =
  dp_id :: string
  dp_name :: string
  dp_category :: string
  dp_description :: "string option"
  dp_website :: "string option"
  dp_is_active :: bool
  dp_is_featured :: bool
  dp_is_verified :: bool

record ValidatorItem =
  vi_id :: string
  vi_address :: string
  vi_name :: string
  vi_total_stake :: string
  vi_commission_rate :: string
  vi_is_active :: bool
  vi_is_jailed :: bool
  vi_uptime_pct :: string

record PerpMarketItem =
  pm_symbol :: string
  pm_base :: string
  pm_quote :: string
  pm_mark_price :: string
  pm_index_price :: string
  pm_funding_rate :: string
  pm_open_interest :: string
  pm_max_leverage :: int
  pm_is_active :: bool

record AuditLogItem =
  al_id :: string
  al_actor :: string
  al_action :: string
  al_resource :: "string option"
  al_result :: string
  al_metadata :: "row option"
  al_created_at :: string

record SystemAnnouncementItem =
  sa_id :: string
  sa_title :: string
  sa_body :: string
  sa_type :: string
  sa_is_active :: bool
  sa_created_at :: "string option"

text \<open>What the browser decides: the text of a date, of a time of day and of a number in its locale.\<close>

record admin_env =
  ae_date :: "string \<Rightarrow> string"
  ae_time :: "string \<Rightarrow> string"
  ae_number :: "js_number \<Rightarrow> string"

section \<open>Badges and cards\<close>

datatype admin_tone = Grey | Emerald | Amber | Rose | Cyan

definition admin_badge :: "string \<Rightarrow> admin_tone" where
  "admin_badge status =
     (let normalized = toUpperCase status in
      if normalized \<in> set [''OPERATIONAL'', ''HEALTHY'', ''ACTIVE'', ''SUCCESS'', ''ONLINE'', ''CONFIRMED'', ''ENABLED''] then Emerald
      else if normalized \<in> set [''SYNCING'', ''WARNING'', ''PENDING'', ''DEGRADED'', ''DEMO'', ''TESTNET''] then Amber
      else if normalized \<in> set [''OUTAGE'', ''CRITICAL'', ''FAILED'', ''STOPPED'', ''DISABLED'', ''JAILED'', ''TESTNET ONLY (PROD BLOCKED)'']
      then Rose
      else if normalized \<in> set [''MAINNET''] then Cyan
      else Grey)"

record KpiCard =
  kc_title :: string
  kc_value :: string
  kc_trend :: "(string \<times> bool) option"
  kc_subtitle :: string
  kc_badge :: "string option"

definition kpi :: "string \<Rightarrow> string \<Rightarrow> string \<Rightarrow> string option \<Rightarrow> KpiCard" where
  "kpi title value subtitle badge =
     \<lparr> kc_title = title, kc_value = value, kc_trend = None, kc_subtitle = subtitle, kc_badge = badge \<rparr>"

text \<open>\<^verbatim>\<open>x ?? '--'\<close> for a field of data that may not have been loaded.\<close>

definition loaded_int :: "('a \<Rightarrow> int) \<Rightarrow> 'a option \<Rightarrow> string \<Rightarrow> string" where
  "loaded_int f d missing = (case d of Some x \<Rightarrow> num_str (NInt (f x)) | None \<Rightarrow> missing)"

definition text_or :: "string option \<Rightarrow> string \<Rightarrow> string" where
  "text_or x missing = (case x of Some s \<Rightarrow> (if s = [] then missing else s) | None \<Rightarrow> missing)"

definition date_or :: "admin_env \<Rightarrow> string option \<Rightarrow> string \<Rightarrow> string" where
  "date_or e x missing = (case x of Some s \<Rightarrow> (if s = [] then missing else ae_date e s) | None \<Rightarrow> missing)"

definition active_text :: "bool \<Rightarrow> string" where
  "active_text b = (if b then ''ACTIVE'' else ''INACTIVE'')"

definition atto :: js_number where
  "atto = NInt (10 ^ 18)"

definition sprx_of :: "string \<Rightarrow> js_number" where
  "sprx_of amount = n_div (StringToNumber amount) atto"

section \<open>Dashboard\<close>

definition dashboard_cards :: "admin_env \<Rightarrow> DashboardKpis option \<Rightarrow> KpiCard list" where
  "dashboard_cards e kpis =
     [kpi ''Current Block Height'' (loaded_int dk_current_block_height kpis ''--'') ''Avg Block Time: 2.0s'' None,
      (kpi ''Total Transactions'' (loaded_int dk_total_transactions kpis ''--'') ''Settled on-chain'' None)
        \<lparr> kc_trend := Some (''+18.4% 24h'', True) \<rparr>,
      kpi ''Active Validators'' (loaded_int dk_active_validators kpis ''--'') ''BFT-PoS Consensus'' (Some ''100% ONLINE''),
      kpi ''Total Staked SPRX''
        (case kpis of Some k \<Rightarrow> ae_number e (sprx_of (dk_total_staked_sprx k)) @ '' SPRX'' | None \<Rightarrow> ''--'')
        ''Staking APR ~12.5%'' None]"

definition dashboard_secondary :: "DashboardKpis option \<Rightarrow> KpiCard list" where
  "dashboard_secondary kpis =
     [kpi ''Indexer Height & Lag'' (loaded_int dk_indexer_height kpis ''--'')
        (''Lag: '' @ loaded_int dk_indexer_lag kpis ''0'' @ '' blocks'')
        (Some (if map_option dk_indexer_lag kpis = Some 0 then ''HEALTHY'' else ''SYNCING'')),
      kpi ''RPC Node Latency'' ''45ms'' ''127.0.0.1:8545'' (Some ''ONLINE''),
      kpi ''Registered App Users'' (loaded_int dk_registered_users kpis ''--'') ''Flutter & Web Wallet'' None,
      kpi ''Active Sessions'' (loaded_int dk_active_sessions kpis ''--'') ''Realtime JWT connections'' None]"

definition heightPct :: "int \<Rightarrow> js_number" where
  "heightPct txs =
     Math_min (NInt 100) (Math_max (NInt 15) (n_mul (n_div (NInt txs) (NInt 5000)) (NInt 100)))"

definition dashboard_bars :: "(string \<times> int) list \<Rightarrow> (string \<times> string \<times> string) list" where
  "dashboard_bars tx_volume_24h =
     map (\<lambda>(time, txs). (num_str (NInt txs), num_str (heightPct txs) @ ''%'', time)) tx_volume_24h"

text \<open>The health card lists fixed entries: it does not read the answer.\<close>

definition dashboard_subsystems :: "(string \<times> string \<times> string) list" where
  "dashboard_subsystems =
     [(''FastAPI Backend Core'', ''12ms'', ''OPERATIONAL''),
      (''PostgreSQL Database'', ''4ms'', ''OPERATIONAL''),
      (''Redis Cache & PubSub'', ''2ms'', ''OPERATIONAL''),
      (''Sprax Blockchain Node (RPC)'', ''45ms'', ''OPERATIONAL''),
      (''Sprax Indexer Engine'', ''0 lag'', ''HEALTHY''),
      (''WebSocket Realtime Hub'', ''142 clients'', ''OPERATIONAL'')]"

section \<open>Chain pages\<close>

definition overview_cards :: "BlockchainStats option \<Rightarrow> KpiCard list" where
  "overview_cards stats =
     [kpi ''Chain ID'' (case stats of Some s \<Rightarrow> bs_chain_id s | None \<Rightarrow> ''sprax-testnet-1'') ''Network Protocol'' None,
      kpi ''Block Height'' (loaded_int bs_latest_height stats ''--'') ''Latest Finalized Block'' None,
      kpi ''Consensus Engine'' ''BFT-PoS'' ''Tendermint Core'' (Some ''ACTIVE''),
      kpi ''Block Time''
        (num_str (case stats of
            Some s \<Rightarrow> (if bs_avg_block_time_ms s \<noteq> 0 then n_div (NInt (bs_avg_block_time_ms s)) (NInt 1000) else NInt 2)
          | None \<Rightarrow> NInt 2) @ ''s'')
        ''Deterministic finality'' None]"

definition overview_lines :: "admin_env \<Rightarrow> BlockchainStats option \<Rightarrow> (string \<times> string) list" where
  "overview_lines e stats =
     [(''Primary JSON-RPC Node:'', text_or (map_option bs_rpc_endpoint stats) ''http://127.0.0.1:8545''),
      (''Block Gas Limit:'',
       text_or (map_option (\<lambda>s. ae_number e (NInt (bs_gas_limit_per_block s))) stats) ''20,000,000'' @ '' gas''),
      (''Native Token & Decimals:'', ''SPRX (18 decimals, 10^18 atto)''),
      (''Address Format:'', ''Bech32 (sprax1...)'')]"

definition shortened :: "string \<Rightarrow> int \<Rightarrow> int \<Rightarrow> int \<Rightarrow> string" where
  "shortened s limit start end =
     (if limit < int (length s) then slice s 0 start @ ''...'' @ slice_from s (- end) else s)"

type_synonym 'a columns = "(string \<times> ('a \<Rightarrow> string)) list"

definition block_columns :: "admin_env \<Rightarrow> BlockItem columns" where
  "block_columns e =
     [(''Height'', \<lambda>b. ''#'' @ num_str (NInt (bi_height b))),
      (''Block Hash'', \<lambda>b. shortened (bi_hash b) 20 10 8),
      (''Proposer / Validator'', \<lambda>b. text_or (map_option (\<lambda>p. if p = [] then [] else slice p 0 12 @ ''...'') (bi_proposer b)) ''System''),
      (''Transactions'', \<lambda>b. num_str (NInt (bi_tx_count b)) @ '' txs''),
      (''Gas Used'', \<lambda>b. ae_number e (NInt (bi_gas_used b))),
      (''Timestamp'', \<lambda>b. ae_time e (bi_timestamp b))]"

definition transaction_columns :: "admin_env \<Rightarrow> TransactionItem columns" where
  "transaction_columns e =
     [(''Tx Hash'', \<lambda>t. shortened (ti_hash t) 18 8 6),
      (''Block'', \<lambda>t. ''#'' @ num_str (NInt (ti_block_height t))),
      (''Sender'', \<lambda>t. shortened (ti_sender t) 18 8 6),
      (''Recipient'', \<lambda>t. text_or (map_option (\<lambda>r. shortened r 18 8 6) (ti_recipient t)) ''--''),
      (''Amount (SPRX)'', \<lambda>t. toFixed (sprx_of (ti_amount t)) 4 @ '' SPRX''),
      (''Status'', ti_status),
      (''Timestamp'', \<lambda>t. ae_time e (ti_timestamp t))]"

definition validator_columns :: "admin_env \<Rightarrow> ValidatorItem columns" where
  "validator_columns e =
     [(''Validator Name'', \<lambda>v. vi_name v @ vi_address v),
      (''Total Stake'', \<lambda>v. ae_number e (sprx_of (vi_total_stake v)) @ '' SPRX''),
      (''Commission'', \<lambda>v. toFixed (n_mul (StringToNumber (vi_commission_rate v)) (NInt 100)) 1 @ ''%''),
      (''Uptime'', \<lambda>v. toFixed (StringToNumber (vi_uptime_pct v)) 1 @ ''%''),
      (''Status'', \<lambda>v. if vi_is_jailed v then ''JAILED'' else active_text (vi_is_active v))]"

definition totalStaked :: "ValidatorItem list \<Rightarrow> js_number" where
  "totalStaked validators = foldl (\<lambda>acc v. n_add acc (sprx_of (vi_total_stake v))) (NInt 0) validators"

definition admin_staking_cards :: "admin_env \<Rightarrow> ValidatorItem list \<Rightarrow> KpiCard list" where
  "admin_staking_cards e validators =
     [kpi ''Total Bonded Stake'' (ae_number e (totalStaked validators) @ '' SPRX'') ''Securing consensus'' None,
      (kpi ''Estimated APR'' ''~12.5%'' ''Annualized block rewards'' None) \<lparr> kc_trend := Some (''Target: 12-15%'', True) \<rparr>,
      kpi ''Unbonding Period'' ''21 Days'' ''Security unbonding gate'' None,
      kpi ''Staking Ratio'' ''64.8%'' ''Of circulating testnet supply'' None]"

definition indexer_cards :: "IndexerStatus option \<Rightarrow> KpiCard list" where
  "indexer_cards status =
     [kpi ''Chain Height'' (loaded_int is_chain_height status ''--'') ''Blockchain Node Height'' None,
      kpi ''Indexed Height'' (loaded_int is_indexed_height status ''--'') ''PostgreSQL Stored Height'' None,
      kpi ''Sync Lag'' (loaded_int is_lag_blocks status ''0'' @ '' blocks'')
        (if map_option is_lag_blocks status = Some 0 then ''Fully Synchronized'' else ''Catching up...'')
        (Some (text_or (map_option is_status status) ''HEALTHY'')),
      kpi ''Last Error''
        (if text_or (Option.bind status is_last_error) [] \<noteq> [] then ''Error Detected'' else ''None'')
        (text_or (Option.bind status is_last_error) ''Clean execution'') None]"

section \<open>Operations, markets and risk\<close>

definition service_card :: "SystemService \<Rightarrow> string list" where
  "service_card svc =
     [ss_name svc, ss_status svc, ss_uptime svc,
      text_or (ss_latency svc)
        (case ss_lag svc of
           Some lag \<Rightarrow> num_str (NInt lag) @ '' lag''
         | None \<Rightarrow> (case ss_active_clients svc of Some n \<Rightarrow> num_str (NInt n) | None \<Rightarrow> ''undefined'') @ '' clients'')]"

definition asset_columns :: "AdminAsset columns" where
  "asset_columns =
     [(''Asset'', \<lambda>a. aa_name a @ aa_symbol a),
      (''USD Price'', \<lambda>a. ''$'' @ toFixed (StringToNumber (aa_price_usd a)) 4),
      (''24h Change'', \<lambda>a.
         (if n_le (NInt 0) (StringToNumber (aa_change_24h a)) then ''+'' else [])
           @ toFixed (StringToNumber (aa_change_24h a)) 2 @ ''%''),
      (''Status'', \<lambda>a. active_text (aa_is_active a))]"

definition pair_columns :: "MarketPair columns" where
  "pair_columns =
     [(''Pair'', mp_symbol),
      (''Base / Quote'', \<lambda>p. mp_base p @ '' / '' @ mp_quote p),
      (''Last Price'', \<lambda>p. ''$'' @ toFixed (StringToNumber (mp_last_price p)) 4),
      (''Status'', \<lambda>p. active_text (mp_is_active p))]"

definition fx_rates :: "(string \<times> string \<times> string \<times> string) list" where
  "fx_rates =
     [(''USD'', ''$'', ''1.0000'', ''Base''),
      (''INR'', ''<U+20B9>'', ''85.5000'', ''+0.12%''),
      (''EUR'', ''<U+20AC>'', ''0.9200'', ''-0.05%''),
      (''GBP'', ''<U+00A3>'', ''0.7850'', ''+0.02%''),
      (''JPY'', ''<U+00A5>'', ''154.200'', ''+0.45%'')]"

definition perp_columns :: "PerpMarketItem columns" where
  "perp_columns =
     [(''Market'', pm_symbol),
      (''Mark Price'', \<lambda>m. ''$'' @ toFixed (StringToNumber (pm_mark_price m)) 4),
      (''Index Price'', \<lambda>m. ''$'' @ toFixed (StringToNumber (pm_index_price m)) 4),
      (''Funding Rate (8h)'', \<lambda>m. toFixed (n_mul (StringToNumber (pm_funding_rate m)) (NInt 100)) 4 @ ''%''),
      (''Max Leverage'', \<lambda>m. num_str (NInt (pm_max_leverage m)) @ ''x''),
      (''Status'', \<lambda>m. if pm_is_active m then ''TESTNET'' else ''DISABLED'')]"

text \<open>The answer's two counts, when it has arrived.\<close>

definition perp_cards :: "(int \<times> int) option \<Rightarrow> KpiCard list" where
  "perp_cards d =
     [kpi ''Active Testnet Markets'' (loaded_int fst d ''0'') ''Isolated perpetual pairs'' None,
      kpi ''Open Positions'' (loaded_int snd d ''0'') ''Testnet simulated volume'' None,
      kpi ''Oracle Discrepancy'' ''0.01%'' ''Mark vs Index divergence'' (Some ''HEALTHY''),
      kpi ''Mainnet Gate Status'' ''LOCKED'' ''Multi-sig production gate'' (Some ''LOCKED'')]"

definition search_cards :: "KpiCard list" where
  "search_cards =
     [kpi ''Search Index Status'' ''HEALTHY'' ''PostgreSQL Trigram & FullText'' (Some ''ACTIVE''),
      kpi ''Indexed Addresses'' ''1,420'' ''Bech32 Account Index'' None,
      kpi ''Indexed Blocks'' ''12,850'' ''Full Block Header Cache'' None,
      kpi ''Avg Query Latency'' ''6.2ms'' ''P95 search execution time'' None]"

section \<open>People and records\<close>

definition user_columns :: "admin_env \<Rightarrow> AppUser columns" where
  "user_columns e =
     [(''Wallet Address'', us_address),
      (''Display Name'', \<lambda>u. text_or (us_display_name u) ''Unset''),
      (''Status'', \<lambda>u. active_text (us_is_active u)),
      (''Joined At'', \<lambda>u. date_or e (us_created_at u) ''--'')]"

definition admin_columns :: "admin_env \<Rightarrow> AdminUser columns" where
  "admin_columns e =
     [(''Username'', \<lambda>a. toUpperCase (take 1 (au_username a)) @ au_username a),
      (''RBAC Role'', au_role),
      (''Status'', \<lambda>a. active_text (au_is_active a)),
      (''Created At'', \<lambda>a. date_or e (au_created_at a) ''--''),
      (''Last Login'', \<lambda>a. date_or e (au_last_login a) ''Never'')]"

definition announcement_columns :: "admin_env \<Rightarrow> SystemAnnouncementItem columns" where
  "announcement_columns e =
     [(''Announcement Title'', \<lambda>a. sa_title a @ sa_body a),
      (''Category'', sa_type),
      (''Status'', \<lambda>a. if sa_is_active a then ''ACTIVE'' else ''EXPIRED''),
      (''Published At'', \<lambda>a. date_or e (sa_created_at a) ''--'')]"

definition discover_columns :: "DiscoverProject columns" where
  "discover_columns =
     [(''Project Name'', \<lambda>p. dp_name p @ text_or (dp_description p) []),
      (''Category'', dp_category),
      (''Featured'', \<lambda>p. if dp_is_featured p then ''Featured'' else ''Standard''),
      (''Verified'', \<lambda>p. if dp_is_verified p then ''Verified'' else ''Unverified''),
      (''Status'', \<lambda>p. active_text (dp_is_active p)),
      (''Website'', \<lambda>p. if text_or (dp_website p) [] \<noteq> [] then ''Visit '' else ''--'')]"

definition audit_columns :: "admin_env \<Rightarrow> AuditLogItem columns" where
  "audit_columns e =
     [(''Actor'', al_actor),
      (''Action'', al_action),
      (''Resource'', \<lambda>l. text_or (al_resource l) ''--''),
      (''Result'', al_result),
      (''Metadata / Context'', \<lambda>l. case al_metadata l of
           Some kvs \<Rightarrow> (case stringify (JObj kvs) of Some t \<Rightarrow> t | None \<Rightarrow> [])
         | None \<Rightarrow> ''--''),
      (''Timestamp'', \<lambda>l. date_or e (Some (al_created_at l)) ''--'')]"

section \<open>Facts on the texts\<close>

text \<open>A shortened text is at most as long as the limit allows and keeps both ends.\<close>

lemma shortened_length:
  assumes "0 \<le> start" "0 < end" "start + end + 3 \<le> limit"
  shows "int (length (shortened s limit start end)) \<le> limit"
  using assms by (auto simp: shortened_def slice_def slice_from_def rel_index_def)

text \<open>The hash columns show at most 21 and 18 characters, the dots included.\<close>

lemma hash_columns_short:
  "length (shortened h 20 10 8) \<le> 21" "length (shortened h 18 8 6) \<le> 18"
  by (auto simp: shortened_def slice_def slice_from_def rel_index_def)

text \<open>Before the status of the indexer has arrived, the page reports a lag of 0 blocks and a healthy
  indexer that is catching up.\<close>

lemma indexer_unloaded:
  "kpi ''Sync Lag'' ''0 blocks'' ''Catching up...'' (Some ''HEALTHY'') \<in> set (indexer_cards None)"
  by (simp add: indexer_cards_def loaded_int_def text_or_def)

lemma badge_grey:
  "admin_badge ''100% ONLINE'' = Grey" "admin_badge ''ALL SYSTEMS OPERATIONAL'' = Grey"
  "admin_badge ''PRODUCTION BLOCKED'' = Grey" "admin_badge ''LOCKED'' = Grey"
  by code_simp+

end
