(* ===== verification/Admin_Flags.thy ===== *)
theory Admin_Flags
  imports Admin_Api State_Machine
begin

text \<open>
  The feature flags of the administration panel (\<^verbatim>\<open>src/apps/admin-panel/src/pages/FeatureFlagsPage.tsx\<close>)
  with the confirmation dialog (\<^verbatim>\<open>components/common/ConfirmModal.tsx\<close>).  The dialog stays mounted while it
  is closed, so its text field keeps its content.  Requests that wait for an answer are part of the state.
\<close>

section \<open>The dialog\<close>

text \<open>\<^verbatim>\<open>confirmPhrase\<close> is absent or empty when nothing has to be typed.\<close>

definition isConfirmed :: "string option \<Rightarrow> string \<Rightarrow> bool" where
  "isConfirmed confirmPhrase typedValue =
     (case confirmPhrase of Some p \<Rightarrow> p = [] \<or> typedValue = p | None \<Rightarrow> True)"

section \<open>The page\<close>

record FlagsUi =
  ff_flags :: jsval
  ff_pending :: "(jsval \<times> bool) option"
  ff_typed :: string
  ff_updates :: "(jsval \<times> bool) list"
  ff_fetches :: nat

definition flags_init :: FlagsUi where
  "flags_init = \<lparr> ff_flags = JArr [], ff_pending = None, ff_typed = [], ff_updates = [], ff_fetches = 1 \<rparr>"

definition isCritical :: "jsval \<Rightarrow> bool" where
  "isCritical name \<longleftrightarrow> name = JStr ''perps_enabled'' \<or> name = JStr ''mainnet_enabled''"

definition confirm_phrase :: "FlagsUi \<Rightarrow> string option" where
  "confirm_phrase s =
     (case ff_pending s of
        Some (JStr name, _) \<Rightarrow> (if isCritical (JStr name) then Some (''ENABLE '' @ toUpperCase name) else None)
      | _ \<Rightarrow> None)"

definition confirm_title :: "FlagsUi \<Rightarrow> string" where
  "confirm_title s =
     (if confirm_phrase s \<noteq> None then ''Critical Multi-Sig Authorization Guard'' else ''Confirm Feature Flag Mutation'')"

definition confirm_message :: "FlagsUi \<Rightarrow> string" where
  "confirm_message s =
     (case ff_pending s of
        Some (name, targetState) \<Rightarrow>
          (if isCritical name
           then ''Enabling '' @ [char_of (39 :: nat)] @ to_str name @ [char_of (39 :: nat)]
             @ '' activates mission-critical protocol layers. Automated activation is forbidden without formal multi-sig governance approval.''
           else ''Are you sure you want to toggle '' @ [char_of (39 :: nat)] @ to_str name @ [char_of (39 :: nat)] @ '' to ''
             @ (if targetState then ''ENABLED'' else ''DISABLED'') @ ''? This action will be audited immediately.'')
      | None \<Rightarrow> [])"

definition handleToggleAttempt :: "jsval \<Rightarrow> FlagsUi \<Rightarrow> FlagsUi" where
  "handleToggleAttempt f s = s \<lparr> ff_pending := Some (own f ''name'', \<not> truthy (own f ''is_enabled'')) \<rparr>"

text \<open>\<^verbatim>\<open>handleConfirmToggle\<close> up to its request; the dialog then empties its field.\<close>

definition handleConfirmToggle :: "FlagsUi \<Rightarrow> FlagsUi" where
  "handleConfirmToggle s =
     (case ff_pending s of Some u \<Rightarrow> s \<lparr> ff_updates := ff_updates s @ [u] \<rparr> | None \<Rightarrow> s)"

definition confirm_click :: "FlagsUi \<Rightarrow> FlagsUi" where
  "confirm_click s =
     (if isConfirmed (confirm_phrase s) (ff_typed s) then (handleConfirmToggle s) \<lparr> ff_typed := [] \<rparr> else s)"

text \<open>The answer to an update: the flags are loaded again when it succeeded.\<close>

definition toggle_settle :: "nat \<Rightarrow> jsval res \<Rightarrow> FlagsUi \<Rightarrow> FlagsUi" where
  "toggle_settle i r s =
     s \<lparr> ff_updates := take i (ff_updates s) @ drop (Suc i) (ff_updates s), ff_pending := None,
         ff_fetches := (case r of Inr _ \<Rightarrow> Suc (ff_fetches s) | Inl _ \<Rightarrow> ff_fetches s) \<rparr>"

definition fetchFlags_settle :: "jsval res \<Rightarrow> FlagsUi \<Rightarrow> FlagsUi" where
  "fetchFlags_settle r s =
     s \<lparr> ff_fetches := ff_fetches s - 1, ff_flags := (case r of Inr v \<Rightarrow> v | Inl _ \<Rightarrow> ff_flags s) \<rparr>"

datatype FlagsEvent =
    Flag_click jsval | Phrase_typed string | Confirm_click | Cancel_click
  | Update_reply nat "jsval res" | Flags_reply "jsval res"

fun flags_offers :: "FlagsEvent \<Rightarrow> FlagsUi \<Rightarrow> bool" where
  "flags_offers (Flag_click f) s = (case ff_flags s of JArr fs \<Rightarrow> f \<in> set fs | _ \<Rightarrow> False)"
| "flags_offers (Phrase_typed _) s = (confirm_phrase s \<noteq> None)"
| "flags_offers Confirm_click s = (ff_pending s \<noteq> None \<and> isConfirmed (confirm_phrase s) (ff_typed s))"
| "flags_offers Cancel_click s = (ff_pending s \<noteq> None)"
| "flags_offers (Update_reply i _) s = (i < length (ff_updates s))"
| "flags_offers (Flags_reply _) s = (0 < ff_fetches s)"

fun flags_handle :: "FlagsEvent \<Rightarrow> FlagsUi \<Rightarrow> FlagsUi" where
  "flags_handle (Flag_click f) s = handleToggleAttempt f s"
| "flags_handle (Phrase_typed t) s = s \<lparr> ff_typed := t \<rparr>"
| "flags_handle Confirm_click s = confirm_click s"
| "flags_handle Cancel_click s = s \<lparr> ff_pending := None \<rparr>"
| "flags_handle (Update_reply i r) s = toggle_settle i r s"
| "flags_handle (Flags_reply r) s = fetchFlags_settle r s"

section \<open>The guard\<close>

lemma confirm_phrase_critical:
  "ff_pending s = Some (JStr name, b) \<Longrightarrow> isCritical (JStr name) \<Longrightarrow> confirm_phrase s = Some (''ENABLE '' @ toUpperCase name)"
  by (simp add: confirm_phrase_def)

lemma update_sent:
  assumes "u \<in> set (ff_updates (flags_handle e s))" "u \<notin> set (ff_updates s)"
  shows "e = Confirm_click" "ff_pending s = Some u" "isConfirmed (confirm_phrase s) (ff_typed s)"
  using assms
  by (cases e; auto simp: handleToggleAttempt_def confirm_click_def handleConfirmToggle_def toggle_settle_def
      fetchFlags_settle_def dest: in_set_takeD in_set_dropD split: if_splits option.splits)+

text \<open>C31: The request that changes a critical flag is sent by the confirmation button alone, for the flag of
  the open dialog, and with the flag's phrase in the text field, which is empty afterwards.\<close>

theorem critical_flag_guard:
  assumes "(JStr name, b) \<in> set (ff_updates (flags_handle e s))" "(JStr name, b) \<notin> set (ff_updates s)"
    and "name = ''perps_enabled'' \<or> name = ''mainnet_enabled''"
  shows "e = Confirm_click \<and> ff_pending s = Some (JStr name, b) \<and> ff_typed s = ''ENABLE '' @ toUpperCase name
    \<and> ff_typed (flags_handle e s) = []"
proof -
  note sent = update_sent [OF assms(1,2)]
  have "confirm_phrase s = Some (''ENABLE '' @ toUpperCase name)"
    by (rule confirm_phrase_critical [OF sent(2)]) (use assms(3) in \<open>simp add: isCritical_def\<close>)
  then show ?thesis
    using sent by (simp add: isConfirmed_def confirm_click_def handleConfirmToggle_def)
qed

definition flag_value :: "string \<Rightarrow> bool \<Rightarrow> jsval" where
  "flag_value name b = JObj [(''name'', JStr name), (''is_enabled'', JBool b)]"

definition typed_state :: FlagsUi where
  "typed_state = flags_init \<lparr> ff_pending := Some (JStr ''perps_enabled'', True), ff_typed := ''ENABLE PERPS_ENABLED'' \<rparr>"

theorem critical_flag_guard_witness:
  "(JStr ''perps_enabled'', True) \<in> set (ff_updates (flags_handle Confirm_click typed_state))
   \<and> ff_typed typed_state = ''ENABLE '' @ toUpperCase ''perps_enabled''
   \<and> run flags_offers flags_handle
       [Flags_reply (Inr (JArr [flag_value ''perps_enabled'' False])), Flag_click (flag_value ''perps_enabled'' False),
        Phrase_typed ''ENABLE PERPS_ENABLED'', Confirm_click] flags_init \<noteq> None"
proof -
  have up: "toUpperCase ''perps_enabled'' = ''PERPS_ENABLED''" by code_simp
  have sent: "(JStr ''perps_enabled'', True) \<in> set (ff_updates (flags_handle Confirm_click typed_state))"
    by (simp add: typed_state_def flags_init_def confirm_click_def handleConfirmToggle_def isConfirmed_def
        confirm_phrase_def isCritical_def up)
  then show ?thesis
    using critical_flag_guard [of "''perps_enabled''" True Confirm_click typed_state]
    by (simp add: typed_state_def flags_init_def fetchFlags_settle_def handleToggleAttempt_def flag_value_def own_def
        isConfirmed_def confirm_phrase_def isCritical_def up)
qed

text \<open>
  Cancelling keeps the phrase: the dialog that is opened next for the same flag, also to switch it off,
  can be confirmed without typing.
\<close>

lemma phrase_kept:
  assumes "ff_typed s = ''ENABLE '' @ toUpperCase name" "isCritical (JStr name)" "own f ''name'' = JStr name"
  shows "flags_offers Confirm_click (flags_handle (Flag_click f) (flags_handle Cancel_click s))"
  using assms by (simp add: handleToggleAttempt_def confirm_phrase_def isConfirmed_def)

end
