(* ===== verification/Admin_Pages.thy ===== *)
theory Admin_Pages
  imports Admin_Views Admin_Flags
begin

text \<open>
  The pages of the administration panel that keep state of their own: app versions, announcements,
  administrator accounts, the indexer monitor and the curated projects, with the loading that every page
  shares (\<^verbatim>\<open>src/apps/admin-panel/src/pages\<close>).  As in the theory of the feature flags, unanswered requests are
  part of the state, so an answer arrives in any later state.  An answer is of the declared type or an
  error; a form field with the attribute \<^verbatim>\<open>required\<close> keeps the browser from submitting while it is empty.
\<close>

section \<open>Loading\<close>

record 'a load =
  ld_data :: 'a
  ld_isLoading :: bool
  ld_fetches :: nat

definition load_mount :: "'a \<Rightarrow> 'a load" where
  "load_mount d = \<lparr> ld_data = d, ld_isLoading = True, ld_fetches = 1 \<rparr>"

definition load_start :: "'a load \<Rightarrow> 'a load" where
  "load_start l = l \<lparr> ld_isLoading := True, ld_fetches := Suc (ld_fetches l) \<rparr>"

definition load_settle :: "'a res \<Rightarrow> 'a load \<Rightarrow> 'a load" where
  "load_settle r l =
     l \<lparr> ld_data := (case r of Inr v \<Rightarrow> v | Inl _ \<Rightarrow> ld_data l), ld_isLoading := False, ld_fetches := ld_fetches l - 1 \<rparr>"

text \<open>A page that loads once, and one that loads again by a timer and a button; the dashboard disables
  its button while it loads.\<close>

datatype 'a LoadEvent = Load_reply "'a res" | Load_interval | Load_click

fun load_offers :: "bool \<Rightarrow> ('a load \<Rightarrow> bool) \<Rightarrow> 'a LoadEvent \<Rightarrow> 'a load \<Rightarrow> bool" where
  "load_offers repeats button (Load_reply _) l = (0 < ld_fetches l)"
| "load_offers repeats button Load_interval l = repeats"
| "load_offers repeats button Load_click l = button l"

fun load_handle :: "'a LoadEvent \<Rightarrow> 'a load \<Rightarrow> 'a load" where
  "load_handle (Load_reply r) l = load_settle r l"
| "load_handle Load_interval l = load_start l"
| "load_handle Load_click l = load_start l"

definition dashboard_offers :: "'a LoadEvent \<Rightarrow> 'a load \<Rightarrow> bool" where
  "dashboard_offers = load_offers True (\<lambda>l. \<not> ld_isLoading l)"

definition operations_offers :: "'a LoadEvent \<Rightarrow> 'a load \<Rightarrow> bool" where
  "operations_offers = load_offers True (\<lambda>_. True)"

definition once_offers :: "'a LoadEvent \<Rightarrow> 'a load \<Rightarrow> bool" where
  "once_offers = load_offers False (\<lambda>_. False)"

definition AppUsersPage :: "AppUser list load" where "AppUsersPage = load_mount []"
definition AuditLogsPage :: "AuditLogItem list load" where "AuditLogsPage = load_mount []"
definition admin_BlocksPage :: "BlockItem list load" where "admin_BlocksPage = load_mount []"
definition admin_TransactionsPage :: "TransactionItem list load" where "admin_TransactionsPage = load_mount []"
definition admin_ValidatorsPage :: "ValidatorItem list load" where "admin_ValidatorsPage = load_mount []"
definition admin_StakingPage :: "ValidatorItem list load" where "admin_StakingPage = load_mount []"
definition BlockchainOverviewPage :: "BlockchainStats option load" where "BlockchainOverviewPage = load_mount None"
definition DashboardPage :: "DashboardKpis option load" where "DashboardPage = load_mount None"
definition OperationsPage :: "SystemService list load" where "OperationsPage = load_mount []"

text \<open>The rows of a table page: the answer's rows in the table's columns.\<close>

definition shown_rows :: "'a columns \<Rightarrow> 'a list load \<Rightarrow> string list list" where
  "shown_rows cols l = map (\<lambda>x. map (\<lambda>(_, cell). cell x) cols) (ld_data l)"

definition load_ok :: "'a load \<Rightarrow> bool" where
  "load_ok l \<longleftrightarrow> (ld_isLoading l \<longrightarrow> 0 < ld_fetches l)"

lemma load_ok_mount [simp]: "load_ok (load_mount d)"
  by (simp add: load_ok_def load_mount_def)

lemma load_ok_start [simp]: "load_ok (load_start l)"
  by (simp add: load_ok_def load_start_def)

lemma load_ok_settle [simp]: "load_ok (load_settle r l)"
  by (simp add: load_ok_def load_settle_def)

lemma load_ok_handle [simp]: "load_ok (load_handle e l)"
  by (cases e) simp_all

text \<open>The spinner of a page always stands for an unanswered request.\<close>

interpretation db: invariant_system DashboardPage dashboard_offers load_handle load_ok
  by unfold_locales (simp_all add: DashboardPage_def)

interpretation op: invariant_system OperationsPage operations_offers load_handle load_ok
  by unfold_locales (simp_all add: OperationsPage_def)

text \<open>A page that loads once shows the answer, or keeps its empty list when the request failed.\<close>

lemma once_settled:
  "run once_offers load_handle es (load_mount d) = Some l \<Longrightarrow>
     l = load_mount d \<or> (\<exists>r. l = load_settle r (load_mount d))"
proof -
  have stop: "run once_offers load_handle es k = Some l \<Longrightarrow> ld_fetches k = 0 \<Longrightarrow> l = k" for es k
    by (cases es; cases "hd es") (auto simp: once_offers_def split: if_splits)
  show "run once_offers load_handle es (load_mount d) = Some l \<Longrightarrow> ?thesis"
  proof (cases es)
    case (Cons e es')
    assume r: "run once_offers load_handle es (load_mount d) = Some l"
    then obtain v where e: "e = Load_reply v"
      using Cons by (cases e) (auto simp: once_offers_def split: if_splits)
    with r Cons have "run once_offers load_handle es' (load_settle v (load_mount d)) = Some l"
      by (auto split: if_splits)
    then have "l = load_settle v (load_mount d)"
      by (rule stop) (simp add: load_settle_def load_mount_def)
    then show ?thesis by blast
  qed simp
qed

section \<open>App versions\<close>

text \<open>\<^verbatim>\<open>{ ...config, k: v }\<close>: a field that exists keeps its place.\<close>

definition with_field :: "row \<Rightarrow> string \<Rightarrow> jsval \<Rightarrow> row" where
  "with_field config k v =
     (if k \<in> fst ` set config then map (\<lambda>(k', w). (k', if k' = k then v else w)) config else config @ [(k, v)])"

definition default_config :: row where
  "default_config =
     [(''platform'', JStr ''android''),
      (''min_version'', JStr ''1.0.0''),
      (''latest_version'', JStr ''1.0.0''),
      (''recommended_version'', JStr ''1.0.0''),
      (''force_update'', JBool False),
      (''maintenance_mode'', JBool False),
      (''maintenance_message'', JStr ''SPRX Network is undergoing scheduled maintenance.''),
      (''update_url_android'', JStr ''https://github.com/sprax-chain/sprax-chain/releases/latest'')]"

record VersionsUi =
  vu_config :: row
  vu_isSaving :: bool
  vu_saveSuccess :: bool
  vu_loading :: bool
  vu_sent :: "row list"
  vu_timers :: nat
  vu_alert :: "string option"

definition versions_init :: VersionsUi where
  "versions_init =
     \<lparr> vu_config = default_config, vu_isSaving = False, vu_saveSuccess = False, vu_loading = True, vu_sent = [],
       vu_timers = 0, vu_alert = None \<rparr>"

definition versions_settle :: "row res \<Rightarrow> VersionsUi \<Rightarrow> VersionsUi" where
  "versions_settle r s = s \<lparr> vu_loading := False, vu_config := (case r of Inr v \<Rightarrow> v | Inl _ \<Rightarrow> vu_config s) \<rparr>"

definition handleSave :: "VersionsUi \<Rightarrow> VersionsUi" where
  "handleSave s = s \<lparr> vu_isSaving := True, vu_saveSuccess := False, vu_sent := vu_sent s @ [vu_config s] \<rparr>"

definition settled :: "nat \<Rightarrow> 'a list \<Rightarrow> 'a list" where
  "settled i xs = take i xs @ drop (Suc i) xs"

definition save_settle :: "nat \<Rightarrow> jsval res \<Rightarrow> VersionsUi \<Rightarrow> VersionsUi" where
  "save_settle i r s =
     (case r of
        Inr _ \<Rightarrow> s \<lparr> vu_sent := settled i (vu_sent s), vu_saveSuccess := True, vu_timers := Suc (vu_timers s), vu_isSaving := False \<rparr>
      | Inl e \<Rightarrow> s \<lparr> vu_sent := settled i (vu_sent s), vu_alert := Some (message e), vu_isSaving := False \<rparr>)"

definition save_texts :: "VersionsUi \<Rightarrow> string list" where
  "save_texts s =
     (if vu_saveSuccess s then [''Settings updated and audited successfully!''] else [])
       @ [if vu_isSaving s then ''Saving...'' else ''Save Configuration'']"

definition text_fields :: "string list" where
  "text_fields = [''min_version'', ''latest_version'', ''update_url_android'', ''maintenance_message'']"

definition check_fields :: "string list" where
  "check_fields = [''force_update'', ''maintenance_mode'']"

datatype VersionsEvent =
    Versions_reply "row res" | Field_typed string string | Field_checked string bool | Save_click
  | Save_reply nat "jsval res" | Save_timeout

fun versions_offers :: "VersionsEvent \<Rightarrow> VersionsUi \<Rightarrow> bool" where
  "versions_offers (Versions_reply _) s = vu_loading s"
| "versions_offers (Field_typed k _) s = (k \<in> set text_fields)"
| "versions_offers (Field_checked k _) s = (k \<in> set check_fields)"
| "versions_offers Save_click s = (\<not> vu_isSaving s)"
| "versions_offers (Save_reply i _) s = (i < length (vu_sent s))"
| "versions_offers Save_timeout s = (0 < vu_timers s)"

fun versions_handle :: "VersionsEvent \<Rightarrow> VersionsUi \<Rightarrow> VersionsUi" where
  "versions_handle (Versions_reply r) s = versions_settle r s"
| "versions_handle (Field_typed k t) s = s \<lparr> vu_config := with_field (vu_config s) k (JStr t) \<rparr>"
| "versions_handle (Field_checked k b) s = s \<lparr> vu_config := with_field (vu_config s) k (JBool b) \<rparr>"
| "versions_handle Save_click s = handleSave s"
| "versions_handle (Save_reply i r) s = save_settle i r s"
| "versions_handle Save_timeout s = s \<lparr> vu_timers := vu_timers s - 1, vu_saveSuccess := False \<rparr>"

lemma map_of_replace:
  "map_of (map (\<lambda>(k', w). (k', if k' = k then v else w)) config) k' =
     (if k' = k then map_option (\<lambda>_. v) (map_of config k) else map_of config k')"
proof (induction config)
  case (Cons a config)
  then show ?case by (cases a; cases "k' = k") auto
qed simp

lemma with_field_other [simp]: "k \<noteq> k' \<Longrightarrow> map_of (with_field config k v) k' = map_of config k'"
  by (simp add: with_field_def map_of_replace map_add_def split: option.split)

lemma with_field_same [simp]: "map_of (with_field config k v) k = Some v"
proof (cases "map_of config k")
  case None
  then have "k \<notin> fst ` set config" by (simp add: map_of_eq_None_iff)
  with None show ?thesis by (simp add: with_field_def map_add_def)
next
  case (Some w)
  then have "k \<in> fst ` set config" by (metis domI dom_map_of_conv_image_fst)
  with Some show ?thesis by (simp add: with_field_def map_of_replace)
qed

lemma settled_subset: "set (settled i xs) \<subseteq> set xs"
  by (auto simp: settled_def dest: in_set_takeD in_set_dropD)

lemma settled_length: "i < length xs \<Longrightarrow> length (settled i xs) = length xs - 1"
  by (simp add: settled_def)

text \<open>The events that give a field another value than the one it has.\<close>

fun gives_value :: "string \<Rightarrow> VersionsEvent \<Rightarrow> bool" where
  "gives_value k (Versions_reply (Inr _)) = True"
| "gives_value k (Field_typed k' _) = (k' = k)"
| "gives_value k (Field_checked k' _) = (k' = k)"
| "gives_value k _ = False"

definition keeps_default :: "string \<Rightarrow> VersionsUi \<Rightarrow> bool" where
  "keeps_default k s \<longleftrightarrow> (\<forall>c \<in> set (vu_config s # vu_sent s). map_of c k = map_of default_config k)"

lemma keeps_default_step:
  assumes "keeps_default k s" "\<not> gives_value k e"
  shows "keeps_default k (versions_handle e s)"
proof (cases e)
  case (Versions_reply r)
  with assms show ?thesis by (cases r) (auto simp: keeps_default_def versions_settle_def)
next
  case (Save_reply i r)
  with assms settled_subset [of i "vu_sent s"] show ?thesis
    by (cases r) (auto simp: keeps_default_def save_settle_def)
qed (use assms in \<open>auto simp: keeps_default_def handleSave_def\<close>)

lemma keeps_default_run:
  "run versions_offers versions_handle es s = Some t \<Longrightarrow> keeps_default k s \<Longrightarrow> list_all (\<lambda>e. \<not> gives_value k e) es \<Longrightarrow>
     keeps_default k t"
  by (induction es arbitrary: s) (auto split: if_splits intro: keeps_default_step)

text \<open>C39: As long as the stored configuration has not arrived, because the request failed or is still
  unanswered, the form holds built-in values, and saving is possible: every update that is sent then has,
  in each field that was not edited, the built-in value, whatever is stored on the server.
\<close>

theorem unloaded_save_overwrites:
  assumes "run versions_offers versions_handle es versions_init = Some s"
    and "list_all (\<lambda>e. \<not> gives_value k e) es"
    and "config \<in> set (vu_sent s)"
  shows "map_of config k = map_of default_config k"
proof -
  have "keeps_default k versions_init" by (simp add: keeps_default_def versions_init_def)
  from keeps_default_run [OF assms(1) this assms(2)] assms(3) show ?thesis
    by (simp add: keeps_default_def)
qed

theorem unloaded_save_overwrites_witness:
  "\<exists>s. run versions_offers versions_handle
         [Versions_reply (Inl (Error ''Request failed'')), Field_checked ''maintenance_mode'' True, Save_click] versions_init = Some s
       \<and> (\<exists>config. vu_sent s = [config] \<and> map_of config ''force_update'' = Some (JBool False)
            \<and> map_of config ''maintenance_mode'' = Some (JBool True))"
proof -
  let ?es = "[Versions_reply (Inl (Error ''Request failed'')), Field_checked ''maintenance_mode'' True, Save_click]"
  let ?c = "with_field default_config ''maintenance_mode'' (JBool True)"
  let ?s = "versions_init \<lparr> vu_loading := False, vu_config := ?c, vu_isSaving := True, vu_sent := [?c] \<rparr>"
  have r: "run versions_offers versions_handle ?es versions_init = Some ?s"
    by (simp add: versions_settle_def handleSave_def versions_init_def check_fields_def)
  moreover have "map_of ?c ''force_update'' = map_of default_config ''force_update''"
    by (rule unloaded_save_overwrites [OF r]) simp_all
  ultimately show ?thesis by (simp add: default_config_def)
qed

text \<open>After loading, an update is the loaded configuration with the edits made since.\<close>

fun edited :: "VersionsEvent list \<Rightarrow> row \<Rightarrow> row" where
  "edited [] c = c"
| "edited (Field_typed k t # es) c = edited es (with_field c k (JStr t))"
| "edited (Field_checked k b # es) c = edited es (with_field c k (JBool b))"
| "edited (_ # es) c = edited es c"

lemma edits_saved:
  "run versions_offers versions_handle es s = Some t \<Longrightarrow> \<not> vu_loading s \<Longrightarrow> \<not> vu_loading t \<and> vu_config t = edited es (vu_config s)"
proof (induction es arbitrary: s)
  case (Cons e es)
  then have ok: "versions_offers e s" and r: "run versions_offers versions_handle es (versions_handle e s) = Some t"
    by (auto split: if_splits)
  have "\<not> vu_loading (versions_handle e s) \<and> edited (e # es) (vu_config s) = edited es (vu_config (versions_handle e s))"
    using ok Cons.prems(2) by (cases e) (auto simp: handleSave_def save_settle_def split: sum.splits)
  with Cons.IH [OF r] show ?case by simp
qed simp

section \<open>Announcements\<close>

definition categories :: "(string \<times> string) list" where
  "categories =
     [(''general'', ''General Update''), (''maintenance'', ''Maintenance Advisory''), (''security'', ''Security Alert''),
      (''staking'', ''Staking / Rewards'')]"

record NotificationsUi =
  nt_load :: "SystemAnnouncementItem list load"
  nt_title :: string
  nt_body :: string
  nt_type :: string
  nt_isSending :: bool
  nt_successMsg :: "string option"
  nt_sent :: "row list"
  nt_timers :: nat
  nt_alert :: "string option"

definition notifications_init :: NotificationsUi where
  "notifications_init =
     \<lparr> nt_load = load_mount [], nt_title = [], nt_body = [], nt_type = ''general'', nt_isSending = False,
       nt_successMsg = None, nt_sent = [], nt_timers = 0, nt_alert = None \<rparr>"

definition announcement :: "string \<Rightarrow> string \<Rightarrow> string \<Rightarrow> row" where
  "announcement title body type = [(''title'', JStr title), (''body'', JStr body), (''type'', JStr type)]"

definition handleBroadcast :: "NotificationsUi \<Rightarrow> NotificationsUi" where
  "handleBroadcast s =
     (if nt_title s = [] \<or> nt_body s = [] then s
      else s \<lparr> nt_isSending := True, nt_sent := nt_sent s @ [announcement (nt_title s) (nt_body s) (nt_type s)] \<rparr>)"

definition broadcast_settle :: "nat \<Rightarrow> jsval res \<Rightarrow> NotificationsUi \<Rightarrow> NotificationsUi" where
  "broadcast_settle i r s =
     (case r of
        Inr _ \<Rightarrow>
          s \<lparr> nt_sent := settled i (nt_sent s), nt_title := [], nt_body := [],
              nt_successMsg := Some ''Announcement broadcasted to all mobile & web clients!'',
              nt_load := load_start (nt_load s), nt_timers := Suc (nt_timers s), nt_isSending := False \<rparr>
      | Inl e \<Rightarrow> s \<lparr> nt_sent := settled i (nt_sent s), nt_alert := Some (message e), nt_isSending := False \<rparr>)"

definition broadcast_texts :: "NotificationsUi \<Rightarrow> string list" where
  "broadcast_texts s =
     (case nt_successMsg s of Some m \<Rightarrow> [m] | None \<Rightarrow> []) @ [if nt_isSending s then ''Sending...'' else ''Broadcast Announcement'']"

datatype NotificationsEvent =
    Title_typed string | Body_typed string | Category_chosen string | Broadcast_click
  | Broadcast_reply nat "jsval res" | Announcements_reply "SystemAnnouncementItem list res" | Success_timeout

fun notifications_offers :: "NotificationsEvent \<Rightarrow> NotificationsUi \<Rightarrow> bool" where
  "notifications_offers (Title_typed _) s = True"
| "notifications_offers (Body_typed _) s = True"
| "notifications_offers (Category_chosen c) s = (c \<in> fst ` set categories)"
| "notifications_offers Broadcast_click s = (\<not> (nt_isSending s \<or> nt_title s = [] \<or> nt_body s = []))"
| "notifications_offers (Broadcast_reply i _) s = (i < length (nt_sent s))"
| "notifications_offers (Announcements_reply _) s = (0 < ld_fetches (nt_load s))"
| "notifications_offers Success_timeout s = (0 < nt_timers s)"

fun notifications_handle :: "NotificationsEvent \<Rightarrow> NotificationsUi \<Rightarrow> NotificationsUi" where
  "notifications_handle (Title_typed t) s = s \<lparr> nt_title := t \<rparr>"
| "notifications_handle (Body_typed t) s = s \<lparr> nt_body := t \<rparr>"
| "notifications_handle (Category_chosen c) s = s \<lparr> nt_type := c \<rparr>"
| "notifications_handle Broadcast_click s = handleBroadcast s"
| "notifications_handle (Broadcast_reply i r) s = broadcast_settle i r s"
| "notifications_handle (Announcements_reply r) s = s \<lparr> nt_load := load_settle r (nt_load s) \<rparr>"
| "notifications_handle Success_timeout s = s \<lparr> nt_timers := nt_timers s - 1, nt_successMsg := None \<rparr>"

definition complete_announcement :: "row \<Rightarrow> bool" where
  "complete_announcement d \<longleftrightarrow>
     (\<exists>title body type. d = announcement title body type \<and> title \<noteq> [] \<and> body \<noteq> [] \<and> type \<in> fst ` set categories)"

definition notifications_ok :: "NotificationsUi \<Rightarrow> bool" where
  "notifications_ok s \<longleftrightarrow>
     nt_type s \<in> fst ` set categories \<and> load_ok (nt_load s) \<and>
     (if nt_isSending s then length (nt_sent s) = 1 else nt_sent s = []) \<and>
     (\<forall>d \<in> set (nt_sent s). complete_announcement d)"

lemma notifications_ok_step:
  assumes "notifications_ok s" "notifications_offers e s"
  shows "notifications_ok (notifications_handle e s)"
proof (cases e)
  case Broadcast_click
  with assms show ?thesis by (auto simp: notifications_ok_def handleBroadcast_def complete_announcement_def)
next
  case (Broadcast_reply i r)
  with assms have "settled i (nt_sent s) = []"
    by (auto simp: notifications_ok_def settled_def split: if_splits)
  with assms Broadcast_reply show ?thesis by (cases r) (auto simp: notifications_ok_def broadcast_settle_def)
qed (use assms in \<open>simp_all add: notifications_ok_def\<close>)

interpretation nt: invariant_system notifications_init notifications_offers notifications_handle notifications_ok
  by unfold_locales
    (simp add: notifications_ok_def notifications_init_def categories_def, rule notifications_ok_step)



section \<open>Administrator accounts\<close>

definition roles :: "(string \<times> string) list" where
  "roles =
     [(''viewer'', ''Viewer (Read-only)''), (''operations'', ''Operations (Node & Indexer controls)''),
      (''admin'', ''Admin (All ecosystem modules)''), (''super_admin'', ''Super Admin (Root authority)'')]"

record AdminsUi =
  ad_load :: "AdminUser list load"
  ad_showCreateModal :: bool
  ad_newUsername :: string
  ad_newPassword :: string
  ad_newRole :: string
  ad_sent :: "row list"
  ad_alert :: "string option"

definition admins_init :: AdminsUi where
  "admins_init =
     \<lparr> ad_load = load_mount [], ad_showCreateModal = False, ad_newUsername = [], ad_newPassword = [],
       ad_newRole = ''viewer'', ad_sent = [], ad_alert = None \<rparr>"

definition new_admin :: "string \<Rightarrow> string \<Rightarrow> string \<Rightarrow> row" where
  "new_admin username password role =
     [(''username'', JStr username), (''password'', JStr password), (''role'', JStr role)]"

definition handleCreate :: "AdminsUi \<Rightarrow> AdminsUi" where
  "handleCreate s = s \<lparr> ad_sent := ad_sent s @ [new_admin (ad_newUsername s) (ad_newPassword s) (ad_newRole s)] \<rparr>"

definition create_settle :: "nat \<Rightarrow> jsval res \<Rightarrow> AdminsUi \<Rightarrow> AdminsUi" where
  "create_settle i r s =
     (case r of
        Inr _ \<Rightarrow> s \<lparr> ad_sent := settled i (ad_sent s), ad_showCreateModal := False, ad_newUsername := [], ad_newPassword := [],
                    ad_load := load_start (ad_load s) \<rparr>
      | Inl e \<Rightarrow> s \<lparr> ad_sent := settled i (ad_sent s), ad_alert := Some (message e) \<rparr>)"

text \<open>\<^verbatim>\<open>user?.role === 'super_admin'\<close>; the profile stays the same while the page is shown.\<close>

definition may_create :: "jsval \<Rightarrow> bool" where
  "may_create user \<longleftrightarrow> opt_get user ''role'' = JStr ''super_admin''"

datatype AdminsEvent =
    Add_click | Username_typed string | Password_typed string | Role_chosen string | Create_cancel | Create_submit
  | Create_reply nat "jsval res" | Admins_reply "AdminUser list res"

fun admins_offers :: "jsval \<Rightarrow> AdminsEvent \<Rightarrow> AdminsUi \<Rightarrow> bool" where
  "admins_offers user Add_click s = may_create user"
| "admins_offers user (Username_typed _) s = ad_showCreateModal s"
| "admins_offers user (Password_typed _) s = ad_showCreateModal s"
| "admins_offers user (Role_chosen r) s = (ad_showCreateModal s \<and> r \<in> fst ` set roles)"
| "admins_offers user Create_cancel s = ad_showCreateModal s"
| "admins_offers user Create_submit s = (ad_showCreateModal s \<and> ad_newUsername s \<noteq> [] \<and> ad_newPassword s \<noteq> [])"
| "admins_offers user (Create_reply i _) s = (i < length (ad_sent s))"
| "admins_offers user (Admins_reply _) s = (0 < ld_fetches (ad_load s))"

fun admins_handle :: "AdminsEvent \<Rightarrow> AdminsUi \<Rightarrow> AdminsUi" where
  "admins_handle Add_click s = s \<lparr> ad_showCreateModal := True \<rparr>"
| "admins_handle (Username_typed t) s = s \<lparr> ad_newUsername := t \<rparr>"
| "admins_handle (Password_typed t) s = s \<lparr> ad_newPassword := t \<rparr>"
| "admins_handle (Role_chosen r) s = s \<lparr> ad_newRole := r \<rparr>"
| "admins_handle Create_cancel s = s \<lparr> ad_showCreateModal := False \<rparr>"
| "admins_handle Create_submit s = handleCreate s"
| "admins_handle (Create_reply i r) s = create_settle i r s"
| "admins_handle (Admins_reply r) s = s \<lparr> ad_load := load_settle r (ad_load s) \<rparr>"

definition complete_admin :: "row \<Rightarrow> bool" where
  "complete_admin d \<longleftrightarrow>
     (\<exists>username password role. d = new_admin username password role \<and> username \<noteq> [] \<and> password \<noteq> [] \<and> role \<in> fst ` set roles)"

definition admins_ok :: "jsval \<Rightarrow> AdminsUi \<Rightarrow> bool" where
  "admins_ok user s \<longleftrightarrow>
     ad_newRole s \<in> fst ` set roles \<and> (ad_showCreateModal s \<longrightarrow> may_create user) \<and>
     (\<forall>d \<in> set (ad_sent s). may_create user \<and> complete_admin d)"

lemma admins_ok_step:
  assumes "admins_ok user s" "admins_offers user e s"
  shows "admins_ok user (admins_handle e s)"
proof (cases e)
  case Create_submit
  with assms show ?thesis by (auto simp: admins_ok_def handleCreate_def complete_admin_def)
next
  case (Create_reply i r)
  with assms settled_subset [of i "ad_sent s"] show ?thesis
    by (cases r) (auto simp: admins_ok_def create_settle_def)
qed (use assms in \<open>simp_all add: admins_ok_def\<close>)

interpretation am: invariant_system admins_init "admins_offers user" admins_handle "admins_ok user" for user
  by unfold_locales (simp add: admins_ok_def admins_init_def roles_def, rule admins_ok_step)


definition admin_profile :: "string \<Rightarrow> jsval" where
  "admin_profile role = JObj [(''username'', JStr ''root''), (''role'', JStr role)]"

definition created_state :: AdminsUi where
  "created_state =
     admins_init \<lparr> ad_showCreateModal := True, ad_newUsername := ''eve'', ad_newPassword := ''pw'', ad_newRole := ''super_admin'',
       ad_sent := [new_admin ''eve'' ''pw'' ''super_admin''] \<rparr>"

lemma created_run:
  "run (admins_offers (admin_profile ''super_admin'')) admins_handle
     [Add_click, Username_typed ''eve'', Password_typed ''pw'', Role_chosen ''super_admin'', Create_submit] admins_init
   = Some created_state"
  by (simp add: admins_init_def created_state_def handleCreate_def may_create_def admin_profile_def opt_get_def own_def
      nullish_def roles_def)


text \<open>The chosen role outlives the form: the next account starts with the role of the one before.\<close>

lemma role_remembered:
  "run (admins_offers (admin_profile ''super_admin'')) admins_handle [Create_reply 0 (Inr v), Add_click] created_state = Some s \<Longrightarrow>
     ad_showCreateModal s \<and> ad_newUsername s = [] \<and> ad_newPassword s = [] \<and> ad_newRole s = ''super_admin''"
  by (auto simp: created_state_def create_settle_def split: if_splits)

section \<open>Indexer monitor\<close>

record IndexerUi =
  im_load :: "IndexerStatus option load"
  im_showRetryModal :: bool
  im_retryMessage :: "string option"
  im_retries :: nat
  im_timers :: nat
  im_alert :: "string option"

definition indexer_init :: IndexerUi where
  "indexer_init =
     \<lparr> im_load = load_mount None, im_showRetryModal = False, im_retryMessage = None, im_retries = 0, im_timers = 0, im_alert = None \<rparr>"

definition handleRetrySync :: "IndexerUi \<Rightarrow> IndexerUi" where
  "handleRetrySync s = s \<lparr> im_retries := Suc (im_retries s) \<rparr>"

definition retry_settle :: "string res \<Rightarrow> IndexerUi \<Rightarrow> IndexerUi" where
  "retry_settle r s =
     (case r of
        Inr m \<Rightarrow> s \<lparr> im_retries := im_retries s - 1, im_retryMessage := Some m, im_showRetryModal := False,
                    im_load := load_start (im_load s), im_timers := Suc (im_timers s) \<rparr>
      | Inl e \<Rightarrow> s \<lparr> im_retries := im_retries s - 1, im_alert := Some (message e) \<rparr>)"

datatype IndexerEvent =
    Retry_open | Retry_confirm | Retry_cancel | Retry_reply "string res" | Status_reply "IndexerStatus option res"
  | Status_interval | Retry_timeout

fun indexer_offers :: "IndexerEvent \<Rightarrow> IndexerUi \<Rightarrow> bool" where
  "indexer_offers Retry_open s = True"
| "indexer_offers Retry_confirm s = (im_showRetryModal s \<and> isConfirmed None [])"
| "indexer_offers Retry_cancel s = im_showRetryModal s"
| "indexer_offers (Retry_reply _) s = (0 < im_retries s)"
| "indexer_offers (Status_reply _) s = (0 < ld_fetches (im_load s))"
| "indexer_offers Status_interval s = True"
| "indexer_offers Retry_timeout s = (0 < im_timers s)"

fun indexer_handle :: "IndexerEvent \<Rightarrow> IndexerUi \<Rightarrow> IndexerUi" where
  "indexer_handle Retry_open s = s \<lparr> im_showRetryModal := True \<rparr>"
| "indexer_handle Retry_confirm s = handleRetrySync s"
| "indexer_handle Retry_cancel s = s \<lparr> im_showRetryModal := False \<rparr>"
| "indexer_handle (Retry_reply r) s = retry_settle r s"
| "indexer_handle (Status_reply r) s = s \<lparr> im_load := load_settle r (im_load s) \<rparr>"
| "indexer_handle Status_interval s = s \<lparr> im_load := load_start (im_load s) \<rparr>"
| "indexer_handle Retry_timeout s = s \<lparr> im_timers := im_timers s - 1, im_retryMessage := None \<rparr>"

text \<open>A retry is requested from the open dialog only; the dialog stays open until an answer arrives, so the
  request can be repeated.\<close>

lemma retry_from_dialog:
  assumes "im_retries s < im_retries (indexer_handle e s)" "indexer_offers e s"
  shows "e = Retry_confirm \<and> im_showRetryModal s \<and> indexer_offers Retry_confirm (indexer_handle e s)"
  using assms by (cases e) (auto simp: handleRetrySync_def retry_settle_def isConfirmed_def split: sum.splits)

section \<open>Curated projects\<close>

record DiscoverUi =
  dc_load :: "DiscoverProject list load"
  dc_sent :: "(string \<times> row) list"
  dc_alert :: "string option"

definition discover_init :: DiscoverUi where
  "discover_init = \<lparr> dc_load = load_mount [], dc_sent = [], dc_alert = None \<rparr>"

definition handleToggle :: "string \<Rightarrow> string \<Rightarrow> bool \<Rightarrow> DiscoverUi \<Rightarrow> DiscoverUi" where
  "handleToggle i field currentVal s = s \<lparr> dc_sent := dc_sent s @ [(i, [(field, JBool (\<not> currentVal))])] \<rparr>"

definition project_settle :: "nat \<Rightarrow> jsval res \<Rightarrow> DiscoverUi \<Rightarrow> DiscoverUi" where
  "project_settle i r s =
     (case r of
        Inr _ \<Rightarrow> s \<lparr> dc_sent := settled i (dc_sent s), dc_load := load_start (dc_load s) \<rparr>
      | Inl e \<Rightarrow> s \<lparr> dc_sent := settled i (dc_sent s), dc_alert := Some (message e) \<rparr>)"

datatype DiscoverEvent =
    Featured_click DiscoverProject | Verified_click DiscoverProject | Project_reply nat "jsval res"
  | Projects_reply "DiscoverProject list res"

fun discover_offers :: "DiscoverEvent \<Rightarrow> DiscoverUi \<Rightarrow> bool" where
  "discover_offers (Featured_click p) s = (p \<in> set (ld_data (dc_load s)))"
| "discover_offers (Verified_click p) s = (p \<in> set (ld_data (dc_load s)))"
| "discover_offers (Project_reply i _) s = (i < length (dc_sent s))"
| "discover_offers (Projects_reply _) s = (0 < ld_fetches (dc_load s))"

fun discover_handle :: "DiscoverEvent \<Rightarrow> DiscoverUi \<Rightarrow> DiscoverUi" where
  "discover_handle (Featured_click p) s = handleToggle (dp_id p) ''is_featured'' (dp_is_featured p) s"
| "discover_handle (Verified_click p) s = handleToggle (dp_id p) ''is_verified'' (dp_is_verified p) s"
| "discover_handle (Project_reply i r) s = project_settle i r s"
| "discover_handle (Projects_reply r) s = s \<lparr> dc_load := load_settle r (dc_load s) \<rparr>"

definition one_mark :: "row \<Rightarrow> bool" where
  "one_mark d \<longleftrightarrow> (\<exists>b. d = [(''is_featured'', JBool b)] \<or> d = [(''is_verified'', JBool b)])"

definition discover_ok :: "DiscoverUi \<Rightarrow> bool" where
  "discover_ok s \<longleftrightarrow> (\<forall>u \<in> set (dc_sent s). one_mark (snd u))"

text \<open>An update changes exactly one mark of a project, and never whether the project is active.\<close>

lemma discover_ok_step:
  assumes "discover_ok s"
  shows "discover_ok (discover_handle e s)"
proof (cases e)
  case (Project_reply i r)
  have "discover_ok (s \<lparr> dc_sent := settled i (dc_sent s) \<rparr>)"
    using assms settled_subset [of i "dc_sent s"] unfolding discover_ok_def by auto
  with Project_reply show ?thesis by (cases r) (simp_all add: project_settle_def discover_ok_def)
qed (use assms in \<open>simp_all add: discover_ok_def handleToggle_def one_mark_def\<close>)

interpretation dc: invariant_system discover_init discover_offers discover_handle discover_ok
  by unfold_locales (simp add: discover_ok_def discover_init_def, rule discover_ok_step)

end
