(* ===== verification/Admin_Shell.thy ===== *)
theory Admin_Shell
  imports Admin_Session Admin_Pages
begin

text \<open>
  What surrounds the pages of the administration panel: the top bar and the side bar as they are shown
  (\<^verbatim>\<open>src/apps/admin-panel/src/components/layout\<close>), the login page, the table and the dialog with the page's data
  in them (\<^verbatim>\<open>components/common\<close>).  State and handlers are in the theories of the session, the table and the
  flags.
\<close>

section \<open>Top bar, side bar and login page\<close>

record AdminProfile =
  pr_id :: string
  pr_username :: string
  pr_role :: string
  pr_permissions :: "string list"
  pr_environment :: string

text \<open>\<^verbatim>\<open>user?.username.charAt(0).toUpperCase() || 'A'\<close>.\<close>

definition profile_letter :: "AdminProfile option \<Rightarrow> string" where
  "profile_letter user = text_or (map_option (\<lambda>u. toUpperCase (take 1 (pr_username u))) user) ''A''"

definition profile_button :: "AdminProfile option \<Rightarrow> string list" where
  "profile_button user = profile_letter user # (case user of Some u \<Rightarrow> [pr_username u, pr_role u] | None \<Rightarrow> [])"

definition profile_menu :: "bool \<Rightarrow> AdminProfile option \<Rightarrow> string list" where
  "profile_menu showProfileMenu user =
     (if showProfileMenu
      then (case user of Some u \<Rightarrow> [pr_username u, ''Role: '' @ pr_role u] | None \<Rightarrow> [''Role: ''])
             @ [''MFA Authenticated'', ''Sign Out'']
      else [])"

definition top_badges :: "string list" where
  "top_badges = [''TESTNET'', ''RPC: 127.0.0.1:8545 (Online)'']"

record nav_entry =
  se_texts :: "string list"
  se_title :: "string option"
  se_active :: bool

definition side_entry :: "bool \<Rightarrow> string \<Rightarrow> NavItem \<Rightarrow> nav_entry" where
  "side_entry isCollapsed activeTab item =
     \<lparr> se_texts = (if isCollapsed then []
                   else ni_label item # (case ni_badge item of Some b \<Rightarrow> (if b = [] then [] else [b]) | None \<Rightarrow> [])),
       se_title = (if isCollapsed then Some (ni_label item) else None),
       se_active = (activeTab = ni_id item) \<rparr>"

definition side_view :: "bool \<Rightarrow> string \<Rightarrow> jsval \<Rightarrow> (string list \<times> nav_entry list) list res" where
  "side_view isCollapsed activeTab user =
     ebind (sidebar user) (\<lambda>ss.
       Inr (map (\<lambda>(sec, items). (if isCollapsed then [] else [sec], map (side_entry isCollapsed activeTab) items)) ss))"

definition side_brand :: "bool \<Rightarrow> string list" where
  "side_brand isCollapsed = ''S'' # (if isCollapsed then [] else [''SPRX '', ''ADMIN'', ''Ecosystem Control''])"

definition side_footer :: "bool \<Rightarrow> string list" where
  "side_footer isCollapsed = (if isCollapsed then [] else [''Environment'', ''SPRAX TESTNET-1''])"

definition login_texts :: "LoginForm \<Rightarrow> string list" where
  "login_texts f =
     [''SPRX Admin Control'', ''Centralized operations & monitoring center for Sprax Chain.'']
     @ (case lf_error f of Some e \<Rightarrow> (if e = [] then [] else [e]) | None \<Rightarrow> [])
     @ [if lf_submitting f then ''Authenticating...'' else ''Sign In to Admin Center'']"

section \<open>Table, flags and dialog\<close>

datatype table_view = Table_loading string | Table_empty string | Table_rows "string list list"

definition table_body :: "(row \<Rightarrow> string) list \<Rightarrow> bool \<Rightarrow> string \<Rightarrow> row list \<Rightarrow> int \<Rightarrow> DataTable \<Rightarrow> table_view" where
  "table_body cells isLoading emptyMessage data pageSize t =
     (if isLoading then Table_loading ''Loading data...''
      else if paginatedData data pageSize t = [] then Table_empty emptyMessage
      else Table_rows (map (\<lambda>item. map (\<lambda>cell. cell item) cells) (paginatedData data pageSize t)))"

definition table_texts :: "row list \<Rightarrow> int \<Rightarrow> DataTable \<Rightarrow> string list" where
  "table_texts data pageSize t =
     [''Showing '' @ num_str (NInt (int (length (filteredData data (dt_searchTerm t))))) @ '' total entries'',
      ''Page '' @ num_str (NInt (dt_currentPage t)) @ '' of '' @ num_str (NInt (table_total data pageSize t))]"

definition flag_line :: "string \<Rightarrow> bool \<Rightarrow> string option \<Rightarrow> string list" where
  "flag_line name is_enabled description =
     name # (if isCritical (JStr name) then [''CRITICAL PROTECTION''] else [])
     @ [text_or description ''Controls runtime module enablement.'', if is_enabled then ''ENABLED'' else ''DISABLED'']"

definition dialog_texts :: "bool \<Rightarrow> string \<Rightarrow> string \<Rightarrow> string option \<Rightarrow> string \<Rightarrow> string list" where
  "dialog_texts isOpen title msg confirmPhrase confirmLabel =
     (if isOpen
      then [title, msg]
        @ (case confirmPhrase of Some p \<Rightarrow> (if p = [] then [] else [''Type '' @ p @ '' to continue:'']) | None \<Rightarrow> [])
        @ [''Cancel'', confirmLabel]
      else [])"

definition flags_dialog :: "FlagsUi \<Rightarrow> string list" where
  "flags_dialog s =
     dialog_texts (ff_pending s \<noteq> None) (confirm_title s) (confirm_message s) (confirm_phrase s)
       (if confirm_phrase s \<noteq> None then ''Confirm Critical Authorization'' else ''Update Feature Flag'')"

definition retry_dialog :: "IndexerUi \<Rightarrow> string list" where
  "retry_dialog s =
     dialog_texts (im_showRetryModal s) ''Retry Indexer Synchronization''
       ''This will signal the indexer worker to resume synchronization from the last verified block checkpoint.''
       None ''Trigger Retry''"

section \<open>Facts on the views\<close>

text \<open>In every state the user can bring a loaded table into, the note for an empty table is shown exactly when no
  row matches the search, and otherwise the rows of an existing page are shown.\<close>

lemma table_note_exact:
  assumes "reach table_init (table_offers data l) (table_handle data l) t" "safe_size (int (length data)) l"
  shows "table_body cells False note data l t = Table_empty note \<longleftrightarrow> filteredData data (dt_searchTerm t) = []"
proof -
  have "paginatedData data l t = [] \<longleftrightarrow> filteredData data (dt_searchTerm t) = []"
    using table_page_inhabited [OF assms] by (auto simp: paginatedData_def slice_def)
  then show ?thesis by (simp add: table_body_def)
qed

text \<open>The dialog of a critical flag names the phrase that has to be typed, and the indexer's asks for none.\<close>

lemma critical_dialog:
  "ff_pending s = Some (JStr ''perps_enabled'', b) \<Longrightarrow> ''Type ENABLE PERPS_ENABLED to continue:'' \<in> set (flags_dialog s)"
proof -
  have up: "toUpperCase ''perps_enabled'' = ''PERPS_ENABLED''" by code_simp
  show "ff_pending s = Some (JStr ''perps_enabled'', b) \<Longrightarrow> ?thesis"
    by (simp add: flags_dialog_def dialog_texts_def confirm_phrase_def isCritical_def up)
qed

text \<open>Collapsing the side bar hides texts but no entry.\<close>

lemma collapsed_entries:
  assumes "side_view True a user = Inr cs" "side_view False a user = Inr es"
  shows "map (length \<circ> snd) cs = map (length \<circ> snd) es" "map (map se_active \<circ> snd) cs = map (map se_active \<circ> snd) es"
  using assms by (auto simp: side_view_def side_entry_def ebind_Inr_iff split_def comp_def)

end
