(* ===== verification/Spec2Isabelle.thy ===== *)
theory Spec2Isabelle
  imports Web_Wallet Explorer_App_Inv Explorer_Mounts Explorer_Qr Explorer_Conform Explorer_Charts Explorer_Info Admin_Shell
begin

text \<open>
  \<^bold>\<open>The program.\<close>  The TypeScript code of SPRX consists of four parts.  The wallet SDK
  (\<^verbatim>\<open>src/packages/sprax-wallet-core/src\<close>) derives accounts from a recovery phrase, keeps the phrase in an
  encrypted vault, builds and signs transactions and talks to a node.  The web wallet
  (\<^verbatim>\<open>src/apps/web-wallet/src\<close>) is a React application on top of the SDK.  The block explorer
  (\<^verbatim>\<open>src/apps/explorer-ui/src\<close>) reads an indexer and a node over HTTP, falls back to built-in tables when neither
  answers, and shows them on some twenty pages.  The administration panel (\<^verbatim>\<open>src/apps/admin-panel/src\<close>) shows and
  changes the settings of the backend.  The wallet imports the SDK; explorer and panel share no code with it and
  meet it only in the texts a user carries over, such as an address.

  \<^bold>\<open>JavaScript.\<close>  \<^verbatim>\<open>Js_Prelude\<close> has strings (lists of code units below 256; a literal beyond is written with its
  code, as in \<^verbatim>\<open><U+2026>\<close>), bytes, thrown errors (\<open>'a res\<close>, with \<open>ebind\<close> and \<open>try_catch\<close>) and the theorem collections;
  \<^verbatim>\<open>Js_Number\<close> printing and reading of integers and bytes, and \<^verbatim>\<open>BigInt\<close>; \<^verbatim>\<open>Js_Float\<close> the type \<^verbatim>\<open>number\<close>: NaN, the
  infinities and exact rationals, with every operation rounded to the nearest double by \<open>to_double\<close> (the sign of zero is
  not kept).  \<^verbatim>\<open>Js_Dyadic\<close>, \<^verbatim>\<open>Js_Round\<close> and \<^verbatim>\<open>Js_Mono\<close> show which quotients are exact, that the error of a quotient does not
  change \<^verbatim>\<open>Math.ceil\<close> of two safe integers, and that rounding is monotone.  \<^verbatim>\<open>Js_Value\<close> has unvalidated values, property
  access, truthiness, \<^verbatim>\<open>JSON.stringify\<close> and \<^verbatim>\<open>JSON.parse\<close> with their round trip; \<^verbatim>\<open>Js_Pretty\<close> the indented text;
  \<^verbatim>\<open>Js_List\<close> list methods with throwing functions; \<^verbatim>\<open>Js_Storage\<close> \<^verbatim>\<open>localStorage\<close>; \<^verbatim>\<open>Http\<close> \<^verbatim>\<open>fetch\<close>.  \<^verbatim>\<open>State_Machine\<close> is the
  common form of the interfaces: an initial state, the events a state offers (the controls it renders, and the answers
  of unanswered requests), and a handler per event.  Its locale \<^verbatim>\<open>invariant_system\<close> carries an invariant to every
  reachable state; each page interprets it on its own handlers.  \<^verbatim>\<open>Codec\<close> is the interface of a textual encoding.

  \<^bold>\<open>Wallet SDK.\<close>  \<^verbatim>\<open>Wallet_Types\<close> (\<^verbatim>\<open>types.ts\<close>), \<^verbatim>\<open>Address\<close> (\<^verbatim>\<open>address.ts\<close>: \<open>toBech32\<close>, \<open>toHex\<close>, \<open>parseToBytes\<close>), \<^verbatim>\<open>Amount\<close>
  and \<^verbatim>\<open>Transaction\<close> (\<^verbatim>\<open>transaction.ts\<close>: the unit conversions; fee, canonical sign bytes, signing), \<^verbatim>\<open>Mnemonic\<close>
  (\<^verbatim>\<open>mnemonic.ts\<close>), \<^verbatim>\<open>Hd_Wallet\<close> (\<^verbatim>\<open>hd_wallet.ts\<close>), \<^verbatim>\<open>Vault\<close> (\<^verbatim>\<open>vault.ts\<close>), \<^verbatim>\<open>Client\<close> (\<^verbatim>\<open>client.ts\<close>).  Shown: hex, Bech32, amount and
  vault texts are inverse to their parsers (interpretations of \<^verbatim>\<open>Codec\<close>); sign bytes exist exactly for valid requests and
  determine every field of the request; the two texts of a derived account denote the hash of its public key; the vault
  opens with its password and otherwise fails with one message; a broadcast body parses back to the transaction.

  \<^bold>\<open>Web wallet.\<close>  \<^verbatim>\<open>Onboarding\<close>, \<^verbatim>\<open>Send_Modal\<close> and \<^verbatim>\<open>Wallet_Views\<close> model the components of the same names, \<^verbatim>\<open>Web_Wallet\<close> models
  \<^verbatim>\<open>App.tsx\<close> composed with them, with the submissions in flight and the transactions sent as part of the state.  Shown
  for every interleaving: key and account go together, a broadcast is justified by a valid submission, locking removes
  the secrets, and an onboarding that reaches its last step completes.

  \<^bold>\<open>Explorer.\<close>  \<^verbatim>\<open>Explorer_Types\<close>, \<^verbatim>\<open>Explorer_Mock\<close>, \<^verbatim>\<open>Explorer_Formatters\<close> and \<^verbatim>\<open>Explorer_Api\<close> model \<^verbatim>\<open>types/index.ts\<close>,
  \<^verbatim>\<open>services/mockData.ts\<close>, \<^verbatim>\<open>utils/formatters.ts\<close> and \<^verbatim>\<open>services/api.ts\<close>; \<^verbatim>\<open>Paging\<close> the pages of a list and their control;
  \<^verbatim>\<open>Explorer_Nav\<close> the routes, menus and the header; \<^verbatim>\<open>Explorer_Search_Ui\<close> the search palette and bar; \<^verbatim>\<open>Explorer_App\<close>
  \<^verbatim>\<open>App.tsx\<close> with all of these and the wallet dialog; \<^verbatim>\<open>Explorer_App_Inv\<close> its invariants.  \<^verbatim>\<open>Explorer_Conform\<close> reads the
  declared types as predicates on values and shows that the values the application holds offline conform; the pages are
  then modelled over the declared types: \<^verbatim>\<open>Explorer_Views\<close> (shared components), \<^verbatim>\<open>Explorer_Lists\<close>, \<^verbatim>\<open>Explorer_Details\<close>,
  \<^verbatim>\<open>Explorer_Portal\<close> (governance, ecosystem), \<^verbatim>\<open>Explorer_Guides\<close> with \<^verbatim>\<open>Explorer_Guides_Data\<close> (learning, developers,
  staking, faucet), \<^verbatim>\<open>Explorer_Home\<close> and \<^verbatim>\<open>Explorer_Info\<close> (home, network, research), \<^verbatim>\<open>Explorer_Charts\<close> (charts and analytics),
  \<^verbatim>\<open>Explorer_Qr\<close> (the drawing of an address) and \<^verbatim>\<open>Explorer_Mounts\<close> (how long a page's state lives).  Shown: offline pages
  together are the whole list, a search ends and finds what was asked, links lead to one page, a detail page shows the
  record its route names, preferences survive a reload, the double arithmetic of ages, balances and chart coordinates
  agrees with exact arithmetic in the stated ranges, and the loops of the drawing end.

  \<^bold>\<open>Administration panel.\<close>  \<^verbatim>\<open>Admin_Api\<close> (\<^verbatim>\<open>services/api.ts\<close>), \<^verbatim>\<open>Admin_App\<close> and \<^verbatim>\<open>Admin_Session\<close> (\<^verbatim>\<open>AuthContext.tsx\<close>, \<^verbatim>\<open>App.tsx\<close>,
  \<^verbatim>\<open>LoginPage.tsx\<close>, \<^verbatim>\<open>Sidebar.tsx\<close>), \<^verbatim>\<open>Admin_Flags\<close>, \<^verbatim>\<open>Admin_Table\<close>, \<^verbatim>\<open>Admin_Pages\<close> (the pages that change something), \<^verbatim>\<open>Admin_Views\<close>
  and \<^verbatim>\<open>Admin_Shell\<close> (what is shown).  Shown: status 401 ends the session, the side bar offers what the profile permits,
  critical flags need the typed phrase, accounts are created by super administrators only, one announcement at a time.

  \<^bold>\<open>Across the parts.\<close>  This theory joins the wallet with the explorer's search.

  \<^bold>\<open>Parameters.\<close>  Packages outside the repository are arguments: \<^verbatim>\<open>bech32\<close> with \<open>bech32_ok\<close> and \<open>bech32_letters\<close> (BIP-173), hashes,
  curves, \<^verbatim>\<open>bip39\<close> and Web Crypto with \<open>crypto_ok\<close> (output lengths, and that decryption undoes encryption), \<^verbatim>\<open>fetch\<close> (any
  function; \<open>silent\<close> means no server answers with success), the clock, locale and time zone of the host (\<open>host\<close>,
  \<open>view_env\<close>, \<open>admin_env\<close>).  \<open>hex_bech32\<close>, \<open>plain_crypto\<close> and \<open>net_down\<close> are concrete instances that satisfy the hypotheses.

  \<^bold>\<open>Bounds and fuel.\<close>  \<open>JSON_parse\<close> recurses with fuel twice the length of the text plus two: every value consumes a
  character before its parts are read, and the round trip shows that the fuel suffices for every printed value.  No other
  definition has fuel; loops are terminating recursive functions, except for the three of \<^verbatim>\<open>Explorer_Qr\<close>, which are partial
  functions that are shown to return.  Counters and heights that the code keeps
  far below \<open>2 ^ 53\<close> are integers; where that is not evident the theorem has the bound as a hypothesis.

  \<^bold>\<open>Simplifications.\<close>  An asynchronous handler of the explorer's \<^verbatim>\<open>App.tsx\<close> is one step; in the wallet and the panel a request and
  its answer are two events.  The timer that aborts a request is a rejection of \<^verbatim>\<open>fetch\<close>.  A view is the list of texts and
  links it renders.  A definition without a counterpart of its own in the sources translates part of the lines of the
  definition that uses it.

  \<^bold>\<open>Not modelled.\<close>  Styling, icons and running text of the pages; the pages \<^verbatim>\<open>AboutPage\<close>, \<^verbatim>\<open>BrandKitPage\<close> and \<^verbatim>\<open>WhitepaperPage\<close> and the
  files \<^verbatim>\<open>main.tsx\<close>, which have no state and compute nothing; the types \<^verbatim>\<open>DelegationInfo\<close>, \<^verbatim>\<open>StakingOverview\<close> and
  \<^verbatim>\<open>CurrencyRate\<close>, which nothing uses; build configuration and tests; and the Rust node, the Python backend and the Dart wallet,
  separate programs that the modelled code reaches over HTTP only, where any answer is allowed.
\<close>

section \<open>From the wallet to the explorer\<close>

text \<open>
  BIP-173 leaves the letter o out of the characters of the data part, so the text of an address never
  looks like the explorer's contract prefix.
\<close>

definition bech32_letters :: "bech32_lib \<Rightarrow> bool" where
  "bech32_letters lib \<longleftrightarrow>
     (\<forall>bs r. length bs = 20 \<longrightarrow> b32_encode lib SPRAX_HRP (b32_toWords lib bs) = Inr (SPRAX_HRP @ ''1'' @ r)
        \<longrightarrow> list_all (\<lambda>c. lower_char c \<noteq> CHR ''o'') r)"

definition address_query :: "string \<Rightarrow> bool" where
  "address_query t \<longleftrightarrow>
     trim t = t \<and> t \<noteq> [] \<and> \<not> digits_only t \<and>
     \<not> hex_only 64 (if startsWith t ''0x'' then slice_from t 2 else t) \<and>
     \<not> startsWith (toLowerCase t) ''spraxvaloper1'' \<and> \<not> startsWith (toLowerCase t) ''sprax1contract'' \<and>
     is_sprax t"

lemma search_address_query:
  assumes "silent fetch" "address_query t"
  shows "search fetch h t s = (Inr (found ''Address'' (account_val (mock_account t))), s)"
  using assms
  by (simp add: address_query_def search_def search_hash_def search_validator_def search_contract_def
      search_address_def or_else_def api_bind_def silent_simps Let_def)

lemma universal_search_address:
  assumes "silent fetch" "address_query t"
  shows "ea_route (handleUniversalSearch fetch h t a) = ''/address/'' @ t \<and>
    ea_currentAccount (handleUniversalSearch fetch h t a) = account_val (mock_account t)"
proof -
  have addr: "get (account_val (mock_account t)) ''address'' = Inr (JStr t)"
    by (simp add: account_val_def mock_account_def get_def own_def nullish_def)
  obtain v where "getAddressTransactions fetch h t 20 0 (ea_service a) = (Inr v, ea_service a)"
    using getAddressTransactions_ok by blast
  with addr show ?thesis
    by (simp add: handleUniversalSearch_def search_address_query [OF assms] found_def own_def
        show_address_def navigateTo_def Let_def)
qed

lemma hex_address_query:
  assumes "length bs = 20"
  shows "address_query (''0x'' @ bytes_hex bs)"
proof -
  have "trim (''0x'' @ bytes_hex bs) = ''0x'' @ bytes_hex bs"
    using hex_text_no_ws [OF bytes_hex_is_hex, of "CHR ''x''" bs] by simp
  with assms show ?thesis
    by (simp add: address_query_def digits_only_def hex_only_def slice_from_def is_dec_def toLowerCase_def
        lower_char_def is_sprax_def hex_address_def bytes_hex_is_hex)
qed

lemma bech32_address_query:
  assumes "bech32_ok lib" "bech32_letters lib" "length bs = 20" "toBech32 lib bs = Inr b"
  shows "address_query b"
proof -
  obtain r where r: "b = SPRAX_HRP @ ''1'' @ r" "list_all (\<lambda>c. \<not> js_ws c) r"
    "b32_encode lib SPRAX_HRP (b32_toWords lib bs) = Inr (SPRAX_HRP @ ''1'' @ r)"
    using assms(1) [unfolded bech32_ok_def, rule_format, OF assms(3)] assms(3,4) by (auto simp: toBech32_def)
  then have o: "list_all (\<lambda>c. lower_char c \<noteq> CHR ''o'') r"
    using assms(2,3) by (auto simp: bech32_letters_def)
  have ws: "trim b = b" using r(2) by (intro trim_no_ws) (auto simp: r(1) SPRAX_HRP_def list_all_iff js_ws_def)
  have "\<not> startsWith (map lower_char r) ''contract''"
    using o by (cases r rule: remdups_adj.cases) auto
  with ws show ?thesis
    by (simp add: r(1) SPRAX_HRP_def address_query_def digits_only_def hex_only_def is_dec_def is_hex_def toLowerCase_def
        lower_char_def is_sprax_def)
qed

lemma derived_texts:
  assumes "derived lib cl acc key"
  obtains bs where "length bs = 20" "toBech32 lib bs = Inr (acc_addressBech32 acc)"
    "acc_addressHex acc = ''0x'' @ bytes_hex bs"
  using assms
  by (auto simp: derived_def deriveAccount_def ebind_Inr_iff Let_def toHex_Inr_iff)

text \<open>C12: Whatever the wallet's users did, as long as an account is shown, either text of its address, typed into the
  explorer's search while no server answers, opens the page of exactly that address.  The page is filled with the
  built-in sample account: it reports 1,250 SPRX for any wallet.\<close>

theorem wallet_address_opens:
  assumes "bech32_ok lib" "bech32_letters lib" "silent fetch"
    and "reach ui_init ui_offers (ui_handle lib cl) u" "wa_account (ui_app u) = Some acc"
    and "t = acc_addressBech32 acc \<or> t = acc_addressHex acc"
  shows "ea_route (handleUniversalSearch fetch h t a) = ''/address/'' @ t \<and>
    own (ea_currentAccount (handleUniversalSearch fetch h t a)) ''address'' = JStr t \<and>
    own (ea_currentAccount (handleUniversalSearch fetch h t a)) ''balance_sprx'' = JStr ''1,250.00 SPRX''"
proof -
  obtain key where "derived lib cl acc key"
    using wallet.reach_inv [OF assms(4)] assms(5) by (auto simp: ui_inv_def app_ok_def split: option.splits)
  then obtain bs where "length bs = 20" "toBech32 lib bs = Inr (acc_addressBech32 acc)"
    "acc_addressHex acc = ''0x'' @ bytes_hex bs"
    by (rule derived_texts)
  with assms(6) have "address_query t"
    using hex_address_query bech32_address_query [OF assms(1,2)] by metis
  then show ?thesis
    by (simp add: universal_search_address [OF assms(3)] account_val_def mock_account_def own_def)
qed

lemma hex_bech32_letters: "bech32_letters hex_bech32"
proof -
  have "is_hex c \<Longrightarrow> lower_char c \<noteq> CHR ''o''" for c
    by (auto simp: is_hex_def is_dec_def lower_char_def Let_def char_of_eq_iff take_bit_nat_eq_self)
  then show ?thesis
    using bytes_hex_is_hex by (auto simp: bech32_letters_def hex_bech32_def SPRAX_HRP_def list_all_iff)
qed

theorem wallet_address_opens_witness:
  "\<exists>u acc. reach ui_init ui_offers (ui_handle hex_bech32 plain_crypto) u \<and> wa_account (ui_app u) = Some acc \<and>
     ea_route (handleUniversalSearch net_down (sample_host 0) (acc_addressHex acc) sample_app) = ''/address/'' @ acc_addressHex acc"
proof -
  obtain u where u: "reach ui_init ui_offers (ui_handle hex_bech32 plain_crypto) u" "\<not> shows_onboarding (ui_app u)"
    using sample_wallet by blast
  then obtain acc where "wa_account (ui_app u) = Some acc" by (auto simp: shows_onboarding_def)
  with u(1) wallet_address_opens [OF hex_bech32_ok hex_bech32_letters silent_net_down u(1) this] show ?thesis
    by blast
qed

end
